(* ===== verification/Js_Prelude.thy ===== *)
theory Js_Prelude
  imports Main "HOL-Library.AList" "HOL-Library.Sublist"
begin

text \<open>
  Shared vocabulary of the development: the parts of the JavaScript language and its standard
  library that the services use, as executable functions, with the simplification rules the
  component theories rely on.

  \<^item> A JavaScript object used as a dictionary is an association list without duplicate keys.
    \<^term>\<open>AList.update\<close> overwrites in place and appends a new key at the end, which is the
    enumeration order of \<^verbatim>\<open>Object.keys\<close> for the string keys the services use;
    \<^term>\<open>AList.delete\<close> is the \<^verbatim>\<open>delete\<close> operator.
  \<^item> A string is a list of characters; \<^verbatim>\<open>undefined\<close> and \<^verbatim>\<open>null\<close> are \<open>None\<close>.
  \<^item> A number that may be NaN is an \<open>int option\<close> with \<open>None\<close> for NaN.
  \<^item> The interface \<open>kv_store\<close> states what a client of a key-value container may rely on; it
    is interpreted on association lists here and on the Redis cache in \<open>Net_State\<close>.
\<close>

named_theorems frame_simps \<open>fields that an operation leaves unchanged\<close>
named_theorems cache_simps \<open>what a cache lookup returns after an operation\<close>
named_theorems store_simps \<open>what the tables hold after an operation\<close>

section \<open>Objects as dictionaries\<close>

type_synonym ('k, 'v) obj = "('k \<times> 'v) list"

abbreviation ob_get :: "('k, 'v) obj \<Rightarrow> 'k \<Rightarrow> 'v option" where
  "ob_get \<equiv> map_of"

abbreviation ob_keys :: "('k, 'v) obj \<Rightarrow> 'k list" where
  "ob_keys xs \<equiv> map fst xs"

definition ob_set :: "('k, 'v) obj \<Rightarrow> 'k \<Rightarrow> 'v \<Rightarrow> ('k, 'v) obj" where
  "ob_set xs k v = AList.update k v xs"

definition ob_del :: "('k, 'v) obj \<Rightarrow> 'k \<Rightarrow> ('k, 'v) obj" where
  "ob_del xs k = AList.delete k xs"

definition ob_wf :: "('k, 'v) obj \<Rightarrow> bool" where
  "ob_wf xs \<longleftrightarrow> distinct (ob_keys xs)"

lemma ob_get_set [simp]: "ob_get (ob_set xs k v) k' = (if k' = k then Some v else ob_get xs k')"
  by (simp add: ob_set_def update_conv')

lemma ob_get_del [simp]: "ob_get (ob_del xs k) k' = (if k' = k then None else ob_get xs k')"
  by (simp add: ob_del_def delete_conv')

lemma ob_wf_Nil [simp]: "ob_wf []"
  by (simp add: ob_wf_def)

lemma ob_wf_set [simp, intro]: "ob_wf xs \<Longrightarrow> ob_wf (ob_set xs k v)"
  by (simp add: ob_wf_def ob_set_def distinct_update)

lemma ob_wf_del [simp, intro]: "ob_wf xs \<Longrightarrow> ob_wf (ob_del xs k)"
  by (simp add: ob_wf_def ob_del_def distinct_delete)

lemma ob_keys_set: "set (ob_keys (ob_set xs k v)) = insert k (set (ob_keys xs))"
  by (metis dom_map_of_conv_image_fst dom_fun_upd ob_set_def option.distinct(1) list.set_map
      update_conv')

lemma ob_keys_del [simp]: "set (ob_keys (ob_del xs k)) = set (ob_keys xs) - {k}"
  by (simp add: ob_del_def delete_keys)

lemma ob_set_Nil [simp]: "ob_set [] k v = [(k, v)]"
  by (simp add: ob_set_def)

lemma ob_set_Cons [simp]:
  "ob_set ((k', v') # xs) k v = (if k' = k then (k, v) # xs else (k', v') # ob_set xs k v)"
  by (simp add: ob_set_def)

lemma ob_del_Nil [simp]: "ob_del [] k = []"
  by (simp add: ob_del_def)

lemma ob_del_Cons [simp]:
  "ob_del ((k', v') # xs) k = (if k' = k then ob_del xs k else (k', v') # ob_del xs k)"
  by (simp add: ob_del_def)

section \<open>The interface of a key-value container\<close>

text \<open>
  What the services rely on when they read and write a key-value container: a lookup sees the
  last write or delete of its key and nothing else. \<open>rmw\<close> is the access pattern of nearly
  every handler (read a document, stop when it is absent, change it, write it back).
\<close>

locale kv_store =
  fixes get :: "'s \<Rightarrow> 'k \<Rightarrow> 'v option"
    and put :: "'s \<Rightarrow> 'k \<Rightarrow> 'v \<Rightarrow> 's"
    and del :: "'s \<Rightarrow> 'k \<Rightarrow> 's"
  assumes get_put: "get (put s k v) k' = (if k' = k then Some v else get s k')"
    and get_del: "get (del s k) k' = (if k' = k then None else get s k')"
begin

definition rmw :: "'k \<Rightarrow> ('v \<Rightarrow> 'v) \<Rightarrow> 's \<Rightarrow> 's" where
  "rmw k f s = (case get s k of None \<Rightarrow> s | Some v \<Rightarrow> put s k (f v))"

lemma get_rmw: "get (rmw k f s) k' = (if k' = k then map_option f (get s k) else get s k')"
  by (auto simp: rmw_def get_put split: option.splits)

lemma put_put_same: "get (put (put s k v) k u) = get (put s k u)"
  by (rule ext) (simp add: get_put)

lemma put_del_same: "get (del (put s k v) k) = get (del s k)"
  by (rule ext) (simp add: get_put get_del)

lemma put_commute: "k \<noteq> l \<Longrightarrow> get (put (put s k v) l u) = get (put (put s l u) k v)"
  by (rule ext) (simp add: get_put)

lemma get_fold_del: "get (fold (\<lambda>k s. del s k) ks s) k' = (if k' \<in> set ks then None else get s k')"
  by (induction ks arbitrary: s) (simp_all add: get_del)

end

interpretation obj: kv_store ob_get ob_set ob_del
  by unfold_locales simp_all

section \<open>Arrays and sets\<close>

text \<open>\<^verbatim>\<open>Array.from(new Set(xs))\<close>: the first occurrence of each element, in order.\<close>

definition js_set :: "'a list \<Rightarrow> 'a list" where
  "js_set xs = rev (remdups (rev xs))"

lemma set_js_set [simp]: "set (js_set xs) = set xs"
  by (simp add: js_set_def)

lemma distinct_js_set [simp]: "distinct (js_set xs)"
  by (simp add: js_set_def)

lemma js_set_distinct [simp]: "distinct xs \<Longrightarrow> js_set xs = xs"
  by (simp add: js_set_def distinct_remdups_id)

lemma js_set_Nil [simp]: "js_set [] = []"
  by (simp add: js_set_def)

lemma js_set_snoc: "js_set (xs @ [x]) = (if x \<in> set xs then js_set xs else js_set xs @ [x])"
  by (simp add: js_set_def)

text \<open>
  \<^verbatim>\<open>xs.splice(xs.indexOf(x), 1)\<close>: removes the first \<open>x\<close>; when \<open>x\<close> is absent, \<^verbatim>\<open>indexOf\<close>
  is -1 and \<^verbatim>\<open>splice(-1, 1)\<close> removes the last element.
\<close>

definition js_splice_out :: "'a \<Rightarrow> 'a list \<Rightarrow> 'a list" where
  "js_splice_out x xs = (if x \<in> set xs then remove1 x xs else butlast xs)"

lemma set_js_splice_out: "x \<in> set xs \<Longrightarrow> distinct xs \<Longrightarrow> set (js_splice_out x xs) = set xs - {x}"
  by (simp add: js_splice_out_def set_remove1_eq)

lemma distinct_js_splice_out: "distinct xs \<Longrightarrow> distinct (js_splice_out x xs)"
  by (simp add: js_splice_out_def distinct_butlast)

section \<open>Strings\<close>

text \<open>\<^verbatim>\<open>!s\<close> for a string that may be absent: \<^verbatim>\<open>undefined\<close> and the empty string are falsy.\<close>

definition truthy :: "string option \<Rightarrow> bool" where
  "truthy s = (case s of None \<Rightarrow> False | Some t \<Rightarrow> t \<noteq> [])"

lemma truthy_simps [simp]: "\<not> truthy None" "truthy (Some s) \<longleftrightarrow> s \<noteq> []"
  by (simp_all add: truthy_def)

text \<open>A template literal renders an absent value as the text \<^verbatim>\<open>undefined\<close>.\<close>

definition js_str :: "string option \<Rightarrow> string" where
  "js_str s = (case s of None \<Rightarrow> ''undefined'' | Some t \<Rightarrow> t)"

lemma js_str_simps [simp]: "js_str None = ''undefined''" "js_str (Some s) = s"
  by (simp_all add: js_str_def)

text \<open>\<^verbatim>\<open>s.split(c)\<close> for a one-character separator, and \<^verbatim>\<open>xs.join(c)\<close>.\<close>

fun js_split :: "char \<Rightarrow> string \<Rightarrow> string list" where
  "js_split c [] = [[]]"
| "js_split c (x # xs) =
     (if x = c then [] # js_split c xs
      else (case js_split c xs of [] \<Rightarrow> [[x]] | p # ps \<Rightarrow> (x # p) # ps))"

fun js_join :: "char \<Rightarrow> string list \<Rightarrow> string" where
  "js_join c [] = []"
| "js_join c [p] = p"
| "js_join c (p # q # ps) = p @ c # js_join c (q # ps)"

lemma js_split_not_Nil [simp]: "js_split c s \<noteq> []"
  by (induction s) (auto split: list.splits)

lemma js_split_plain: "c \<notin> set p \<Longrightarrow> js_split c p = [p]"
  by (induction p) auto

lemma js_split_append: "c \<notin> set p \<Longrightarrow> js_split c (p @ c # s) = p # js_split c s"
  by (induction p) auto

lemma js_split_join:
  "ps \<noteq> [] \<Longrightarrow> list_all (\<lambda>p. c \<notin> set p) ps \<Longrightarrow> js_split c (js_join c ps) = ps"
  by (induction c ps rule: js_join.induct) (auto simp: js_split_plain js_split_append)

lemma js_join_split: "js_join c (js_split c s) = s"
proof (induction s)
  case (Cons x xs)
  then show ?case
    by (cases "js_split c xs"; cases "tl (js_split c xs)") (auto split: list.splits)
qed simp

section \<open>Numbers\<close>

text \<open>\<^verbatim>\<open>parseInt(s)\<close> without a radix: white space, a sign, an optional hexadecimal prefix, then
  the longest run of digits; \<open>None\<close> is NaN.\<close>

definition js_space :: "char \<Rightarrow> bool" where
  "js_space c \<longleftrightarrow> (let n = of_char c :: nat in n = 32 \<or> (9 \<le> n \<and> n \<le> 13) \<or> n = 160)"

definition digit_of :: "nat \<Rightarrow> char \<Rightarrow> nat option" where
  "digit_of r c =
     (let n = of_char c :: nat;
          v = (if 48 \<le> n \<and> n \<le> 57 then n - 48
               else if 97 \<le> n \<and> n \<le> 122 then n - 87
               else if 65 \<le> n \<and> n \<le> 90 then n - 55
               else r)
      in if v < r then Some v else None)"

fun parse_digits :: "nat \<Rightarrow> string \<Rightarrow> nat option \<Rightarrow> nat option" where
  "parse_digits r [] acc = acc"
| "parse_digits r (c # cs) acc =
     (case digit_of r c of
        None \<Rightarrow> acc
      | Some d \<Rightarrow> parse_digits r cs (Some ((case acc of None \<Rightarrow> 0 | Some a \<Rightarrow> a) * r + d)))"

definition js_parseInt :: "string \<Rightarrow> int option" where
  "js_parseInt s =
     (let t = dropWhile js_space s;
          neg = (t \<noteq> [] \<and> hd t = CHR ''-'');
          u = (if t \<noteq> [] \<and> (hd t = CHR ''-'' \<or> hd t = CHR ''+'') then tl t else t);
          hex = (take 2 u = ''0x'' \<or> take 2 u = ''0X'');
          v = (if hex then parse_digits 16 (drop 2 u) None else parse_digits 10 u None)
      in map_option (\<lambda>n. if neg then - int n else int n) v)"

text \<open>Arithmetic and comparison with NaN (\<open>None\<close>): NaN is contagious, and every comparison with
  it is false.\<close>

definition js_add :: "int option \<Rightarrow> int option \<Rightarrow> int option" where
  "js_add a b = (case (a, b) of (Some x, Some y) \<Rightarrow> Some (x + y) | _ \<Rightarrow> None)"

definition js_mul :: "int option \<Rightarrow> int option \<Rightarrow> int option" where
  "js_mul a b = (case (a, b) of (Some x, Some y) \<Rightarrow> Some (x * y) | _ \<Rightarrow> None)"

definition js_less :: "int option \<Rightarrow> int option \<Rightarrow> bool" where
  "js_less a b = (case (a, b) of (Some x, Some y) \<Rightarrow> x < y | _ \<Rightarrow> False)"

definition js_num_truthy :: "int option \<Rightarrow> bool" where
  "js_num_truthy a = (case a of None \<Rightarrow> False | Some x \<Rightarrow> x \<noteq> 0)"

lemma js_arith_simps [simp]:
  "js_add (Some x) (Some y) = Some (x + y)" "js_add None b = None" "js_add a None = None"
  "js_mul (Some x) (Some y) = Some (x * y)" "js_mul None b = None" "js_mul a None = None"
  "js_less (Some x) (Some y) = (x < y)" "js_less None b = False" "js_less a None = False"
  "js_num_truthy None = False" "js_num_truthy (Some x) = (x \<noteq> 0)"
  by (auto simp: js_add_def js_mul_def js_less_def js_num_truthy_def split: option.splits)

text \<open>The idiom \<^verbatim>\<open>let n = parseInt(process.env.X ?? d); if (isNaN(n)) n = e;\<close> and its variants:
  \<open>env\<close> is the variable (absent or a text), \<open>e\<close> the value used for NaN.\<close>

definition env_int :: "string option \<Rightarrow> int \<Rightarrow> int" where
  "env_int env e = (case env of None \<Rightarrow> e | Some s \<Rightarrow> (case js_parseInt s of None \<Rightarrow> e | Some n \<Rightarrow> n))"

section \<open>Errors\<close>

text \<open>\<^verbatim>\<open>s.toLowerCase()\<close> on characters below 256.\<close>

definition js_lower_char :: "char \<Rightarrow> char" where
  "js_lower_char c =
     (let n = of_char c :: nat
      in if (65 \<le> n \<and> n \<le> 90) \<or> (192 \<le> n \<and> n \<le> 222 \<and> n \<noteq> 215) then char_of (n + 32) else c)"

definition js_lower :: "string \<Rightarrow> string" where
  "js_lower s = map js_lower_char s"

text \<open>\<^verbatim>\<open>s.toUpperCase()\<close> on characters below 128.\<close>

definition js_upper :: "string \<Rightarrow> string" where
  "js_upper s = map (\<lambda>c. let n = of_char c :: nat in if 97 \<le> n \<and> n \<le> 122 then char_of (n - 32) else c) s"

text \<open>
  What a handler may throw: the NestJS HTTP exceptions by name, the RPC error of the env service,
  an HTTP exception forwarded with its status, a rejected database statement, a \<^verbatim>\<open>TypeError\<close> of
  the language (reading a property of \<^verbatim>\<open>undefined\<close>), and an error thrown by a library call
  that the handler does not catch.
\<close>

datatype err =
    BadRequest string
  | Unauthorized string
  | Forbidden string
  | NotFound string
  | InternalServerError string
  | HttpError string int
  | RpcErr int string
  | DbErr string
  | TypeErr
  | LibErr string
  | Waiting string

type_synonym 'a result = "err + 'a"

definition isOk :: "'a result \<times> 'w \<Rightarrow> bool" where
  "isOk r = (case fst r of Inl _ \<Rightarrow> False | Inr _ \<Rightarrow> True)"

lemma isOk_simps [simp]: "\<not> isOk (Inl e, w)" "isOk (Inr x, w)"
  by (simp_all add: isOk_def)

end
