(* ===== verification/Common_Types.thy ===== *)
theory Common_Types
  imports Js_Prelude
begin

text \<open>
  The shared library \<^verbatim>\<open>libs/common\<close>: status enumerations, the documents the services keep in the
  Redis cache and the keys they use for them, the notifications, and the messages that travel
  between the services and to the browser. \<open>emission\<close> is the record of one message handed to a
  transport (Redis publish, RabbitMQ, NATS, HTTP, SMTP or a socket); a handler's effect on the
  outside is the list of its emissions.
\<close>

section \<open>Statuses and data transfer objects\<close>

datatype WorkspaceStatus = PROVISIONING | READY | DEPROVISIONING | COLD | DELETING

datatype AccessStatus = NEW | UNUSED | USED

record StatDTO =
  st_name :: string
  st_size :: int
  st_isDir :: bool
  st_ino :: int

record FSOpenDTO =
  fo_name :: string
  fo_path :: string
  fo_isDir :: bool
  fo_id :: int

text \<open>A user profile; every field of \<^verbatim>\<open>Partial<User>\<close> may be absent.\<close>

record user_profile =
  up_uid :: "string option"
  up_name :: "string option"
  up_username :: "string option"
  up_email :: "string option"
  up_picture :: "string option"
  up_issuer :: "string option"
  up_expireAt :: "int option"

record AccessRequestPayload =
  ar_uid :: string
  ar_username :: string
  ar_name :: string
  ar_reason :: "string option"
  ar_uuid :: string

record 'd ServicePayload =
  sp_sub :: string
  sp_aud :: string
  sp_iss :: string
  sp_data :: 'd

section \<open>Cache keys and cached documents\<close>

definition CACHEKEY_MEMBERSHIP :: "string \<Rightarrow> string" where
  "CACHEKEY_MEMBERSHIP uid = ''membership:'' @ uid"

definition CACHEKEY_PRESENCE :: "string \<Rightarrow> string" where
  "CACHEKEY_PRESENCE uid = ''presence:'' @ uid"

definition CACHEKEY_WORKSPACE :: "string \<Rightarrow> string" where
  "CACHEKEY_WORKSPACE wsUuid = ''workspace:'' @ wsUuid"

definition CACHEKEY_PRESENCE_SESSION :: "string \<Rightarrow> string \<Rightarrow> string" where
  "CACHEKEY_PRESENCE_SESSION uid sessionId = ''presence:'' @ uid @ '':'' @ sessionId"

definition CACHEKEY_PRESENCE_WORKSPACE :: "string \<Rightarrow> string \<Rightarrow> string \<Rightarrow> string" where
  "CACHEKEY_PRESENCE_WORKSPACE uid sessionId wsUuid =
     ''presence:'' @ uid @ '':'' @ sessionId @ '':'' @ wsUuid"

definition CACHEKEY_USER_PROFILE :: "string \<Rightarrow> string" where
  "CACHEKEY_USER_PROFILE uid = ''profile:'' @ uid"

lemmas cachekey_defs =
  CACHEKEY_MEMBERSHIP_def CACHEKEY_PRESENCE_def CACHEKEY_WORKSPACE_def
  CACHEKEY_PRESENCE_SESSION_def CACHEKEY_PRESENCE_WORKSPACE_def CACHEKEY_USER_PROFILE_def

datatype activity = Active | Inactive

record CachedSession =
  cs_state :: activity
  cs_socketId :: string
  cs_gatewayId :: string
  cs_wsUuid :: "string option"

type_synonym CachedPresence = "(string, CachedSession) obj"

record CachedWorkspace =
  cw_state :: activity
  cw_fs :: string
  cw_dirs :: "(string, string list) obj"
  cw_docs :: "(int, string) obj"
  cw_sshs :: "(string, string) obj"

text \<open>
  A cached membership flag. The type of the source is \<^verbatim>\<open>boolean\<close>; what the membership check of
  the workspace service replies, and what is therefore stored, is the object
  \<^verbatim>\<open>{ image, dedicated }\<close>.
\<close>

datatype membership_flag = FlagBool bool | FlagInfo string bool

fun flag_truthy :: "membership_flag \<Rightarrow> bool" where
  "flag_truthy (FlagBool b) = b"
| "flag_truthy (FlagInfo img dedicated) = True"

type_synonym CachedMembership = "(string, membership_flag) obj"

text \<open>A value of the cache: one constructor per kind of document the services store.\<close>

datatype cache_value =
    CvPresence CachedPresence
  | CvWorkspace CachedWorkspace
  | CvMembership CachedMembership
  | CvUser user_profile
  | CvNum int
  | CvTemplates "(string \<times> string) list"

section \<open>Notifications\<close>

datatype notification_type =
    Workspace_invite | Workspace_membership_removed | Workspace_access_code
  | Workspace_downgraded | Notification_delete

definition persistentNtfnTypes :: "notification_type list" where
  "persistentNtfnTypes = [Workspace_invite, Workspace_access_code]"

text \<open>\<^verbatim>\<open>createdOn\<close>: the ISO text of a time, a date object, or another text.\<close>

datatype created_on = IsoText int | DateOf int | RawText string

datatype ntfn_fields =
    WorkspaceInvite string string string       \<comment> \<open>inviterId, workspaceUUID, token\<close>
  | ExclusionData string string string         \<comment> \<open>actorId, workspaceUUID, name\<close>
  | WorkspaceAccessRequest bool string string  \<comment> \<open>success, code, reqId\<close>
  | WorkspaceDowngraded string                 \<comment> \<open>uuid\<close>
  | NoFields

record user_notification =
  nt_type :: notification_type
  nt_id :: string
  nt_createdOn :: created_on
  nt_actedOn :: "int option"
  nt_fields :: ntfn_fields

text \<open>\<^verbatim>\<open>persistentNtfnTypesChecks\<close> has one entry, for the access code notification: its
  \<^verbatim>\<open>success\<close> flag (absent on another shape, hence falsy).\<close>

definition persistentNtfnTypesChecks :: "notification_type \<Rightarrow> (user_notification \<Rightarrow> bool) option" where
  "persistentNtfnTypesChecks t =
     (if t = Workspace_access_code
      then Some (\<lambda>n. case nt_fields n of WorkspaceAccessRequest success code reqId \<Rightarrow> success | _ \<Rightarrow> False)
      else None)"

definition isNotificationPersistent :: "user_notification \<Rightarrow> bool" where
  "isNotificationPersistent ntfn \<longleftrightarrow>
     nt_type ntfn \<in> set persistentNtfnTypes \<and>
     (case persistentNtfnTypesChecks (nt_type ntfn) of None \<Rightarrow> True | Some f \<Rightarrow> f ntfn)"

section \<open>Messages from the browser\<close>

datatype fs_action = Fs_create | Fs_remove | Fs_rename | Fs_write

datatype fs_kind = Fs_file | Fs_dir

record FSEvent =
  fe_watchedPath :: string
  fe_path :: string
  fe_oldPath :: "string option"
  fe_ino :: "int option"
  fe_action :: fs_action
  fe_timestamp :: int
  fe_type :: fs_kind

datatype decision = Keep | Reload

text \<open>
  The payloads of the \<^verbatim>\<open>env\<close> and \<^verbatim>\<open>internal\<close> socket messages, by action; \<open>In_other\<close> is a message
  with an action of no known name.
\<close>

datatype in_payload =
    Ssh_request string string string      \<comment> \<open>uuid, privateKey, clientId\<close>
  | Ssh_data string string string         \<comment> \<open>uuid, sshSessionId, input\<close>
  | Ssh_close string string               \<comment> \<open>uuid, sshSessionId\<close>
  | Fs_open string string                 \<comment> \<open>uuid, path\<close>
  | Fs_open_ack string int                \<comment> \<open>uuid, ino\<close>
  | Fs_conflict_resolve string int decision
  | Fs_sync string int string             \<comment> \<open>uuid, ino, buf\<close>
  | Fs_close string string "int option"   \<comment> \<open>uuid, path, ino\<close>
  | Ws_run string string string           \<comment> \<open>uuid, command, ctx\<close>
  | Workspace_watch FSEvent string        \<comment> \<open>event, uuid\<close>
  | Doc_hash string int                   \<comment> \<open>uuid, ino\<close>
  | In_other string string                \<comment> \<open>action, uuid\<close>

record in_message =
  im_payload :: in_payload
  im_correlationId :: "string option"

fun in_action :: "in_payload \<Rightarrow> string" where
  "in_action (Ssh_request _ _ _) = ''ssh.request''"
| "in_action (Ssh_data _ _ _) = ''ssh.data''"
| "in_action (Ssh_close _ _) = ''ssh.close''"
| "in_action (Fs_open _ _) = ''fs.open''"
| "in_action (Fs_open_ack _ _) = ''fs.open.ack''"
| "in_action (Fs_conflict_resolve _ _ _) = ''fs.conflict.resolve''"
| "in_action (Fs_sync _ _ _) = ''fs.sync''"
| "in_action (Fs_close _ _ _) = ''fs.close''"
| "in_action (Ws_run _ _ _) = ''ws.run''"
| "in_action (Workspace_watch _ _) = ''workspace.watch''"
| "in_action (Doc_hash _ _) = ''doc.hash''"
| "in_action (In_other a _) = a"

fun in_uuid :: "in_payload \<Rightarrow> string" where
  "in_uuid (Ssh_request u _ _) = u"
| "in_uuid (Ssh_data u _ _) = u"
| "in_uuid (Ssh_close u _) = u"
| "in_uuid (Fs_open u _) = u"
| "in_uuid (Fs_open_ack u _) = u"
| "in_uuid (Fs_conflict_resolve u _ _) = u"
| "in_uuid (Fs_sync u _ _) = u"
| "in_uuid (Fs_close u _ _) = u"
| "in_uuid (Ws_run u _ _) = u"
| "in_uuid (Workspace_watch _ u) = u"
| "in_uuid (Doc_hash u _) = u"
| "in_uuid (In_other _ u) = u"

section \<open>Messages to the browser\<close>

text \<open>A workspace as the provisioner decodes it.\<close>

record ProvMembershipDTO =
  pm_workspaceId :: int
  pm_userId :: string
  pm_role :: string
  pm_joinedAt :: string
  pm_name :: string
  pm_username :: string
  pm_picture :: string

record ProvWorkspaceDTO =
  pw_id :: int
  pw_uuid :: string
  pw_image :: string
  pw_name :: string
  pw_description :: string
  pw_createdAt :: string
  pw_memberships :: "ProvMembershipDTO list"
  pw_status :: string

datatype out_message =
    Members_modified string                \<comment> \<open>workspace: members.modified\<close>
  | Env_disconnect string                  \<comment> \<open>env: disconnect\<close>
  | Env_awareness "string list"            \<comment> \<open>env: awareness\<close>
  | Out_batch "FSEvent list"               \<comment> \<open>fs: batch\<close>
  | Out_block string
  | Out_resume string
  | Out_sync string int string             \<comment> \<open>fs: sync, uuid, ino, buf\<close>
  | Out_lost int
  | Out_displaced string int
  | Out_conflict string int string         \<comment> \<open>uuid, ino, resolverUid\<close>
  | Out_resolved string int
  | Ssh_open string string                 \<comment> \<open>sshSessionId, clientId\<close>
  | Ssh_output string string
  | Ssh_error string
  | Ssh_closed string bool                 \<comment> \<open>sshSessionId, all\<close>
  | Ntfn_new user_notification
  | Ntfn_pending "user_notification list"
  | Ntfn_directive user_notification
  | Provision_ready string
  | Provision_status string
  | Provision_error string
  | Provision_success string string ProvWorkspaceDTO  \<comment> \<open>message, privateKey, workspace\<close>
  | Reply_error string                     \<comment> \<open>reply to a correlation id: error code\<close>
  | Reply_entries "FSOpenDTO list" string  \<comment> \<open>success with directory entries\<close>
  | Reply_file bool string                 \<comment> \<open>success with isConflicting, conflictResolver\<close>
  | Reply_ok

section \<open>Messages between services\<close>

record message_meta =
  mm_uid :: string
  mm_route :: string
  mm_requestId :: string
  mm_timestamp :: int

record mail =
  ml_from :: string
  ml_to :: string
  ml_subject :: string
  ml_text :: string
  ml_html :: string

text \<open>Requests of the provisioner and the lease controller to the workspace service; \<open>header\<close> is the value of
  \<^verbatim>\<open>x-auth-user\<close>.\<close>

datatype ws_call =
    Call_eligibility string                            \<comment> \<open>header\<close>
  | Call_membership string string                      \<comment> \<open>header, uuid\<close>
  | Call_consume string string                         \<comment> \<open>header, code\<close>
  | Call_reset string string
  | Call_delete_code string string
  | Call_create string string string string string bool  \<comment> \<open>header, name, description, uuid, image, dedicated\<close>
  | Call_status string string                          \<comment> \<open>uuid, status\<close>
  | Call_downgrade string string                       \<comment> \<open>uid, uuid\<close>

datatype emission =
    Socket_send "(string \<times> string) option" string string string out_message
      \<comment> \<open>redis socket.send: meta (uid, sessionId), then uid, sessionId, pattern, msg\<close>
  | Socket_broadcast "string list" "string list" string out_message
      \<comment> \<open>redis socket.broadcast: uids, sessionIds, pattern, msg\<close>
  | Ev_members_modified string "string list" "string list"
      \<comment> \<open>redis workspace.members.modified: uuid, added, removed\<close>
  | Ev_workspace_deleted string "string list"
  | Ev_watch string string                  \<comment> \<open>redis channel, path\<close>
  | Ev_gateway_close string string          \<comment> \<open>redis channel, socketId\<close>
  | Ev_env_openfile string string string string string StatDTO "string option"
      \<comment> \<open>redis channel, uid, sessionId, uuid, path, stat, correlationId\<close>
  | Ev_env_closefile string string string string int
  | Ev_env_message string string string in_message
      \<comment> \<open>redis channel, uid, sessionId, message\<close>
  | Nats_env_message string string in_message
  | Rmq_notify message_meta string user_notification   \<comment> \<open>notification.send\<close>
  | Rmq_read message_meta string string                \<comment> \<open>notification.read: uid, notificationId\<close>
  | Http_call string string                            \<comment> \<open>method, url\<close>
  | Smtp_mail mail
  | Socket_emit string string out_message              \<comment> \<open>socket id, event, message\<close>
  | Socket_close string
  | Http_forward string string user_profile "string option"  \<comment> \<open>method, url, user of the auth header, body\<close>
  | Rpc_send string string message_meta "(string, string) obj"  \<comment> \<open>transport, pattern, meta, payload\<close>
  | Rmq_delete_owned string                            \<comment> \<open>workspace.delete.owned: ownerUid\<close>
  | Pod_write string string string                     \<comment> \<open>workspace api/write: uuid, path, content\<close>
  | Pod_command string string string                   \<comment> \<open>workspace api/command: uuid, command, ctx\<close>
  | Http_provision string string string string bool    \<comment> \<open>image, uuid, sessionId, uid, dedicated\<close>
  | Redis_reply string string                          \<comment> \<open>channel, data\<close>
  | Ssh_connect nat string string                      \<comment> \<open>connection, host, private key\<close>
  | Ssh_shell nat                                      \<comment> \<open>connection\<close>
  | Ssh_write nat string                               \<comment> \<open>stream, input\<close>
  | Ssh_stream_close nat
  | Ssh_end nat                                        \<comment> \<open>connection\<close>
  | Ws_call ws_call
  | Nats_affinity string string string                 \<comment> \<open>env.internal: uid, sessionId, uuid\<close>

end
