(* ===== verification/Net_State.thy ===== *)
theory Net_State
  imports Common_Types
begin

text \<open>
  The environment every service shares: the Redis cache, the transports, the stream of values
  \<^verbatim>\<open>randomUUID()\<close> draws, and the clock. A service extends the record \<open>net\<close> by its own state, so
  its handlers are functions on an extension of \<open>net\<close>.

  The cache is state: a finite map from keys to values with an optional expiry time.
  \<open>cache_set\<close> with a time to live stores the time at which Redis drops the key; a lookup at or
  after that time finds nothing. The interpretation \<open>redis\<close> of the interface \<open>kv_store\<close> is what
  the handlers rely on.
\<close>

section \<open>State\<close>

type_synonym cache_entry = "cache_value \<times> int option"

record net =
  cache :: "(string, cache_entry) obj"
  out :: "emission list"
  uuids :: "nat \<Rightarrow> string"
  uuidc :: nat
  clock :: int
  perf :: int

definition emit :: "'a net_scheme \<Rightarrow> emission list \<Rightarrow> 'a net_scheme" where
  "emit w es = w\<lparr>out := out w @ es\<rparr>"

definition randomUUID :: "'a net_scheme \<Rightarrow> string \<times> 'a net_scheme" where
  "randomUUID w = (uuids w (uuidc w), w\<lparr>uuidc := Suc (uuidc w)\<rparr>)"

definition createMessage :: "string \<Rightarrow> string \<Rightarrow> 'a net_scheme \<Rightarrow> message_meta \<times> 'a net_scheme" where
  "createMessage uid route w =
     (let (rid, w1) = randomUUID w
      in (\<lparr>mm_uid = uid, mm_route = route, mm_requestId = rid, mm_timestamp = perf w\<rparr>, w1))"

section \<open>The cache\<close>

definition alive :: "int \<Rightarrow> cache_entry \<Rightarrow> bool" where
  "alive t e = (case snd e of None \<Rightarrow> True | Some x \<Rightarrow> t < x)"

definition cache_get :: "'a net_scheme \<Rightarrow> string \<Rightarrow> cache_value option" where
  "cache_get w k =
     (case ob_get (cache w) k of None \<Rightarrow> None
      | Some e \<Rightarrow> if alive (clock w) e then Some (fst e) else None)"

definition cache_set :: "'a net_scheme \<Rightarrow> string \<Rightarrow> cache_value \<Rightarrow> int option \<Rightarrow> 'a net_scheme" where
  "cache_set w k v ttl =
     w\<lparr>cache := ob_set (cache w) k (v, map_option (\<lambda>t. clock w + t) ttl)\<rparr>"

definition cache_del :: "'a net_scheme \<Rightarrow> string \<Rightarrow> 'a net_scheme" where
  "cache_del w k = w\<lparr>cache := ob_del (cache w) k\<rparr>"

text \<open>The keys whose time to live has passed: Redis drops them and publishes an \<^verbatim>\<open>expired\<close> event.\<close>

definition due :: "'a net_scheme \<Rightarrow> string \<Rightarrow> bool" where
  "due w k = (case ob_get (cache w) k of None \<Rightarrow> False | Some e \<Rightarrow> \<not> alive (clock w) e)"

text \<open>Typed reads, as \<^verbatim>\<open>cache.get<T>(key)\<close>.\<close>

definition get_presence :: "'a net_scheme \<Rightarrow> string \<Rightarrow> CachedPresence option" where
  "get_presence w uid =
     (case cache_get w (CACHEKEY_PRESENCE uid) of Some (CvPresence p) \<Rightarrow> Some p | _ \<Rightarrow> None)"

definition get_workspace :: "'a net_scheme \<Rightarrow> string \<Rightarrow> CachedWorkspace option" where
  "get_workspace w uuid =
     (case cache_get w (CACHEKEY_WORKSPACE uuid) of Some (CvWorkspace d) \<Rightarrow> Some d | _ \<Rightarrow> None)"

definition get_membership :: "'a net_scheme \<Rightarrow> string \<Rightarrow> CachedMembership option" where
  "get_membership w uid =
     (case cache_get w (CACHEKEY_MEMBERSHIP uid) of Some (CvMembership m) \<Rightarrow> Some m | _ \<Rightarrow> None)"

definition get_user :: "'a net_scheme \<Rightarrow> string \<Rightarrow> user_profile option" where
  "get_user w key = (case cache_get w key of Some (CvUser u) \<Rightarrow> Some u | _ \<Rightarrow> None)"

definition set_presence :: "'a net_scheme \<Rightarrow> string \<Rightarrow> CachedPresence \<Rightarrow> 'a net_scheme" where
  "set_presence w uid p = cache_set w (CACHEKEY_PRESENCE uid) (CvPresence p) None"

definition set_workspace :: "'a net_scheme \<Rightarrow> string \<Rightarrow> CachedWorkspace \<Rightarrow> 'a net_scheme" where
  "set_workspace w uuid d = cache_set w (CACHEKEY_WORKSPACE uuid) (CvWorkspace d) None"

definition set_membership :: "'a net_scheme \<Rightarrow> string \<Rightarrow> CachedMembership \<Rightarrow> 'a net_scheme" where
  "set_membership w uid m = cache_set w (CACHEKEY_MEMBERSHIP uid) (CvMembership m) None"

section \<open>Lookups after operations\<close>

lemma net_frame [frame_simps]:
  "cache (emit w es) = cache w" "clock (emit w es) = clock w" "out (emit w es) = out w @ es"
  "uuids (emit w es) = uuids w" "uuidc (emit w es) = uuidc w" "perf (emit w es) = perf w"
  "out (cache_set w k v t) = out w" "clock (cache_set w k v t) = clock w"
  "uuids (cache_set w k v t) = uuids w" "uuidc (cache_set w k v t) = uuidc w"
  "perf (cache_set w k v t) = perf w"
  "out (cache_del w k) = out w" "clock (cache_del w k) = clock w"
  "uuids (cache_del w k) = uuids w" "uuidc (cache_del w k) = uuidc w"
  "perf (cache_del w k) = perf w"
  "net.more (emit w es) = net.more w" "net.more (cache_set w k v t) = net.more w"
  "net.more (cache_del w k) = net.more w"
  by (simp_all add: emit_def cache_set_def cache_del_def)

lemma randomUUID_frame [frame_simps]:
  "cache (snd (randomUUID w)) = cache w" "out (snd (randomUUID w)) = out w"
  "clock (snd (randomUUID w)) = clock w" "net.more (snd (randomUUID w)) = net.more w"
  "cache (snd (createMessage u r w)) = cache w" "out (snd (createMessage u r w)) = out w"
  "clock (snd (createMessage u r w)) = clock w" "net.more (snd (createMessage u r w)) = net.more w"
  by (simp_all add: randomUUID_def createMessage_def)

lemma cache_get_cong: "cache w = cache v \<Longrightarrow> clock w = clock v \<Longrightarrow> cache_get w = cache_get v"
  by (rule ext) (simp add: cache_get_def cong: option.case_cong)

lemma cache_get_emit [cache_simps]: "cache_get (emit w es) = cache_get w"
  by (rule cache_get_cong) (simp_all add: frame_simps)

lemma cache_get_uuid [cache_simps]:
  "cache_get (snd (randomUUID w)) = cache_get w"
  "cache_get (snd (createMessage u r w)) = cache_get w"
  by (rule cache_get_cong; simp add: frame_simps)+

lemma cache_get_set [cache_simps]:
  "cache_get (cache_set w k v None) k' = (if k' = k then Some v else cache_get w k')"
  by (simp add: cache_get_def cache_set_def alive_def cong: option.case_cong)

lemma cache_get_set_ttl [cache_simps]:
  "0 < t \<Longrightarrow> cache_get (cache_set w k v (Some t)) k' = (if k' = k then Some v else cache_get w k')"
  by (simp add: cache_get_def cache_set_def alive_def cong: option.case_cong)

lemma cache_get_set_other: "k' \<noteq> k \<Longrightarrow> cache_get (cache_set w k v t) k' = cache_get w k'"
  by (simp add: cache_get_def cache_set_def cong: option.case_cong)

lemma cache_get_del [cache_simps]:
  "cache_get (cache_del w k) k' = (if k' = k then None else cache_get w k')"
  by (simp add: cache_get_def cache_del_def cong: option.case_cong)

interpretation redis: kv_store cache_get "\<lambda>w k v. cache_set w k v None" cache_del
  by unfold_locales (simp_all add: cache_simps)

section \<open>Keys\<close>

definition colon_free :: "string \<Rightarrow> bool" where
  "colon_free s \<longleftrightarrow> CHR '':'' \<notin> set s"

lemma cachekey_inject [simp]:
  "CACHEKEY_PRESENCE u = CACHEKEY_PRESENCE u' \<longleftrightarrow> u = u'"
  "CACHEKEY_WORKSPACE x = CACHEKEY_WORKSPACE x' \<longleftrightarrow> x = x'"
  "CACHEKEY_MEMBERSHIP u = CACHEKEY_MEMBERSHIP u' \<longleftrightarrow> u = u'"
  "CACHEKEY_USER_PROFILE u = CACHEKEY_USER_PROFILE u' \<longleftrightarrow> u = u'"
  by (simp_all add: cachekey_defs)

lemma cachekey_apart [simp]:
  "CACHEKEY_PRESENCE u \<noteq> CACHEKEY_WORKSPACE x" "CACHEKEY_WORKSPACE x \<noteq> CACHEKEY_PRESENCE u"
  "CACHEKEY_PRESENCE u \<noteq> CACHEKEY_MEMBERSHIP v" "CACHEKEY_MEMBERSHIP v \<noteq> CACHEKEY_PRESENCE u"
  "CACHEKEY_WORKSPACE x \<noteq> CACHEKEY_MEMBERSHIP v" "CACHEKEY_MEMBERSHIP v \<noteq> CACHEKEY_WORKSPACE x"
  "CACHEKEY_USER_PROFILE u \<noteq> CACHEKEY_PRESENCE v" "CACHEKEY_PRESENCE v \<noteq> CACHEKEY_USER_PROFILE u"
  "CACHEKEY_USER_PROFILE u \<noteq> CACHEKEY_WORKSPACE x" "CACHEKEY_WORKSPACE x \<noteq> CACHEKEY_USER_PROFILE u"
  "CACHEKEY_USER_PROFILE u \<noteq> CACHEKEY_MEMBERSHIP v" "CACHEKEY_MEMBERSHIP v \<noteq> CACHEKEY_USER_PROFILE u"
  "CACHEKEY_PRESENCE_SESSION u s \<noteq> CACHEKEY_WORKSPACE x"
  "CACHEKEY_WORKSPACE x \<noteq> CACHEKEY_PRESENCE_SESSION u s"
  "CACHEKEY_PRESENCE_WORKSPACE u s y \<noteq> CACHEKEY_WORKSPACE x"
  "CACHEKEY_WORKSPACE x \<noteq> CACHEKEY_PRESENCE_WORKSPACE u s y"
  "CACHEKEY_PRESENCE_SESSION u s \<noteq> CACHEKEY_MEMBERSHIP v"
  "CACHEKEY_MEMBERSHIP v \<noteq> CACHEKEY_PRESENCE_SESSION u s"
  "CACHEKEY_PRESENCE_WORKSPACE u s y \<noteq> CACHEKEY_MEMBERSHIP v"
  "CACHEKEY_MEMBERSHIP v \<noteq> CACHEKEY_PRESENCE_WORKSPACE u s y"
  "CACHEKEY_PRESENCE_SESSION u s \<noteq> CACHEKEY_USER_PROFILE v"
  "CACHEKEY_USER_PROFILE v \<noteq> CACHEKEY_PRESENCE_SESSION u s"
  "CACHEKEY_PRESENCE_WORKSPACE u s y \<noteq> CACHEKEY_USER_PROFILE v"
  "CACHEKEY_USER_PROFILE v \<noteq> CACHEKEY_PRESENCE_WORKSPACE u s y"
  by (simp_all add: cachekey_defs)

text \<open>The three families of keys below \<^verbatim>\<open>presence:\<close> are told apart by the number of colons.\<close>

definition colons :: "string \<Rightarrow> nat" where
  "colons s = length (filter (\<lambda>c. c = CHR '':'') s)"

lemma colon_free_colons: "colon_free s \<longleftrightarrow> colons s = 0"
  by (auto simp: colon_free_def colons_def filter_empty_conv)

lemma colons_presence:
  "colons (CACHEKEY_PRESENCE u) = Suc (colons u)"
  "colons (CACHEKEY_PRESENCE_SESSION u s) = Suc (Suc (colons u + colons s))"
  "colons (CACHEKEY_PRESENCE_WORKSPACE u s x) = Suc (Suc (Suc (colons u + colons s + colons x)))"
  by (simp_all add: cachekey_defs colons_def)

lemma presence_key_apart:
  "colon_free u \<Longrightarrow> CACHEKEY_PRESENCE u \<noteq> CACHEKEY_PRESENCE_SESSION u' s"
  "colon_free u \<Longrightarrow> CACHEKEY_PRESENCE u \<noteq> CACHEKEY_PRESENCE_WORKSPACE u' s x"
  "colon_free u \<Longrightarrow> CACHEKEY_PRESENCE_SESSION u' s \<noteq> CACHEKEY_PRESENCE u"
  "colon_free u \<Longrightarrow> CACHEKEY_PRESENCE_WORKSPACE u' s x \<noteq> CACHEKEY_PRESENCE u"
  by (metis Suc_inject Zero_not_Suc colon_free_colons colons_presence)+

lemma session_key_apart:
  assumes "colon_free u" "colon_free s"
  shows "CACHEKEY_PRESENCE_SESSION u s \<noteq> CACHEKEY_PRESENCE_WORKSPACE u' s' x"
    "CACHEKEY_PRESENCE_WORKSPACE u' s' x \<noteq> CACHEKEY_PRESENCE_SESSION u s"
proof -
  have "colons (CACHEKEY_PRESENCE_SESSION u s) \<noteq> colons (CACHEKEY_PRESENCE_WORKSPACE u' s' x)"
    using assms by (simp add: colons_presence colon_free_colons)
  then show "CACHEKEY_PRESENCE_SESSION u s \<noteq> CACHEKEY_PRESENCE_WORKSPACE u' s' x"
    "CACHEKEY_PRESENCE_WORKSPACE u' s' x \<noteq> CACHEKEY_PRESENCE_SESSION u s"
    by metis+
qed

lemma split_session_key:
  assumes "colon_free u" "colon_free s"
  shows "js_split (CHR '':'') (CACHEKEY_PRESENCE_SESSION u s) = [''presence'', u, s]"
proof -
  have "CACHEKEY_PRESENCE_SESSION u s = js_join (CHR '':'') [''presence'', u, s]"
    by (simp add: cachekey_defs)
  then show ?thesis using assms by (simp add: js_split_join colon_free_def del: js_join.simps)
qed

lemma split_workspace_key:
  assumes "colon_free u" "colon_free s" "colon_free x"
  shows "js_split (CHR '':'') (CACHEKEY_PRESENCE_WORKSPACE u s x) = [''presence'', u, s, x]"
proof -
  have "CACHEKEY_PRESENCE_WORKSPACE u s x = js_join (CHR '':'') [''presence'', u, s, x]"
    by (simp add: cachekey_defs)
  then show ?thesis using assms by (simp add: js_split_join colon_free_def del: js_join.simps)
qed

lemma session_key_inject:
  "\<lbrakk>colon_free u; colon_free s; colon_free u'; colon_free s'\<rbrakk> \<Longrightarrow>
     CACHEKEY_PRESENCE_SESSION u s = CACHEKEY_PRESENCE_SESSION u' s' \<longleftrightarrow> u = u' \<and> s = s'"
  by (metis list.inject split_session_key)

lemma workspace_key_inject:
  "\<lbrakk>colon_free u; colon_free s; colon_free x; colon_free u'; colon_free s'; colon_free x'\<rbrakk> \<Longrightarrow>
     CACHEKEY_PRESENCE_WORKSPACE u s x = CACHEKEY_PRESENCE_WORKSPACE u' s' x' \<longleftrightarrow>
     u = u' \<and> s = s' \<and> x = x'"
  by (metis list.inject split_workspace_key)

section \<open>Typed lookups after operations\<close>

lemma get_docs_emit [cache_simps]:
  "get_presence (emit w es) = get_presence w" "get_workspace (emit w es) = get_workspace w"
  "get_membership (emit w es) = get_membership w" "get_user (emit w es) = get_user w"
  by (rule ext; simp add: get_presence_def get_workspace_def get_membership_def get_user_def
      cache_simps)+

lemma get_docs_set_presence [cache_simps]:
  "get_presence (set_presence w u p) u' = (if u' = u then Some p else get_presence w u')"
  "get_workspace (set_presence w u p) x = get_workspace w x"
  "get_membership (set_presence w u p) v = get_membership w v"
  by (simp_all add: get_presence_def get_workspace_def get_membership_def set_presence_def cache_simps)

lemma get_docs_set_workspace [cache_simps]:
  "get_presence (set_workspace w x d) u = get_presence w u"
  "get_workspace (set_workspace w x d) x' = (if x' = x then Some d else get_workspace w x')"
  "get_membership (set_workspace w x d) v = get_membership w v"
  by (simp_all add: get_presence_def get_workspace_def get_membership_def set_workspace_def cache_simps)

lemma get_docs_set_membership [cache_simps]:
  "get_presence (set_membership w v m) u = get_presence w u"
  "get_workspace (set_membership w v m) x = get_workspace w x"
  "get_membership (set_membership w v m) v' = (if v' = v then Some m else get_membership w v')"
  by (simp_all add: get_presence_def get_workspace_def get_membership_def set_membership_def cache_simps)

lemma get_docs_del_workspace [cache_simps]:
  "get_presence (cache_del w (CACHEKEY_WORKSPACE x)) u = get_presence w u"
  "get_workspace (cache_del w (CACHEKEY_WORKSPACE x)) x' = (if x' = x then None else get_workspace w x')"
  "get_membership (cache_del w (CACHEKEY_WORKSPACE x)) v = get_membership w v"
  by (simp_all add: get_presence_def get_workspace_def get_membership_def cache_simps)

lemma get_docs_timer [cache_simps]:
  "get_workspace (cache_set w (CACHEKEY_PRESENCE_SESSION u s) v t) x = get_workspace w x"
  "get_workspace (cache_set w (CACHEKEY_PRESENCE_WORKSPACE u s y) v t) x = get_workspace w x"
  "get_workspace (cache_del w (CACHEKEY_PRESENCE_SESSION u s)) x = get_workspace w x"
  "get_workspace (cache_del w (CACHEKEY_PRESENCE_WORKSPACE u s y)) x = get_workspace w x"
  "get_membership (cache_set w (CACHEKEY_PRESENCE_SESSION u s) v t) z = get_membership w z"
  "get_membership (cache_set w (CACHEKEY_PRESENCE_WORKSPACE u s y) v t) z = get_membership w z"
  "get_membership (cache_del w (CACHEKEY_PRESENCE_SESSION u s)) z = get_membership w z"
  "get_membership (cache_del w (CACHEKEY_PRESENCE_WORKSPACE u s y)) z = get_membership w z"
  by (simp_all add: get_workspace_def get_membership_def cache_get_set_other cache_simps)

lemma get_presence_timer [cache_simps]:
  "colon_free u' \<Longrightarrow>
     get_presence (cache_set w (CACHEKEY_PRESENCE_SESSION u s) v t) u' = get_presence w u'"
  "colon_free u' \<Longrightarrow>
     get_presence (cache_set w (CACHEKEY_PRESENCE_WORKSPACE u s x) v t) u' = get_presence w u'"
  "colon_free u' \<Longrightarrow>
     get_presence (cache_del w (CACHEKEY_PRESENCE_SESSION u s)) u' = get_presence w u'"
  "colon_free u' \<Longrightarrow>
     get_presence (cache_del w (CACHEKEY_PRESENCE_WORKSPACE u s x)) u' = get_presence w u'"
  by (simp_all add: get_presence_def cache_get_set_other cache_simps presence_key_apart)

section \<open>Sessions\<close>

text \<open>
  The idiom \<^verbatim>\<open>entries.find(([_, s]) => s.wsUuid === uuid)\<close>: the first session of a user that has
  the workspace open.
\<close>

definition session_of :: "CachedPresence \<Rightarrow> string \<Rightarrow> string option" where
  "session_of p uuid = map_option fst (List.find (\<lambda>(sid, s). cs_wsUuid s = Some uuid) p)"

text \<open>One \<^verbatim>\<open>socket.send\<close> per session of a user, as the notification loops do; a user without a
  presence document gets none.\<close>

definition sends_to :: "string \<Rightarrow> out_message \<Rightarrow> 'a net_scheme \<Rightarrow> string \<Rightarrow> emission list" where
  "sends_to pattern msg w uid =
     (case get_presence w uid of None \<Rightarrow> []
      | Some p \<Rightarrow> map (\<lambda>sid. Socket_send (Some (uid, sid)) uid sid pattern msg) (ob_keys p))"

lemma session_of_Some:
  "session_of p uuid = Some sid \<Longrightarrow> \<exists>s. (sid, s) \<in> set p \<and> cs_wsUuid s = Some uuid"
  by (auto simp: session_of_def find_Some_iff) (metis nth_mem)

lemma session_of_None:
  "session_of p uuid = None \<longleftrightarrow> (\<forall>(sid, s) \<in> set p. cs_wsUuid s \<noteq> Some uuid)"
  by (auto simp: session_of_def find_None_iff)

lemma sends_to_iff:
  "e \<in> set (sends_to pat m w u) \<longleftrightarrow>
     (\<exists>p sid. get_presence w u = Some p \<and> sid \<in> set (ob_keys p) \<and>
        e = Socket_send (Some (u, sid)) u sid pat m)"
  by (force simp: sends_to_def split: option.splits)

end
