(* ===== verification/Workspace_Store.thy ===== *)
theory Workspace_Store
  imports Net_State
begin

text \<open>
  The tables of the workspace service (\<^verbatim>\<open>workspace/src/common/model\<close> and the schema migrations) and
  the statements its services run on them. A table is the list of its rows in the order the
  database returns them; a statement that violates a constraint of the schema (a primary key, a
  unique column, a foreign key, a column that may not be null or is too long) is rejected with
  \<open>DbErr\<close> and changes nothing. \<open>db_wf\<close> collects the constraints; every statement keeps it.

  \<^verbatim>\<open>save\<close> of a row that has its primary key is an update when the row exists and an insert
  otherwise. The identifiers of a \<^verbatim>\<open>SERIAL\<close> column come from a sequence that is part of the state,
  the generated \<^verbatim>\<open>uuid\<close> of a workspace from the function \<open>db_uuids\<close>.
\<close>

section \<open>Rows\<close>

record Workspace =
  w_id :: int
  w_uuid :: string
  w_image :: string
  w_name :: string
  w_description :: string
  w_status :: WorkspaceStatus
  w_dedicated :: bool
  w_createdAt :: int

record Membership =
  m_workspaceId :: int
  m_userId :: string
  m_role :: string
  m_joinedAt :: int

record AccessCode =
  a_id :: int
  a_code :: string
  a_uid :: string
  a_uuid :: string
  a_status :: AccessStatus
  a_ntfnId :: "string option"
  a_usedAt :: "int option"
  a_expiresAt :: "int option"

abbreviation m_pk :: "Membership \<Rightarrow> int \<times> string" where
  "m_pk m \<equiv> (m_workspaceId m, m_userId m)"

record wsvc = net +
  workspaces :: "Workspace list"
  memberships :: "Membership list"
  codes :: "AccessCode list"
  ws_seq :: int
  ac_seq :: int
  db_uuids :: "int \<Rightarrow> string"

section \<open>Entity objects before they are saved\<close>

record WorkspaceDraft =
  d_name :: "string option"
  d_description :: "string option"
  d_uuid :: "string option"
  d_image :: "string option"
  d_status :: "WorkspaceStatus option"
  d_dedicated :: "bool option"

definition keep_truthy :: "string option \<Rightarrow> string option" where
  "keep_truthy s = (if truthy s then s else None)"

definition new_Workspace :: "WorkspaceDraft \<Rightarrow> WorkspaceDraft" where
  "new_Workspace data =
     \<lparr>d_name = keep_truthy (d_name data),
      d_description = keep_truthy (d_description data),
      d_uuid = keep_truthy (d_uuid data),
      d_image = keep_truthy (d_image data),
      d_status = d_status data,
      d_dedicated = (case d_dedicated data of None \<Rightarrow> Some False | Some b \<Rightarrow> Some b)\<rparr>"

record MembershipDraft =
  md_workspaceId :: "int option"
  md_userId :: "string option"
  md_role :: "string option"

definition new_Membership :: MembershipDraft where
  "new_Membership = \<lparr>md_workspaceId = None, md_userId = None, md_role = None\<rparr>"

definition setData :: "MembershipDraft \<Rightarrow> MembershipDraft \<Rightarrow> MembershipDraft" where
  "setData data m =
     \<lparr>md_workspaceId = (case md_workspaceId data of
         None \<Rightarrow> md_workspaceId m | Some i \<Rightarrow> if i = 0 then md_workspaceId m else Some i),
      md_userId = (if truthy (md_userId data) then md_userId data else md_userId m),
      md_role = (if truthy (md_role data) then md_role data else md_role m)\<rparr>"

record AccessCodeDraft =
  ad_code :: "string option"
  ad_uid :: "string option"
  ad_usedAt :: "int option"
  ad_expiresAt :: "int option"
  ad_status :: "AccessStatus option"
  ad_uuid :: "string option"
  ad_ntfnId :: "string option"

definition new_AccessCode :: "AccessCodeDraft \<Rightarrow> AccessCodeDraft" where
  "new_AccessCode data =
     data\<lparr>ad_code := keep_truthy (ad_code data), ad_uid := keep_truthy (ad_uid data),
       ad_uuid := keep_truthy (ad_uuid data), ad_ntfnId := keep_truthy (ad_ntfnId data)\<rparr>"

section \<open>Tables with a key\<close>

text \<open>\<^verbatim>\<open>UPDATE ... WHERE key = ...\<close>: every row with the key of \<open>r\<close> becomes \<open>r\<close>.\<close>

definition replace_by :: "('r \<Rightarrow> 'k) \<Rightarrow> 'r \<Rightarrow> 'r list \<Rightarrow> 'r list" where
  "replace_by key r rows = map (\<lambda>x. if key x = key r then r else x) rows"

lemma map_replace_by: "(\<And>x. x \<in> set rows \<Longrightarrow> key x = key r \<Longrightarrow> f x = f r) \<Longrightarrow>
    map f (replace_by key r rows) = map f rows"
  by (simp add: replace_by_def)

lemma set_replace_by:
  "x \<in> set (replace_by key r rows) \<longleftrightarrow>
     (if key x = key r then x = r \<and> (\<exists>y \<in> set rows. key y = key r) else x \<in> set rows)"
  by (auto simp: replace_by_def image_iff)

lemma find_key:
  "distinct (map key rows) \<Longrightarrow> r \<in> set rows \<Longrightarrow> List.find (\<lambda>x. key x = key r) rows = Some r"
  by (induction rows) (auto simp: rev_image_eqI)

lemma find_SomeD: "List.find p rows = Some r \<Longrightarrow> r \<in> set rows \<and> p r"
  by (auto simp: find_Some_iff)

lemma find_NoneD: "List.find p rows = None \<Longrightarrow> r \<in> set rows \<Longrightarrow> \<not> p r"
  by (auto simp: find_None_iff)

lemma key_unique: "distinct (map f xs) \<Longrightarrow> x \<in> set xs \<Longrightarrow> y \<in> set xs \<Longrightarrow> f x = f y \<Longrightarrow> x = y"
  by (auto simp: distinct_map dest: inj_onD)

section \<open>The schema\<close>

definition workspace_row_ok :: "Workspace \<Rightarrow> bool" where
  "workspace_row_ok r \<longleftrightarrow> length (w_name r) \<le> 30 \<and> length (w_image r) \<le> 50"

definition membership_row_ok :: "Membership \<Rightarrow> bool" where
  "membership_row_ok r \<longleftrightarrow> length (m_userId r) \<le> 64 \<and> length (m_role r) \<le> 25"

definition code_row_ok :: "AccessCode \<Rightarrow> bool" where
  "code_row_ok r \<longleftrightarrow> length (a_uid r) \<le> 64 \<and> length (a_uuid r) \<le> 64"

definition workspaces_wf :: "Workspace list \<Rightarrow> int \<Rightarrow> bool" where
  "workspaces_wf rows sq \<longleftrightarrow>
     distinct (map w_id rows) \<and> distinct (map w_uuid rows) \<and> 0 < sq \<and>
     (\<forall>r \<in> set rows. 0 < w_id r \<and> w_id r < sq \<and> workspace_row_ok r)"

definition memberships_wf :: "Membership list \<Rightarrow> int set \<Rightarrow> bool" where
  "memberships_wf rows ids \<longleftrightarrow>
     distinct (map m_pk rows) \<and> (\<forall>r \<in> set rows. m_workspaceId r \<in> ids \<and> membership_row_ok r)"

definition codes_wf :: "AccessCode list \<Rightarrow> int \<Rightarrow> bool" where
  "codes_wf rows sq \<longleftrightarrow>
     distinct (map a_id rows) \<and> distinct (map a_code rows) \<and>
     (\<forall>r \<in> set rows. a_id r < sq \<and> code_row_ok r)"

definition db_wf :: "'a wsvc_scheme \<Rightarrow> bool" where
  "db_wf w \<longleftrightarrow>
     workspaces_wf (workspaces w) (ws_seq w) \<and>
     memberships_wf (memberships w) (w_id ` set (workspaces w)) \<and>
     codes_wf (codes w) (ac_seq w)"

section \<open>Statements\<close>

definition findOne_workspace :: "string \<Rightarrow> 'a wsvc_scheme \<Rightarrow> Workspace option" where
  "findOne_workspace uuid w = List.find (\<lambda>r. w_uuid r = uuid) (workspaces w)"

definition findOne_workspace_id :: "int \<Rightarrow> 'a wsvc_scheme \<Rightarrow> Workspace option" where
  "findOne_workspace_id i w = List.find (\<lambda>r. w_id r = i) (workspaces w)"

definition findOne_membership :: "int \<Rightarrow> string \<Rightarrow> 'a wsvc_scheme \<Rightarrow> Membership option" where
  "findOne_membership i uid w = List.find (\<lambda>r. m_pk r = (i, uid)) (memberships w)"

definition find_memberships :: "int \<Rightarrow> 'a wsvc_scheme \<Rightarrow> Membership list" where
  "find_memberships i w = filter (\<lambda>r. m_workspaceId r = i) (memberships w)"

definition insert_workspace :: "WorkspaceDraft \<Rightarrow> 'a wsvc_scheme \<Rightarrow> Workspace result \<times> 'a wsvc_scheme" where
  "insert_workspace d w =
     (case (d_name d, d_image d, d_description d, d_status d, d_dedicated d) of
        (Some nm, Some img, Some desc, Some st, Some ded) \<Rightarrow>
          (let uuid = (case d_uuid d of None \<Rightarrow> db_uuids w (ws_seq w) | Some u \<Rightarrow> u);
               r = \<lparr>w_id = ws_seq w, w_uuid = uuid, w_image = img, w_name = nm, w_description = desc,
                    w_status = st, w_dedicated = ded, w_createdAt = clock w\<rparr>
           in if uuid \<in> w_uuid ` set (workspaces w) then (Inl (DbErr ''unique''), w)
              else if \<not> workspace_row_ok r then (Inl (DbErr ''length''), w)
              else (Inr r, w\<lparr>workspaces := workspaces w @ [r], ws_seq := ws_seq w + 1\<rparr>))
      | _ \<Rightarrow> (Inl (DbErr ''not null''), w))"

definition save_workspace :: "Workspace \<Rightarrow> 'a wsvc_scheme \<Rightarrow> unit result \<times> 'a wsvc_scheme" where
  "save_workspace r w =
     (if \<not> workspace_row_ok r then (Inl (DbErr ''length''), w)
      else (Inr (), w\<lparr>workspaces := replace_by w_id r (workspaces w)\<rparr>))"

definition save_membership :: "MembershipDraft \<Rightarrow> 'a wsvc_scheme \<Rightarrow> Membership result \<times> 'a wsvc_scheme" where
  "save_membership d w =
     (case (md_workspaceId d, md_userId d) of
        (Some i, Some uid) \<Rightarrow>
          (case findOne_membership i uid w of
             Some old \<Rightarrow>
               (let r = (case md_role d of None \<Rightarrow> old | Some role \<Rightarrow> old\<lparr>m_role := role\<rparr>)
                in if \<not> membership_row_ok r then (Inl (DbErr ''length''), w)
                   else (Inr r, w\<lparr>memberships := replace_by m_pk r (memberships w)\<rparr>))
           | None \<Rightarrow>
               (let r = \<lparr>m_workspaceId = i, m_userId = uid,
                         m_role = (case md_role d of None \<Rightarrow> ''member'' | Some role \<Rightarrow> role),
                         m_joinedAt = clock w\<rparr>
                in if i \<notin> w_id ` set (workspaces w) then (Inl (DbErr ''foreign key''), w)
                   else if \<not> membership_row_ok r then (Inl (DbErr ''length''), w)
                   else (Inr r, w\<lparr>memberships := memberships w @ [r]\<rparr>)))
      | _ \<Rightarrow> (Inl (DbErr ''not null''), w))"

definition delete_memberships :: "(Membership \<Rightarrow> bool) \<Rightarrow> 'a wsvc_scheme \<Rightarrow> 'a wsvc_scheme" where
  "delete_memberships p w = w\<lparr>memberships := filter (\<lambda>r. \<not> p r) (memberships w)\<rparr>"

text \<open>The foreign key of the membership table has \<^verbatim>\<open>ON DELETE NO ACTION\<close>: a workspace that still has
  members cannot be deleted.\<close>

definition delete_workspace_row :: "string \<Rightarrow> 'a wsvc_scheme \<Rightarrow> unit result \<times> 'a wsvc_scheme" where
  "delete_workspace_row uuid w =
     (if \<exists>r \<in> set (workspaces w). w_uuid r = uuid \<and> w_id r \<in> m_workspaceId ` set (memberships w)
      then (Inl (DbErr ''foreign key''), w)
      else (Inr (), w\<lparr>workspaces := filter (\<lambda>r. w_uuid r \<noteq> uuid) (workspaces w)\<rparr>))"

definition insert_code :: "AccessCodeDraft \<Rightarrow> 'a wsvc_scheme \<Rightarrow> unit result \<times> 'a wsvc_scheme" where
  "insert_code d w =
     (case (ad_code d, ad_uid d, ad_uuid d, ad_status d) of
        (Some c, Some uid, Some uuid, Some st) \<Rightarrow>
          (let r = \<lparr>a_id = ac_seq w, a_code = c, a_uid = uid, a_uuid = uuid, a_status = st,
                    a_ntfnId = ad_ntfnId d, a_usedAt = ad_usedAt d, a_expiresAt = ad_expiresAt d\<rparr>
           in if c \<in> a_code ` set (codes w) then (Inl (DbErr ''unique''), w)
              else if \<not> code_row_ok r then (Inl (DbErr ''length''), w)
              else (Inr (), w\<lparr>codes := codes w @ [r], ac_seq := ac_seq w + 1\<rparr>))
      | _ \<Rightarrow> (Inl (DbErr ''not null''), w))"

definition save_code :: "AccessCode \<Rightarrow> 'a wsvc_scheme \<Rightarrow> 'a wsvc_scheme" where
  "save_code r w = w\<lparr>codes := replace_by a_id r (codes w)\<rparr>"

definition delete_codes :: "(AccessCode \<Rightarrow> bool) \<Rightarrow> 'a wsvc_scheme \<Rightarrow> 'a wsvc_scheme" where
  "delete_codes p w = w\<lparr>codes := filter (\<lambda>r. \<not> p r) (codes w)\<rparr>"

text \<open>
  \<^verbatim>\<open>startTransaction\<close> \dots \<^verbatim>\<open>commitTransaction\<close> with \<^verbatim>\<open>rollbackTransaction\<close> in the \<^verbatim>\<open>catch\<close> block: an error
  restores the tables and is thrown again. A sequence is not rolled back.
\<close>

definition in_transaction ::
  "('a wsvc_scheme \<Rightarrow> 'b result \<times> 'a wsvc_scheme) \<Rightarrow> 'a wsvc_scheme \<Rightarrow> 'b result \<times> 'a wsvc_scheme" where
  "in_transaction f w =
     (case f w of
        (Inl e, w') \<Rightarrow>
          (Inl e, w'\<lparr>workspaces := workspaces w, memberships := memberships w, codes := codes w\<rparr>)
      | (Inr x, w') \<Rightarrow> (Inr x, w'))"

section \<open>Rows found, and what the statements keep\<close>

lemmas db_defs = db_wf_def workspaces_wf_def memberships_wf_def codes_wf_def

lemma findOne_workspaceD:
  "findOne_workspace uuid w = Some r \<Longrightarrow> r \<in> set (workspaces w) \<and> w_uuid r = uuid"
  unfolding findOne_workspace_def by (drule find_SomeD) simp

lemma findOne_workspace_idD:
  "findOne_workspace_id i w = Some r \<Longrightarrow> r \<in> set (workspaces w) \<and> w_id r = i"
  unfolding findOne_workspace_id_def by (drule find_SomeD) simp

lemma findOne_membershipD:
  "findOne_membership i uid w = Some m \<Longrightarrow>
     m \<in> set (memberships w) \<and> m_workspaceId m = i \<and> m_userId m = uid"
  unfolding findOne_membership_def by (drule find_SomeD) simp

lemma findOne_workspace_mem:
  "db_wf w \<Longrightarrow> r \<in> set (workspaces w) \<Longrightarrow> findOne_workspace (w_uuid r) w = Some r"
  by (simp add: findOne_workspace_def db_defs find_key)

lemma findOne_workspace_id_mem:
  "db_wf w \<Longrightarrow> r \<in> set (workspaces w) \<Longrightarrow> findOne_workspace_id (w_id r) w = Some r"
  by (simp add: findOne_workspace_id_def db_defs find_key)

lemma findOne_membership_mem:
  "db_wf w \<Longrightarrow> m \<in> set (memberships w) \<Longrightarrow>
     findOne_membership (m_workspaceId m) (m_userId m) w = Some m"
  unfolding findOne_membership_def db_defs using find_key [of m_pk "memberships w" m] by simp

lemma findOne_membership_None:
  "findOne_membership i uid w = None \<longleftrightarrow> (i, uid) \<notin> m_pk ` set (memberships w)"
  by (auto simp: findOne_membership_def find_None_iff)

lemma membership_workspace:
  assumes "db_wf w" "m \<in> set (memberships w)"
  obtains r where "r \<in> set (workspaces w)" "w_id r = m_workspaceId m"
  using assms by (force simp: db_defs)

text \<open>The tables and sequences, which is all that \<open>db_wf\<close> reads.\<close>

definition same_tables :: "'a wsvc_scheme \<Rightarrow> 'a wsvc_scheme \<Rightarrow> bool" where
  "same_tables w v \<longleftrightarrow> workspaces w = workspaces v \<and> memberships w = memberships v \<and>
     codes w = codes v \<and> ws_seq w = ws_seq v \<and> ac_seq w = ac_seq v"

lemma db_wf_cong: "same_tables w v \<Longrightarrow> db_wf w = db_wf v"
  by (simp add: same_tables_def db_wf_def)

lemma same_tables_refl [simp]: "same_tables w w"
  by (simp add: same_tables_def)

lemma same_tables_net [simp]:
  "same_tables (emit w es) v = same_tables w v" "same_tables (cache_set w k c t) v = same_tables w v"
  "same_tables (cache_del w k) v = same_tables w v"
  "same_tables (snd (randomUUID w)) v = same_tables w v"
  "same_tables (snd (createMessage u r w)) v = same_tables w v"
  by (simp_all add: same_tables_def emit_def cache_set_def cache_del_def randomUUID_def
      createMessage_def)

lemma same_tables_trans: "same_tables u v \<Longrightarrow> same_tables v w \<Longrightarrow> same_tables u w"
  by (simp add: same_tables_def)

lemma tables_net [frame_simps]:
  "workspaces (emit w es) = workspaces w" "memberships (emit w es) = memberships w"
  "codes (emit w es) = codes w"
  "workspaces (cache_set w k c t) = workspaces w" "memberships (cache_set w k c t) = memberships w"
  "codes (cache_set w k c t) = codes w"
  "workspaces (cache_del w k) = workspaces w" "memberships (cache_del w k) = memberships w"
  "codes (cache_del w k) = codes w"
  by (simp_all add: emit_def cache_set_def cache_del_def)

lemma insert_workspace_Inl: "insert_workspace d w = (Inl e, w') \<Longrightarrow> w' = w"
  by (auto simp: insert_workspace_def Let_def split: option.splits if_splits)

lemma insert_workspace_Inr:
  "insert_workspace d w = (Inr r, w') \<Longrightarrow>
     w' = w\<lparr>workspaces := workspaces w @ [r], ws_seq := ws_seq w + 1\<rparr> \<and>
     w_id r = ws_seq w \<and> w_uuid r \<notin> w_uuid ` set (workspaces w) \<and> workspace_row_ok r \<and>
     d_name d = Some (w_name r) \<and> d_status d = Some (w_status r) \<and>
     d_image d = Some (w_image r) \<and> d_description d = Some (w_description r) \<and>
     d_dedicated d = Some (w_dedicated r)"
  by (auto simp: insert_workspace_def Let_def split: option.splits if_splits)

lemma insert_workspace_wf:
  assumes "db_wf w" "insert_workspace d w = (x, w')"
  shows "db_wf w'"
proof (cases x)
  case (Inl e)
  with assms show ?thesis by (auto dest: insert_workspace_Inl)
next
  case (Inr r)
  with assms(2) have r: "insert_workspace d w = (Inr r, w')" by simp
  note r = insert_workspace_Inr [OF r]
  with assms(1) have "workspaces_wf (workspaces w @ [r]) (ws_seq w + 1)"
    by (auto simp: db_defs)
  with r assms(1) show ?thesis by (auto simp: db_wf_def memberships_wf_def)
qed

lemma save_workspace_wf:
  assumes "db_wf w" "save_workspace r w = (x, w')"
    and old: "old \<in> set (workspaces w)" "w_id old = w_id r" "w_uuid old = w_uuid r"
  shows "db_wf w'"
proof (cases "workspace_row_ok r")
  case True
  let ?rows = "replace_by w_id r (workspaces w)"
  have ids: "map w_id ?rows = map w_id (workspaces w)"
    by (rule map_replace_by) simp
  have uuids: "map w_uuid ?rows = map w_uuid (workspaces w)"
  proof (rule map_replace_by)
    fix y assume "y \<in> set (workspaces w)" "w_id y = w_id r"
    with assms(1) old have "y = old"
      by (intro key_unique [of w_id "workspaces w"]) (simp_all add: db_defs)
    with old show "w_uuid y = w_uuid r" by simp
  qed
  have rows: "\<forall>y \<in> set ?rows. 0 < w_id y \<and> w_id y < ws_seq w \<and> workspace_row_ok y"
    using True assms(1) old by (force simp: set_replace_by db_defs split: if_splits)
  have "workspaces_wf ?rows (ws_seq w)"
    using assms(1) ids uuids rows by (simp add: db_defs)
  moreover from ids have "w_id ` set ?rows = w_id ` set (workspaces w)" by (metis list.set_map)
  ultimately show ?thesis
    using True assms(1,2) by (auto simp: save_workspace_def db_wf_def)
next
  case False
  with assms show ?thesis by (simp add: save_workspace_def)
qed

lemma save_membership_Inl: "save_membership d w = (Inl e, w') \<Longrightarrow> w' = w"
  by (auto simp: save_membership_def Let_def split: option.splits if_splits)

lemma save_membership_seq:
  "save_membership d w = (x, w') \<Longrightarrow> ws_seq w' = ws_seq w \<and> ac_seq w' = ac_seq w"
  by (auto simp: save_membership_def Let_def split: option.splits if_splits)

text \<open>The row a successful \<^verbatim>\<open>save\<close> writes, and whether it replaces an old row.\<close>

lemma save_membership_Inr:
  assumes "save_membership d w = (Inr r, w')"
  shows "md_workspaceId d = Some (m_workspaceId r)" "md_userId d = Some (m_userId r)"
    "membership_row_ok r"
    "(\<exists>old \<in> set (memberships w). m_pk old = m_pk r \<and>
        m_role r = (case md_role d of None \<Rightarrow> m_role old | Some role \<Rightarrow> role) \<and>
        w' = w\<lparr>memberships := replace_by m_pk r (memberships w)\<rparr>) \<or>
     (m_pk r \<notin> m_pk ` set (memberships w) \<and> m_workspaceId r \<in> w_id ` set (workspaces w) \<and>
        m_role r = (case md_role d of None \<Rightarrow> ''member'' | Some role \<Rightarrow> role) \<and>
        w' = w\<lparr>memberships := memberships w @ [r]\<rparr>)"
proof -
  from assms obtain i uid where d: "md_workspaceId d = Some i" "md_userId d = Some uid"
    by (auto simp: save_membership_def split: option.splits)
  have "m_pk r = (i, uid) \<and> membership_row_ok r \<and>
    ((\<exists>old \<in> set (memberships w). m_pk old = m_pk r \<and>
        m_role r = (case md_role d of None \<Rightarrow> m_role old | Some role \<Rightarrow> role) \<and>
        w' = w\<lparr>memberships := replace_by m_pk r (memberships w)\<rparr>) \<or>
     (m_pk r \<notin> m_pk ` set (memberships w) \<and> m_workspaceId r \<in> w_id ` set (workspaces w) \<and>
        m_role r = (case md_role d of None \<Rightarrow> ''member'' | Some role \<Rightarrow> role) \<and>
        w' = w\<lparr>memberships := memberships w @ [r]\<rparr>))"
  proof (cases "findOne_membership i uid w")
    case None
    then have "(i, uid) \<notin> m_pk ` set (memberships w)" by (simp add: findOne_membership_None)
    with assms d None show ?thesis
      by (auto simp: save_membership_def Let_def split: if_splits)
  next
    case (Some old)
    then have old: "old \<in> set (memberships w)" "m_workspaceId old = i" "m_userId old = uid"
      by (auto dest: findOne_membershipD)
    from assms d Some have "membership_row_ok r \<and>
        r = (case md_role d of None \<Rightarrow> old | Some role \<Rightarrow> old\<lparr>m_role := role\<rparr>) \<and>
        w' = w\<lparr>memberships := replace_by m_pk r (memberships w)\<rparr>"
      by (auto simp: save_membership_def Let_def split: if_splits)
    with old show ?thesis by (cases "md_role d") auto
  qed
  with d show "md_workspaceId d = Some (m_workspaceId r)" "md_userId d = Some (m_userId r)"
    "membership_row_ok r"
    "(\<exists>old \<in> set (memberships w). m_pk old = m_pk r \<and>
        m_role r = (case md_role d of None \<Rightarrow> m_role old | Some role \<Rightarrow> role) \<and>
        w' = w\<lparr>memberships := replace_by m_pk r (memberships w)\<rparr>) \<or>
     (m_pk r \<notin> m_pk ` set (memberships w) \<and> m_workspaceId r \<in> w_id ` set (workspaces w) \<and>
        m_role r = (case md_role d of None \<Rightarrow> ''member'' | Some role \<Rightarrow> role) \<and>
        w' = w\<lparr>memberships := memberships w @ [r]\<rparr>)"
    by auto
qed

lemma replace_membership_wf:
  assumes "memberships_wf rows ids" "old \<in> set rows" "m_pk old = m_pk r" "membership_row_ok r"
  shows "memberships_wf (replace_by m_pk r rows) ids"
proof -
  have "map m_pk (replace_by m_pk r rows) = map m_pk rows" by (rule map_replace_by) simp
  moreover have "m_workspaceId y \<in> ids \<and> membership_row_ok y"
    if "y \<in> set (replace_by m_pk r rows)" for y
    using that assms by (cases "m_pk y = m_pk r") (auto simp: memberships_wf_def set_replace_by)
  ultimately show ?thesis using assms(1) by (simp add: memberships_wf_def)
qed

lemma save_membership_wf:
  assumes "db_wf w" "save_membership d w = (x, w')"
  shows "db_wf w'"
proof (cases x)
  case (Inl e)
  with assms show ?thesis by (auto dest: save_membership_Inl)
next
  case (Inr r)
  with assms(2) have sv: "save_membership d w = (Inr r, w')" by simp
  from save_membership_Inr(4) [OF sv] show ?thesis
  proof
    assume "\<exists>old \<in> set (memberships w). m_pk old = m_pk r \<and>
        m_role r = (case md_role d of None \<Rightarrow> m_role old | Some role \<Rightarrow> role) \<and>
        w' = w\<lparr>memberships := replace_by m_pk r (memberships w)\<rparr>"
    with assms(1) save_membership_Inr(3) [OF sv] show ?thesis
      by (auto simp: db_wf_def intro: replace_membership_wf)
  next
    assume "m_pk r \<notin> m_pk ` set (memberships w) \<and> m_workspaceId r \<in> w_id ` set (workspaces w) \<and>
        m_role r = (case md_role d of None \<Rightarrow> ''member'' | Some role \<Rightarrow> role) \<and>
        w' = w\<lparr>memberships := memberships w @ [r]\<rparr>"
    with assms(1) save_membership_Inr(3) [OF sv] show ?thesis
      by (auto simp: db_wf_def memberships_wf_def)
  qed
qed

lemma delete_memberships_wf [intro]: "db_wf w \<Longrightarrow> db_wf (delete_memberships p w)"
  by (auto simp: delete_memberships_def db_wf_def memberships_wf_def intro: distinct_map_filter)

lemma delete_workspace_row_wf:
  assumes "db_wf w" "delete_workspace_row uuid w = (x, w')"
  shows "db_wf w'"
proof -
  let ?rows = "filter (\<lambda>r. w_uuid r \<noteq> uuid) (workspaces w)"
  have "workspaces_wf ?rows (ws_seq w)"
    using assms(1) by (auto simp: db_defs intro: distinct_map_filter)
  moreover have "memberships_wf (memberships w) (w_id ` set ?rows)"
    if "\<forall>r \<in> set (workspaces w). w_uuid r = uuid \<longrightarrow> w_id r \<notin> m_workspaceId ` set (memberships w)"
    unfolding memberships_wf_def
  proof (intro conjI ballI)
    show "distinct (map m_pk (memberships w))" using assms(1) by (simp add: db_defs)
  next
    fix m assume m: "m \<in> set (memberships w)"
    with assms(1) show "membership_row_ok m" by (simp add: db_defs)
    from membership_workspace [OF assms(1) m] obtain r
      where "r \<in> set (workspaces w)" "w_id r = m_workspaceId m" by blast
    with that m show "m_workspaceId m \<in> w_id ` set ?rows" by (auto intro!: image_eqI [of _ _ r])
  qed
  ultimately show ?thesis
    using assms by (auto simp: delete_workspace_row_def db_wf_def split: if_splits)
qed

lemma insert_code_Inl: "insert_code d w = (Inl e, w') \<Longrightarrow> w' = w"
  by (auto simp: insert_code_def Let_def split: option.splits if_splits)

lemma insert_code_Inr:
  assumes "insert_code d w = (Inr u, w')"
  shows "\<exists>r. w' = w\<lparr>codes := codes w @ [r], ac_seq := ac_seq w + 1\<rparr> \<and>
     a_id r = ac_seq w \<and> a_code r \<notin> a_code ` set (codes w) \<and> code_row_ok r \<and>
     ad_code d = Some (a_code r) \<and> ad_uid d = Some (a_uid r) \<and> ad_uuid d = Some (a_uuid r) \<and>
     ad_status d = Some (a_status r) \<and> ad_expiresAt d = a_expiresAt r \<and>
     ad_ntfnId d = a_ntfnId r \<and> ad_usedAt d = a_usedAt r"
proof -
  from assms obtain c uid uuid st where d: "ad_code d = Some c" "ad_uid d = Some uid"
      "ad_uuid d = Some uuid" "ad_status d = Some st"
    by (auto simp: insert_code_def split: option.splits)
  let ?r = "\<lparr>a_id = ac_seq w, a_code = c, a_uid = uid, a_uuid = uuid, a_status = st,
      a_ntfnId = ad_ntfnId d, a_usedAt = ad_usedAt d, a_expiresAt = ad_expiresAt d\<rparr>"
  from assms d show ?thesis
    by (intro exI [of _ ?r]) (simp add: insert_code_def Let_def split: if_splits)
qed

lemma insert_code_wf:
  assumes "db_wf w" "insert_code d w = (x, w')"
  shows "db_wf w'"
proof (cases x)
  case (Inl e)
  with assms show ?thesis by (auto dest: insert_code_Inl)
next
  case (Inr u)
  with assms(2) have "insert_code d w = (Inr u, w')" by simp
  from insert_code_Inr [OF this] obtain r where r:
      "w' = w\<lparr>codes := codes w @ [r], ac_seq := ac_seq w + 1\<rparr>" "a_id r = ac_seq w"
      "a_code r \<notin> a_code ` set (codes w)" "code_row_ok r" by blast
  with assms(1) have "codes_wf (codes w @ [r]) (ac_seq w + 1)" by (auto simp: db_defs)
  with r assms(1) show ?thesis by (simp add: db_wf_def)
qed

lemma save_code_wf:
  assumes "db_wf w" and old: "old \<in> set (codes w)" "a_id old = a_id r" "a_code old = a_code r"
    and "code_row_ok r"
  shows "db_wf (save_code r w)"
proof -
  let ?rows = "replace_by a_id r (codes w)"
  have ids: "map a_id ?rows = map a_id (codes w)"
    by (rule map_replace_by) simp
  have cs: "map a_code ?rows = map a_code (codes w)"
  proof (rule map_replace_by)
    fix y assume "y \<in> set (codes w)" "a_id y = a_id r"
    with assms(1) old have "y = old"
      by (intro key_unique [of a_id "codes w"]) (simp_all add: db_defs)
    with old show "a_code y = a_code r" by simp
  qed
  have "\<forall>y \<in> set ?rows. a_id y < ac_seq w \<and> code_row_ok y"
    using assms by (force simp: set_replace_by db_defs split: if_splits)
  with assms(1) ids cs show ?thesis by (simp add: save_code_def db_defs)
qed

lemma delete_codes_wf [intro]: "db_wf w \<Longrightarrow> db_wf (delete_codes p w)"
  by (auto simp: delete_codes_def db_wf_def codes_wf_def intro: distinct_map_filter)

lemma in_transaction_Inr: "in_transaction f w = (Inr x, w') \<longleftrightarrow> f w = (Inr x, w')"
  by (auto simp: in_transaction_def split: prod.splits sum.splits)

lemma in_transaction_Inl:
  assumes "in_transaction f w = (Inl e, w')"
  shows "workspaces w' = workspaces w" "memberships w' = memberships w" "codes w' = codes w"
    "\<exists>v. f w = (Inl e, v) \<and> cache w' = cache v \<and> out w' = out v \<and> ws_seq w' = ws_seq v \<and>
       ac_seq w' = ac_seq v \<and> clock w' = clock v"
  using assms by (auto simp: in_transaction_def split: prod.splits sum.splits)

lemma tables_wf_mono:
  "\<lbrakk>db_wf w; workspaces v = workspaces w; memberships v = memberships w; codes v = codes w;
    ws_seq w \<le> ws_seq v; ac_seq w \<le> ac_seq v\<rbrakk> \<Longrightarrow> db_wf v"
  unfolding db_defs by (simp, meson order_less_le_trans)

lemma in_transaction_wf:
  assumes "db_wf w" and ok: "\<And>x v. f w = (x, v) \<Longrightarrow> db_wf v \<and> ws_seq w \<le> ws_seq v \<and> ac_seq w \<le> ac_seq v"
    and tx: "in_transaction f w = (x, w')"
  shows "db_wf w'"
proof (cases x)
  case (Inl e)
  with tx have t: "in_transaction f w = (Inl e, w')" by simp
  from in_transaction_Inl(4) [OF t] obtain v where
      "f w = (Inl e, v)" "ws_seq w' = ws_seq v" "ac_seq w' = ac_seq v" by blast
  with ok have "ws_seq w \<le> ws_seq w'" "ac_seq w \<le> ac_seq w'" by fastforce+
  with assms(1) in_transaction_Inl(1-3) [OF t] show ?thesis by (intro tables_wf_mono [of w w'])
next
  case (Inr y)
  with tx ok show ?thesis by (simp add: in_transaction_Inr)
qed

end
