(* ===== verification/Invite_Service.thy ===== *)
theory Invite_Service
  imports Workspace_Store
begin

text \<open>
  The invitation service (\<^verbatim>\<open>workspace/src/invite/invite.service.ts\<close>): sending invitations, and the
  invitee accepting or ignoring one. JSON web tokens come from the library \<^verbatim>\<open>jsonwebtoken\<close>: signing
  and verifying are arguments (\<open>sign\<close>, \<open>verify\<close>, where \<open>None\<close> is the exception the library throws
  on a bad token), and the signing secret is an argument too.
\<close>

section \<open>Roles\<close>

definition roleLevels :: "(string, int) obj" where
  "roleLevels = [(''member'', 0), (''admin'', 1), (''owner'', 2)]"

text \<open>\<^verbatim>\<open>roleLevels[role] < level\<close>: a role that is not in the table reads as \<^verbatim>\<open>undefined\<close>, and the
  comparison is false.\<close>

definition role_below :: "string \<Rightarrow> int \<Rightarrow> bool" where
  "role_below role level = js_less (ob_get roleLevels role) (Some level)"

lemma role_below_iff: "role_below role 1 \<longleftrightarrow> role = ''member''"
  by (auto simp: role_below_def roleLevels_def split: if_splits)

section \<open>Operations\<close>

record InvitationPayload =
  iv_notificationId :: string
  iv_inviterId :: string
  iv_inviteeId :: string
  iv_workspaceUUID :: string
  iv_validTill :: int
  iv_sshKey :: "string option"

record InviteDTO =
  i_inviteeId :: string
  i_workspaceUUID :: string
  i_sshKey :: "string option"

record InviteAllDTO =
  ia_inviteeIds :: "string list"
  ia_workspaceUUID :: string
  ia_sshKey :: "string option"

type_synonym 'd signer = "'d ServicePayload \<Rightarrow> string \<Rightarrow> string"
type_synonym 'd verifier = "string \<Rightarrow> string \<Rightarrow> 'd ServicePayload option"

definition day_ms :: int where
  "day_ms = 24 * 60 * 60 * 1000"

text \<open>\<^verbatim>\<open>date.setDate(date.getDate() + n)\<close> on a server that runs in UTC.\<close>

definition add_days :: "int \<Rightarrow> int \<Rightarrow> int" where
  "add_days t n = t + n * day_ms"

definition validateInvite :: "string \<Rightarrow> string \<Rightarrow> 'a wsvc_scheme \<Rightarrow> err option" where
  "validateInvite inviterId workspaceUUID w =
     (case findOne_workspace workspaceUUID w of
        None \<Rightarrow> Some (BadRequest ''WORKSPACE_NOT_FOUND'')
      | Some workspace \<Rightarrow>
          (case findOne_membership (w_id workspace) inviterId w of
             None \<Rightarrow> Some (Forbidden ''NO_WORKSPACE_MEMBERSHIP'')
           | Some membership \<Rightarrow>
               if role_below (m_role membership) 1
               then Some (Forbidden ''WORKSPACE_ACTION_NOT_AUTHORIZED'') else None))"

definition inviteUser ::
  "InvitationPayload signer \<Rightarrow> string \<Rightarrow> string \<Rightarrow> InviteDTO \<Rightarrow> bool \<Rightarrow> 'a wsvc_scheme \<Rightarrow>
   unit result \<times> 'a wsvc_scheme" where
  "inviteUser sign secret inviterId dto doValidate w =
     (case (if doValidate then validateInvite inviterId (i_workspaceUUID dto) w else None) of
        Some e \<Rightarrow> (Inl e, w)
      | None \<Rightarrow>
          (let expiryDate = add_days (clock w) 7;
               (notificationId, w1) = randomUUID w;
               payload = \<lparr>iv_notificationId = notificationId, iv_inviterId = inviterId,
                          iv_inviteeId = i_inviteeId dto, iv_workspaceUUID = i_workspaceUUID dto,
                          iv_validTill = expiryDate, iv_sshKey = i_sshKey dto\<rparr>;
               jwt = sign \<lparr>sp_sub = i_workspaceUUID dto, sp_aud = ''client'', sp_iss = ''workspace-api'',
                           sp_data = payload\<rparr> secret;
               (meta, w2) = createMessage (i_inviteeId dto) '''' w1
           in (Inr (), emit w2
                 [Rmq_notify meta (i_inviteeId dto)
                    \<lparr>nt_type = Workspace_invite, nt_id = notificationId,
                     nt_createdOn = IsoText (clock w), nt_actedOn = None,
                     nt_fields = WorkspaceInvite inviterId (i_workspaceUUID dto) jwt\<rparr>])))"

definition inviteAllUsers ::
  "InvitationPayload signer \<Rightarrow> string \<Rightarrow> string \<Rightarrow> InviteAllDTO \<Rightarrow> 'a wsvc_scheme \<Rightarrow>
   unit result \<times> 'a wsvc_scheme" where
  "inviteAllUsers sign secret inviterId dto w =
     (case validateInvite inviterId (ia_workspaceUUID dto) w of
        Some e \<Rightarrow> (Inl e, w)
      | None \<Rightarrow>
          (Inr (), fold (\<lambda>inviteeId w. snd (inviteUser sign secret inviterId
              \<lparr>i_inviteeId = inviteeId, i_workspaceUUID = ia_workspaceUUID dto, i_sshKey = ia_sshKey dto\<rparr>
              False w)) (ia_inviteeIds dto) w))"

text \<open>\<^verbatim>\<open>validateAccept\<close> returns the payload and an error to throw; an exception of \<^verbatim>\<open>verify\<close> passes
  through it.\<close>

definition validateAccept ::
  "InvitationPayload verifier \<Rightarrow> string \<Rightarrow> string \<Rightarrow> string \<Rightarrow> InvitationPayload result" where
  "validateAccept verify secret inviteeId token =
     (case verify token secret of
        None \<Rightarrow> Inl (LibErr ''JsonWebTokenError'')
      | Some payload \<Rightarrow>
          if inviteeId \<noteq> iv_inviteeId (sp_data payload) then Inl (BadRequest ''INVALID_INVITATION_TOKEN'')
          else Inr (sp_data payload))"

definition acceptInvitation ::
  "InvitationPayload verifier \<Rightarrow> string \<Rightarrow> string \<Rightarrow> string \<Rightarrow> 'a wsvc_scheme \<Rightarrow>
   string option result \<times> 'a wsvc_scheme" where
  "acceptInvitation verify secret inviteeId token w =
     (case validateAccept verify secret inviteeId token of
        Inl e \<Rightarrow> (Inl e, w)
      | Inr data \<Rightarrow>
          (case findOne_workspace (iv_workspaceUUID data) w of
             None \<Rightarrow> (Inl TypeErr, w)
           | Some wrspc \<Rightarrow>
               (let members = map m_userId (find_memberships (w_id wrspc) w)
                in case findOne_workspace (iv_workspaceUUID data) w of
                     None \<Rightarrow> (Inl (NotFound ''WORKSPACE_NOT_FOUND''), w)
                   | Some workspace \<Rightarrow>
                       (case save_membership
                               (setData \<lparr>md_workspaceId = Some (w_id workspace),
                                         md_userId = Some (iv_inviteeId data),
                                         md_role = Some ''member''\<rparr> new_Membership) w of
                          (Inl e, w1) \<Rightarrow> (Inl e, w1)
                        | (Inr row, w1) \<Rightarrow>
                            (let (meta, w2) = createMessage (iv_inviteeId data) '''' w1;
                                 w3 = emit w2 [Rmq_read meta (iv_inviteeId data) (iv_notificationId data)];
                                 w4 = emit w3 (concat (map (sends_to ''workspace''
                                        (Members_modified (w_uuid workspace)) w3) members))
                             in (Inr (iv_sshKey data), w4))))))"

definition ignoreInvitation ::
  "InvitationPayload verifier \<Rightarrow> string \<Rightarrow> string \<Rightarrow> string \<Rightarrow> 'a wsvc_scheme \<Rightarrow>
   unit result \<times> 'a wsvc_scheme" where
  "ignoreInvitation verify secret inviteeId token w =
     (case validateAccept verify secret inviteeId token of
        Inl e \<Rightarrow> (Inl e, w)
      | Inr data \<Rightarrow>
          (let (meta, w1) = createMessage (iv_inviteeId data) '''' w
           in (Inr (), emit w1 [Rmq_read meta (iv_inviteeId data) (iv_notificationId data)])))"

section \<open>Who may invite\<close>

definition may_manage :: "string \<Rightarrow> string \<Rightarrow> 'a wsvc_scheme \<Rightarrow> bool" where
  "may_manage uid uuid w \<longleftrightarrow>
     (\<exists>ws \<in> set (workspaces w). \<exists>m \<in> set (memberships w).
        w_uuid ws = uuid \<and> m_pk m = (w_id ws, uid) \<and> m_role m \<noteq> ''member'')"

lemma validateInvite_None_iff:
  assumes "db_wf w"
  shows "validateInvite uid uuid w = None \<longleftrightarrow> may_manage uid uuid w"
proof
  assume "validateInvite uid uuid w = None"
  then show "may_manage uid uuid w"
    by (auto simp: validateInvite_def may_manage_def role_below_iff split: option.splits if_splits
        dest!: findOne_workspaceD findOne_membershipD)
next
  assume "may_manage uid uuid w"
  then obtain ws m where "ws \<in> set (workspaces w)" "m \<in> set (memberships w)" "w_uuid ws = uuid"
      "m_workspaceId m = w_id ws" "m_userId m = uid" "m_role m \<noteq> ''member''"
    by (auto simp: may_manage_def)
  then show "validateInvite uid uuid w = None"
    using findOne_workspace_mem [OF assms, of ws] findOne_membership_mem [OF assms, of m]
    by (simp add: validateInvite_def role_below_iff)
qed

text \<open>The signed content of an invitation sent in state \<open>w\<close>.\<close>

definition invitation_of ::
  "string \<Rightarrow> InviteDTO \<Rightarrow> 'a wsvc_scheme \<Rightarrow> InvitationPayload ServicePayload" where
  "invitation_of inviterId dto w =
     \<lparr>sp_sub = i_workspaceUUID dto, sp_aud = ''client'', sp_iss = ''workspace-api'',
      sp_data = \<lparr>iv_notificationId = uuids w (uuidc w), iv_inviterId = inviterId,
                 iv_inviteeId = i_inviteeId dto, iv_workspaceUUID = i_workspaceUUID dto,
                 iv_validTill = add_days (clock w) 7, iv_sshKey = i_sshKey dto\<rparr>\<rparr>"

lemma inviteUser_sends:
  "inviteUser sign secret inviterId dto False w =
     (Inr (), emit (w\<lparr>uuidc := Suc (Suc (uuidc w))\<rparr>)
        [Rmq_notify \<lparr>mm_uid = i_inviteeId dto, mm_route = '''', mm_requestId = uuids w (Suc (uuidc w)),
                     mm_timestamp = perf w\<rparr> (i_inviteeId dto)
           \<lparr>nt_type = Workspace_invite, nt_id = uuids w (uuidc w), nt_createdOn = IsoText (clock w),
            nt_actedOn = None, nt_fields = WorkspaceInvite inviterId (i_workspaceUUID dto)
              (sign (invitation_of inviterId dto w) secret)\<rparr>])"
  by (simp add: inviteUser_def Let_def randomUUID_def createMessage_def invitation_of_def)

lemma inviteUser_validated:
  "validateInvite inviterId (i_workspaceUUID dto) w = None \<Longrightarrow>
     inviteUser sign secret inviterId dto True w = inviteUser sign secret inviterId dto False w"
  by (simp add: inviteUser_def)

lemma inviteUser_unvalidated_frame:
  assumes "inviteUser sign secret inviterId dto False w = (x, w')"
  shows "x = Inr ()" "same_tables w' w" "cache w' = cache w" "clock w' = clock w" "uuids w' = uuids w"
    "db_uuids w' = db_uuids w"
  using assms
  by (auto simp: inviteUser_def Let_def randomUUID_def createMessage_def emit_def same_tables_def)

text \<open>The invitations a call sends: one per invitee, in order, and nothing else.\<close>

definition is_invite_to :: "string \<Rightarrow> string \<Rightarrow> string \<Rightarrow> emission \<Rightarrow> bool" where
  "is_invite_to inviterId uuid invitee e =
     (case e of Rmq_notify meta u n \<Rightarrow> u = invitee \<and> mm_uid meta = invitee \<and>
        nt_type n = Workspace_invite \<and> (\<exists>jwt. nt_fields n = WorkspaceInvite inviterId uuid jwt)
      | _ \<Rightarrow> False)"

lemma invite_fold:
  "let w' = fold (\<lambda>inviteeId w. snd (inviteUser sign secret inviterId
              \<lparr>i_inviteeId = inviteeId, i_workspaceUUID = uuid, i_sshKey = key\<rparr> False w)) ids w
   in same_tables w' w \<and> cache w' = cache w \<and> clock w' = clock w \<and>
      (\<exists>es. out w' = out w @ es \<and> list_all2 (is_invite_to inviterId uuid) ids es)"
proof (induction ids arbitrary: w)
  case (Cons i ids)
  let ?dto = "\<lparr>i_inviteeId = i, i_workspaceUUID = uuid, i_sshKey = key\<rparr>"
  let ?w = "snd (inviteUser sign secret inviterId ?dto False w)"
  obtain e where out: "out ?w = out w @ [e]" and e: "is_invite_to inviterId uuid i e"
    by (auto simp: inviteUser_def Let_def randomUUID_def createMessage_def emit_def is_invite_to_def)
  have fr: "same_tables ?w w" "cache ?w = cache w" "clock ?w = clock w"
    using inviteUser_unvalidated_frame [of sign secret inviterId ?dto w] by (metis prod.collapse)+
  from Cons.IH [of ?w] obtain es where
      "out (fold (\<lambda>inviteeId w. snd (inviteUser sign secret inviterId
              \<lparr>i_inviteeId = inviteeId, i_workspaceUUID = uuid, i_sshKey = key\<rparr> False w)) ids ?w)
        = out ?w @ es" "list_all2 (is_invite_to inviterId uuid) ids es"
    by (auto simp: Let_def)
  with Cons.IH [of ?w] out e fr show ?case
    by (auto simp: Let_def intro: same_tables_trans intro!: exI [of _ "e # es"])
qed (simp add: Let_def)

lemma inviteAllUsers_Inl: "inviteAllUsers sign secret u dto w = (Inl e, w') \<Longrightarrow> w' = w"
  by (auto simp: inviteAllUsers_def split: option.splits)

lemma inviteAllUsers_Inr:
  assumes "inviteAllUsers sign secret u dto w = (Inr x, w')"
  shows "same_tables w' w" "cache w' = cache w" "clock w' = clock w"
    "\<exists>es. out w' = out w @ es \<and> list_all2 (is_invite_to u (ia_workspaceUUID dto)) (ia_inviteeIds dto) es"
  using assms invite_fold [of sign secret u "ia_workspaceUUID dto" "ia_sshKey dto" "ia_inviteeIds dto" w]
  by (auto simp: inviteAllUsers_def Let_def split: option.splits)

lemma inviteAllUsers_ok_iff:
  "db_wf w \<Longrightarrow> isOk (inviteAllUsers sign secret u dto w) \<longleftrightarrow> may_manage u (ia_workspaceUUID dto) w"
  by (auto simp: inviteAllUsers_def isOk_def validateInvite_None_iff [symmetric] split: option.splits)

section \<open>Accepting\<close>

lemma accept_Inr:
  assumes "acceptInvitation verify secret inviteeId token w = (Inr key, w')"
  shows "\<exists>p ws r v. verify token secret = Some p \<and> iv_inviteeId (sp_data p) = inviteeId \<and>
    key = iv_sshKey (sp_data p) \<and> findOne_workspace (iv_workspaceUUID (sp_data p)) w = Some ws \<and>
    save_membership (setData \<lparr>md_workspaceId = Some (w_id ws), md_userId = Some inviteeId,
        md_role = Some ''member''\<rparr> new_Membership) w = (Inr r, v) \<and> same_tables w' v"
  using assms
  by (auto simp: acceptInvitation_def validateAccept_def Let_def createMessage_def randomUUID_def
      emit_def same_tables_def split: option.splits if_splits sum.splits prod.splits)

lemma accept_Inl:
  "acceptInvitation verify secret inviteeId token w = (Inl e, w') \<Longrightarrow> w' = w"
  by (auto simp: acceptInvitation_def Let_def split: option.splits sum.splits prod.splits
      dest: save_membership_Inl)

lemma accept_wf:
  assumes "db_wf w" "acceptInvitation verify secret inviteeId token w = (x, w')"
  shows "db_wf w'"
proof (cases x)
  case (Inl e)
  with assms show ?thesis by (auto dest: accept_Inl)
next
  case (Inr key)
  with assms(2) have "acceptInvitation verify secret inviteeId token w = (Inr key, w')" by simp
  from accept_Inr [OF this] obtain d r v where "save_membership d w = (Inr r, v)" "same_tables w' v"
    by blast
  with save_membership_wf [OF assms(1)] db_wf_cong show ?thesis by blast
qed

text \<open>The membership table after an accepted invitation: the row of the invitee has the role
  \<open>member\<close>, every other row is as before.\<close>

definition member_added :: "int \<Rightarrow> string \<Rightarrow> 'a wsvc_scheme \<Rightarrow> 'a wsvc_scheme \<Rightarrow> bool" where
  "member_added i uid w w' \<longleftrightarrow>
     (\<exists>m \<in> set (memberships w'). m_pk m = (i, uid)) \<and>
     (\<forall>m \<in> set (memberships w'). m_pk m = (i, uid) \<longrightarrow> m_role m = ''member'') \<and>
     (\<forall>m. m_pk m \<noteq> (i, uid) \<longrightarrow> (m \<in> set (memberships w') \<longleftrightarrow> m \<in> set (memberships w))) \<and>
     workspaces w' = workspaces w \<and> codes w' = codes w"

lemma member_addedI:
  assumes "\<And>x. x \<in> set (memberships w') \<longleftrightarrow> (if m_pk x = (i, uid) then x = r else x \<in> set (memberships w))"
    "m_pk r = (i, uid)" "m_role r = ''member''" "workspaces w' = workspaces w" "codes w' = codes w"
  shows "member_added i uid w w'"
proof -
  have "r \<in> set (memberships w')" using assms(1) [of r] assms(2) by simp
  moreover have "m = r" if "m \<in> set (memberships w')" "m_pk m = (i, uid)" for m
    using assms(1) [of m] that by simp
  moreover have "m \<in> set (memberships w') \<longleftrightarrow> m \<in> set (memberships w)" if "m_pk m \<noteq> (i, uid)" for m
    using assms(1) [of m] that by auto
  ultimately show ?thesis unfolding member_added_def using assms(2-) by blast
qed

lemma save_membership_added:
  assumes "save_membership (setData \<lparr>md_workspaceId = Some i, md_userId = Some uid,
      md_role = Some ''member''\<rparr> new_Membership) w = (Inr r, w')"
  shows "member_added i uid w w'"
proof -
  note r = save_membership_Inr [OF assms]
  from r(1,2) have pk: "m_pk r = (i, uid)"
    by (auto simp: setData_def new_Membership_def split: if_splits)
  have role: "m_role r = ''member''" using r(4) by (auto simp: setData_def)
  from r(4) show ?thesis
  proof (elim disjE bexE conjE)
    fix old assume "old \<in> set (memberships w)" "m_pk old = m_pk r"
      and w': "w' = w\<lparr>memberships := replace_by m_pk r (memberships w)\<rparr>"
    then have ex: "\<exists>y \<in> set (memberships w). m_pk y = m_pk r" by blast
    have w1: "memberships w' = replace_by m_pk r (memberships w)" by (simp add: w')
    have "x \<in> set (memberships w') \<longleftrightarrow> (if m_pk x = (i, uid) then x = r else x \<in> set (memberships w))" for x
      unfolding w1 set_replace_by pk [symmetric] using ex by (simp only: simp_thms)
    moreover have "workspaces w' = workspaces w" "codes w' = codes w" by (simp_all add: w')
    ultimately show ?thesis using pk role by (intro member_addedI [of _ _ _ r])
  next
    assume new: "m_pk r \<notin> m_pk ` set (memberships w)"
      and w': "w' = w\<lparr>memberships := memberships w @ [r]\<rparr>"
    have w1: "x \<in> set (memberships w') \<longleftrightarrow> x = r \<or> x \<in> set (memberships w)" for x
      by (auto simp: w')
    have "x \<in> set (memberships w') \<longleftrightarrow> (if m_pk x = (i, uid) then x = r else x \<in> set (memberships w))" for x
    proof (cases "m_pk x = m_pk r")
      case True
      with new have "x \<notin> set (memberships w)" by (auto simp: image_iff)
      with True pk w1 show ?thesis by presburger
    next
      case False
      then have "x \<noteq> r" by blast
      with False pk w1 show ?thesis by presburger
    qed
    moreover have "workspaces w' = workspaces w" "codes w' = codes w" by (simp_all add: w')
    ultimately show ?thesis using pk role by (intro member_addedI [of _ _ _ r])
  qed
qed

lemma member_added_cong:
  "member_added i uid w v \<Longrightarrow> same_tables w' v \<Longrightarrow> member_added i uid w w'"
  by (simp add: member_added_def same_tables_def)

lemma accept_member:
  assumes "acceptInvitation verify secret inviteeId token w = (Inr key, w')"
  shows "\<exists>p ws. verify token secret = Some p \<and> iv_inviteeId (sp_data p) = inviteeId \<and>
    findOne_workspace (iv_workspaceUUID (sp_data p)) w = Some ws \<and>
    member_added (w_id ws) inviteeId w w'"
proof -
  from accept_Inr [OF assms] obtain p ws r v where p: "verify token secret = Some p"
      "iv_inviteeId (sp_data p) = inviteeId" "findOne_workspace (iv_workspaceUUID (sp_data p)) w = Some ws"
    and s: "save_membership (setData \<lparr>md_workspaceId = Some (w_id ws), md_userId = Some inviteeId,
        md_role = Some ''member''\<rparr> new_Membership) w = (Inr r, v)" "same_tables w' v" by blast
  have "member_added (w_id ws) inviteeId w w'"
    by (rule member_added_cong [OF save_membership_added [OF s(1)] s(2)])
  with p show ?thesis by blast
qed

lemma save_membership_ok:
  assumes "ws \<in> set (workspaces w)" "w_id ws \<noteq> 0" "uid \<noteq> []" "length uid \<le> 64"
  shows "\<exists>r w'. save_membership (setData \<lparr>md_workspaceId = Some (w_id ws), md_userId = Some uid,
      md_role = Some ''member''\<rparr> new_Membership) w = (Inr r, w')"
proof (cases "findOne_membership (w_id ws) uid w")
  case (Some old)
  then have "m_userId old = uid" by (auto dest: findOne_membershipD)
  with Some assms show ?thesis
    by (simp add: save_membership_def setData_def truthy_def membership_row_ok_def Let_def)
next
  case None
  with assms show ?thesis
    by (simp add: save_membership_def setData_def truthy_def membership_row_ok_def Let_def)
qed

text \<open>Whether an acceptance succeeds: a valid token for this user and an existing workspace are
  enough; the time at which it happens and the age of the token play no part.\<close>

lemma accept_succeeds:
  assumes "db_wf w" "verify token secret = Some p" "iv_inviteeId (sp_data p) = inviteeId"
    "findOne_workspace (iv_workspaceUUID (sp_data p)) w = Some ws" "inviteeId \<noteq> []" "length inviteeId \<le> 64"
  shows "fst (acceptInvitation verify secret inviteeId token w) = Inr (iv_sshKey (sp_data p))"
proof -
  have ws: "ws \<in> set (workspaces w)" using assms(4) by (auto dest: findOne_workspaceD)
  with assms(1) have "w_id ws \<noteq> 0" by (force simp: db_defs)
  from save_membership_ok [OF ws this assms(5,6)] obtain r v where
    "save_membership (setData \<lparr>md_workspaceId = Some (w_id ws), md_userId = Some inviteeId,
        md_role = Some ''member''\<rparr> new_Membership) w = (Inr r, v)" by blast
  with assms(2-4) show ?thesis
    by (simp add: acceptInvitation_def validateAccept_def Let_def split_beta)
qed

end
