(* ===== verification/Js_Regex.thy ===== *)
theory Js_Regex
  imports Js_Prelude
begin

text \<open>
  The regular expressions of the services. An expression is data (\<open>rx\<close>), \<open>rx_test\<close> decides
  \<^verbatim>\<open>/^...$/.test(s)\<close> by derivatives, and \<open>rx_lang\<close> is the reference meaning: the least
  relation closed under the usual rules. \<open>rx_test_iff\<close> shows that the two agree; the
  characterisations of the user, workspace and e-mail patterns that the services need follow
  from the rules of the language alone.
\<close>

section \<open>Expressions, derivatives and the language\<close>

datatype rx = RxNone | RxEps | RxChr "char \<Rightarrow> bool" | RxSeq rx rx | RxAlt rx rx | RxStar rx

fun rx_null :: "rx \<Rightarrow> bool" where
  "rx_null RxNone = False"
| "rx_null RxEps = True"
| "rx_null (RxChr p) = False"
| "rx_null (RxSeq r s) = (rx_null r \<and> rx_null s)"
| "rx_null (RxAlt r s) = (rx_null r \<or> rx_null s)"
| "rx_null (RxStar r) = True"

fun rx_deriv :: "char \<Rightarrow> rx \<Rightarrow> rx" where
  "rx_deriv c RxNone = RxNone"
| "rx_deriv c RxEps = RxNone"
| "rx_deriv c (RxChr p) = (if p c then RxEps else RxNone)"
| "rx_deriv c (RxSeq r s) =
     (if rx_null r then RxAlt (RxSeq (rx_deriv c r) s) (rx_deriv c s)
      else RxSeq (rx_deriv c r) s)"
| "rx_deriv c (RxAlt r s) = RxAlt (rx_deriv c r) (rx_deriv c s)"
| "rx_deriv c (RxStar r) = RxSeq (rx_deriv c r) (RxStar r)"

fun rx_test :: "rx \<Rightarrow> string \<Rightarrow> bool" where
  "rx_test r [] = rx_null r"
| "rx_test r (c # cs) = rx_test (rx_deriv c r) cs"

inductive rx_lang :: "rx \<Rightarrow> string \<Rightarrow> bool" where
  eps: "rx_lang RxEps []"
| chr: "p c \<Longrightarrow> rx_lang (RxChr p) [c]"
| seq: "rx_lang r s \<Longrightarrow> rx_lang r' s' \<Longrightarrow> rx_lang (RxSeq r r') (s @ s')"
| alt1: "rx_lang r s \<Longrightarrow> rx_lang (RxAlt r r') s"
| alt2: "rx_lang r' s \<Longrightarrow> rx_lang (RxAlt r r') s"
| star0: "rx_lang (RxStar r) []"
| star1: "rx_lang r s \<Longrightarrow> rx_lang (RxStar r) s' \<Longrightarrow> rx_lang (RxStar r) (s @ s')"

inductive_cases rx_lang_NoneE [elim!]: "rx_lang RxNone s"
inductive_cases rx_lang_EpsE [elim!]: "rx_lang RxEps s"
inductive_cases rx_lang_ChrE [elim!]: "rx_lang (RxChr p) s"
inductive_cases rx_lang_SeqE [elim!]: "rx_lang (RxSeq r r') s"
inductive_cases rx_lang_AltE [elim!]: "rx_lang (RxAlt r r') s"
inductive_cases rx_lang_StarE: "rx_lang (RxStar r) s"

lemma rx_null_iff: "rx_null r \<longleftrightarrow> rx_lang r []"
  by (induction r) (auto intro: rx_lang.intros, metis append_Nil rx_lang.seq)

lemma rx_star_Cons:
  assumes "rx_lang (RxStar r) (c # cs)"
  shows "\<exists>s s'. cs = s @ s' \<and> rx_lang r (c # s) \<and> rx_lang (RxStar r) s'"
  using assms
proof (induction "RxStar r" "c # cs" arbitrary: cs rule: rx_lang.induct)
  case (star1 s s')
  show ?case
  proof (cases s)
    case Nil
    with star1.hyps(4,5) show ?thesis by simp
  next
    case (Cons d t)
    with star1.hyps(1,3,5) show ?thesis by auto
  qed
qed

lemma rx_deriv_iff: "rx_lang (rx_deriv c r) s \<longleftrightarrow> rx_lang r (c # s)"
proof (induction r arbitrary: s)
  case (RxSeq r1 r2)
  show ?case
  proof
    assume "rx_lang (rx_deriv c (RxSeq r1 r2)) s"
    then consider t u where "s = t @ u" "rx_lang (rx_deriv c r1) t" "rx_lang r2 u"
      | "rx_null r1" "rx_lang (rx_deriv c r2) s"
      by (auto split: if_splits)
    then show "rx_lang (RxSeq r1 r2) (c # s)"
    proof cases
      case 1
      with RxSeq.IH(1) have "rx_lang (RxSeq r1 r2) ((c # t) @ u)" by (blast intro: rx_lang.seq)
      with 1 show ?thesis by simp
    next
      case 2
      with RxSeq.IH(2) have "rx_lang (RxSeq r1 r2) ([] @ c # s)"
        by (blast intro: rx_lang.seq dest: rx_null_iff [THEN iffD1])
      then show ?thesis by simp
    qed
  next
    assume "rx_lang (RxSeq r1 r2) (c # s)"
    then obtain t u where tu: "c # s = t @ u" "rx_lang r1 t" "rx_lang r2 u" by auto
    show "rx_lang (rx_deriv c (RxSeq r1 r2)) s"
    proof (cases t)
      case Nil
      with tu RxSeq.IH(2) show ?thesis by (auto simp: rx_null_iff intro: rx_lang.intros)
    next
      case (Cons d t')
      with tu RxSeq.IH(1) show ?thesis by (auto intro: rx_lang.intros)
    qed
  qed
next
  case (RxStar r)
  show ?case
  proof
    assume "rx_lang (rx_deriv c (RxStar r)) s"
    then obtain t u where "s = t @ u" "rx_lang r (c # t)" "rx_lang (RxStar r) u"
      using RxStar.IH by auto
    then show "rx_lang (RxStar r) (c # s)" using rx_lang.star1 [of r "c # t" u] by simp
  next
    assume "rx_lang (RxStar r) (c # s)"
    then show "rx_lang (rx_deriv c (RxStar r)) s"
      using RxStar.IH by (auto dest!: rx_star_Cons intro: rx_lang.seq)
  qed
qed (auto intro: rx_lang.intros split: if_splits)

theorem rx_test_iff: "rx_test r s \<longleftrightarrow> rx_lang r s"
  by (induction s arbitrary: r) (simp_all add: rx_null_iff rx_deriv_iff)

section \<open>Derived forms\<close>

text \<open>\<^verbatim>\<open>r{n,}\<close>, \<^verbatim>\<open>r+\<close>, the dot (any character but a line terminator) and white space.\<close>

primrec rx_at_least :: "nat \<Rightarrow> rx \<Rightarrow> rx" where
  "rx_at_least 0 r = RxStar r"
| "rx_at_least (Suc n) r = RxSeq r (rx_at_least n r)"

abbreviation rx_plus :: "rx \<Rightarrow> rx" where
  "rx_plus \<equiv> rx_at_least 1"

definition rx_dot :: rx where
  "rx_dot = RxChr (\<lambda>c. c \<noteq> CHR 0x0A \<and> c \<noteq> CHR 0x0D)"

lemma rx_star_chr_iff: "rx_lang (RxStar (RxChr p)) s \<longleftrightarrow> list_all p s"
proof
  show "rx_lang (RxStar (RxChr p)) s \<Longrightarrow> list_all p s"
    by (induction "RxStar (RxChr p)" s rule: rx_lang.induct) auto
  show "list_all p s \<Longrightarrow> rx_lang (RxStar (RxChr p)) s"
  proof (induction s)
    case (Cons c s)
    then show ?case using rx_lang.star1 [OF rx_lang.chr, of p c s] by simp
  qed (simp add: rx_lang.star0)
qed

lemma rx_seq_iff: "rx_lang (RxSeq r r') s \<longleftrightarrow> (\<exists>t u. s = t @ u \<and> rx_lang r t \<and> rx_lang r' u)"
  by (auto intro: rx_lang.seq)

lemma rx_chr_iff: "rx_lang (RxChr p) s \<longleftrightarrow> (\<exists>c. s = [c] \<and> p c)"
  by (auto intro: rx_lang.chr)

lemma rx_seq_chr_iff:
  "rx_lang (RxSeq (RxChr p) r) s \<longleftrightarrow> (\<exists>c cs. s = c # cs \<and> p c \<and> rx_lang r cs)"
proof
  assume "rx_lang (RxSeq (RxChr p) r) s"
  then show "\<exists>c cs. s = c # cs \<and> p c \<and> rx_lang r cs" by auto
next
  assume "\<exists>c cs. s = c # cs \<and> p c \<and> rx_lang r cs"
  then obtain c cs where s: "s = [c] @ cs" and "p c" "rx_lang r cs" by auto
  then show "rx_lang (RxSeq (RxChr p) r) s"
    unfolding s by (intro rx_lang.seq rx_lang.chr)
qed

lemma rx_at_least_chr_iff: "rx_lang (rx_at_least n (RxChr p)) s \<longleftrightarrow> n \<le> length s \<and> list_all p s"
proof (induction n arbitrary: s)
  case 0
  then show ?case by (simp add: rx_star_chr_iff)
next
  case (Suc n)
  then show ?case by (cases s) (auto simp: rx_seq_chr_iff)
qed

lemmas rx_iffs = rx_seq_iff rx_chr_iff rx_star_chr_iff rx_at_least_chr_iff

section \<open>The patterns of the services\<close>

text \<open>The characters that the name and user name classes exclude.\<close>

definition excluded :: string where
  "excluded = ''!@#$%^&'' @ [CHR 0x2A, CHR 0x28, CHR 0x29] @ ''+={}[]'' @ [CHR 0x60] @ ''~:;'' @ [CHR 0x22] @ ''?/<>''"

definition nameRegex :: rx where
  "nameRegex = RxSeq rx_dot (rx_at_least 3 (RxChr (\<lambda>c. c \<notin> set excluded)))"

definition usernameRegex :: rx where
  "usernameRegex = rx_at_least 3 (RxChr (\<lambda>c. c \<notin> set excluded \<and> \<not> js_space c))"

definition emailRegex :: rx where
  "emailRegex =
     RxSeq (rx_plus (RxChr (\<lambda>c. \<not> js_space c \<and> c \<noteq> CHR ''@'')))
       (RxSeq (RxChr (\<lambda>c. c = CHR ''@''))
         (RxSeq (rx_plus (RxChr (\<lambda>c. \<not> js_space c \<and> c \<noteq> CHR ''@'')))
           (RxSeq (RxChr (\<lambda>c. c = CHR ''.''))
             (rx_plus (RxChr (\<lambda>c. \<not> js_space c \<and> c \<noteq> CHR ''@''))))))"

lemma nameRegex_iff:
  "rx_test nameRegex s \<longleftrightarrow>
     (\<exists>c cs. s = c # cs \<and> c \<noteq> CHR 0x0A \<and> c \<noteq> CHR 0x0D \<and> 3 \<le> length cs \<and>
        list_all (\<lambda>x. x \<notin> set excluded) cs)"
  by (simp only: rx_test_iff nameRegex_def rx_dot_def rx_seq_chr_iff rx_at_least_chr_iff) auto

lemma usernameRegex_iff:
  "rx_test usernameRegex s \<longleftrightarrow>
     3 \<le> length s \<and> list_all (\<lambda>c. c \<notin> set excluded \<and> \<not> js_space c) s"
  by (simp only: rx_test_iff usernameRegex_def rx_iffs)

lemma emailRegex_iff:
  "rx_test emailRegex s \<longleftrightarrow>
     (\<exists>l d t. s = l @ CHR ''@'' # d @ CHR ''.'' # t \<and> l \<noteq> [] \<and> d \<noteq> [] \<and> t \<noteq> [] \<and>
        list_all (\<lambda>c. \<not> js_space c \<and> c \<noteq> CHR ''@'') (l @ d @ t))"
proof -
  let ?ok = "\<lambda>c. \<not> js_space c \<and> c \<noteq> CHR ''@''"
  have plus: "rx_lang (rx_plus (RxChr ?ok)) x \<longleftrightarrow> x \<noteq> [] \<and> list_all ?ok x" for x
    by (cases x) (simp_all only: rx_at_least_chr_iff, simp_all)
  have tail: "rx_lang (RxSeq (RxChr (\<lambda>c. c = CHR ''.'')) (rx_plus (RxChr ?ok))) x \<longleftrightarrow>
      (\<exists>t. x = CHR ''.'' # t \<and> t \<noteq> [] \<and> list_all ?ok t)" for x
    by (simp only: rx_seq_chr_iff plus) blast
  have host: "rx_lang (RxSeq (rx_plus (RxChr ?ok))
        (RxSeq (RxChr (\<lambda>c. c = CHR ''.'')) (rx_plus (RxChr ?ok)))) x \<longleftrightarrow>
      (\<exists>d t. x = d @ CHR ''.'' # t \<and> d \<noteq> [] \<and> t \<noteq> [] \<and> list_all ?ok d \<and> list_all ?ok t)" for x
    by (simp only: rx_seq_iff [of "rx_plus (RxChr ?ok)"] plus tail) blast
  show ?thesis
    unfolding rx_test_iff emailRegex_def
    by (subst rx_seq_iff) (simp only: rx_seq_chr_iff plus host list_all_append, blast)
qed

lemma nameRegex_length: "rx_test nameRegex s \<Longrightarrow> 4 \<le> length s"
  by (auto simp: nameRegex_iff)

end
