(* ===== verification/Manage_Workspace.thy ===== *)
theory Manage_Workspace
  imports Invite_Service Js_Regex
begin

text \<open>
  Workspaces and their members (the first half of \<^verbatim>\<open>workspace/src/manage/manage.service.ts\<close>): creating,
  updating, listing and deleting workspaces, the membership check the gateway asks for, and what
  happens to the workspaces of a deleted user. The replies of other services (\<open>profile_rpc\<close>, the
  NATS request \<^verbatim>\<open>user.profile\<close>; \<open>users_all\<close>, the HTTP request to the user service) are arguments.
\<close>

section \<open>Creating\<close>

record MembershipDTO = Membership +
  md_name :: "string option"
  md_username :: "string option"
  md_picture :: "string option"

record WorkspaceDTO =
  wd_workspace :: Workspace
  wd_memberships :: "MembershipDTO list"

definition with_profile :: "Membership \<Rightarrow> user_profile option \<Rightarrow> MembershipDTO" where
  "with_profile m p =
     Membership.extend m
       (case p of None \<Rightarrow> \<lparr>md_name = None, md_username = None, md_picture = None\<rparr>
        | Some u \<Rightarrow> \<lparr>md_name = up_name u, md_username = up_username u, md_picture = up_picture u\<rparr>)"

definition validateCreation :: "string option \<Rightarrow> string option" where
  "validateCreation name =
     (if \<not> truthy name \<or> \<not> rx_test nameRegex (js_str name) then Some ''INVALID_WORKSPACE_NAME'' else None)"

text \<open>The statements of the transaction.\<close>

definition create_tx ::
  "(string \<Rightarrow> user_profile result) \<Rightarrow> string \<Rightarrow> WorkspaceDraft \<Rightarrow> 'a wsvc_scheme \<Rightarrow>
   WorkspaceDTO result \<times> 'a wsvc_scheme" where
  "create_tx profile_rpc uid data w =
     (case insert_workspace (new_Workspace (data\<lparr>d_status := Some READY\<rparr>)) w of
        (Inl e, w1) \<Rightarrow> (Inl e, w1)
      | (Inr savedWorkspace, w1) \<Rightarrow>
          (case save_membership
                  (setData \<lparr>md_workspaceId = Some (w_id savedWorkspace), md_userId = Some uid,
                            md_role = Some ''owner''\<rparr> new_Membership) w1 of
             (Inl e, w2) \<Rightarrow> (Inl e, w2)
           | (Inr savedMembership, w2) \<Rightarrow>
               (case profile_rpc uid of
                  Inl e \<Rightarrow> (Inl e, w2)
                | Inr profile \<Rightarrow>
                    (Inr \<lparr>wd_workspace = savedWorkspace,
                          wd_memberships = [with_profile savedMembership (Some profile)]\<rparr>, w2))))"

definition createWorkspace ::
  "(string \<Rightarrow> user_profile result) \<Rightarrow> string \<Rightarrow> WorkspaceDraft \<Rightarrow> 'a wsvc_scheme \<Rightarrow>
   WorkspaceDTO result \<times> 'a wsvc_scheme" where
  "createWorkspace profile_rpc uid data w =
     (case validateCreation (d_name data) of
        Some e \<Rightarrow> (Inl (BadRequest e), w)
      | None \<Rightarrow> in_transaction (create_tx profile_rpc uid data) w)"

section \<open>Updating\<close>

record UpdateDTO =
  u_id :: "int option"
  u_name :: "string option"
  u_description :: "string option"
  u_members :: "string list option"
  u_sshKey :: "string option"

definition notify_removed :: "string \<Rightarrow> Workspace \<Rightarrow> string \<Rightarrow> 'a wsvc_scheme \<Rightarrow> 'a wsvc_scheme" where
  "notify_removed actor workspace removedUid w =
     (let (nid, w1) = randomUUID w;
          (meta, w2) = createMessage removedUid '''' w1
      in emit w2 [Rmq_notify meta removedUid
           \<lparr>nt_type = Workspace_membership_removed, nt_id = nid, nt_createdOn = IsoText (clock w),
            nt_actedOn = None,
            nt_fields = ExclusionData actor (w_uuid workspace) (w_name workspace)\<rparr>])"

definition updateMembers ::
  "InvitationPayload signer \<Rightarrow> string \<Rightarrow> string \<Rightarrow> Workspace \<Rightarrow> string list \<Rightarrow> string list \<Rightarrow>
   string option \<Rightarrow> 'a wsvc_scheme \<Rightarrow> unit result \<times> 'a wsvc_scheme" where
  "updateMembers sign secret uid workspace added removed sshKey w =
     (let members = map m_userId (find_memberships (w_id workspace) w);
          w1 = fold (\<lambda>u w. delete_memberships (\<lambda>m. m_pk m = (w_id workspace, u)) w) removed w;
          w2 = fold (notify_removed uid workspace) removed w1
      in case inviteAllUsers sign secret uid
                \<lparr>ia_inviteeIds = added, ia_workspaceUUID = w_uuid workspace, ia_sshKey = sshKey\<rparr> w2 of
           (Inl e, w3) \<Rightarrow> (Inl e, w3)
         | (Inr _, w3) \<Rightarrow>
             (let w4 = (if removed \<noteq> [] then
                          (let mbrsToNotify = filter (\<lambda>u. u \<notin> set removed) (js_set members)
                           in emit w3 (concat (map (sends_to ''workspace''
                                (Members_modified (w_uuid workspace)) w3) mbrsToNotify)))
                        else w3)
              in (Inr (), emit w4 [Ev_members_modified (w_uuid workspace) added removed])))"

text \<open>The assignments to the loaded workspace, and the two lists computed from the requested members.\<close>

definition update_target :: "UpdateDTO \<Rightarrow> Workspace \<Rightarrow> Workspace" where
  "update_target data found =
     (let named = (if truthy (u_name data) then found\<lparr>w_name := js_str (u_name data)\<rparr> else found)
      in case u_description data of None \<Rightarrow> named | Some t \<Rightarrow> named\<lparr>w_description := t\<rparr>)"

definition update_diff :: "int \<Rightarrow> string list \<Rightarrow> 'a wsvc_scheme \<Rightarrow> string list \<times> string list" where
  "update_diff i reqs w =
     (let members = map m_userId (find_memberships i w);
          reqMembers = js_set reqs;
          actMembers = js_set members
      in (filter (\<lambda>u. u \<notin> set actMembers) reqMembers, filter (\<lambda>u. u \<notin> set reqMembers) actMembers))"

definition updateWorkspace ::
  "InvitationPayload signer \<Rightarrow> string \<Rightarrow> string \<Rightarrow> UpdateDTO \<Rightarrow> 'a wsvc_scheme \<Rightarrow>
   unit result \<times> 'a wsvc_scheme" where
  "updateWorkspace sign secret uid data w =
     (case u_id data of
        None \<Rightarrow> (Inl (BadRequest ''MISSING_WORKSPACE_ID''), w)
      | Some i \<Rightarrow>
          (case findOne_membership i uid w of
             None \<Rightarrow> (Inl (Forbidden ''NO_WORKSPACE_MEMBERSHIP''), w)
           | Some membership \<Rightarrow>
               if role_below (m_role membership) 1
               then (Inl (Unauthorized ''WORKSPACE_ACTION_NOT_AUTHORIZED''), w)
               else
                 (case findOne_workspace_id i w of
                    None \<Rightarrow> (Inl (NotFound ''WORKSPACE_NOT_FOUND''), w)
                  | Some found \<Rightarrow>
                      (case (if truthy (u_name data) then validateCreation (u_name data) else None) of
                         Some e \<Rightarrow> (Inl (BadRequest e), w)
                       | None \<Rightarrow>
                           (case (case u_members data of
                                    None \<Rightarrow> (Inr (), w)
                                  | Some reqs \<Rightarrow>
                                      (let (added, removed) = update_diff i reqs w
                                       in updateMembers sign secret uid (update_target data found)
                                            added removed (u_sshKey data) w)) of
                              (Inl e, w1) \<Rightarrow> (Inl e, w1)
                            | (Inr _, w1) \<Rightarrow> save_workspace (update_target data found) w1)))))"

definition updateWorkspaceStatus ::
  "string \<Rightarrow> WorkspaceStatus \<Rightarrow> 'a wsvc_scheme \<Rightarrow> unit result \<times> 'a wsvc_scheme" where
  "updateWorkspaceStatus uuid status w =
     (if uuid = [] then (Inl (BadRequest ''MISSING_WORKSPACE_UUID''), w)
      else case findOne_workspace uuid w of
             None \<Rightarrow> (Inl (NotFound ''WORKSPACE_NOT_FOUND''), w)
           | Some workspace \<Rightarrow> save_workspace (workspace\<lparr>w_status := status\<rparr>) w)"

section \<open>Reading\<close>

text \<open>The query \<^verbatim>\<open>innerJoin(memberships of the user) leftJoinAndSelect(memberships)\<close>: the workspaces
  the user is a member of, each with all its members.\<close>

definition joined_workspaces :: "string \<Rightarrow> 'a wsvc_scheme \<Rightarrow> (Workspace \<times> Membership list) list" where
  "joined_workspaces uid w =
     map (\<lambda>r. (r, find_memberships (w_id r) w))
       (filter (\<lambda>r. \<exists>m \<in> set (memberships w). m_pk m = (w_id r, uid)) (workspaces w))"

definition getAllWorkspaces ::
  "(string list \<Rightarrow> user_profile list result) \<Rightarrow> string \<Rightarrow> 'a wsvc_scheme \<Rightarrow>
   WorkspaceDTO list result \<times> 'a wsvc_scheme" where
  "getAllWorkspaces users_all uid w =
     (let rows = joined_workspaces uid w;
          userIds = concat (map (\<lambda>(r, ms). map m_userId ms) rows);
          w1 = emit w [Http_call ''POST'' ''http://user/api/all'']
      in case users_all userIds of
           Inl e \<Rightarrow> (Inl e, w1)
         | Inr profiles \<Rightarrow>
             (let profileMap = fold (\<lambda>p o'. ob_set o' (js_str (up_uid p)) p) profiles []
              in (Inr (map (\<lambda>(r, ms). \<lparr>wd_workspace = r,
                     wd_memberships = map (\<lambda>m. with_profile m (ob_get profileMap (m_userId m))) ms\<rparr>) rows),
                  w1)))"

definition isUserMemberOf :: "string \<Rightarrow> string \<Rightarrow> 'a wsvc_scheme \<Rightarrow> (string \<times> bool) result" where
  "isUserMemberOf uid workspaceUUID w =
     (case findOne_workspace workspaceUUID w of
        None \<Rightarrow> Inl (NotFound ''WORKSPACE_NOT_FOUND'')
      | Some workspace \<Rightarrow>
          (case findOne_membership (w_id workspace) uid w of
             None \<Rightarrow> Inl (Forbidden ''NO_WORKSPACE_MEMBERSHIP'')
           | Some membership \<Rightarrow> Inr (w_image workspace, w_dedicated workspace)))"

section \<open>Deleting\<close>

text \<open>The presence documents are all read before the loop; the loop closes, for every member, the
  first session that has the workspace open.\<close>

definition clear_member ::
  "string \<Rightarrow> string \<times> CachedPresence option \<Rightarrow> 'a wsvc_scheme \<Rightarrow> 'a wsvc_scheme" where
  "clear_member wsUuid up w =
     (case up of (uid, pr) \<Rightarrow>
       (case pr of None \<Rightarrow> w
        | Some presence \<Rightarrow>
            (case List.find (\<lambda>(sid, session). cs_wsUuid session = Some wsUuid) presence of
               None \<Rightarrow> w
             | Some (sessionId, session) \<Rightarrow>
                 if sessionId = [] then w
                 else
                   (let w1 = emit w [Socket_send (Some (uid, sessionId)) uid sessionId ''env''
                                       (Env_disconnect ''WORKSPACE_DELETED'')];
                        w2 = cache_del w1 (CACHEKEY_PRESENCE_WORKSPACE uid sessionId wsUuid)
                    in set_presence w2 uid (ob_set presence sessionId (session\<lparr>cs_wsUuid := None\<rparr>))))))"

definition clearCacheOnDelete :: "string list \<Rightarrow> string \<Rightarrow> 'a wsvc_scheme \<Rightarrow> 'a wsvc_scheme" where
  "clearCacheOnDelete members wsUuid w =
     (let presences = map (get_presence w) members
      in cache_del (fold (clear_member wsUuid) (zip members presences) w) (CACHEKEY_WORKSPACE wsUuid))"

definition deleteWorkspace ::
  "string \<Rightarrow> string option \<Rightarrow> 'a wsvc_scheme \<Rightarrow> unit result \<times> 'a wsvc_scheme" where
  "deleteWorkspace uid workspaceUUID w =
     (case workspaceUUID of
        None \<Rightarrow> (Inl (BadRequest ''WORKSPACE_DELETE_INVALID_REQUEST''), w)
      | Some uuid \<Rightarrow>
          (case findOne_workspace uuid w of
             None \<Rightarrow> (Inl (NotFound ''WORKSPACE_NOT_FOUND''), w)
           | Some workspace \<Rightarrow>
               (case findOne_membership (w_id workspace) uid w of
                  None \<Rightarrow> (Inl (Forbidden ''NO_WORKSPACE_MEMBERSHIP''), w)
                | Some membership \<Rightarrow>
                    if role_below (m_role membership) 1
                    then (Inl (Forbidden ''WORKSPACE_ACTION_NOT_AUTHORIZED''), w)
                    else
                      (let members = map m_userId (find_memberships (w_id workspace) w)
                       in case in_transaction (\<lambda>w. delete_workspace_row uuid
                                 (delete_memberships (\<lambda>m. m_workspaceId m = w_id workspace) w)) w of
                            (Inl e, w1) \<Rightarrow> (Inl e, w1)
                          | (Inr _, w1) \<Rightarrow>
                              (let w2 = clearCacheOnDelete members uuid w1
                               in (Inr (), emit w2
                                    [Http_call ''DELETE'' (''http://provisioner/api/delete?uuid='' @ uuid),
                                     Ev_workspace_deleted uuid members]))))))"

definition notify_left :: "string \<Rightarrow> Workspace \<times> Membership list \<Rightarrow> 'a wsvc_scheme \<Rightarrow> 'a wsvc_scheme" where
  "notify_left uid rm w =
     (case rm of (memberWorkspace, ms) \<Rightarrow>
       (let mbrsToNotify = filter (\<lambda>u. u \<noteq> uid) (js_set (map m_userId ms));
            w1 = emit w (concat (map (sends_to ''workspace''
                   (Members_modified (w_uuid memberWorkspace)) w) mbrsToNotify))
        in emit w1 [Ev_members_modified (w_uuid memberWorkspace) [] [uid]]))"

definition deleteOwnedWorkspaces :: "string \<Rightarrow> 'a wsvc_scheme \<Rightarrow> bool result \<times> 'a wsvc_scheme" where
  "deleteOwnedWorkspaces uid w =
     (let rows = joined_workspaces uid w;
          ownedWorkspaces = filter (\<lambda>(r, ms). \<exists>m \<in> set ms. m_userId m = uid \<and> m_role m = ''owner'') rows;
          memberWorkspaces = filter (\<lambda>(r, ms). \<exists>m \<in> set ms. m_userId m = uid \<and> m_role m = ''member'') rows;
          w1 = fold (\<lambda>(r, ms) w. snd (deleteWorkspace uid (Some (w_uuid r)) w)) ownedWorkspaces w;
          w2 = delete_memberships (\<lambda>m. m_userId m = uid) w1
      in (Inr True, fold (notify_left uid) memberWorkspaces w2))"

section \<open>Quota\<close>

text \<open>\<open>auth_user\<close> is the Firebase record of a user: the number of identity providers and whether
  the e-mail address is verified.\<close>

definition checkEligibility ::
  "(string \<Rightarrow> (nat \<times> bool) result) \<Rightarrow> string option \<Rightarrow> string option \<Rightarrow> string \<Rightarrow> 'a wsvc_scheme \<Rightarrow>
   unit result" where
  "checkEligibility auth_user limit_guest limit_non_guest uid w =
     (case auth_user uid of
        Inl e \<Rightarrow> Inl e
      | Inr (providers, emailVerified) \<Rightarrow>
          (let isGuest = (providers = 0 \<and> \<not> emailVerified);
               limit = env_int (if isGuest then limit_guest else limit_non_guest) 1;
               existingCount = length (joined_workspaces uid w)
           in if limit \<le> int existingCount then Inl (Forbidden ''MAX_WORKSPACE_QUOTA_REACHED'') else Inr ()))"

section \<open>Creating: the new workspace and its owner\<close>

lemma createWorkspace_Inr:
  assumes "createWorkspace profile_rpc uid data w = (Inr dto, w')"
  shows "\<exists>m. w_name (wd_workspace dto) = js_str (d_name data) \<and>
    w_status (wd_workspace dto) = READY \<and> w_id (wd_workspace dto) = ws_seq w \<and>
    rx_test nameRegex (w_name (wd_workspace dto)) \<and>
    w_uuid (wd_workspace dto) \<notin> w_uuid ` set (workspaces w) \<and>
    workspaces w' = workspaces w @ [wd_workspace dto] \<and>
    m_pk m = (ws_seq w, uid) \<and> m_role m = ''owner'' \<and>
    set (memberships w') \<subseteq> insert m (set (memberships w)) \<and> m \<in> set (memberships w')"
proof -
  let ?d = "new_Workspace (data\<lparr>d_status := Some READY\<rparr>)"
  from assms have v: "validateCreation (d_name data) = None"
    by (auto simp: createWorkspace_def split: option.splits)
  from assms v obtain ws w1 m w2 where i: "insert_workspace ?d w = (Inr ws, w1)"
      and s: "save_membership (setData \<lparr>md_workspaceId = Some (w_id ws), md_userId = Some uid,
                md_role = Some ''owner''\<rparr> new_Membership) w1 = (Inr m, w2)"
      and e: "wd_workspace dto = ws" "w' = w2"
    by (auto simp: createWorkspace_def create_tx_def in_transaction_Inr split: option.splits prod.splits sum.splits)
  note i = insert_workspace_Inr [OF i] and s = save_membership_Inr [OF s]
  from s(1,2) have pk: "m_workspaceId m = w_id ws" "m_userId m = uid"
    by (auto simp: setData_def new_Membership_def split: if_splits)
  have "m_role m = ''owner''" using s(4) by (auto simp: setData_def)
  moreover have "set (memberships w2) \<subseteq> insert m (set (memberships w))" "m \<in> set (memberships w2)"
    "workspaces w2 = workspaces w @ [ws]"
    using s(4) i by (auto simp: set_replace_by replace_by_def)
  ultimately show ?thesis
    using i e v pk by (intro exI [of _ m])
      (auto simp: new_Workspace_def keep_truthy_def validateCreation_def split: if_splits)
qed

lemma create_tx_wf:
  assumes "db_wf w" "create_tx profile_rpc uid data w = (y, v)"
  shows "db_wf v \<and> ws_seq w \<le> ws_seq v \<and> ac_seq w \<le> ac_seq v"
proof -
  obtain a w1 where i: "insert_workspace (new_Workspace (data\<lparr>d_status := Some READY\<rparr>)) w = (a, w1)"
    by fastforce
  have wf1: "db_wf w1" by (rule insert_workspace_wf [OF assms(1) i])
  have sq1: "ws_seq w \<le> ws_seq w1" "ac_seq w \<le> ac_seq w1"
    using i by (cases a; auto dest: insert_workspace_Inl insert_workspace_Inr)+
  show ?thesis
  proof (cases a)
    case (Inl e)
    with assms i wf1 sq1 show ?thesis by (simp add: create_tx_def)
  next
    case (Inr ws)
    obtain b w2 where s: "save_membership (setData \<lparr>md_workspaceId = Some (w_id ws),
        md_userId = Some uid, md_role = Some ''owner''\<rparr> new_Membership) w1 = (b, w2)" by fastforce
    have "v = w2" using assms i Inr s by (auto simp: create_tx_def split: sum.splits)
    with save_membership_wf [OF wf1 s] save_membership_seq [OF s] sq1 show ?thesis by simp
  qed
qed

lemma createWorkspace_wf:
  assumes "db_wf w" "createWorkspace profile_rpc uid data w = (x, w')"
  shows "db_wf w'"
proof (cases "validateCreation (d_name data)")
  case None
  with assms(2) have tx: "in_transaction (create_tx profile_rpc uid data) w = (x, w')"
    by (simp add: createWorkspace_def)
  show ?thesis by (rule in_transaction_wf [OF assms(1) create_tx_wf [OF assms(1)] tx])
qed (use assms in \<open>auto simp: createWorkspace_def\<close>)

section \<open>Updating members\<close>

lemma delete_memberships_fold:
  "fold (\<lambda>u w. delete_memberships (\<lambda>m. m_pk m = (i, u)) w) us w =
     w\<lparr>memberships := filter (\<lambda>m. \<not> (m_workspaceId m = i \<and> m_userId m \<in> set us)) (memberships w)\<rparr>"
  by (induction us arbitrary: w)
    (auto simp: delete_memberships_def intro!: arg_cong [of _ _ "\<lambda>x. memberships_update (\<lambda>_. x) _"]
      filter_cong)

lemma notify_removed_fold:
  "same_tables (fold (notify_removed actor ws) us w) w"
  "cache (fold (notify_removed actor ws) us w) = cache w"
  "clock (fold (notify_removed actor ws) us w) = clock w"
  by (induction us arbitrary: w)
    (simp_all add: notify_removed_def Let_def split_beta same_tables_def emit_def randomUUID_def
      createMessage_def)

text \<open>What \<^verbatim>\<open>updateMembers\<close> does to the tables, whether or not it goes on to send the invitations.\<close>

lemma updateMembers_tables:
  assumes "updateMembers sign secret uid ws added removed key w = (x, w')"
  shows "memberships w' =
      filter (\<lambda>m. \<not> (m_workspaceId m = w_id ws \<and> m_userId m \<in> set removed)) (memberships w)"
    "workspaces w' = workspaces w" "codes w' = codes w" "ws_seq w' = ws_seq w" "ac_seq w' = ac_seq w"
proof -
  let ?w2 = "fold (notify_removed uid ws) removed
    (fold (\<lambda>u w. delete_memberships (\<lambda>m. m_pk m = (w_id ws, u)) w) removed w)"
  obtain y w3 where inv: "inviteAllUsers sign secret uid
      \<lparr>ia_inviteeIds = added, ia_workspaceUUID = w_uuid ws, ia_sshKey = key\<rparr> ?w2 = (y, w3)"
    by fastforce
  then have "same_tables w3 ?w2"
    by (cases y) (auto dest: inviteAllUsers_Inl inviteAllUsers_Inr(1))
  moreover from assms inv have "same_tables w' w3"
    by (cases y) (auto simp: updateMembers_def Let_def)
  ultimately have "same_tables w'
      (fold (\<lambda>u w. delete_memberships (\<lambda>m. m_pk m = (w_id ws, u)) w) removed w)"
    using notify_removed_fold(1) same_tables_trans by blast
  then show "memberships w' =
      filter (\<lambda>m. \<not> (m_workspaceId m = w_id ws \<and> m_userId m \<in> set removed)) (memberships w)"
    "workspaces w' = workspaces w" "codes w' = codes w" "ws_seq w' = ws_seq w" "ac_seq w' = ac_seq w"
    unfolding delete_memberships_fold by (simp_all add: same_tables_def)
qed

lemma updateMembers_wf:
  assumes "db_wf w" "updateMembers sign secret uid ws added removed key w = (x, w')"
  shows "db_wf w'"
proof -
  let ?p = "\<lambda>m. m_workspaceId m = w_id ws \<and> m_userId m \<in> set removed"
  have "same_tables w' (delete_memberships ?p w)"
    using updateMembers_tables [OF assms(2)] by (simp add: same_tables_def delete_memberships_def)
  with delete_memberships_wf [OF assms(1)] show ?thesis by (metis db_wf_cong)
qed

lemma notify_removed_out: "\<exists>ns. out (fold (notify_removed uid ws) us w) = out w @ ns"
proof (induction us arbitrary: w)
  case (Cons u us)
  obtain e where e: "out (notify_removed uid ws u w) = out w @ [e]"
    by (auto simp: notify_removed_def Let_def split_beta emit_def randomUUID_def createMessage_def)
  from Cons [of "notify_removed uid ws u w"] obtain ns where
    "out (fold (notify_removed uid ws) us (notify_removed uid ws u w)) = out w @ e # ns"
    unfolding e by auto
  then show ?case by auto
qed simp

text \<open>A successful update of the members: the invitations and the event that other services hear.\<close>

lemma updateMembers_Inr:
  assumes "updateMembers sign secret uid ws added removed key w = (Inr x, w')"
  shows "\<exists>es. out w' = out w @ es \<and> last es = Ev_members_modified (w_uuid ws) added removed \<and> es \<noteq> [] \<and>
    cache w' = cache w \<and> clock w' = clock w"
proof -
  let ?w2 = "fold (notify_removed uid ws) removed
    (fold (\<lambda>u w. delete_memberships (\<lambda>m. m_pk m = (w_id ws, u)) w) removed w)"
  obtain w3 where inv: "inviteAllUsers sign secret uid
      \<lparr>ia_inviteeIds = added, ia_workspaceUUID = w_uuid ws, ia_sshKey = key\<rparr> ?w2 = (Inr (), w3)"
    using assms by (auto simp: updateMembers_def Let_def split: prod.splits sum.splits)
  obtain ns where "out ?w2 = out (fold (\<lambda>u w. delete_memberships (\<lambda>m. m_pk m = (w_id ws, u)) w) removed w) @ ns"
    using notify_removed_out by blast
  then have "out ?w2 = out w @ ns" unfolding delete_memberships_fold by simp
  moreover obtain es where "out w3 = out ?w2 @ es" using inviteAllUsers_Inr(4) [OF inv] by blast
  moreover have "cache w3 = cache w" "clock w3 = clock w"
    unfolding inviteAllUsers_Inr(2,3) [OF inv] notify_removed_fold(2,3) delete_memberships_fold by simp_all
  ultimately show ?thesis
    using assms inv by (auto simp: updateMembers_def Let_def frame_simps)
qed

text \<open>The whole handler as a sequence of its refusals and its two effects.\<close>

lemma update_target_key [simp]:
  "w_id (update_target data r) = w_id r" "w_uuid (update_target data r) = w_uuid r"
  by (auto simp: update_target_def Let_def split: option.splits)

lemma updateWorkspace_refused_or:
  assumes "updateWorkspace sign secret uid data w = (x, w')"
  shows "(\<exists>e. x = Inl e \<and> w' = w) \<or>
    (\<exists>i m found r w1. u_id data = Some i \<and> findOne_membership i uid w = Some m \<and>
       m_role m \<noteq> ''member'' \<and> findOne_workspace_id i w = Some found \<and>
       (case u_members data of None \<Rightarrow> (Inr (), w)
        | Some reqs \<Rightarrow> updateMembers sign secret uid (update_target data found)
            (fst (update_diff i reqs w)) (snd (update_diff i reqs w)) (u_sshKey data) w) = (r, w1) \<and>
       (x, w') = (case r of Inl e \<Rightarrow> (Inl e, w1) | Inr _ \<Rightarrow> save_workspace (update_target data found) w1))"
proof (cases "(\<exists>e. x = Inl e \<and> w' = w)")
  case False
  with assms obtain i m found where f: "u_id data = Some i" "findOne_membership i uid w = Some m"
      "\<not> role_below (m_role m) 1" "findOne_workspace_id i w = Some found"
      "(if truthy (u_name data) then validateCreation (u_name data) else None) = None"
    unfolding updateWorkspace_def by (auto split: option.splits if_splits simp del: not_None_eq)
  obtain r w1 where u: "(case u_members data of None \<Rightarrow> (Inr (), w)
        | Some reqs \<Rightarrow> updateMembers sign secret uid (update_target data found)
            (fst (update_diff i reqs w)) (snd (update_diff i reqs w)) (u_sshKey data) w) = (r, w1)"
    by fastforce
  have "(x, w') = (case r of Inl e \<Rightarrow> (Inl e, w1) | Inr _ \<Rightarrow> save_workspace (update_target data found) w1)"
    using assms f u
    by (cases "u_members data"; cases r) (auto simp: updateWorkspace_def split_beta)
  with f u show ?thesis by (auto simp: role_below_iff)
qed blast

lemma updateWorkspace_wf:
  assumes "db_wf w" "updateWorkspace sign secret uid data w = (x, w')"
  shows "db_wf w'"
  using updateWorkspace_refused_or [OF assms(2)]
proof (elim disjE exE conjE)
  fix i m found r w1
  assume found: "findOne_workspace_id i w = Some found"
    and u: "(case u_members data of None \<Rightarrow> (Inr (), w)
        | Some reqs \<Rightarrow> updateMembers sign secret uid (update_target data found)
            (fst (update_diff i reqs w)) (snd (update_diff i reqs w)) (u_sshKey data) w) = (r, w1)"
    and x: "(x, w') = (case r of Inl e \<Rightarrow> (Inl e, w1) | Inr _ \<Rightarrow> save_workspace (update_target data found) w1)"
  have w1: "db_wf w1 \<and> workspaces w1 = workspaces w"
  proof (cases "u_members data")
    case None
    with u assms(1) show ?thesis by simp
  next
    case (Some reqs)
    with u updateMembers_wf [OF assms(1)] updateMembers_tables(2) show ?thesis by fastforce
  qed
  have old: "found \<in> set (workspaces w1)" using found w1 by (auto dest: findOne_workspace_idD)
  show ?thesis
  proof (cases r)
    case (Inr y)
    with x have "save_workspace (update_target data found) w1 = (x, w')" by simp
    with w1 old save_workspace_wf [of w1 "update_target data found"] show ?thesis by fastforce
  qed (use x w1 in simp)
qed (use assms in simp)

lemma updateWorkspaceStatus_wf:
  assumes "db_wf w" "updateWorkspaceStatus uuid status w = (x, w')"
  shows "db_wf w'"
proof (cases "uuid = [] \<or> findOne_workspace uuid w = None")
  case False
  then obtain r where r: "findOne_workspace uuid w = Some r" by auto
  with False assms(2) have "save_workspace (r\<lparr>w_status := status\<rparr>) w = (x, w')"
    by (simp add: updateWorkspaceStatus_def)
  with r assms(1) save_workspace_wf [of w "r\<lparr>w_status := status\<rparr>" x w' r] show ?thesis
    by (auto dest: findOne_workspaceD)
qed (use assms in \<open>auto simp: updateWorkspaceStatus_def split: if_splits\<close>)

text \<open>The invitations are validated after the removed members are deleted: the call succeeds only
  for an actor who is still a member, and an actor who removes themself is refused at that point.\<close>

lemma notify_removed_events:
  "e \<in> set (out (fold (notify_removed uid ws) us w)) \<Longrightarrow> e \<in> set (out w) \<or> (\<exists>m u n. e = Rmq_notify m u n)"
proof (induction us arbitrary: w)
  case (Cons u us)
  have "e \<in> set (out w) \<or> (\<exists>m u n. e = Rmq_notify m u n)" if "e \<in> set (out (notify_removed uid ws u w))"
    using that by (auto simp: notify_removed_def Let_def emit_def randomUUID_def createMessage_def)
  with Cons show ?case by auto
qed simp

lemma validate_after_removal:
  assumes "db_wf w" "r \<in> set (workspaces w)" "w_id ws = w_id r" "w_uuid ws = w_uuid r" "u \<in> set removed"
    "w2 = fold (notify_removed a ws) removed
      (fold (\<lambda>u w. delete_memberships (\<lambda>m. m_pk m = (w_id ws, u)) w) removed w)"
  shows "validateInvite u (w_uuid ws) w2 = Some (Forbidden ''NO_WORKSPACE_MEMBERSHIP'')"
proof -
  have t: "same_tables w2 (w\<lparr>memberships :=
      filter (\<lambda>m. \<not> (m_workspaceId m = w_id ws \<and> m_userId m \<in> set removed)) (memberships w)\<rparr>)"
    unfolding assms(6) delete_memberships_fold by (rule notify_removed_fold(1))
  then have "findOne_workspace (w_uuid ws) w2 = findOne_workspace (w_uuid r) w"
    using assms(4) by (simp add: findOne_workspace_def same_tables_def)
  also have "\<dots> = Some r" by (rule findOne_workspace_mem [OF assms(1,2)])
  finally have f: "findOne_workspace (w_uuid ws) w2 = Some r" .
  have "findOne_membership (w_id r) u w2 = None"
    unfolding findOne_membership_None using t assms(3,5) by (auto simp: same_tables_def)
  with f show ?thesis by (simp add: validateInvite_def)
qed

lemma updateMembers_self_removed:
  assumes "db_wf w" "r \<in> set (workspaces w)" "w_id ws = w_id r" "w_uuid ws = w_uuid r" "uid \<in> set removed"
  shows "\<exists>w'. updateMembers sign secret uid ws added removed key w =
      (Inl (Forbidden ''NO_WORKSPACE_MEMBERSHIP''), w') \<and> cache w' = cache w \<and>
    (\<forall>e \<in> set (out w') - set (out w). \<exists>m u n. e = Rmq_notify m u n)"
proof -
  let ?w1 = "fold (\<lambda>u w. delete_memberships (\<lambda>m. m_pk m = (w_id ws, u)) w) removed w"
  let ?w2 = "fold (notify_removed uid ws) removed ?w1"
  have "updateMembers sign secret uid ws added removed key w =
      (Inl (Forbidden ''NO_WORKSPACE_MEMBERSHIP''), ?w2)"
    using validate_after_removal [OF assms refl] by (simp add: updateMembers_def inviteAllUsers_def Let_def)
  moreover have "cache ?w2 = cache w"
    unfolding notify_removed_fold(2) delete_memberships_fold by simp
  moreover have "\<forall>e \<in> set (out ?w2) - set (out w). \<exists>m u n. e = Rmq_notify m u n"
  proof
    fix e assume "e \<in> set (out ?w2) - set (out w)"
    moreover have "out ?w1 = out w" unfolding delete_memberships_fold by simp
    ultimately show "\<exists>m u n. e = Rmq_notify m u n" using notify_removed_events [of e uid ws removed ?w1] by auto
  qed
  ultimately show ?thesis by blast
qed

lemma updateMembers_actor_stays:
  assumes "db_wf w" "r \<in> set (workspaces w)" "w_id ws = w_id r" "w_uuid ws = w_uuid r"
    "updateMembers sign secret uid ws added removed key w = (Inr x, w')"
  shows "uid \<notin> set removed"
  using updateMembers_self_removed [OF assms(1-4), of uid removed sign secret added key] assms(5) by auto

section \<open>The membership check\<close>

definition is_member :: "string \<Rightarrow> string \<Rightarrow> 'a wsvc_scheme \<Rightarrow> bool" where
  "is_member uid uuid w \<longleftrightarrow>
     (\<exists>ws \<in> set (workspaces w). w_uuid ws = uuid \<and> (w_id ws, uid) \<in> m_pk ` set (memberships w))"

lemma isUserMemberOf_iff:
  assumes "db_wf w"
  shows "(\<exists>info. isUserMemberOf uid uuid w = Inr info) \<longleftrightarrow> is_member uid uuid w"
proof (cases "findOne_workspace uuid w")
  case None
  then have "\<forall>ws \<in> set (workspaces w). w_uuid ws \<noteq> uuid"
    by (auto simp: findOne_workspace_def find_None_iff)
  with None show ?thesis by (auto simp: isUserMemberOf_def is_member_def)
next
  case (Some ws)
  then have ws: "ws \<in> set (workspaces w)" "w_uuid ws = uuid" by (auto dest: findOne_workspaceD)
  have "ws' = ws" if "ws' \<in> set (workspaces w)" "w_uuid ws' = uuid" for ws'
    using assms that ws by (intro key_unique [of w_uuid "workspaces w"]) (simp_all add: db_defs)
  with ws have "is_member uid uuid w \<longleftrightarrow> (w_id ws, uid) \<in> m_pk ` set (memberships w)"
    unfolding is_member_def by blast
  with Some show ?thesis
    using findOne_membership_None [of "w_id ws" uid w]
    by (cases "findOne_membership (w_id ws) uid w") (simp_all add: isUserMemberOf_def)
qed

lemma may_manage_member: "may_manage uid uuid w \<Longrightarrow> is_member uid uuid w"
  unfolding may_manage_def is_member_def by (elim bexE conjE, intro bexI conjI image_eqI) (auto simp: eq_commute)

section \<open>Deleting a workspace\<close>

lemma clear_member_tables: "same_tables (fold (clear_member x) ups w) w"
proof (induction ups arbitrary: w)
  case (Cons up ups)
  have "same_tables (clear_member x up w) w"
    by (auto simp: clear_member_def Let_def set_presence_def split: option.splits prod.splits)
  with Cons show ?case by (auto intro: same_tables_trans)
qed simp

lemma clearCacheOnDelete_tables [simp]: "same_tables (clearCacheOnDelete us x w) w"
  by (simp add: clearCacheOnDelete_def Let_def clear_member_tables)

lemma delete_tx_ok:
  assumes "db_wf w" "findOne_workspace uuid w = Some ws"
  shows "in_transaction (\<lambda>w. delete_workspace_row uuid
      (delete_memberships (\<lambda>m. m_workspaceId m = w_id ws) w)) w =
    (Inr (), w\<lparr>workspaces := filter (\<lambda>r. w_uuid r \<noteq> uuid) (workspaces w),
              memberships := filter (\<lambda>m. m_workspaceId m \<noteq> w_id ws) (memberships w)\<rparr>)"
proof -
  have ws: "ws \<in> set (workspaces w)" "w_uuid ws = uuid"
    using assms(2) by (auto dest: findOne_workspaceD)
  have "r = ws" if "r \<in> set (workspaces w)" "w_uuid r = uuid" for r
    using assms(1) that ws by (intro key_unique [of w_uuid "workspaces w"]) (simp_all add: db_defs)
  then show ?thesis
    by (auto simp: in_transaction_def delete_workspace_row_def delete_memberships_def)
qed

lemma deleteWorkspace_ok:
  assumes "db_wf w" "findOne_workspace uuid w = Some ws" "may_manage uid uuid w"
  shows "\<exists>v. deleteWorkspace uid (Some uuid) w = (Inr (),
      emit (clearCacheOnDelete (map m_userId (find_memberships (w_id ws) w)) uuid v)
        [Http_call ''DELETE'' (''http://provisioner/api/delete?uuid='' @ uuid),
         Ev_workspace_deleted uuid (map m_userId (find_memberships (w_id ws) w))]) \<and>
    v = w\<lparr>workspaces := filter (\<lambda>r. w_uuid r \<noteq> uuid) (workspaces w),
          memberships := filter (\<lambda>m. m_workspaceId m \<noteq> w_id ws) (memberships w)\<rparr>"
proof -
  from assms(1,3) have "validateInvite uid uuid w = None" by (simp add: validateInvite_None_iff)
  with assms(2) obtain m where "findOne_membership (w_id ws) uid w = Some m" "\<not> role_below (m_role m) 1"
    by (auto simp: validateInvite_def split: option.splits if_splits)
  with assms(2) delete_tx_ok [OF assms(1,2)] show ?thesis
    by (simp add: deleteWorkspace_def Let_def)
qed

lemma deleteWorkspace_refused:
  assumes "db_wf w" "\<not> may_manage uid uuid w"
  shows "\<exists>e. deleteWorkspace uid (Some uuid) w = (Inl e, w)"
proof -
  from assms obtain e where "validateInvite uid uuid w = Some e"
    by (cases "validateInvite uid uuid w") (simp_all add: validateInvite_None_iff)
  then show ?thesis
    by (auto simp: deleteWorkspace_def validateInvite_def split: option.splits if_splits)
qed

lemma deleteWorkspace_tables:
  assumes "db_wf w" "deleteWorkspace uid (Some uuid) w = (x, w')"
  shows "if may_manage uid uuid w
    then x = Inr () \<and> workspaces w' = filter (\<lambda>r. w_uuid r \<noteq> uuid) (workspaces w) \<and>
      memberships w' = filter (\<lambda>m. \<not> (\<exists>r \<in> set (workspaces w). w_uuid r = uuid \<and> w_id r = m_workspaceId m))
        (memberships w) \<and> codes w' = codes w \<and> ws_seq w' = ws_seq w \<and> ac_seq w' = ac_seq w
    else (\<exists>e. x = Inl e) \<and> w' = w"
proof (cases "may_manage uid uuid w")
  case True
  then obtain ws where ws: "ws \<in> set (workspaces w)" "w_uuid ws = uuid" by (auto simp: may_manage_def)
  then have f: "findOne_workspace uuid w = Some ws" using findOne_workspace_mem [OF assms(1)] by blast
  have u: "r = ws" if "r \<in> set (workspaces w)" "w_uuid r = uuid" for r
    using assms(1) that ws by (intro key_unique [of w_uuid "workspaces w"]) (simp_all add: db_defs)
  from deleteWorkspace_ok [OF assms(1) f True] assms(2)
  have "x = Inr ()" and t: "same_tables w' (w\<lparr>workspaces := filter (\<lambda>r. w_uuid r \<noteq> uuid) (workspaces w),
      memberships := filter (\<lambda>m. m_workspaceId m \<noteq> w_id ws) (memberships w)\<rparr>)" by auto
  moreover have "filter (\<lambda>m. m_workspaceId m \<noteq> w_id ws) (memberships w) =
      filter (\<lambda>m. \<not> (\<exists>r \<in> set (workspaces w). w_uuid r = uuid \<and> w_id r = m_workspaceId m)) (memberships w)"
    by (rule filter_cong) (use ws u in metis)+
  ultimately show ?thesis using True by (simp add: same_tables_def)
next
  case False
  with deleteWorkspace_refused [OF assms(1) False] assms(2) show ?thesis by auto
qed

lemma filter_tables_wf:
  assumes "db_wf w" "workspaces w' = filter p (workspaces w)" "memberships w' = filter q (memberships w)"
    "codes w' = codes w" "ws_seq w' = ws_seq w" "ac_seq w' = ac_seq w"
    "\<And>m r. m \<in> set (memberships w) \<Longrightarrow> q m \<Longrightarrow> r \<in> set (workspaces w) \<Longrightarrow> w_id r = m_workspaceId m \<Longrightarrow> p r"
  shows "db_wf w'"
proof -
  have "workspaces_wf (filter p (workspaces w)) (ws_seq w)"
    using assms(1) by (auto simp: db_defs intro: distinct_map_filter)
  moreover have "memberships_wf (filter q (memberships w)) (w_id ` set (filter p (workspaces w)))"
    unfolding memberships_wf_def
  proof (intro conjI ballI)
    show "distinct (map m_pk (filter q (memberships w)))"
      using assms(1) by (intro distinct_map_filter) (simp add: db_defs)
    fix m assume m: "m \<in> set (filter q (memberships w))"
    then obtain r where "r \<in> set (workspaces w)" "w_id r = m_workspaceId m"
      using membership_workspace [OF assms(1), of m] by auto
    with m assms(7) show "m_workspaceId m \<in> w_id ` set (filter p (workspaces w))"
      by (intro image_eqI [of _ _ r]) auto
    show "membership_row_ok m" using m assms(1) by (simp add: db_defs)
  qed
  ultimately show ?thesis using assms(1-6) by (simp add: db_wf_def)
qed

lemma deleteWorkspace_wf:
  assumes "db_wf w" "deleteWorkspace uid u w = (x, w')"
  shows "db_wf w'"
proof (cases u)
  case (Some uuid)
  with assms(2) have d: "deleteWorkspace uid (Some uuid) w = (x, w')" by simp
  show ?thesis
  proof (cases "may_manage uid uuid w")
    case True
    with deleteWorkspace_tables [OF assms(1) d] assms(1) show ?thesis
      by (intro filter_tables_wf [of w w' "\<lambda>r. w_uuid r \<noteq> uuid"
          "\<lambda>m. \<not> (\<exists>r \<in> set (workspaces w). w_uuid r = uuid \<and> w_id r = m_workspaceId m)"]) auto
  next
    case False
    with deleteWorkspace_tables [OF assms(1) d] assms(1) show ?thesis by simp
  qed
qed (use assms in \<open>simp add: deleteWorkspace_def\<close>)

section \<open>Deleting what a user owns\<close>

definition owns :: "string \<Rightarrow> 'a wsvc_scheme \<Rightarrow> Workspace \<Rightarrow> bool" where
  "owns uid w r \<longleftrightarrow> (\<exists>m \<in> set (memberships w). m_pk m = (w_id r, uid) \<and> m_role m = ''owner'')"

lemma owns_may_manage: "r \<in> set (workspaces w) \<Longrightarrow> owns uid w r \<Longrightarrow> may_manage uid (w_uuid r) w"
  unfolding owns_def may_manage_def by (elim bexE conjE, intro bexI conjI) auto

text \<open>The tables without the workspaces \<open>rs\<close> and their members.\<close>

definition dropped :: "Workspace set \<Rightarrow> 'a wsvc_scheme \<Rightarrow> 'a wsvc_scheme \<Rightarrow> bool" where
  "dropped rs w w' \<longleftrightarrow>
     workspaces w' = filter (\<lambda>r. r \<notin> rs) (workspaces w) \<and>
     memberships w' = filter (\<lambda>m. m_workspaceId m \<notin> w_id ` rs) (memberships w) \<and>
     codes w' = codes w \<and> ws_seq w' = ws_seq w \<and> ac_seq w' = ac_seq w"

lemma notin_imageD: "b \<notin> f ` A \<Longrightarrow> f x = b \<Longrightarrow> x \<notin> A"
  by blast

lemma dropped_wf:
  assumes "db_wf w" "rs \<subseteq> set (workspaces w)" "dropped rs w w'"
  shows "db_wf w'"
  using assms(3) unfolding dropped_def
  by (elim conjE, intro filter_tables_wf [OF assms(1), of w' "\<lambda>r. r \<notin> rs" "\<lambda>m. m_workspaceId m \<notin> w_id ` rs"])
     (auto dest: notin_imageD)

lemma dropped_trans: "dropped rs w v \<Longrightarrow> dropped ss v w' \<Longrightarrow> dropped (rs \<union> ss) w w'"
  by (auto simp: dropped_def image_Un intro!: filter_cong)

lemma deleteWorkspace_dropped:
  assumes "db_wf w" "r \<in> set (workspaces w)" "owns uid w r"
  shows "dropped {r} w (snd (deleteWorkspace uid (Some (w_uuid r)) w))"
proof -
  obtain x w' where d: "deleteWorkspace uid (Some (w_uuid r)) w = (x, w')" by fastforce
  have "w_uuid r' = w_uuid r \<longleftrightarrow> r' = r" if "r' \<in> set (workspaces w)" for r'
    using assms(1,2) that key_unique [of w_uuid "workspaces w" r' r] by (auto simp: db_defs)
  moreover have "(\<exists>r' \<in> set (workspaces w). w_uuid r' = w_uuid r \<and> w_id r' = i) \<longleftrightarrow> i = w_id r" for i
    using calculation assms(2) by blast
  ultimately show ?thesis
    using deleteWorkspace_tables [OF assms(1) d] owns_may_manage [OF assms(2,3)] d
    by (auto simp: dropped_def intro!: filter_cong)
qed

lemma owns_dropped:
  assumes "db_wf w" "dropped {r} w w'" "r \<in> set (workspaces w)" "r' \<in> set (workspaces w)" "r' \<noteq> r"
  shows "r' \<in> set (workspaces w')" "owns uid w' r' = owns uid w r'"
proof -
  have "w_id r' \<noteq> w_id r"
    using assms key_unique [of w_id "workspaces w" r' r] by (auto simp: db_defs)
  with assms show "r' \<in> set (workspaces w')" "owns uid w' r' = owns uid w r'"
    by (auto simp: dropped_def owns_def)
qed

lemma deleteOwned_fold:
  "\<lbrakk>db_wf w; distinct (map fst L); \<forall>(r, ms) \<in> set L. r \<in> set (workspaces w) \<and> owns uid w r\<rbrakk> \<Longrightarrow>
     dropped (fst ` set L) w (fold (\<lambda>(r, ms) w. snd (deleteWorkspace uid (Some (w_uuid r)) w)) L w)"
proof (induction L arbitrary: w)
  case Nil
  then show ?case by (simp add: dropped_def)
next
  case (Cons rm L)
  obtain r ms where rm: "rm = (r, ms)" by fastforce
  let ?w = "snd (deleteWorkspace uid (Some (w_uuid r)) w)"
  from Cons.prems rm have r: "r \<in> set (workspaces w)" "owns uid w r" by auto
  note d = deleteWorkspace_dropped [OF Cons.prems(1) r]
  have wf: "db_wf ?w" using dropped_wf [OF Cons.prems(1) _ d] r by simp
  have L: "\<forall>(r', ms') \<in> set L. r' \<in> set (workspaces ?w) \<and> owns uid ?w r'"
  proof (intro ballI, clarify)
    fix r' ms' assume m: "(r', ms') \<in> set L"
    then have "r' \<in> set (workspaces w)" "owns uid w r'" using Cons.prems(3) by auto
    moreover have "r' \<noteq> r" using m Cons.prems(2) rm by force
    ultimately show "r' \<in> set (workspaces ?w) \<and> owns uid ?w r'"
      using owns_dropped [OF Cons.prems(1) d r(1)] by blast
  qed
  have "distinct (map fst L)" using Cons.prems(2) by simp
  from dropped_trans [OF d Cons.IH [OF wf this L]] rm show ?case by simp
qed

lemma notify_left_tables: "same_tables (fold (notify_left uid) rms w) w"
proof (induction rms arbitrary: w)
  case (Cons rm rms)
  have "same_tables (notify_left uid rm w) w"
    by (auto simp: notify_left_def Let_def split: prod.splits)
  with Cons show ?case by (auto intro: same_tables_trans)
qed simp

lemma owned_rows:
  "fst ` set (filter (\<lambda>(r, ms). \<exists>m \<in> set ms. m_userId m = uid \<and> m_role m = ''owner'')
       (joined_workspaces uid w)) = {r \<in> set (workspaces w). owns uid w r}" (is "?L = ?R")
proof (intro equalityI subsetI)
  fix r assume "r \<in> ?L"
  then show "r \<in> ?R" by (auto simp: joined_workspaces_def owns_def find_memberships_def)
next
  fix r assume "r \<in> ?R"
  then have "(r, find_memberships (w_id r) w) \<in> set (filter (\<lambda>(r, ms). \<exists>m \<in> set ms.
      m_userId m = uid \<and> m_role m = ''owner'') (joined_workspaces uid w))"
    by (auto simp: joined_workspaces_def owns_def find_memberships_def)
  then show "r \<in> ?L" by (rule image_eqI [rotated]) simp
qed

text \<open>Everything the user owned is gone with all its members, the user is a member of nothing, and
  every other row is as before.\<close>

lemma deleteOwnedWorkspaces_tables:
  assumes "db_wf w" "deleteOwnedWorkspaces uid w = (x, w')"
  shows "x = Inr True" "codes w' = codes w" "ws_seq w' = ws_seq w" "ac_seq w' = ac_seq w"
    "workspaces w' = filter (\<lambda>r. \<not> owns uid w r) (workspaces w)"
    "memberships w' = filter (\<lambda>m. m_userId m \<noteq> uid \<and>
       m_workspaceId m \<notin> w_id ` {r \<in> set (workspaces w). owns uid w r}) (memberships w)"
proof -
  let ?own = "filter (\<lambda>(r, ms). \<exists>m \<in> set ms. m_userId m = uid \<and> m_role m = ''owner'') (joined_workspaces uid w)"
  let ?w1 = "fold (\<lambda>(r, ms) w. snd (deleteWorkspace uid (Some (w_uuid r)) w)) ?own w"
  have own: "fst ` set ?own = {r \<in> set (workspaces w). owns uid w r}"
    by (rule owned_rows)
  have "map fst (joined_workspaces uid w) =
      filter (\<lambda>r. \<exists>m \<in> set (memberships w). m_pk m = (w_id r, uid)) (workspaces w)"
    by (simp add: joined_workspaces_def comp_def)
  moreover have "distinct (workspaces w)" using assms(1) by (simp add: db_defs distinct_map)
  ultimately have "distinct (map fst ?own)" by (intro distinct_map_filter) simp
  moreover have "\<forall>(r, ms) \<in> set ?own. r \<in> set (workspaces w) \<and> owns uid w r"
  proof (intro ballI, clarify)
    fix r ms assume "(r, ms) \<in> set ?own"
    then have "r \<in> fst ` set ?own" by (rule image_eqI [rotated]) simp
    then show "r \<in> set (workspaces w) \<and> owns uid w r" unfolding own by simp
  qed
  ultimately have "dropped {r \<in> set (workspaces w). owns uid w r} w ?w1"
    using deleteOwned_fold [OF assms(1), of ?own uid] own by simp
  moreover have "x = Inr True" "same_tables w' (delete_memberships (\<lambda>m. m_userId m = uid) ?w1)"
    using assms(2) by (auto simp: deleteOwnedWorkspaces_def Let_def notify_left_tables)
  ultimately show "x = Inr True" "codes w' = codes w" "ws_seq w' = ws_seq w" "ac_seq w' = ac_seq w"
    "workspaces w' = filter (\<lambda>r. \<not> owns uid w r) (workspaces w)"
    "memberships w' = filter (\<lambda>m. m_userId m \<noteq> uid \<and>
       m_workspaceId m \<notin> w_id ` {r \<in> set (workspaces w). owns uid w r}) (memberships w)"
    by (simp_all add: dropped_def same_tables_def delete_memberships_def conj_commute cong: filter_cong)
qed

lemma deleteOwnedWorkspaces_wf:
  assumes "db_wf w" "deleteOwnedWorkspaces uid w = (x, w')"
  shows "db_wf w'"
  using deleteOwnedWorkspaces_tables [OF assms]
  by (intro filter_tables_wf [OF assms(1), of w' "\<lambda>r. \<not> owns uid w r" "\<lambda>m. m_userId m \<noteq> uid \<and>
       m_workspaceId m \<notin> w_id ` {r \<in> set (workspaces w). owns uid w r}"]) (auto dest: notin_imageD)

end
