(* ===== verification/Gateway_Membership.thy ===== *)
theory Gateway_Membership
  imports Manage_Workspace
begin

text \<open>
  The membership cache of the gateway (\<^verbatim>\<open>gateway/src/socket/membership.service.ts\<close>). Whether a user may
  use a workspace is asked of the workspace service once and then kept in the cache; the events
  \<^verbatim>\<open>workspace.members.modified\<close> and \<^verbatim>\<open>workspace.deleted\<close> keep the cache up to date.

  The locale \<open>membership_authority\<close> is what the gateway relies on in the service it asks; it is
  interpreted on the model of the workspace service.
\<close>

section \<open>Operations\<close>

definition cacheMembership ::
  "string \<Rightarrow> string \<Rightarrow> membership_flag \<Rightarrow> CachedMembership option \<Rightarrow> 'a net_scheme \<Rightarrow> 'a net_scheme" where
  "cacheMembership uid workspaceUUID isMember cached w =
     (let doc = (case cached of None \<Rightarrow> [] | Some d \<Rightarrow> d)
      in set_membership w uid (ob_set doc workspaceUUID isMember))"

text \<open>\<open>reply\<close> is the answer of the workspace service to \<^verbatim>\<open>workspace.membership.check\<close>.\<close>

definition fetchMembership ::
  "membership_flag result \<Rightarrow> string \<Rightarrow> string \<Rightarrow> CachedMembership option \<Rightarrow> 'a net_scheme \<Rightarrow>
   membership_flag result \<times> 'a net_scheme" where
  "fetchMembership reply uid workspaceUUID cached w =
     (case reply of
        Inl e \<Rightarrow> (Inl e, w)
      | Inr isMember \<Rightarrow> (Inr isMember, cacheMembership uid workspaceUUID isMember cached w))"

definition checkMembership ::
  "membership_flag result \<Rightarrow> string \<Rightarrow> string \<Rightarrow> 'a net_scheme \<Rightarrow> membership_flag result \<times> 'a net_scheme" where
  "checkMembership reply uid workspaceUUID w =
     (let cachedMemberships = get_membership w uid
      in case (case cachedMemberships of None \<Rightarrow> None | Some doc \<Rightarrow> ob_get doc workspaceUUID) of
           Some flag \<Rightarrow> (Inr flag, w)
         | None \<Rightarrow> fetchMembership reply uid workspaceUUID cachedMemberships w)"

text \<open>The documents are all read before the loop, one per distinct user.\<close>

definition invalidateRemovedMembers :: "string list \<Rightarrow> string \<Rightarrow> 'a net_scheme \<Rightarrow> 'a net_scheme" where
  "invalidateRemovedMembers uids uuid w =
     fold (\<lambda>(uid, cached) w.
        case cached of None \<Rightarrow> w
        | Some doc \<Rightarrow> if ob_get doc uuid \<noteq> None then set_membership w uid (ob_del doc uuid) else w)
       (map (\<lambda>uid. (uid, get_membership w uid)) (js_set uids)) w"

definition updateAddedMembers :: "string list \<Rightarrow> string \<Rightarrow> 'a net_scheme \<Rightarrow> 'a net_scheme" where
  "updateAddedMembers uids uuid w =
     fold (\<lambda>(uid, cached) w.
        case cached of None \<Rightarrow> w
        | Some doc \<Rightarrow> if ob_get doc uuid \<noteq> None then set_membership w uid (ob_set doc uuid (FlagBool True)) else w)
       (map (\<lambda>uid. (uid, get_membership w uid)) (js_set uids)) w"

definition handleMembersModified ::
  "string \<Rightarrow> string list \<Rightarrow> string list \<Rightarrow> 'a net_scheme \<Rightarrow> 'a net_scheme" where
  "handleMembersModified uuid added removed w =
     updateAddedMembers added uuid (invalidateRemovedMembers removed uuid w)"

definition handleWorkspaceDeleted :: "string \<Rightarrow> string list \<Rightarrow> 'a net_scheme \<Rightarrow> 'a net_scheme" where
  "handleWorkspaceDeleted uuid members w = invalidateRemovedMembers members uuid w"

section \<open>Cached flags after the operations\<close>

definition cached_flag :: "'a net_scheme \<Rightarrow> string \<Rightarrow> string \<Rightarrow> membership_flag option" where
  "cached_flag w uid uuid = (case get_membership w uid of None \<Rightarrow> None | Some doc \<Rightarrow> ob_get doc uuid)"

lemma cached_flag_set:
  "cached_flag (set_membership w u doc) u' x = (if u' = u then ob_get doc x else cached_flag w u' x)"
  by (simp add: cached_flag_def cache_simps)

text \<open>A loop over distinct users that rewrites each user's document from the snapshot.\<close>

lemma fold_docs:
  assumes step: "\<And>u w. get_membership w u = d u \<Longrightarrow>
      get_membership (f (u, d u) w) = (get_membership w)(u := g (d u))"
  shows "distinct us \<Longrightarrow> \<forall>u \<in> set us. get_membership w u = d u \<Longrightarrow>
    get_membership (fold f (map (\<lambda>u. (u, d u)) us) w) u = (if u \<in> set us then g (d u) else get_membership w u)"
proof (induction us arbitrary: w)
  case (Cons v us)
  have s: "get_membership (f (v, d v) w) = (get_membership w)(v := g (d v))"
    using Cons.prems by (intro step) simp
  have "\<forall>u \<in> set us. get_membership (f (v, d v) w) u = d u"
    using Cons.prems by (auto simp: s)
  with Cons show ?case by (auto simp: s)
qed simp

lemma invalidate_docs:
  "get_membership (invalidateRemovedMembers uids uuid w) u =
     (if u \<in> set uids then map_option (\<lambda>doc. if ob_get doc uuid \<noteq> None then ob_del doc uuid else doc) (get_membership w u)
      else get_membership w u)"
  unfolding invalidateRemovedMembers_def
  by (subst fold_docs [where g = "map_option (\<lambda>doc. if ob_get doc uuid \<noteq> None then ob_del doc uuid else doc)"])
    (auto simp: fun_eq_iff cache_simps split: option.split)

lemma updateAdded_docs:
  "get_membership (updateAddedMembers uids uuid w) u =
     (if u \<in> set uids
      then map_option (\<lambda>doc. if ob_get doc uuid \<noteq> None then ob_set doc uuid (FlagBool True) else doc) (get_membership w u)
      else get_membership w u)"
  unfolding updateAddedMembers_def
  by (subst fold_docs [where g = "map_option (\<lambda>doc. if ob_get doc uuid \<noteq> None then ob_set doc uuid (FlagBool True) else doc)"])
    (auto simp: fun_eq_iff cache_simps split: option.split)

lemma invalidate_flag:
  "cached_flag (invalidateRemovedMembers uids uuid w) u x =
     (if u \<in> set uids \<and> x = uuid then None else cached_flag w u x)"
  by (auto simp: cached_flag_def invalidate_docs split: option.split)

lemma updateAdded_flag:
  "cached_flag (updateAddedMembers uids uuid w) u x =
     (if u \<in> set uids \<and> x = uuid \<and> cached_flag w u x \<noteq> None then Some (FlagBool True) else cached_flag w u x)"
  by (auto simp: cached_flag_def updateAdded_docs split: option.split)

lemma modified_flag:
  "cached_flag (handleMembersModified uuid added removed w) u x =
     (if x = uuid \<and> u \<in> set removed then None
      else if x = uuid \<and> u \<in> set added \<and> cached_flag w u x \<noteq> None then Some (FlagBool True)
      else cached_flag w u x)"
  by (auto simp: handleMembersModified_def invalidate_flag updateAdded_flag)

lemma checkMembership_eq:
  "checkMembership reply u x w =
     (case cached_flag w u x of
        Some flag \<Rightarrow> (Inr flag, w)
      | None \<Rightarrow> (case reply of Inl e \<Rightarrow> (Inl e, w)
                | Inr flag \<Rightarrow> (Inr flag, cacheMembership u x flag (get_membership w u) w)))"
  by (simp add: checkMembership_def fetchMembership_def cached_flag_def Let_def split: option.split)

lemma cacheMembership_flag:
  "cached_flag (cacheMembership u x flag (get_membership w u) w) u' x' =
     (if u' = u \<and> x' = x then Some flag else cached_flag w u' x')"
  by (auto simp: cacheMembership_def cached_flag_set Let_def) (simp add: cached_flag_def split: option.split)+

section \<open>The authority the gateway asks\<close>

text \<open>
  \<open>check db u x\<close> is the reply of the authority in the state \<open>db\<close>, \<open>member db u x\<close> the truth, \<open>valid\<close>
  the states the authority can be in.
\<close>

locale membership_authority =
  fixes check :: "'db \<Rightarrow> string \<Rightarrow> string \<Rightarrow> membership_flag result"
    and member :: "'db \<Rightarrow> string \<Rightarrow> string \<Rightarrow> bool"
    and valid :: "'db \<Rightarrow> bool"
  assumes check_member: "valid db \<Longrightarrow> member db u x \<Longrightarrow> \<exists>flag. check db u x = Inr flag \<and> flag_truthy flag"
    and check_stranger: "valid db \<Longrightarrow> \<not> member db u x \<Longrightarrow> \<exists>e. check db u x = Inl e"
begin

text \<open>The cache lets nobody in who is not a member.\<close>

definition coherent :: "'db \<Rightarrow> 'a net_scheme \<Rightarrow> bool" where
  "coherent db w \<longleftrightarrow> (\<forall>u x flag. cached_flag w u x = Some flag \<longrightarrow> flag_truthy flag \<and> member db u x)"

lemma check_Inr: "valid db \<Longrightarrow> check db u x = Inr flag \<Longrightarrow> member db u x \<and> flag_truthy flag"
  using check_member [of db u x] check_stranger [of db u x] by auto

lemma check_keeps:
  assumes "valid db" "coherent db w" "checkMembership (check db u x) u x w = (r, w')"
  shows "coherent db w'"
  using assms check_Inr [of db u x]
  by (fastforce simp: checkMembership_eq coherent_def cacheMembership_flag split: option.splits sum.splits if_splits)

lemma check_sound:
  assumes "valid db" "coherent db w"
  shows "(\<exists>flag. fst (checkMembership (check db u x) u x w) = Inr flag \<and> flag_truthy flag) \<longleftrightarrow> member db u x"
proof (cases "cached_flag w u x")
  case None
  with assms(1) show ?thesis
    using check_member [of db u x] check_stranger [of db u x]
    by (cases "member db u x") (auto simp: checkMembership_eq)
next
  case (Some flag)
  with assms(2) show ?thesis by (auto simp: checkMembership_eq coherent_def)
qed

lemma modified_keeps:
  assumes "coherent db w"
    "\<And>u y. member db u y \<Longrightarrow> \<not> member db' u y \<Longrightarrow> y = x \<and> u \<in> set removed"
  shows "coherent db' (handleMembersModified x added removed w)"
  unfolding coherent_def modified_flag
proof (intro allI impI)
  fix u y flag
  assume a: "(if y = x \<and> u \<in> set removed then None
      else if y = x \<and> u \<in> set added \<and> cached_flag w u y \<noteq> None then Some (FlagBool True)
      else cached_flag w u y) = Some flag"
  then have "cached_flag w u y \<noteq> None" "\<not> (y = x \<and> u \<in> set removed)" by (auto split: if_splits)
  moreover from this(1) assms(1) have "member db u y" by (auto simp: coherent_def)
  moreover from a assms(1) have "flag_truthy flag" by (auto simp: coherent_def split: if_splits)
  ultimately show "flag_truthy flag \<and> member db' u y" using assms(2) by blast
qed

lemma deleted_keeps:
  assumes "coherent db w"
    "\<And>u y. member db u y \<Longrightarrow> \<not> member db' u y \<Longrightarrow> y = x \<and> u \<in> set removed"
  shows "coherent db' (handleWorkspaceDeleted x removed w)"
  using modified_keeps [OF assms, where added = "[]"]
  by (simp add: handleMembersModified_def handleWorkspaceDeleted_def updateAddedMembers_def)

end

text \<open>The reply of the workspace service.\<close>

definition membership_reply :: "'a wsvc_scheme \<Rightarrow> string \<Rightarrow> string \<Rightarrow> membership_flag result" where
  "membership_reply w uid uuid =
     (case isUserMemberOf uid uuid w of Inl e \<Rightarrow> Inl e | Inr (img, dedicated) \<Rightarrow> Inr (FlagInfo img dedicated))"

interpretation ws_authority: membership_authority membership_reply "\<lambda>w u x. is_member u x w" db_wf
proof
  fix db :: "'a wsvc_scheme" and u x
  assume wf: "db_wf db"
  show "is_member u x db \<Longrightarrow> \<exists>flag. membership_reply db u x = Inr flag \<and> flag_truthy flag"
    using isUserMemberOf_iff [OF wf, of u x] by (auto simp: membership_reply_def)
  show "\<not> is_member u x db \<Longrightarrow> \<exists>e. membership_reply db u x = Inl e"
    using isUserMemberOf_iff [OF wf, of u x] by (cases "isUserMemberOf u x db") (auto simp: membership_reply_def)
qed

end
