(* ===== verification/Gateway_Presence.thy ===== *)
theory Gateway_Presence
  imports Gateway_Membership
begin

text \<open>
  Sessions and their time-outs (\<^verbatim>\<open>gateway/src/socket/presence.service.ts\<close>). A session is active while
  its browser pings; a timer key of the cache that runs out makes it inactive, and, when it runs out
  again, closes it. The workspace a session has open has a timer of its own.

  The time-outs come from the environment variables (\<open>presence_config\<close>). The documents the methods
  mutate are returned by writing them to the cache, as the code does.
\<close>

section \<open>Time-outs\<close>

record presence_config =
  wsPingTimeout :: int
  wsActivityTimeout :: int
  sessionPingTimeout :: int
  sessionActivityTimeout :: int

definition new_PresenceService ::
  "string option \<Rightarrow> string option \<Rightarrow> string option \<Rightarrow> string option \<Rightarrow> presence_config" where
  "new_PresenceService wp wa sp sa =
     \<lparr>wsPingTimeout = env_int wp 20000, wsActivityTimeout = env_int wa 300000,
      sessionPingTimeout = env_int sp 20000, sessionActivityTimeout = env_int sa 360000\<rparr>"

section \<open>State changes\<close>

definition setSessionState ::
  "presence_config \<Rightarrow> CachedPresence \<Rightarrow> string \<Rightarrow> string \<Rightarrow> activity \<Rightarrow> 'a net_scheme \<Rightarrow>
   CachedPresence result \<times> 'a net_scheme" where
  "setSessionState cfg presence uid sessionId state w =
     (case ob_get presence sessionId of
        None \<Rightarrow> (Inl TypeErr, w)
      | Some session \<Rightarrow>
          (let presence' = ob_set presence sessionId (session\<lparr>cs_state := state\<rparr>);
               w1 = set_presence w uid presence'
           in (Inr presence',
               if state = Inactive
               then cache_set w1 (CACHEKEY_PRESENCE_SESSION uid sessionId) (CvNum 0) (Some (sessionActivityTimeout cfg))
               else cache_set w1 (CACHEKEY_PRESENCE_SESSION uid sessionId) (CvNum 1) (Some (sessionPingTimeout cfg)))))"

definition setWorkspaceState ::
  "presence_config \<Rightarrow> CachedWorkspace option \<Rightarrow> string \<Rightarrow> string \<Rightarrow> string option \<Rightarrow> activity \<Rightarrow>
   'a net_scheme \<Rightarrow> 'a net_scheme" where
  "setWorkspaceState cfg workspace uid sessionId wsUuid state w =
     (case workspace of None \<Rightarrow> w
      | Some ws \<Rightarrow>
          if \<not> truthy wsUuid then w
          else
            (let u = js_str wsUuid;
                 w1 = set_workspace w u (ws\<lparr>cw_state := state\<rparr>)
             in if state = Inactive
                then cache_set w1 (CACHEKEY_PRESENCE_WORKSPACE uid sessionId u) (CvNum 0) (Some (wsActivityTimeout cfg))
                else cache_set w1 (CACHEKEY_PRESENCE_WORKSPACE uid sessionId u) (CvNum 1) (Some (wsPingTimeout cfg))))"

section \<open>Expiry\<close>

text \<open>The users in the directories of the workspace, each with the session that has it open.\<close>

definition workspace_uids :: "CachedWorkspace \<Rightarrow> string list" where
  "workspace_uids ws = js_set (concat (map snd (cw_dirs ws)))"

definition open_session :: "'a net_scheme \<Rightarrow> string \<Rightarrow> string \<Rightarrow> string option" where
  "open_session w wsUuid uid =
     (case get_presence w uid of None \<Rightarrow> None | Some p \<Rightarrow> session_of p wsUuid)"

text \<open>\<open>dispose\<close> is the outcome of the HTTP request to the provisioner, an error when it throws.\<close>

definition handleWorkspaceExpiry ::
  "unit result \<Rightarrow> string \<Rightarrow> 'a net_scheme \<Rightarrow> unit result \<times> 'a net_scheme" where
  "handleWorkspaceExpiry dispose wsUuid w =
     (let w1 = (case get_workspace w wsUuid of None \<Rightarrow> w
                | Some workspace \<Rightarrow>
                    (let userIds = workspace_uids workspace;
                         sessionIds = map (open_session w wsUuid) userIds;
                         pairs = filter (\<lambda>(uid, sid). truthy sid) (zip userIds sessionIds);
                         wd = fold (\<lambda>(uid, sid) w.
                                cache_del w (CACHEKEY_PRESENCE_WORKSPACE uid (js_str sid) wsUuid)) pairs w
                     in emit wd (map (\<lambda>(uid, sid). Socket_send (Some (uid, js_str sid)) uid (js_str sid) ''env''
                                   (Env_disconnect ''INACTIVE_TIMEOUT'')) pairs)));
          w2 = cache_del w1 (CACHEKEY_WORKSPACE wsUuid)
      in (dispose, emit w2 [Http_call ''POST'' (''http://provisioner/api/dispose?uuid='' @ wsUuid)]))"

definition handleSessionExpiry ::
  "unit result \<Rightarrow> CachedPresence \<Rightarrow> string \<Rightarrow> string \<Rightarrow> 'a net_scheme \<Rightarrow> unit result \<times> 'a net_scheme" where
  "handleSessionExpiry dispose presence uid sessionId w =
     (case ob_get presence sessionId of
        None \<Rightarrow> (Inl TypeErr, w)
      | Some session \<Rightarrow>
          (let w1 = emit w [Ev_gateway_close (''gateway.'' @ cs_gatewayId session) (cs_socketId session)]
           in case (if truthy (cs_wsUuid session) then handleWorkspaceExpiry dispose (js_str (cs_wsUuid session)) w1
                    else (Inr (), w1)) of
                (Inl e, w2) \<Rightarrow> (Inl e, w2)
              | (Inr _, w2) \<Rightarrow>
                  (let rest = ob_del presence sessionId
                   in (Inr (), if rest = [] then cache_del w2 (CACHEKEY_PRESENCE uid) else set_presence w2 uid rest))))"

definition handleStaleSession ::
  "presence_config \<Rightarrow> unit result \<Rightarrow> string \<Rightarrow> string \<Rightarrow> 'a net_scheme \<Rightarrow> unit result \<times> 'a net_scheme" where
  "handleStaleSession cfg dispose uid sessionId w =
     (case get_presence w uid of None \<Rightarrow> (Inr (), w)
      | Some presence \<Rightarrow>
          (case ob_get presence sessionId of None \<Rightarrow> (Inr (), w)
           | Some session \<Rightarrow>
               if cs_state session = Active then
                 (let w1 = (if truthy (cs_wsUuid session)
                            then setWorkspaceState cfg (get_workspace w (js_str (cs_wsUuid session)))
                                   uid sessionId (cs_wsUuid session) Inactive w
                            else w);
                      (r, w2) = setSessionState cfg presence uid sessionId Inactive w1
                  in (case r of Inl e \<Rightarrow> Inl e | Inr _ \<Rightarrow> Inr (), w2))
               else handleSessionExpiry dispose presence uid sessionId w))"

definition handleStaleWorkspace ::
  "presence_config \<Rightarrow> unit result \<Rightarrow> string \<Rightarrow> string \<Rightarrow> string \<Rightarrow> 'a net_scheme \<Rightarrow> unit result \<times> 'a net_scheme" where
  "handleStaleWorkspace cfg dispose uid sessionId wsUuid w =
     (case get_workspace w wsUuid of None \<Rightarrow> (Inr (), w)
      | Some workspace \<Rightarrow>
          if cw_state workspace = Active
          then (Inr (), setWorkspaceState cfg (Some workspace) uid sessionId (Some wsUuid) Inactive w)
          else handleWorkspaceExpiry dispose wsUuid w)"

text \<open>\<open>parts\<close> are the parts of the key after \<^verbatim>\<open>presence\<close>; missing ones read as \<^verbatim>\<open>undefined\<close>.\<close>

definition part :: "string list \<Rightarrow> nat \<Rightarrow> string option" where
  "part parts i = (if i < length parts then Some (parts ! i) else None)"

definition handleStalePresence ::
  "presence_config \<Rightarrow> unit result \<Rightarrow> string list \<Rightarrow> 'a net_scheme \<Rightarrow> unit result \<times> 'a net_scheme" where
  "handleStalePresence cfg dispose parts w =
     (if \<not> truthy (part parts 2)
      then handleStaleSession cfg dispose (js_str (part parts 0)) (js_str (part parts 1)) w
      else handleStaleWorkspace cfg dispose (js_str (part parts 0)) (js_str (part parts 1)) (js_str (part parts 2)) w)"

section \<open>Pings\<close>

text \<open>\<open>uuid\<close> is the workspace named by the ping; \<open>None\<close> a message with another action.\<close>

definition handlePresenceMessage ::
  "presence_config \<Rightarrow> membership_flag result \<Rightarrow> string \<Rightarrow> string \<Rightarrow> CachedPresence \<Rightarrow> string option option \<Rightarrow>
   'a net_scheme \<Rightarrow> string list option result \<times> 'a net_scheme" where
  "handlePresenceMessage cfg reply uid sessionId presence msg w =
     (case msg of None \<Rightarrow> (Inr None, w)
      | Some uuid \<Rightarrow>
          (case setSessionState cfg presence uid sessionId Active w of
             (Inl e, w1) \<Rightarrow> (Inl e, w1)
           | (Inr presence', w1) \<Rightarrow>
               (let wsUuid = (case ob_get presence' sessionId of None \<Rightarrow> None | Some s \<Rightarrow> cs_wsUuid s)
                in if truthy wsUuid \<and> wsUuid = uuid then
                     (case checkMembership reply uid (js_str wsUuid) w1 of
                        (Inl e, w2) \<Rightarrow> (Inl e, w2)
                      | (Inr flag, w2) \<Rightarrow>
                          if \<not> flag_truthy flag then (Inr None, w2)
                          else
                            (let workspace = get_workspace w2 (js_str wsUuid);
                                 w3 = setWorkspaceState cfg workspace uid sessionId wsUuid Active w2
                             in case workspace of None \<Rightarrow> (Inr None, w3)
                                | Some ws \<Rightarrow> (Inr (ob_get (cw_dirs ws) ''/workspace/''), w3)))
                   else (Inr None, w1))))"

end
