(* ===== verification/Gateway_Socket.thy ===== *)
theory Gateway_Socket
  imports Gateway_Presence
begin

text \<open>
  The web socket gateway (\<^verbatim>\<open>gateway/src/socket/socket.gateway.ts\<close>, \<^verbatim>\<open>socket.controller.ts\<close>): connections,
  messages from the browser and their routing to the env instances, delivery of messages to the
  browser, and the expiry events of the cache.

  The reply of the auth service (\<open>validate\<close>, the user id or an error), the Firestore query (\<open>users\<close>), the
  membership reply and the answers to health checks (\<open>health\<close>, by channel) are arguments. A lock of
  Redlock is an entry of \<open>locks\<close> with the time it lapses. Acquiring a lock is tried a few times; the
  model takes the handler at the time of the attempt that decides, which gets the lock if it is free or
  lapsed then and throws otherwise.
\<close>

section \<open>State\<close>

record gw = net +
  locks :: "(string, int) obj"
  instanceId :: string
  allowConnections :: bool
  socket_data :: "(string, string \<times> string) obj"   \<comment> \<open>socket id to user id and session id\<close>
  server_sockets :: "string list"                  \<comment> \<open>the sockets the library keeps open\<close>

definition acquireLock :: "string \<Rightarrow> int \<Rightarrow> 'a gw_scheme \<Rightarrow> unit result \<times> 'a gw_scheme" where
  "acquireLock key duration w =
     (let k = ''locks:'' @ key
      in if (case ob_get (locks w) k of None \<Rightarrow> False | Some t \<Rightarrow> clock w < t)
         then (Inl (LibErr ''ExecutionError''), w)
         else (Inr (), w\<lparr>locks := ob_set (locks w) k (clock w + duration)\<rparr>))"

definition releaseLock :: "string \<Rightarrow> 'a gw_scheme \<Rightarrow> 'a gw_scheme" where
  "releaseLock key w = w\<lparr>locks := ob_del (locks w) (''locks:'' @ key)\<rparr>"

section \<open>Connections\<close>

definition handleAuthentication ::
  "(string \<Rightarrow> string result) \<Rightarrow> (string \<Rightarrow> user_profile list result) \<Rightarrow> string \<Rightarrow> 'a gw_scheme \<Rightarrow>
   string option \<times> 'a gw_scheme" where
  "handleAuthentication validate users token w =
     (let w1 = emit w [Http_call ''POST'' ''http://auth/api/validate'']
      in case validate token of
           Inl e \<Rightarrow> (None, w1)
         | Inr uid \<Rightarrow>
             (case get_user w1 (CACHEKEY_USER_PROFILE uid) of
                Some _ \<Rightarrow> (Some uid, w1)
              | None \<Rightarrow>
                  (case users uid of
                     Inl e \<Rightarrow> (None, w1)
                   | Inr [] \<Rightarrow> (Some uid, w1)
                   | Inr (userProfile # _) \<Rightarrow>
                       (Some uid, cache_set w1 (CACHEKEY_USER_PROFILE uid) (CvUser userProfile) None))))"

text \<open>The part of \<^verbatim>\<open>handleConnection\<close> after the authentication, under the lock.\<close>

definition open_session_of ::
  "presence_config \<Rightarrow> string \<Rightarrow> string \<Rightarrow> string \<Rightarrow> 'a gw_scheme \<Rightarrow> unit result \<times> 'a gw_scheme" where
  "open_session_of cfg sid uid sessionId w =
     (let presence = (case get_presence w uid of None \<Rightarrow> [] | Some p \<Rightarrow> p);
          old = ob_get presence sessionId;
          wsUuid = (case old of None \<Rightarrow> None | Some s \<Rightarrow> cs_wsUuid s);
          presence' = ob_set presence sessionId
             \<lparr>cs_state = Active, cs_socketId = sid, cs_gatewayId = instanceId w, cs_wsUuid = wsUuid\<rparr>;
          w1 = (case old of None \<Rightarrow> w
                | Some s \<Rightarrow> if cs_socketId s \<noteq> [] \<and> cs_gatewayId s \<noteq> []
                            then emit w [Ev_gateway_close (''gateway.'' @ cs_gatewayId s) (cs_socketId s)] else w)
      in case setSessionState cfg presence' uid sessionId Active w1 of
           (Inl e, w2) \<Rightarrow> (Inl e, w2)
         | (Inr _, w2) \<Rightarrow>
             (case get_workspace w2 (js_str wsUuid) of
                None \<Rightarrow> (Inr (), w2)
              | Some workspace \<Rightarrow> (Inr (), setWorkspaceState cfg (Some workspace) uid sessionId wsUuid Active w2)))"

definition handleConnection ::
  "presence_config \<Rightarrow> (string \<Rightarrow> string result) \<Rightarrow> (string \<Rightarrow> user_profile list result) \<Rightarrow>
   string \<Rightarrow> string option \<Rightarrow> string \<Rightarrow> 'a gw_scheme \<Rightarrow> unit result \<times> 'a gw_scheme" where
  "handleConnection cfg validate users sid token sessionId w =
     (if \<not> allowConnections w then (Inr (), emit w [Socket_close sid])
      else if \<not> truthy token then (Inr (), emit w [Socket_close sid])
      else
        (case handleAuthentication validate users (js_str token) w of
           (None, w1) \<Rightarrow> (Inr (), emit w1 [Socket_close sid])
         | (Some uid, w1) \<Rightarrow>
             (case acquireLock (uid @ '':'' @ sessionId) 10000 w1 of
                (Inl e, w2) \<Rightarrow> (Inl e, w2)
              | (Inr _, w2) \<Rightarrow>
                  (let w3 = w2\<lparr>socket_data := ob_set (socket_data w2) sid (uid, sessionId)\<rparr>
                   in case open_session_of cfg sid uid sessionId w3 of
                        (Inl e, w4) \<Rightarrow> (Inl e, w4)
                      | (Inr _, w4) \<Rightarrow> (Inr (), releaseLock (uid @ '':'' @ sessionId) w4)))))"

definition handleDisconnect :: "presence_config \<Rightarrow> string \<Rightarrow> 'a gw_scheme \<Rightarrow> unit result \<times> 'a gw_scheme" where
  "handleDisconnect cfg sid w =
     (case ob_get (socket_data w) sid of
        None \<Rightarrow> (Inl TypeErr, w)
      | Some (uid, sessionId) \<Rightarrow>
          (case acquireLock (uid @ '':'' @ sessionId) 10000 w of
             (Inl e, w1) \<Rightarrow> (Inl e, w1)
           | (Inr _, w1) \<Rightarrow>
               (case (case get_presence w1 uid of None \<Rightarrow> None
                      | Some p \<Rightarrow> map_option (Pair p) (ob_get p sessionId)) of
                  None \<Rightarrow> (Inr (), w1)
                | Some (presence, session) \<Rightarrow>
                    (case setSessionState cfg presence uid sessionId Inactive w1 of
                       (Inl e, w2) \<Rightarrow> (Inl e, w2)
                     | (Inr _, w2) \<Rightarrow>
                         (let wsUuid = cs_wsUuid session;
                              w3 = (case get_workspace w2 (js_str wsUuid) of None \<Rightarrow> w2
                                    | Some workspace \<Rightarrow>
                                        setWorkspaceState cfg (Some workspace) uid sessionId wsUuid Inactive w2)
                          in (Inr (), releaseLock (uid @ '':'' @ sessionId) w3))))))"

section \<open>Events of another gateway instance\<close>

text \<open>A message on the channel of this instance: the user of its meta data, if any, and the socket to
  close. What the gateway sends there (\<open>Ev_gateway_close\<close>) has no meta data.\<close>

record gateway_event =
  ge_uid :: "string option"
  ge_action :: string
  ge_socketId :: string

definition event_of :: "emission \<Rightarrow> (string \<times> gateway_event) option" where
  "event_of e = (case e of
     Ev_gateway_close channel socketId \<Rightarrow>
       Some (channel, \<lparr>ge_uid = None, ge_action = ''socket.close'', ge_socketId = socketId\<rparr>)
   | _ \<Rightarrow> None)"

definition instance_message :: "string \<Rightarrow> gateway_event \<Rightarrow> 'a gw_scheme \<Rightarrow> 'a gw_scheme" where
  "instance_message chan ev w =
     (if chan \<noteq> ''gateway.'' @ instanceId w then w
      else if \<not> truthy (ge_uid ev) then w
      else if ge_action ev = ''socket.close'' \<and> ge_socketId ev \<in> set (server_sockets w)
      then emit w [Socket_close (ge_socketId ev)] else w)"

definition onModuleDestroy :: "'a gw_scheme \<Rightarrow> 'a gw_scheme" where
  "onModuleDestroy w = emit (w\<lparr>allowConnections := False\<rparr>) (map Socket_close (server_sockets w))"

section \<open>Delivery to the browser\<close>

definition send :: "string \<Rightarrow> string \<Rightarrow> string \<Rightarrow> out_message \<Rightarrow> 'a gw_scheme \<Rightarrow> 'a gw_scheme" where
  "send pattern uid sessionId msg w =
     (case get_presence w uid of None \<Rightarrow> w
      | Some p \<Rightarrow>
          (case ob_get p sessionId of None \<Rightarrow> w
           | Some s \<Rightarrow> if cs_socketId s \<noteq> [] then emit w [Socket_emit (cs_socketId s) pattern msg] else w))"

text \<open>The socket of the \<open>i\<close>-th recipient: reading \<^verbatim>\<open>socketId\<close> of a session that the presence document
  does not have throws.\<close>

definition socket_at :: "'a gw_scheme \<Rightarrow> string \<Rightarrow> string option \<Rightarrow> string option result" where
  "socket_at w uid sid =
     (case get_presence w uid of None \<Rightarrow> Inr None
      | Some p \<Rightarrow>
          (case ob_get p (js_str sid) of None \<Rightarrow> Inl TypeErr | Some s \<Rightarrow> Inr (Some (cs_socketId s))))"

definition broadcast ::
  "string list \<Rightarrow> string list \<Rightarrow> string \<Rightarrow> out_message \<Rightarrow> 'a gw_scheme \<Rightarrow> unit result \<times> 'a gw_scheme" where
  "broadcast uids sessionIds pattern msg w =
     (let socketIds = map (\<lambda>i. socket_at w (uids ! i) (part sessionIds i)) [0..<length uids]
      in if \<exists>r \<in> set socketIds. isl r then (Inl TypeErr, w)
         else (Inr (), emit w (concat (map (\<lambda>r. case r of
                 Inr (Some socketId) \<Rightarrow> if socketId \<noteq> [] then [Socket_emit socketId pattern msg] else []
               | _ \<Rightarrow> []) socketIds))))"

section \<open>Messages from the browser\<close>

definition stickyActions :: "string list" where
  "stickyActions = [''fs.sync'', ''ssh.data'', ''ssh.close'', ''fs.open.ack'', ''fs.conflict.resolve'', ''ws.run'']"

definition reply_error :: "string \<Rightarrow> string option \<Rightarrow> string \<Rightarrow> 'a gw_scheme \<Rightarrow> 'a gw_scheme" where
  "reply_error sid correlationId code w =
     (if truthy correlationId then emit w [Socket_emit sid (js_str correlationId) (Reply_error code)] else w)"

definition handleFSLoss ::
  "string \<Rightarrow> CachedWorkspace \<Rightarrow> string \<Rightarrow> int \<Rightarrow> 'a gw_scheme \<Rightarrow> 'a gw_scheme" where
  "handleFSLoss sid workspace wsUuid ino w =
     emit (set_workspace w wsUuid (workspace\<lparr>cw_docs := ob_del (cw_docs workspace) ino\<rparr>))
       [Socket_emit sid ''fs'' (Out_lost ino)]"

definition handleSSHSLoss ::
  "string \<Rightarrow> CachedWorkspace \<Rightarrow> string \<Rightarrow> string \<Rightarrow> string \<Rightarrow> 'a gw_scheme \<Rightarrow> 'a gw_scheme" where
  "handleSSHSLoss sid workspace sessionId wsUuid sshSessionId w =
     emit (set_workspace w wsUuid (workspace\<lparr>cw_sshs := ob_del (cw_sshs workspace) sessionId\<rparr>))
       [Socket_emit sid ''ssh'' (Ssh_closed sshSessionId True)]"

text \<open>The env instance a sticky message goes to, and what is done when that instance does not answer.\<close>

definition env_target :: "CachedWorkspace \<Rightarrow> string \<Rightarrow> in_payload \<Rightarrow> string option" where
  "env_target workspace sessionId p =
     (case p of
        Fs_sync _ ino _ \<Rightarrow> ob_get (cw_docs workspace) ino
      | Fs_open_ack _ ino \<Rightarrow> ob_get (cw_docs workspace) ino
      | Fs_conflict_resolve _ ino _ \<Rightarrow> ob_get (cw_docs workspace) ino
      | Ssh_data _ _ _ \<Rightarrow> ob_get (cw_sshs workspace) sessionId
      | Ssh_close _ _ \<Rightarrow> ob_get (cw_sshs workspace) sessionId
      | Ws_run _ _ _ \<Rightarrow> Some (cw_fs workspace)
      | _ \<Rightarrow> Some '''')"

definition env_lost ::
  "string \<Rightarrow> CachedWorkspace \<Rightarrow> string \<Rightarrow> in_message \<Rightarrow> 'a gw_scheme \<Rightarrow> 'a gw_scheme" where
  "env_lost sid workspace sessionId msg w =
     (case im_payload msg of
        Fs_sync uuid ino _ \<Rightarrow> handleFSLoss sid workspace uuid ino w
      | Fs_open_ack uuid ino \<Rightarrow> handleFSLoss sid workspace uuid ino w
      | Fs_conflict_resolve uuid ino _ \<Rightarrow> handleFSLoss sid workspace uuid ino w
      | Ssh_data uuid ssh _ \<Rightarrow> handleSSHSLoss sid workspace sessionId uuid ssh w
      | Ssh_close uuid ssh \<Rightarrow> handleSSHSLoss sid workspace sessionId uuid ssh w
      | Ws_run _ _ _ \<Rightarrow> reply_error sid (im_correlationId msg) ''WS_NOT_REACHABLE'' w
      | _ \<Rightarrow> w)"

definition handleEnvMessage ::
  "membership_flag result \<Rightarrow> (string \<Rightarrow> bool) \<Rightarrow> string \<Rightarrow> string \<Rightarrow> string \<Rightarrow> in_message \<Rightarrow> 'a gw_scheme \<Rightarrow>
   unit result \<times> 'a gw_scheme" where
  "handleEnvMessage reply health sid uid sessionId msg w =
     (let uuid = in_uuid (im_payload msg)
      in case get_workspace w uuid of
           None \<Rightarrow> (Inr (), reply_error sid (im_correlationId msg) ''NO_WORKSPACE'' w)
         | Some workspace \<Rightarrow>
             (case checkMembership reply uid uuid w of
                (Inl e, w1) \<Rightarrow> (Inl e, w1)
              | (Inr isAuthZ, w1) \<Rightarrow>
                  if \<not> flag_truthy isAuthZ
                  then (Inr (), reply_error sid (im_correlationId msg) ''NOT_A_MEMBER'' w1)
                  else if in_action (im_payload msg) \<in> set stickyActions then
                    (let channel = ''env.'' @ js_str (env_target workspace sessionId (im_payload msg))
                     in if \<not> health (channel @ ''.health'') then (Inr (), env_lost sid workspace sessionId msg w1)
                        else (Inr (), emit w1 [Ev_env_message channel uid sessionId msg]))
                  else (Inr (), emit w1 [Nats_env_message uid sessionId msg])))"

text \<open>The message of a browser by service; a presence message carries the ping, see
  \<open>handlePresenceMessage\<close>.\<close>

datatype socket_msg =
    Msg_env in_message
  | Msg_presence "string option option" "string option"
  | Msg_other "string option"

fun msg_correlationId :: "socket_msg \<Rightarrow> string option" where
  "msg_correlationId (Msg_env m) = im_correlationId m"
| "msg_correlationId (Msg_presence _ c) = c"
| "msg_correlationId (Msg_other c) = c"

definition handleSocketMessage ::
  "presence_config \<Rightarrow> membership_flag result \<Rightarrow> (string \<Rightarrow> bool) \<Rightarrow> string \<Rightarrow> socket_msg \<Rightarrow> 'a gw_scheme \<Rightarrow>
   unit result \<times> 'a gw_scheme" where
  "handleSocketMessage cfg reply health sid msg w =
     (case ob_get (socket_data w) sid of
        None \<Rightarrow> (Inl TypeErr, w)
      | Some (uid, sessionId) \<Rightarrow>
          (case (case get_presence w uid of None \<Rightarrow> None
                 | Some p \<Rightarrow> map_option (Pair p) (ob_get p sessionId)) of
             None \<Rightarrow> (Inr (), emit (reply_error sid (msg_correlationId msg) ''NO_SESSION'' w) [Socket_close sid])
           | Some (presence, session) \<Rightarrow>
               (case msg of
                  Msg_env m \<Rightarrow> handleEnvMessage reply health sid uid sessionId m w
                | Msg_presence ping c \<Rightarrow>
                    (case handlePresenceMessage cfg reply uid sessionId presence ping w of
                       (Inl e, w1) \<Rightarrow> (Inl e, w1)
                     | (Inr None, w1) \<Rightarrow> (Inr (), w1)
                     | (Inr (Some uids), w1) \<Rightarrow> (Inr (), send ''env'' uid sessionId (Env_awareness uids) w1))
                | Msg_other c \<Rightarrow> (Inr (), w))))"

section \<open>Expiry events\<close>

definition handleCacheExpiry ::
  "presence_config \<Rightarrow> unit result \<Rightarrow> string \<Rightarrow> 'a gw_scheme \<Rightarrow> unit result \<times> 'a gw_scheme" where
  "handleCacheExpiry cfg dispose key w =
     (case acquireLock key 10000 w of
        (Inl e, w1) \<Rightarrow> (Inl e, w1)
      | (Inr _, w1) \<Rightarrow>
          (let parts = js_split (CHR '':'') key
           in case (if hd parts = ''presence'' then handleStalePresence cfg dispose (tl parts) w1 else (Inr (), w1)) of
                (Inl e, w2) \<Rightarrow> (Inl e, w2)
              | (Inr _, w2) \<Rightarrow> (Inr (), releaseLock key w2)))"

text \<open>Redis drops a key whose time is over and publishes the event.\<close>

definition expire_key ::
  "presence_config \<Rightarrow> unit result \<Rightarrow> string \<Rightarrow> 'a gw_scheme \<Rightarrow> unit result \<times> 'a gw_scheme" where
  "expire_key cfg dispose key w = handleCacheExpiry cfg dispose key (cache_del w key)"

end
