(* ===== verification/Gateway_Sessions.thy ===== *)
theory Gateway_Sessions
  imports Gateway_Socket
begin

text \<open>
  The life of a session in the gateway: the steps of the gateway as a transition relation, the
  invariant that every session has a timer unless the handling of its expiry failed, and what happens when timers
  run out.
\<close>

section \<open>Steps\<close>

text \<open>A step is labelled with the sessions whose expiry it did not handle to the end, because the lock was
  taken or the provisioner did not answer: the timer of such a session is gone.\<close>

inductive gw_step ::
  "presence_config \<Rightarrow> (string \<times> string) set \<Rightarrow> 'a gw_scheme \<Rightarrow> 'a gw_scheme \<Rightarrow> bool" for cfg where
  connect: "\<lbrakk>handleConnection cfg validate users sid token sess w = (r, w');
     \<forall>t u. validate t = Inr u \<longrightarrow> colon_free u; colon_free sess\<rbrakk> \<Longrightarrow> gw_step cfg {} w w'"
| disconnect: "handleDisconnect cfg sid w = (r, w') \<Longrightarrow> gw_step cfg {} w w'"
| message: "handleSocketMessage cfg reply health sid msg w = (r, w') \<Longrightarrow> gw_step cfg {} w w'"
| session_expiry: "\<lbrakk>due w (CACHEKEY_PRESENCE_SESSION u s); colon_free u; colon_free s;
     expire_key cfg dispose (CACHEKEY_PRESENCE_SESSION u s) w = (r, w')\<rbrakk>
     \<Longrightarrow> gw_step cfg (if isl r then {(u, s)} else {}) w w'"
| workspace_expiry: "\<lbrakk>due w (CACHEKEY_PRESENCE_WORKSPACE u s y); colon_free u; colon_free s; colon_free y; y \<noteq> [];
     expire_key cfg dispose (CACHEKEY_PRESENCE_WORKSPACE u s y) w = (r, w')\<rbrakk> \<Longrightarrow> gw_step cfg {} w w'"
| members: "w' = handleMembersModified y added removed w \<Longrightarrow> gw_step cfg {} w w'"
| deleted: "w' = handleWorkspaceDeleted y removed w \<Longrightarrow> gw_step cfg {} w w'"
| deliver: "w' = send pat u s m w \<Longrightarrow> gw_step cfg {} w w'"
| deliver_all: "broadcast us ss pat m w = (r, w') \<Longrightarrow> gw_step cfg {} w w'"
| instance_event: "w' = instance_message chan ev w \<Longrightarrow> gw_step cfg {} w w'"
| tick: "clock w \<le> t \<Longrightarrow> w' = w\<lparr>clock := t\<rparr> \<Longrightarrow> gw_step cfg {} w w'"

text \<open>The states a gateway reaches, with the sessions whose expiry failed on the way.\<close>

inductive gw_run ::
  "presence_config \<Rightarrow> 'a gw_scheme \<Rightarrow> (string \<times> string) set \<Rightarrow> 'a gw_scheme \<Rightarrow> bool" for cfg w where
  start: "gw_run cfg w {} w"
| step: "\<lbrakk>gw_run cfg w F w1; gw_step cfg G w1 w2\<rbrakk> \<Longrightarrow> gw_run cfg w (F \<union> G) w2"

section \<open>Sessions and timers\<close>

definition session :: "'a net_scheme \<Rightarrow> string \<Rightarrow> string \<Rightarrow> CachedSession option" where
  "session w u s = (case get_presence w u of None \<Rightarrow> None | Some p \<Rightarrow> ob_get p s)"

definition timed :: "'a net_scheme \<Rightarrow> string \<Rightarrow> string \<Rightarrow> bool" where
  "timed w u s \<longleftrightarrow> ob_get (cache w) (CACHEKEY_PRESENCE_SESSION u s) \<noteq> None"

text \<open>A session has a timer, or it is one of those whose expiry failed.\<close>

definition watched :: "(string \<times> string) set \<Rightarrow> 'a net_scheme \<Rightarrow> string \<Rightarrow> string \<Rightarrow> bool" where
  "watched F w u s \<longleftrightarrow> timed w u s \<or> (u, s) \<in> F"

definition sessions_timed :: "(string \<times> string) set \<Rightarrow> 'a net_scheme \<Rightarrow> bool" where
  "sessions_timed F w \<longleftrightarrow>
     (\<forall>u s. colon_free u \<longrightarrow> session w u s \<noteq> None \<longrightarrow> colon_free s \<and> watched F w u s)"

definition sockets_ok :: "'a gw_scheme \<Rightarrow> bool" where
  "sockets_ok w \<longleftrightarrow> (\<forall>sid u s. ob_get (socket_data w) sid = Some (u, s) \<longrightarrow> colon_free u \<and> colon_free s)"

text \<open>A change that opens no session and drops no timer.\<close>

definition keeps :: "'a net_scheme \<Rightarrow> 'b net_scheme \<Rightarrow> bool" where
  "keeps w w' \<longleftrightarrow>
     (\<forall>u s. colon_free u \<longrightarrow> session w' u s \<noteq> None \<longrightarrow> session w u s \<noteq> None) \<and>
     (\<forall>u s. colon_free u \<longrightarrow> colon_free s \<longrightarrow> timed w u s \<longrightarrow> timed w' u s)"

lemma keeps_timed: "sessions_timed F w \<Longrightarrow> keeps w w' \<Longrightarrow> sessions_timed F w'"
  unfolding sessions_timed_def keeps_def watched_def by blast

lemma keeps_refl [simp, intro]: "keeps w w"
  by (simp add: keeps_def)

lemma keeps_trans: "keeps u v \<Longrightarrow> keeps v w \<Longrightarrow> keeps u w"
  unfolding keeps_def by blast

lemma raw_ops:
  "ob_get (cache (cache_set w k v t)) k' = (if k' = k then Some (v, map_option ((+) (clock w)) t) else ob_get (cache w) k')"
  "ob_get (cache (cache_del w k)) k' = (if k' = k then None else ob_get (cache w) k')"
  by (auto simp: cache_set_def cache_del_def)

lemma keeps_set:
  assumes "\<forall>u. colon_free u \<longrightarrow> k \<noteq> CACHEKEY_PRESENCE u"
  shows "keeps w (cache_set w k v t)"
  using assms by (auto simp: keeps_def session_def timed_def raw_ops get_presence_def cache_get_set_other)

lemma keeps_del:
  assumes "\<forall>u. colon_free u \<longrightarrow> k \<noteq> CACHEKEY_PRESENCE u"
    "\<forall>u s. colon_free u \<longrightarrow> colon_free s \<longrightarrow> k \<noteq> CACHEKEY_PRESENCE_SESSION u s"
  shows "keeps w (cache_del w k)"
  using assms by (auto simp: keeps_def session_def timed_def raw_ops get_presence_def cache_simps)

lemma keeps_same_cache: "cache w' = cache w \<Longrightarrow> clock w' = clock w \<Longrightarrow> keeps w w'"
  using cache_get_cong [of w' w] by (simp add: keeps_def session_def timed_def get_presence_def)

text \<open>The same, with the state of the service behind the shared part unchanged.\<close>

definition calm :: "'a net_scheme \<Rightarrow> 'a net_scheme \<Rightarrow> bool" where
  "calm w w' \<longleftrightarrow> keeps w w' \<and> net.more w' = net.more w"

named_theorems calms

lemma calm_refl [simp, intro]: "calm w w"
  by (simp add: calm_def)

lemma calm_trans: "calm u v \<Longrightarrow> calm v w \<Longrightarrow> calm u w"
  unfolding calm_def using keeps_trans by metis

lemma calm_keeps: "calm w w' \<Longrightarrow> keeps w w'"
  by (simp add: calm_def)

lemma calm_more: "calm w w' \<Longrightarrow> net.more w' = net.more w"
  by (simp add: calm_def)

lemma calm_emit [calms]: "calm w (emit w es)"
  by (simp add: calm_def keeps_same_cache frame_simps)

lemma calm_set [calms]:
  "calm w (set_workspace w x d)" "calm w (set_membership w x m)"
  "calm w (cache_set w (CACHEKEY_PRESENCE_WORKSPACE u s x) v t)"
  "calm w (cache_set w (CACHEKEY_USER_PROFILE u) v t)"
  by (auto simp: calm_def set_workspace_def set_membership_def frame_simps presence_key_apart intro!: keeps_set)

lemma calm_del [calms]:
  "calm w (cache_del w (CACHEKEY_PRESENCE_WORKSPACE u s x))" "calm w (cache_del w (CACHEKEY_WORKSPACE x))"
  by (auto simp: calm_def frame_simps presence_key_apart session_key_apart intro!: keeps_del)

lemmas calm_via = calm_trans [OF _ calm_emit] calm_trans [OF _ calm_set(1)] calm_trans [OF _ calm_del(2)]

lemma calm_fold: "(\<And>x w. calm w (f x w)) \<Longrightarrow> calm w (fold f xs w)"
  by (induction xs arbitrary: w) (auto intro: calm_trans)

lemma calm_setWorkspaceState [calms]: "calm w (setWorkspaceState cfg d u s x st w)"
  unfolding setWorkspaceState_def Let_def
  by (auto split: option.split intro: calms calm_trans)

lemma calm_handleWorkspaceExpiry [calms]: "calm w (snd (handleWorkspaceExpiry disp x w))"
proof -
  have "calm w (fold (\<lambda>(u, sid) w. cache_del w (CACHEKEY_PRESENCE_WORKSPACE u (js_str sid) x)) ps w)" for ps
    by (rule calm_fold) (auto intro: calms)
  then show ?thesis
    unfolding handleWorkspaceExpiry_def Let_def by (auto split: option.split intro!: calm_via)
qed

lemma calm_handleStaleWorkspace [calms]: "calm w (snd (handleStaleWorkspace cfg disp u s x w))"
  by (auto simp: handleStaleWorkspace_def split: option.split intro: calms)

lemma calm_checkMembership [calms]: "calm w (snd (checkMembership reply u x w))"
  by (auto simp: checkMembership_eq cacheMembership_def split: option.split sum.split intro: calms)

lemma calm_members [calms]:
  "calm w (invalidateRemovedMembers us x w)" "calm w (updateAddedMembers us x w)"
  unfolding invalidateRemovedMembers_def updateAddedMembers_def
  by (rule calm_fold; auto split: option.split intro: calms)+

lemma calm_modified [calms]:
  "calm w (handleMembersModified x added removed w)" "calm w (handleWorkspaceDeleted x removed w)"
  unfolding handleMembersModified_def handleWorkspaceDeleted_def by (blast intro: calms calm_trans)+

lemma calm_gw [calms]:
  "calm w (reply_error sid c code w)" "calm w (handleFSLoss sid d x ino w)"
  "calm w (handleSSHSLoss sid d s x ssh w)" "calm w (send pat u s m w)" "calm w (instance_message chan ev w)"
  unfolding reply_error_def handleFSLoss_def handleSSHSLoss_def send_def instance_message_def
  by (auto split: option.split intro: calms calm_trans)

lemma calm_env_lost [calms]: "calm w (env_lost sid d s m w)"
  by (auto simp: env_lost_def split: in_payload.split intro: calms)

lemma calm_broadcast [calms]: "calm w (snd (broadcast us ss pat m w))"
  by (auto simp: broadcast_def Let_def intro: calms)

lemma calm_handleEnvMessage [calms]: "calm w (snd (handleEnvMessage reply health sid u s m w))"
proof (cases "get_workspace w (in_uuid (im_payload m))")
  case None
  then show ?thesis by (simp add: handleEnvMessage_def Let_def calms)
next
  case (Some d)
  obtain r w1 where c: "checkMembership reply u (in_uuid (im_payload m)) w = (r, w1)" by fastforce
  then have "calm w w1" using calm_checkMembership [of w reply u "in_uuid (im_payload m)"] by simp
  with Some c show ?thesis
    by (cases r) (auto simp: handleEnvMessage_def Let_def intro: calms calm_trans)
qed

lemma calm_handleAuthentication [calms]: "calm w (snd (handleAuthentication validate users token w))"
  unfolding handleAuthentication_def Let_def
  by (auto split: sum.split option.split list.split intro: calms calm_trans)

section \<open>No session is forgotten\<close>

definition gw_inv :: "(string \<times> string) set \<Rightarrow> 'a gw_scheme \<Rightarrow> bool" where
  "gw_inv F w \<longleftrightarrow> sessions_timed F w \<and> sockets_ok w"

lemma sockets_more: "net.more w' = net.more w \<Longrightarrow> sockets_ok w \<Longrightarrow> sockets_ok w'" for w w' :: "'a gw_scheme"
  by (cases w, cases w') (simp add: sockets_ok_def)

lemma calm_inv: "gw_inv F w \<Longrightarrow> calm w w' \<Longrightarrow> gw_inv F w'"
  unfolding gw_inv_def calm_def using keeps_timed sockets_more by blast

lemma same_cache_inv:
  "gw_inv F w \<Longrightarrow> cache w' = cache w \<Longrightarrow> clock w' = clock w \<Longrightarrow> sockets_ok w' \<Longrightarrow> gw_inv F w'"
  unfolding gw_inv_def using keeps_timed keeps_same_cache by blast

lemma acquireLock_frame:
  "acquireLock k d w = (r, w') \<Longrightarrow> cache w' = cache w \<and> clock w' = clock w \<and> socket_data w' = socket_data w"
  by (auto simp: acquireLock_def Let_def split: if_splits)

lemma releaseLock_frame:
  "cache (releaseLock k w) = cache w" "clock (releaseLock k w) = clock w"
  "socket_data (releaseLock k w) = socket_data w"
  by (simp_all add: releaseLock_def)

lemma socket_data_inv:
  "gw_inv F w \<Longrightarrow> cache w' = cache w \<and> clock w' = clock w \<and> socket_data w' = socket_data w \<Longrightarrow> gw_inv F w'"
  using same_cache_inv [of F w w'] by (simp add: gw_inv_def sockets_ok_def)

lemma lock_inv:
  "gw_inv F w \<Longrightarrow> acquireLock k d w = (r, w') \<Longrightarrow> gw_inv F w'" "gw_inv F w \<Longrightarrow> gw_inv F (releaseLock k w)"
  by (erule socket_data_inv, simp add: acquireLock_frame releaseLock_frame)+

lemma setSessionState_session:
  assumes "setSessionState cfg p u s st w = (r, w')" "colon_free v"
  shows "session w' v t = (if v = u \<and> ob_get p s \<noteq> None
    then (if t = s then map_option (cs_state_update (\<lambda>_. st)) (ob_get p s) else ob_get p t) else session w v t)"
  using assms by (auto simp: setSessionState_def session_def Let_def cache_simps split: option.splits if_splits)

lemma setSessionState_timed:
  assumes "setSessionState cfg p u s st w = (r, w')" "colon_free v" "colon_free t" "watched F w v t \<or> (v = u \<and> t = s \<and> ob_get p s \<noteq> None)"
  shows "watched F w' v t"
  using assms by (auto simp: setSessionState_def watched_def timed_def Let_def set_presence_def raw_ops split: option.splits if_splits)

lemma setSessionState_more:
  "setSessionState cfg p u s st w = (r, w') \<Longrightarrow> net.more w' = net.more w"
  by (auto simp: setSessionState_def Let_def set_presence_def frame_simps split: option.splits if_splits)

text \<open>Writing a presence document whose sessions, apart from the one whose timer is set, are those the
  user has.\<close>

lemma setSessionState_inv:
  assumes "gw_inv F w" "setSessionState cfg p u s st w = (r, w')" "colon_free u" "colon_free s"
    "\<forall>t. t \<noteq> s \<longrightarrow> ob_get p t \<noteq> None \<longrightarrow> session w u t \<noteq> None \<and> watched F w u t"
  shows "gw_inv F w'"
proof -
  have "sessions_timed F w'"
    unfolding sessions_timed_def
  proof (intro allI impI)
    fix v t assume v: "colon_free v" and new: "session w' v t \<noteq> None"
    show "colon_free t \<and> watched F w' v t"
    proof (cases "v = u \<and> t = s \<and> ob_get p s \<noteq> None")
      case True
      then show ?thesis using assms setSessionState_timed [OF assms(2)] by blast
    next
      case False
      then have "session w v t \<noteq> None"
        using new setSessionState_session [OF assms(2) v, of t] assms(5) by (auto split: if_splits)
      then have "colon_free t \<and> watched F w v t"
        using assms(1) v by (auto simp: gw_inv_def sessions_timed_def)
      then show ?thesis using setSessionState_timed [OF assms(2) v] by blast
    qed
  qed
  then show ?thesis using assms(1) setSessionState_more [OF assms(2)] sockets_more by (auto simp: gw_inv_def)
qed

lemma presence_sessions:
  "gw_inv F w \<Longrightarrow> colon_free u \<Longrightarrow> get_presence w u = Some p \<Longrightarrow> ob_get p t \<noteq> None \<Longrightarrow>
     session w u t \<noteq> None \<and> colon_free t \<and> watched F w u t"
  by (auto simp: gw_inv_def sessions_timed_def session_def)

lemma open_session_inv:
  assumes "gw_inv F w" "colon_free u" "colon_free s" "open_session_of cfg sid u s w = (r, w')"
  shows "gw_inv F w'"
proof -
  define p where "p = (case get_presence w u of None \<Rightarrow> [] | Some p \<Rightarrow> p)"
  define x where "x = (case ob_get p s of None \<Rightarrow> None | Some o' \<Rightarrow> cs_wsUuid o')"
  define p' where "p' = ob_set p s
    \<lparr>cs_state = Active, cs_socketId = sid, cs_gatewayId = instanceId w, cs_wsUuid = x\<rparr>"
  define w1 where "w1 = (case ob_get p s of None \<Rightarrow> w
    | Some o' \<Rightarrow> if cs_socketId o' \<noteq> [] \<and> cs_gatewayId o' \<noteq> []
        then emit w [Ev_gateway_close (''gateway.'' @ cs_gatewayId o') (cs_socketId o')] else w)"
  have c1: "calm w w1" by (auto simp: w1_def split: option.split intro: calms)
  have i1: "gw_inv F w1" by (rule calm_inv [OF assms(1) c1])
  have g1: "get_presence w1 = get_presence w" by (auto simp: w1_def cache_simps split: option.split)
  obtain q w2 where q: "setSessionState cfg p' u s Active w1 = (q, w2)" by fastforce
  have "session w1 u t \<noteq> None \<and> watched F w1 u t" if "t \<noteq> s" "ob_get p' t \<noteq> None" for t
    using that presence_sessions [OF i1 assms(2), of p t] g1 by (auto simp: p'_def p_def split: option.splits)
  then have i2: "gw_inv F w2" by (intro setSessionState_inv [OF i1 q assms(2,3)]) blast
  have "calm w2 w'"
    using assms(4) q by (auto simp: open_session_of_def Let_def p_def [symmetric] x_def [symmetric]
        p'_def [symmetric] w1_def [symmetric] intro: calms split: sum.splits option.splits)
  then show ?thesis by (rule calm_inv [OF i2])
qed

lemma connect_inv:
  assumes "gw_inv F w" "handleConnection cfg validate users sid token s w = (r, w')"
    "\<forall>t u. validate t = Inr u \<longrightarrow> colon_free u" "colon_free s"
  shows "gw_inv F w'"
proof -
  obtain a w1 where a: "handleAuthentication validate users (js_str token) w = (a, w1)" by fastforce
  have i1: "gw_inv F w1" using calm_inv [OF assms(1) calm_handleAuthentication [of w validate users "js_str token"]] a by simp
  show ?thesis
  proof (cases "allowConnections w \<and> truthy token \<and> a \<noteq> None")
    case False
    then have "w' = emit w [Socket_close sid] \<or> w' = emit w1 [Socket_close sid]"
      using assms(2) a by (auto simp: handleConnection_def split: if_splits)
    then show ?thesis using calm_inv calm_emit assms(1) i1 by metis
  next
    case True
    then obtain u where u: "a = Some u" by auto
    have cu: "colon_free u" using a u assms(3)
      by (auto simp: handleAuthentication_def Let_def split: sum.splits option.splits list.splits)
    obtain l w2 where l: "acquireLock (u @ '':'' @ s) 10000 w1 = (l, w2)" by fastforce
    have i2: "gw_inv F w2" by (rule lock_inv(1) [OF i1 l])
    let ?w3 = "w2\<lparr>socket_data := ob_set (socket_data w2) sid (u, s)\<rparr>"
    have i3: "gw_inv F ?w3"
      by (rule same_cache_inv [OF i2]) (use i2 cu assms(4) in \<open>auto simp: gw_inv_def sockets_ok_def split: if_splits\<close>)
    obtain q w4 where q: "open_session_of cfg sid u s ?w3 = (q, w4)" by fastforce
    have i4: "gw_inv F w4" by (rule open_session_inv [OF i3 cu assms(4) q])
    have "w' = w2 \<or> w' = w4 \<or> w' = releaseLock (u @ '':'' @ s) w4"
      using assms(2) True a u l q by (auto simp: handleConnection_def split: sum.splits)
    then show ?thesis using i2 i4 lock_inv(2) by blast
  qed
qed

text \<open>A user's session, when a handler finds it in the presence document.\<close>

lemma found_session:
  "(case get_presence w u of None \<Rightarrow> None | Some p \<Rightarrow> map_option (Pair p) (ob_get p s)) = Some (p, x) \<longleftrightarrow>
     get_presence w u = Some p \<and> ob_get p s = Some x"
  by (auto split: option.splits)

lemma own_state_inv:
  assumes "gw_inv F w" "colon_free u" "colon_free s" "get_presence w u = Some p"
    "setSessionState cfg p u s st w = (r, w')"
  shows "gw_inv F w'"
  using presence_sessions [OF assms(1,2,4)] by (intro setSessionState_inv [OF assms(1,5,2,3)]) blast

lemma disconnect_inv:
  assumes "gw_inv F w" "handleDisconnect cfg sid w = (r, w')"
  shows "gw_inv F w'"
proof (cases "ob_get (socket_data w) sid")
  case None
  with assms show ?thesis by (simp add: handleDisconnect_def)
next
  case (Some us)
  obtain u s where us: "us = (u, s)" by fastforce
  with Some assms(1) have c: "colon_free u" "colon_free s" by (auto simp: gw_inv_def sockets_ok_def)
  obtain l w1 where l: "acquireLock (u @ '':'' @ s) 10000 w = (l, w1)" by fastforce
  have i1: "gw_inv F w1" by (rule lock_inv(1) [OF assms(1) l])
  show ?thesis
  proof (cases "case get_presence w1 u of None \<Rightarrow> None | Some p \<Rightarrow> map_option (Pair p) (ob_get p s)")
    case None
    with assms(2) Some us l i1 show ?thesis by (auto simp: handleDisconnect_def split: sum.splits)
  next
    case (Some px)
    obtain p x where px: "px = (p, x)" by fastforce
    note f = Some [unfolded px found_session]
    obtain q w2 where q: "setSessionState cfg p u s Inactive w1 = (q, w2)" by fastforce
    have i2: "gw_inv F w2" using own_state_inv [OF i1 c _ q] f by simp
    let ?w3 = "case get_workspace w2 (js_str (cs_wsUuid x)) of None \<Rightarrow> w2
      | Some d \<Rightarrow> setWorkspaceState cfg (Some d) u s (cs_wsUuid x) Inactive w2"
    have i3: "gw_inv F ?w3" by (rule calm_inv [OF i2]) (auto split: option.split intro: calms)
    have "w' = w1 \<or> w' = w2 \<or> w' = releaseLock (u @ '':'' @ s) ?w3"
      using assms(2) \<open>ob_get (socket_data w) sid = Some us\<close> us l Some px q
      by (auto simp: handleDisconnect_def Let_def split: sum.splits)
    then show ?thesis using i1 i2 i3 lock_inv(2) by blast
  qed
qed

lemma ping_inv:
  assumes "gw_inv F w" "colon_free u" "colon_free s" "get_presence w u = Some p"
    "handlePresenceMessage cfg reply u s p ping w = (r, w')"
  shows "gw_inv F w'"
proof (cases ping)
  case None
  with assms show ?thesis by (simp add: handlePresenceMessage_def)
next
  case (Some y)
  obtain q w1 where q: "setSessionState cfg p u s Active w = (q, w1)" by fastforce
  have i1: "gw_inv F w1" by (rule own_state_inv [OF assms(1-4) q])
  show ?thesis
  proof (cases q)
    case (Inl e)
    with assms(5) Some q i1 show ?thesis by (simp add: handlePresenceMessage_def)
  next
    case (Inr p')
    define x where "x = (case ob_get p' s of None \<Rightarrow> None | Some s \<Rightarrow> cs_wsUuid s)"
    obtain c w2 where c: "checkMembership reply u (js_str x) w1 = (c, w2)" by fastforce
    have i2: "gw_inv F w2" using calm_inv [OF i1 calm_checkMembership [of w1 reply u "js_str x"]] c by simp
    have i3: "gw_inv F (setWorkspaceState cfg d u s x Active w2)" for d
      by (rule calm_inv [OF i2 calm_setWorkspaceState])
    have "w' = w1 \<or> w' = w2 \<or> (\<exists>d. w' = setWorkspaceState cfg d u s x Active w2)"
      using assms(5) Some q Inr c
      by (auto simp: handlePresenceMessage_def Let_def x_def [symmetric] split: if_splits sum.splits option.splits)
    then show ?thesis using i1 i2 i3 by blast
  qed
qed

lemma message_inv:
  assumes "gw_inv F w" "handleSocketMessage cfg reply health sid msg w = (r, w')"
  shows "gw_inv F w'"
proof (cases "ob_get (socket_data w) sid")
  case None
  with assms show ?thesis by (simp add: handleSocketMessage_def)
next
  case (Some us)
  obtain u s where us: "us = (u, s)" by fastforce
  with Some assms(1) have c: "colon_free u" "colon_free s" by (auto simp: gw_inv_def sockets_ok_def)
  show ?thesis
  proof (cases "case get_presence w u of None \<Rightarrow> None | Some p \<Rightarrow> map_option (Pair p) (ob_get p s)")
    case None
    with assms(2) Some us have "w' = emit (reply_error sid (msg_correlationId msg) ''NO_SESSION'' w) [Socket_close sid]"
      by (simp add: handleSocketMessage_def)
    then show ?thesis using assms(1) calm_inv calm_emit calm_gw(1) by metis
  next
    case (Some px)
    obtain p x where px: "px = (p, x)" by fastforce
    note f = Some [unfolded px found_session]
    have h: "handleSocketMessage cfg reply health sid msg w = (case msg of
          Msg_env m \<Rightarrow> handleEnvMessage reply health sid u s m w
        | Msg_presence ping c \<Rightarrow>
            (case handlePresenceMessage cfg reply u s p ping w of
               (Inl e, w1) \<Rightarrow> (Inl e, w1)
             | (Inr None, w1) \<Rightarrow> (Inr (), w1)
             | (Inr (Some uids), w1) \<Rightarrow> (Inr (), send ''env'' u s (Env_awareness uids) w1))
        | Msg_other c \<Rightarrow> (Inr (), w))"
      using \<open>ob_get (socket_data w) sid = Some us\<close> us Some px by (simp add: handleSocketMessage_def)
    show ?thesis
    proof (cases msg)
      case (Msg_env m)
      with h assms(2) have "w' = snd (handleEnvMessage reply health sid u s m w)" by simp
      then show ?thesis using calm_inv [OF assms(1) calm_handleEnvMessage] by simp
    next
      case (Msg_presence ping k)
      obtain q w1 where q: "handlePresenceMessage cfg reply u s p ping w = (q, w1)" by fastforce
      have i1: "gw_inv F w1" using ping_inv [OF assms(1) c _ q] f by simp
      have "w' = w1 \<or> (\<exists>m. w' = send ''env'' u s m w1)"
        using h assms(2) Msg_presence q by (auto split: sum.splits option.splits)
      then show ?thesis using i1 calm_inv [OF i1 calm_gw(4)] by blast
    qed (use h assms in simp)
  qed
qed

text \<open>The invariant without the timer that has just run out.\<close>

definition timed_but :: "(string \<times> string) set \<Rightarrow> string \<Rightarrow> string \<Rightarrow> 'a net_scheme \<Rightarrow> bool" where
  "timed_but F u s w \<longleftrightarrow>
     (\<forall>v t. colon_free v \<longrightarrow> session w v t \<noteq> None \<longrightarrow> colon_free t \<and> (watched F w v t \<or> (v = u \<and> t = s)))"

lemma timed_but_del:
  assumes "sessions_timed F w" "colon_free u" "colon_free s"
  shows "timed_but F u s (cache_del w (CACHEKEY_PRESENCE_SESSION u s))"
  unfolding timed_but_def
proof (intro allI impI)
  fix v t assume "colon_free v" "session (cache_del w (CACHEKEY_PRESENCE_SESSION u s)) v t \<noteq> None"
  then have "colon_free t \<and> watched F w v t"
    using assms(1) by (auto simp: session_def cache_simps sessions_timed_def)
  then show "colon_free t \<and> (watched F (cache_del w (CACHEKEY_PRESENCE_SESSION u s)) v t \<or> (v = u \<and> t = s))"
    using assms \<open>colon_free v\<close> by (auto simp: watched_def timed_def raw_ops session_key_inject)
qed

lemma timed_butD:
  "timed_but F u s w \<Longrightarrow> colon_free v \<Longrightarrow> session w v t \<noteq> None \<Longrightarrow> colon_free t \<and> (watched F w v t \<or> (v = u \<and> t = s))"
  by (simp add: timed_but_def)

lemma keepsD:
  "keeps w w' \<Longrightarrow> colon_free v \<Longrightarrow> session w' v t \<noteq> None \<Longrightarrow> session w v t \<noteq> None"
  "keeps w w' \<Longrightarrow> colon_free v \<Longrightarrow> colon_free t \<Longrightarrow> timed w v t \<Longrightarrow> timed w' v t"
  by (simp_all add: keeps_def)

lemma keeps_watched:
  "keeps w w' \<Longrightarrow> colon_free v \<Longrightarrow> colon_free t \<Longrightarrow> watched F w v t \<Longrightarrow> watched F w' v t"
  by (auto simp: watched_def keeps_def)

lemma timed_but_keeps:
  assumes "timed_but F u s w" "keeps w w'"
  shows "timed_but F u s w'"
  unfolding timed_but_def
proof (intro allI impI)
  fix v t assume v: "colon_free v" "session w' v t \<noteq> None"
  with timed_butD [OF assms(1) v(1) keepsD(1) [OF assms(2) v]]
  show "colon_free t \<and> (watched F w' v t \<or> (v = u \<and> t = s))" using keeps_watched [OF assms(2) v(1)] by blast
qed

lemma timed_but_gone:
  assumes "timed_but F u s w" "session w u s = None"
  shows "sessions_timed F w"
  unfolding sessions_timed_def
proof (intro allI impI)
  fix v t assume "colon_free v" "session w v t \<noteq> None"
  with timed_butD [OF assms(1) this] assms(2) show "colon_free t \<and> watched F w v t" by auto
qed

text \<open>The presence document after a session is dropped from it.\<close>

lemma dropped_session:
  assumes "colon_free u" "w' = (if rest = [] then cache_del w (CACHEKEY_PRESENCE u) else set_presence w u rest)"
  shows "session w' v t = (if v = u then ob_get rest t else session w v t)"
    "watched F w' v t = watched F w v t"
  using assms
  by (auto simp: session_def watched_def timed_def set_presence_def raw_ops get_presence_def cache_simps presence_key_apart)

lemma timed_but_drop:
  assumes "timed_but F u s w" "colon_free u"
    "\<And>t. ob_get rest t \<noteq> None \<Longrightarrow> t \<noteq> s \<and> colon_free t \<and> watched F w u t"
    "w' = (if rest = [] then cache_del w (CACHEKEY_PRESENCE u) else set_presence w u rest)"
  shows "sessions_timed F w'"
  unfolding sessions_timed_def dropped_session [OF assms(2,4)]
proof (intro allI impI)
  fix v t assume v: "colon_free v" "(if v = u then ob_get rest t else session w v t) \<noteq> None"
  show "colon_free t \<and> watched F w v t"
  proof (cases "v = u")
    case True
    with v assms(3) [of t] show ?thesis by simp
  next
    case False
    with v timed_butD [OF assms(1) v(1), of t] show ?thesis by simp
  qed
qed

lemma session_expiry_run:
  assumes "ob_get p s = Some y" "handleSessionExpiry disp p u s w = (r, w')"
  shows "\<exists>w2. calm w w2 \<and> ((\<exists>e. r = Inl e) \<and> w' = w2 \<or>
    r = Inr () \<and> w' = (if ob_del p s = [] then cache_del w2 (CACHEKEY_PRESENCE u) else set_presence w2 u (ob_del p s)))"
proof -
  define w1 where "w1 = emit w [Ev_gateway_close (''gateway.'' @ cs_gatewayId y) (cs_socketId y)]"
  have c1: "calm w w1" unfolding w1_def by (rule calm_emit)
  have h: "handleSessionExpiry disp p u s w =
      (case (if truthy (cs_wsUuid y) then handleWorkspaceExpiry disp (js_str (cs_wsUuid y)) w1 else (Inr (), w1)) of
         (Inl e, w2) \<Rightarrow> (Inl e, w2)
       | (Inr _, w2) \<Rightarrow> (Inr (), if ob_del p s = [] then cache_del w2 (CACHEKEY_PRESENCE u)
                                else set_presence w2 u (ob_del p s)))"
    unfolding handleSessionExpiry_def Let_def w1_def using assms(1) by simp
  obtain q w2 where q: "(if truthy (cs_wsUuid y) then handleWorkspaceExpiry disp (js_str (cs_wsUuid y)) w1
      else (Inr (), w1)) = (q, w2)" by fastforce
  have "calm w1 w2"
    using q calm_handleWorkspaceExpiry [of w1 disp "js_str (cs_wsUuid y)"] by (auto split: if_splits)
  with c1 have "calm w w2" by (rule calm_trans)
  moreover have "(\<exists>e. r = Inl e) \<and> w' = w2 \<or>
      r = Inr () \<and> w' = (if ob_del p s = [] then cache_del w2 (CACHEKEY_PRESENCE u) else set_presence w2 u (ob_del p s))"
    using assms(2) unfolding h q by (cases q) auto
  ultimately show ?thesis by blast
qed

lemma stale_session_timed:
  assumes "timed_but F u s w" "colon_free u" "colon_free s" "handleStaleSession cfg disp u s w = (Inr x, w')"
  shows "sessions_timed F w'"
proof (cases "case get_presence w u of None \<Rightarrow> None | Some p \<Rightarrow> map_option (Pair p) (ob_get p s)")
  case None
  then have "session w u s = None" by (auto simp: session_def split: option.splits)
  moreover have "w' = w" using assms(4) None by (auto simp: handleStaleSession_def split: option.splits)
  ultimately show ?thesis using timed_but_gone [OF assms(1)] by simp
next
  case (Some px)
  obtain p y where px: "px = (p, y)" by fastforce
  note f = Some [unfolded px found_session]
  have others: "colon_free t \<and> watched F w u t" if "t \<noteq> s" "ob_get p t \<noteq> None" for t
    using timed_butD [OF assms(1,2), of t] that f by (simp add: session_def)
  show ?thesis
  proof (cases "cs_state y = Active")
    case True
    let ?w1 = "if truthy (cs_wsUuid y) then setWorkspaceState cfg (get_workspace w (js_str (cs_wsUuid y)))
      u s (cs_wsUuid y) Inactive w else w"
    have k: "keeps w ?w1" by (auto intro: calm_keeps calms)
    obtain q where q: "setSessionState cfg p u s Inactive ?w1 = (q, w')"
      using assms(4) f True by (auto simp: handleStaleSession_def Let_def split: prod.splits)
    show ?thesis unfolding sessions_timed_def
    proof (intro allI impI)
      fix v t assume v: "colon_free v" and new: "session w' v t \<noteq> None"
      have "colon_free t \<and> (watched F w v t \<or> (v = u \<and> t = s))"
      proof (cases "v = u")
        case True
        then show ?thesis using new setSessionState_session [OF q v, of t] others [of t] f assms(3)
          by (auto split: if_splits)
      next
        case False
        then have "session ?w1 v t \<noteq> None" using new setSessionState_session [OF q v, of t] by simp
        then show ?thesis using timed_butD [OF assms(1) v] keepsD(1) [OF k v] by blast
      qed
      then show "colon_free t \<and> watched F w' v t"
        using setSessionState_timed [OF q v] f keeps_watched [OF k v] by fastforce
    qed
  next
    case False
    have "handleSessionExpiry disp p u s w = (Inr x, w')"
      using assms(4) f False by (simp add: handleStaleSession_def)
    from session_expiry_run [OF conjunct2 [OF f] this] obtain w2 where c: "calm w w2" and
      w': "w' = (if ob_del p s = [] then cache_del w2 (CACHEKEY_PRESENCE u) else set_presence w2 u (ob_del p s))" by auto
    have k: "keeps w w2" by (rule calm_keeps [OF c])
    show ?thesis
      by (rule timed_but_drop [OF timed_but_keeps [OF assms(1) k] assms(2) _ w'])
        (use others keeps_watched [OF k assms(2)] in \<open>auto split: if_splits\<close>)
  qed
qed

lemma stale_session_more:
  assumes "handleStaleSession cfg disp u s w = (r, w')"
  shows "net.more w' = net.more w"
proof (cases "case get_presence w u of None \<Rightarrow> None | Some p \<Rightarrow> map_option (Pair p) (ob_get p s)")
  case None
  then have "w' = w" using assms by (auto simp: handleStaleSession_def split: option.splits)
  then show ?thesis by simp
next
  case (Some px)
  obtain p y where px: "px = (p, y)" by fastforce
  note f = Some [unfolded px found_session]
  show ?thesis
  proof (cases "cs_state y = Active")
    case True
    then show ?thesis
      using assms f setSessionState_more calm_more [OF calm_setWorkspaceState]
      by (fastforce simp: handleStaleSession_def Let_def split: prod.splits if_splits)
  next
    case False
    then have "handleSessionExpiry disp p u s w = (r, w')" using assms f by (simp add: handleStaleSession_def)
    from session_expiry_run [OF conjunct2 [OF f] this] show ?thesis
      by (auto simp: set_presence_def frame_simps dest: calm_more)
  qed
qed

lemma expire_session_run:
  assumes "expire_key cfg disp (CACHEKEY_PRESENCE_SESSION u s) w = (r, w')" "colon_free u" "colon_free s"
  shows "\<exists>w1. cache w1 = cache (cache_del w (CACHEKEY_PRESENCE_SESSION u s)) \<and> clock w1 = clock w \<and>
    socket_data w1 = socket_data w \<and> out w1 = out w \<and>
    ((\<exists>e. r = Inl e \<and> w' = w1) \<or>
     (\<exists>w2. handleStaleSession cfg disp u s w1 = (r, w2) \<and>
        w' = (if isl r then w2 else releaseLock (CACHEKEY_PRESENCE_SESSION u s) w2)))"
proof -
  let ?k = "CACHEKEY_PRESENCE_SESSION u s"
  obtain l w1 where l: "acquireLock ?k 10000 (cache_del w ?k) = (l, w1)" by fastforce
  have fr: "cache w1 = cache (cache_del w ?k)" "clock w1 = clock w" "socket_data w1 = socket_data w" "out w1 = out w"
    using acquireLock_frame [OF l] l
    by (auto simp: frame_simps cache_del_def acquireLock_def Let_def split: if_splits)
  have "handleStalePresence cfg disp [u, s] w1 = handleStaleSession cfg disp u s w1"
    by (simp add: handleStalePresence_def part_def)
  then have "(\<exists>e. r = Inl e \<and> w' = w1) \<or> (\<exists>w2. handleStaleSession cfg disp u s w1 = (r, w2) \<and>
      w' = (if isl r then w2 else releaseLock ?k w2))"
    using assms l by (auto simp: expire_key_def handleCacheExpiry_def Let_def split_session_key split: sum.splits prod.splits)
  with fr show ?thesis by blast
qed

lemma stale_session_failed:
  assumes "handleStaleSession cfg disp u s w = (Inl e, w')"
  shows "calm w w'"
proof (cases "case get_presence w u of None \<Rightarrow> None | Some p \<Rightarrow> map_option (Pair p) (ob_get p s)")
  case None
  then show ?thesis using assms by (auto simp: handleStaleSession_def split: option.splits)
next
  case (Some px)
  obtain p y where px: "px = (p, y)" by fastforce
  note f = Some [unfolded px found_session]
  show ?thesis
  proof (cases "cs_state y = Active")
    case True
    then show ?thesis using assms f
      by (auto simp: handleStaleSession_def setSessionState_def Let_def split: prod.splits sum.splits)
  next
    case False
    then have "handleSessionExpiry disp p u s w = (Inl e, w')" using assms f by (simp add: handleStaleSession_def)
    from session_expiry_run [OF conjunct2 [OF f] this] show ?thesis by auto
  qed
qed

lemma timed_but_failed: "timed_but F u s w \<Longrightarrow> sessions_timed (F \<union> {(u, s)}) w"
  by (auto simp: timed_but_def sessions_timed_def watched_def)

lemma session_expiry_inv:
  assumes "gw_inv F w" "colon_free u" "colon_free s"
    "expire_key cfg disp (CACHEKEY_PRESENCE_SESSION u s) w = (r, w')"
  shows "gw_inv (F \<union> (if isl r then {(u, s)} else {})) w'"
proof -
  let ?k = "CACHEKEY_PRESENCE_SESSION u s"
  from expire_session_run [OF assms(4,2,3)] obtain w1 where
      w1: "cache w1 = cache (cache_del w ?k)" "clock w1 = clock w" "socket_data w1 = socket_data w"
    and h: "(\<exists>e. r = Inl e \<and> w' = w1) \<or> (\<exists>w2. handleStaleSession cfg disp u s w1 = (r, w2) \<and>
        w' = (if isl r then w2 else releaseLock ?k w2))" by auto
  have "keeps (cache_del w ?k) w1" using w1 by (intro keeps_same_cache) (simp_all add: frame_simps)
  moreover have "timed_but F u s (cache_del w ?k)"
    by (rule timed_but_del [OF _ assms(2,3)]) (use assms(1) in \<open>simp add: gw_inv_def\<close>)
  ultimately have t1: "timed_but F u s w1" by (rule timed_but_keeps [rotated])
  have o1: "sockets_ok w1" using assms(1) unfolding gw_inv_def sockets_ok_def w1(3) by blast
  show ?thesis
  proof (cases r)
    case (Inl e)
    then have "calm w1 w'" using h stale_session_failed by auto
    moreover have "gw_inv (F \<union> {(u, s)}) w1" using timed_but_failed [OF t1] o1 by (simp add: gw_inv_def)
    ultimately show ?thesis using calm_inv Inl by fastforce
  next
    case (Inr x)
    with h obtain w2 where h2: "handleStaleSession cfg disp u s w1 = (Inr x, w2)" and w': "w' = releaseLock ?k w2" by auto
    have "sessions_timed F w2" by (rule stale_session_timed [OF t1 assms(2,3) h2])
    moreover have "sockets_ok w2" by (rule sockets_more [OF stale_session_more [OF h2] o1])
    ultimately have "gw_inv F w'" unfolding w' by (intro lock_inv(2)) (simp add: gw_inv_def)
    then show ?thesis using Inr by simp
  qed
qed

lemma workspace_expiry_inv:
  assumes "gw_inv F w" "colon_free u" "colon_free s" "colon_free y" "y \<noteq> []"
    "expire_key cfg disp (CACHEKEY_PRESENCE_WORKSPACE u s y) w = (r, w')"
  shows "gw_inv F w'"
proof -
  let ?k = "CACHEKEY_PRESENCE_WORKSPACE u s y"
  obtain l w1 where l: "acquireLock ?k 10000 (cache_del w ?k) = (l, w1)" by fastforce
  have i1: "gw_inv F w1" by (rule lock_inv(1) [OF calm_inv [OF assms(1) calm_del(1)] l])
  have "handleStalePresence cfg disp [u, s, y] w1 = handleStaleWorkspace cfg disp u s y w1"
    using assms(5) by (simp add: handleStalePresence_def part_def)
  moreover have i2: "gw_inv F (snd (handleStaleWorkspace cfg disp u s y w1))"
    by (rule calm_inv [OF i1 calm_handleStaleWorkspace])
  ultimately have "w' \<in> {w1, snd (handleStaleWorkspace cfg disp u s y w1),
      releaseLock ?k (snd (handleStaleWorkspace cfg disp u s y w1))}"
    using assms l by (auto simp: expire_key_def handleCacheExpiry_def Let_def split_workspace_key split: sum.splits prod.splits)
  then show ?thesis using i1 i2 lock_inv(2) by auto
qed

lemma tick_inv: "gw_inv F w \<Longrightarrow> clock w \<le> t \<Longrightarrow> gw_inv F (w\<lparr>clock := t\<rparr>)"
proof -
  assume inv: "gw_inv F w" and t: "clock w \<le> t"
  have "cache_get (w\<lparr>clock := t\<rparr>) k = Some v \<Longrightarrow> cache_get w k = Some v" for k v
    using t by (auto simp: cache_get_def alive_def split: option.splits if_splits)
  then have "get_presence (w\<lparr>clock := t\<rparr>) u = Some p \<Longrightarrow> get_presence w u = Some p" for u p
    by (auto simp: get_presence_def split: option.splits cache_value.splits)
  then have "keeps w (w\<lparr>clock := t\<rparr>)"
    by (auto simp: keeps_def session_def timed_def split: option.splits)
  with inv show ?thesis using keeps_timed by (auto simp: gw_inv_def sockets_ok_def)
qed

lemma gw_step_inv:
  assumes "gw_step cfg G w w'" "gw_inv F w"
  shows "gw_inv (F \<union> G) w'"
  using assms
proof cases
  case (deliver_all us ss pat m r)
  then show ?thesis using calm_inv [OF assms(2) calm_broadcast [of w us ss pat m]] by simp
next
  case (session_expiry u s dispose r)
  then show ?thesis using session_expiry_inv assms(2) by blast
qed (use assms(2) in \<open>auto intro: connect_inv disconnect_inv message_inv workspace_expiry_inv
    tick_inv calm_inv calms\<close>)

lemma gw_run_inv: "gw_run cfg w F w' \<Longrightarrow> gw_inv {} w \<Longrightarrow> gw_inv F w'"
  by (induction rule: gw_run.induct) (auto intro: gw_step_inv)

end
