(* ===== verification/Access_Code_Gen.thy ===== *)
theory Access_Code_Gen
  imports Js_Prelude "HOL-Library.Word"
begin

text \<open>
  The access code generator of \<^verbatim>\<open>workspace/src/utils/index.ts\<close>: rejection sampling of random bytes
  into an alphabet of 31 characters. The bytes come from \<^verbatim>\<open>randomBytes(32)\<close>, so they are an
  argument: the list of the chunks the call has drawn. The loop asks for another chunk until the
  code is long enough; \<open>None\<close> is the state in which it is still waiting for a chunk.
\<close>

section \<open>The generator\<close>

definition CHARSPACE :: string where
  "CHARSPACE = ''ABCDEFGHJKMNPQRSTUVWXYZ23456789''"

definition charSpaceLen :: nat where
  "charSpaceLen = length CHARSPACE"

definition maxValid :: nat where
  "maxValid = 256 - (256 mod charSpaceLen)"

text \<open>The inner \<^verbatim>\<open>for\<close> loop over one chunk of bytes.\<close>

fun accessCode_chunk :: "8 word list \<Rightarrow> nat \<Rightarrow> string \<Rightarrow> string" where
  "accessCode_chunk [] n acc = acc"
| "accessCode_chunk (b # bs) n acc =
     (if length acc < n
      then (if maxValid \<le> unat b then accessCode_chunk bs n acc
            else accessCode_chunk bs n (acc @ [CHARSPACE ! (unat b mod charSpaceLen)]))
      else acc)"

text \<open>The outer \<^verbatim>\<open>while\<close> loop over the chunks.\<close>

fun accessCode_loop :: "8 word list list \<Rightarrow> nat \<Rightarrow> string \<Rightarrow> string option" where
  "accessCode_loop [] n acc = (if length acc < n then None else Some acc)"
| "accessCode_loop (c # cs) n acc =
     (if length acc < n then accessCode_loop cs n (accessCode_chunk c n acc) else Some acc)"

definition accessCode :: "8 word list list \<Rightarrow> nat \<Rightarrow> string option" where
  "accessCode chunks n = accessCode_loop chunks n []"

section \<open>The reference: take the first accepted bytes\<close>

definition accepted :: "8 word list list \<Rightarrow> 8 word list" where
  "accepted chunks = filter (\<lambda>b. unat b < maxValid) (concat chunks)"

definition code_char :: "8 word \<Rightarrow> char" where
  "code_char b = CHARSPACE ! (unat b mod charSpaceLen)"

lemma charSpaceLen_eq [simp]: "charSpaceLen = 31"
  by (simp add: charSpaceLen_def CHARSPACE_def)

lemma maxValid_eq [simp]: "maxValid = 248"
  by (simp add: maxValid_def)

lemma accessCode_chunk_eq:
  "accessCode_chunk bs n acc =
     acc @ map code_char (take (n - length acc) (filter (\<lambda>b. unat b < maxValid) bs))"
proof (induction bs arbitrary: acc)
  case (Cons b bs)
  show ?case
  proof (cases "length acc < n \<and> unat b < maxValid")
    case True
    then have "n - length acc = Suc (n - Suc (length acc))" by arith
    with True Cons show ?thesis by (simp add: code_char_def)
  next
    case False
    with Cons show ?thesis by (auto simp: not_less)
  qed
qed simp

lemma accessCode_loop_eq:
  "length acc \<le> n \<Longrightarrow>
   accessCode_loop cs n acc =
     (if n \<le> length acc + length (accepted cs)
      then Some (acc @ map code_char (take (n - length acc) (accepted cs))) else None)"
proof (induction cs arbitrary: acc)
  case Nil
  then show ?case by (auto simp: accepted_def)
next
  case (Cons c cs)
  let ?ok = "filter (\<lambda>b. unat b < maxValid) c"
  let ?acc = "accessCode_chunk c n acc"
  have acc: "?acc = acc @ map code_char (take (n - length acc) ?ok)"
    by (rule accessCode_chunk_eq)
  then have len: "length ?acc = min n (length acc + length ?ok)"
    using Cons.prems by auto
  then have IH: "accessCode_loop cs n ?acc =
      (if n \<le> length ?acc + length (accepted cs)
       then Some (?acc @ map code_char (take (n - length ?acc) (accepted cs))) else None)"
    by (intro Cons.IH) simp
  have split: "accepted (c # cs) = ?ok @ accepted cs" by (simp add: accepted_def)
  show ?case
  proof (cases "length acc < n")
    case True
    have "n - length ?acc = n - length acc - length ?ok" using len by arith
    with True IH acc len show ?thesis by (simp add: split min_def)
  next
    case False
    with Cons.prems show ?thesis by simp
  qed
qed

lemma accessCode_eq:
  "accessCode chunks n =
     (if n \<le> length (accepted chunks)
      then Some (map code_char (take n (accepted chunks))) else None)"
  by (simp add: accessCode_def accessCode_loop_eq)

section \<open>Correctness of the code\<close>

lemma code_char_in: "code_char b \<in> set CHARSPACE"
  by (auto simp: code_char_def charSpaceLen_def [symmetric] intro!: nth_mem)

lemma distinct_CHARSPACE: "distinct CHARSPACE"
  by (simp add: CHARSPACE_def)

lemma residue_class: "i < 31 \<Longrightarrow> {m :: nat. m < 248 \<and> m mod 31 = i} = (\<lambda>k. i + 31 * k) ` {..<8}"
proof (intro set_eqI iffI)
  fix m assume "m \<in> {m :: nat. m < 248 \<and> m mod 31 = i}"
  then have "m = i + 31 * (m div 31)" "m div 31 < 8" by auto
  then show "m \<in> (\<lambda>k. i + 31 * k) ` {..<8}" by blast
qed auto

lemma card_residue_class: "i < 31 \<Longrightarrow> card {m :: nat. m < 248 \<and> m mod 31 = i} = 8"
  by (simp add: residue_class card_image inj_on_def)

lemma card_word_class:
  fixes P :: "nat \<Rightarrow> bool"
  assumes "\<And>m. P m \<Longrightarrow> m < 256"
  shows "card {b :: 8 word. P (unat b)} = card {m. P m}"
proof (rule bij_betw_same_card)
  show "bij_betw unat {b :: 8 word. P (unat b)} {m. P m}"
  proof (rule bij_betwI')
    fix m assume "m \<in> {m. P m}"
    with assms have "unat (of_nat m :: 8 word) = m" by (simp add: unat_of_nat)
    with \<open>m \<in> {m. P m}\<close> show "\<exists>b \<in> {b :: 8 word. P (unat b)}. m = unat b"
      by (intro bexI [of _ "of_nat m"]) simp_all
  qed (auto dest: word_unat_eq_iff [THEN iffD2])
qed

lemma card_code_char:
  assumes "c \<in> set CHARSPACE"
  shows "card {b. unat b < maxValid \<and> code_char b = c} = 8"
proof -
  from assms obtain i where i: "i < 31" "c = CHARSPACE ! i"
    by (metis in_set_conv_nth charSpaceLen_def charSpaceLen_eq)
  have "code_char b = c \<longleftrightarrow> unat b mod 31 = i" for b
    using i distinct_CHARSPACE
    by (simp add: code_char_def nth_eq_iff_index_eq charSpaceLen_def [symmetric])
  then have "{b. unat b < maxValid \<and> code_char b = c} = {b. unat b < 248 \<and> unat b mod 31 = i}"
    by simp
  then show ?thesis
    using card_word_class [of "\<lambda>m. m < 248 \<and> m mod 31 = i"] card_residue_class [OF i(1)] by simp
qed

lemma accepted_enough:
  "\<forall>c \<in> set cs. \<exists>b \<in> set c. unat b < maxValid \<Longrightarrow> length cs \<le> length (accepted cs)"
proof (induction cs)
  case (Cons c cs)
  then have "filter (\<lambda>b. unat b < maxValid) c \<noteq> []" by (auto simp: filter_empty_conv)
  then have "1 \<le> length (filter (\<lambda>b. unat b < maxValid) c)" by (cases "filter (\<lambda>b. unat b < maxValid) c") auto
  with Cons show ?case by (simp add: accepted_def)
qed (simp add: accepted_def)

section \<open>Properties\<close>

text \<open>C31. The two nested loops with rejection compute what the one-line reference does: the first
  \<open>n\<close> accepted bytes of the random stream, each read as a character; they go on waiting for bytes
  exactly while fewer than \<open>n\<close> have been accepted.\<close>

theorem accessCode_reference:
  "accessCode chunks n =
     (if n \<le> length (accepted chunks)
      then Some (map code_char (take n (accepted chunks))) else None)"
  by (rule accessCode_eq)

text \<open>No bias: over all byte values the generator accepts, every character of the alphabet is
  produced by the same number of values, eight.\<close>

lemma accessCode_unbiased:
  assumes "c \<in> set CHARSPACE"
  shows "card {b. unat b < maxValid \<and> code_char b = c} = 8"
  using card_code_char [OF assms] .

lemma accessCode_unbiased_example:
  "card {b. unat b < maxValid \<and> code_char b = CHR ''Z''} = 8"
  using accessCode_unbiased [of "CHR ''Z''"] by (simp add: CHARSPACE_def)

text \<open>C32. Termination and shape: once as many chunks as characters have each brought an accepted
  byte, the generator returns, and the code has the requested length and only characters of the
  alphabet.\<close>

theorem accessCode_returns:
  assumes "\<forall>c \<in> set chunks. \<exists>b \<in> set c. unat b < maxValid" "n \<le> length chunks"
  shows "\<exists>code. accessCode chunks n = Some code \<and> length code = n \<and> set code \<subseteq> set CHARSPACE"
proof -
  have "n \<le> length (accepted chunks)" using accepted_enough [OF assms(1)] assms(2) by simp
  then show ?thesis by (auto simp: accessCode_eq code_char_in dest: in_set_takeD)
qed

theorem accessCode_returns_witness:
  "\<exists>code. accessCode [[255, 0], [7]] 2 = Some code \<and> length code = 2 \<and> set code \<subseteq> set CHARSPACE"
  by (rule accessCode_returns) simp_all

end
