(* ===== verification/Manage_Access.thy ===== *)
theory Manage_Access
  imports Manage_Workspace Access_Code_Gen
begin

text \<open>
  Access codes for dedicated workspaces (the second half of
  \<^verbatim>\<open>workspace/src/manage/manage.service.ts\<close>) and the mail to the administrator
  (\<^verbatim>\<open>email.service.ts\<close>). A user requests a code, the administrator approves or rejects the request
  through a signed link, the user consumes the code when creating a dedicated workspace, and resets
  it when that fails.

  The answers of the Kubernetes API are the argument \<open>cluster\<close>, the documents of Firestore the
  argument \<open>users\<close>, the environment variables the argument \<open>env\<close>, the random bytes the argument
  \<open>chunks\<close>. How TypeORM treats an undefined value in the criteria of \<^verbatim>\<open>delete\<close> is the argument
  \<open>skips\<close>; in \<^verbatim>\<open>findOne\<close> an undefined value is skipped.
\<close>

section \<open>Environment\<close>

record workspace_env =
  en_secret :: string
  en_admin :: string
  en_webhook :: string
  en_expiry_days :: "string option"
  en_ws_cpu :: "string option"
  en_idle_cpu :: "string option"
  en_simulate :: "string option"

record pod =
  pod_phase :: "string option"
  pod_cpu_requests :: "string option list"

record cluster =
  cl_nodes :: "string option list result"   \<comment> \<open>the allocatable cpu of every node\<close>
  cl_pods :: "pod list result"

section \<open>Capacity\<close>

text \<open>\<^verbatim>\<open>parseInt(s, 10)\<close>\<close>

definition js_parseInt10 :: "string \<Rightarrow> int option" where
  "js_parseInt10 s =
     (let t = dropWhile js_space s;
          neg = (t \<noteq> [] \<and> hd t = CHR ''-'');
          u = (if t \<noteq> [] \<and> (hd t = CHR ''-'' \<or> hd t = CHR ''+'') then tl t else t)
      in map_option (\<lambda>n. if neg then - int n else int n) (parse_digits 10 u None))"

definition pod_request :: "pod \<Rightarrow> int option \<Rightarrow> int option" where
  "pod_request p acc =
     (if pod_phase p \<noteq> Some ''Running'' then acc
      else fold (\<lambda>c acc. case c of
             None \<Rightarrow> acc
           | Some cpuReq \<Rightarrow>
               if cpuReq = [] then acc
               else if last cpuReq = CHR ''m'' then js_add acc (js_parseInt10 (remove1 (CHR ''m'') cpuReq))
               else js_add acc (js_mul (js_parseInt10 cpuReq) (Some 1000)))
           (pod_cpu_requests p) acc)"

definition allocatable :: "string option \<Rightarrow> int option" where
  "allocatable cpu =
     (let cores = js_mul (js_parseInt (case cpu of None \<Rightarrow> '''' | Some s \<Rightarrow> s)) (Some 1000)
      in if js_num_truthy cores then cores
         else js_parseInt (case cpu of None \<Rightarrow> '''' | Some s \<Rightarrow> remove1 (CHR ''m'') s))"

definition canProvision :: "workspace_env \<Rightarrow> cluster \<Rightarrow> 'a wsvc_scheme \<Rightarrow> bool result" where
  "canProvision env cluster w =
     (if truthy (en_simulate env)
      then (let parts = js_split (CHR '','') (js_str (en_simulate env))
            in Inr (1 < length parts \<and> parts ! 1 = ''true''))
      else
        (let totalDedicatedCount = length (filter (\<lambda>r. w_dedicated r \<and> w_status r \<noteq> DELETING) (workspaces w));
             unusedAccessCodeCount = length (filter (\<lambda>r. a_status r = UNUSED) (codes w))
         in case cl_nodes cluster of
              Inl e \<Rightarrow> Inl (InternalServerError ''UNKNOWN'')
            | Inr [] \<Rightarrow> Inl (InternalServerError ''UNKNOWN'')
            | Inr (node # _) \<Rightarrow>
                (let allocatableCpu = allocatable node
                 in if \<not> js_num_truthy allocatableCpu then Inl (InternalServerError ''UNKNOWN'')
                    else case cl_pods cluster of
                           Inl e \<Rightarrow> Inl (InternalServerError ''UNKNOWN'')
                         | Inr pods \<Rightarrow>
                             (let requestedSysCpu = fold pod_request pods (Some 0);
                                  wsCpu = (case en_ws_cpu env of None \<Rightarrow> 350 | Some s \<Rightarrow>
                                             (case js_parseInt s of None \<Rightarrow> 200 | Some n \<Rightarrow> n));
                                  idleThresholdCpu = env_int (en_idle_cpu env) 350
                              in Inr (js_less
                                   (js_add (Some (int (totalDedicatedCount + unusedAccessCodeCount + 1) * wsCpu))
                                      requestedSysCpu)
                                   (js_add allocatableCpu (Some (- idleThresholdCpu))))))))"

section \<open>Mail\<close>

definition nl :: string where
  "nl = [CHR 0x0A]"

definition sendAccessRequestEmail ::
  "string \<Rightarrow> string \<Rightarrow> AccessRequestPayload \<Rightarrow> string \<Rightarrow> 'a net_scheme \<Rightarrow> 'a net_scheme" where
  "sendAccessRequestEmail webhook to req token w =
     (let text = ''H-IDE: Request from @'' @ ar_username req @ '' for a dedicated workspace'';
          indent = nl @ ''    '';
          html = indent @ ''<h2>Request for access code</h2>''
               @ indent @ ''<span>Username: '' @ ar_username req @ ''</span><br/>''
               @ indent @ ''<span>Name: '' @ ar_name req @ ''</span><br/>''
               @ indent @ ''<span>Reason: <br/>'' @ (case ar_reason req of None \<Rightarrow> ''NA'' | Some r \<Rightarrow> r) @ ''</span>''
               @ indent @ ''<br/>''
               @ indent @ ''<br/>''
               @ indent @ ''<a href=\"'' @ webhook @ ''/access-fulfill?action=approve&token='' @ token
                 @ ''\"><button>Approve</button></a>&nbsp;''
               @ indent @ ''<a href=\"'' @ webhook @ ''/access-fulfill?action=reject&token='' @ token
                 @ ''\"><button>Reject</button></a>''
               @ indent
      in emit w [Smtp_mail \<lparr>ml_from = ''\"H-IDE\" <DoNotReply@hide.saurabhagat.dev>'', ml_to = to,
                           ml_subject = ''H-IDE: Access request received'', ml_text = text, ml_html = html\<rparr>])"

section \<open>Requests\<close>

definition getUserProfile ::
  "(string \<Rightarrow> user_profile list) \<Rightarrow> string \<Rightarrow> 'a net_scheme \<Rightarrow> user_profile option \<times> 'a net_scheme" where
  "getUserProfile users uid w =
     (case get_user w (CACHEKEY_USER_PROFILE uid) of
        Some userProfile \<Rightarrow> (Some userProfile, w)
      | None \<Rightarrow>
          (case users uid of
             [] \<Rightarrow> (None, w)
           | userProfile # _ \<Rightarrow>
               (Some userProfile, cache_set w (CACHEKEY_USER_PROFILE uid) (CvUser userProfile) None)))"

text \<open>The signed content of a request.\<close>

definition access_payload ::
  "user_profile option \<Rightarrow> string \<Rightarrow> string option \<Rightarrow> string \<Rightarrow> AccessRequestPayload ServicePayload" where
  "access_payload profile uid reason rid =
     (let field = (\<lambda>f. case profile of None \<Rightarrow> ''Unknown''
                     | Some p \<Rightarrow> (case f p of None \<Rightarrow> ''Unknown'' | Some s \<Rightarrow> s))
      in \<lparr>sp_sub = ''dedicated-workspace'', sp_aud = ''client'', sp_iss = ''workspace-api'',
          sp_data = \<lparr>ar_uid = uid, ar_username = field up_username, ar_name = field up_name,
                     ar_reason = reason, ar_uuid = rid\<rparr>\<rparr>)"

definition createAccessRequest ::
  "workspace_env \<Rightarrow> cluster \<Rightarrow> (string \<Rightarrow> user_profile list) \<Rightarrow> AccessRequestPayload signer \<Rightarrow>
   8 word list list \<Rightarrow> string \<Rightarrow> string option \<Rightarrow> 'a wsvc_scheme \<Rightarrow> unit result \<times> 'a wsvc_scheme" where
  "createAccessRequest env cluster users sign chunks uid reason w =
     (let activeCount = length (filter (\<lambda>r. a_uid r = uid \<and> (a_status r = UNUSED \<or> a_status r = NEW)) (codes w))
      in if activeCount \<noteq> 0 then (Inl (BadRequest ''ACCESS_CODE_LIMIT''), w)
         else case canProvision env cluster w of
                Inl e \<Rightarrow> (Inl e, w)
              | Inr capacity \<Rightarrow>
                  if \<not> capacity then (Inl (Forbidden ''NO_CAPACITY''), w)
                  else
                    (let (profile, w1) = getUserProfile users uid w;
                         (rid, w2) = randomUUID w1;
                         payload = access_payload profile uid reason rid;
                         token = sign payload (en_secret env);
                         w3 = sendAccessRequestEmail (en_webhook env) (en_admin env) (sp_data payload) token w2;
                         days = env_int (en_expiry_days env) 5;
                         expiresAt = add_days (clock w) days
                     in case accessCode chunks 16 of
                          None \<Rightarrow> (Inl (Waiting ''randomBytes''), w3)
                        | Some code \<Rightarrow>
                            insert_code (new_AccessCode \<lparr>ad_code = Some code, ad_uid = Some uid, ad_usedAt = None,
                               ad_expiresAt = Some expiresAt, ad_status = Some NEW, ad_uuid = Some rid,
                               ad_ntfnId = None\<rparr>) w3))"

definition fulfillAccessRequest ::
  "workspace_env \<Rightarrow> AccessRequestPayload verifier \<Rightarrow> string \<Rightarrow> string \<Rightarrow> 'a wsvc_scheme \<Rightarrow>
   unit result \<times> 'a wsvc_scheme" where
  "fulfillAccessRequest env verify action token w =
     (case verify token (en_secret env) of
        None \<Rightarrow> (Inl (BadRequest ''BAD_TOKEN''), w)
      | Some payload \<Rightarrow>
          (let data = sp_data payload;
               notify = (\<lambda>success code w.
                 (let (notificationId, w1) = randomUUID w;
                      (meta, w2) = createMessage (ar_uid data) '''' w1
                  in (notificationId, emit w2 [Rmq_notify meta (ar_uid data)
                        \<lparr>nt_type = Workspace_access_code, nt_id = notificationId,
                         nt_createdOn = IsoText (clock w), nt_actedOn = None,
                         nt_fields = WorkspaceAccessRequest success code (ar_uuid data)\<rparr>])))
           in if action = ''reject'' then
                (let w1 = delete_codes (\<lambda>r. a_uuid r = ar_uuid data) w;
                     (_, w2) = notify False '''' w1
                 in (Inr (), w2))
              else
                (case List.find (\<lambda>r. a_uuid r = ar_uuid data) (codes w) of
                   None \<Rightarrow> (Inl (BadRequest ''NOT_FOUND''), w)
                 | Some row \<Rightarrow>
                     (let approved = row\<lparr>a_status := UNUSED\<rparr>;
                          w1 = save_code approved w;
                          (notificationId, w2) = notify True (a_code row) w1
                      in (Inr (), save_code (approved\<lparr>a_ntfnId := Some notificationId\<rparr>) w2)))))"

section \<open>Using a code\<close>

text \<open>A criterion \<open>{ uid, field: v }\<close> of TypeORM; \<open>skips\<close> says that an undefined \<open>v\<close> is left out.\<close>

definition criterion :: "bool \<Rightarrow> string \<Rightarrow> (AccessCode \<Rightarrow> string option) \<Rightarrow> string option \<Rightarrow> AccessCode \<Rightarrow> bool" where
  "criterion skips uid field v r \<longleftrightarrow>
     a_uid r = uid \<and> (case v of None \<Rightarrow> skips | Some s \<Rightarrow> field r = Some s)"

definition deleteAccessCode ::
  "bool \<Rightarrow> string \<Rightarrow> string option \<Rightarrow> string option \<Rightarrow> string option \<Rightarrow> 'a wsvc_scheme \<Rightarrow>
   bool result \<times> 'a wsvc_scheme" where
  "deleteAccessCode skips uid uuid ntfnId code w =
     (let row = List.find (\<lambda>r. criterion True uid (\<lambda>r. Some (a_uuid r)) uuid r \<or>
                               criterion True uid (\<lambda>r. Some (a_code r)) code r \<or>
                               criterion True uid a_ntfnId ntfnId r) (codes w);
          nid = (case row of None \<Rightarrow> ntfnId | Some r \<Rightarrow> a_ntfnId r);
          w1 = delete_codes (\<lambda>r. criterion skips uid (\<lambda>r. Some (a_uuid r)) uuid r \<or>
                                 criterion skips uid (\<lambda>r. Some (a_code r)) code r \<or>
                                 criterion skips uid a_ntfnId nid r) w
      in if truthy nid then
           (let (meta, w2) = createMessage uid '''' w1
            in (Inr True, emit w2 [Rmq_read meta uid (js_str nid)]))
         else (Inr True, w1))"

definition findOne_code :: "string \<Rightarrow> string \<Rightarrow> 'a wsvc_scheme \<Rightarrow> AccessCode option" where
  "findOne_code uid code w = List.find (\<lambda>r. a_uid r = uid \<and> a_code r = code) (codes w)"

text \<open>The update statement: every row of the user with this code; the result says whether a row
  was affected.\<close>

definition markCodeAsUsed :: "string \<Rightarrow> string \<Rightarrow> 'a wsvc_scheme \<Rightarrow> bool \<times> 'a wsvc_scheme" where
  "markCodeAsUsed uid code w =
     (\<exists>r \<in> set (codes w). a_uid r = uid \<and> a_code r = code,
      w\<lparr>codes := map (\<lambda>r. if a_uid r = uid \<and> a_code r = code
                          then r\<lparr>a_status := USED, a_usedAt := Some (clock w)\<rparr> else r) (codes w)\<rparr>)"

text \<open>The checks of \<^verbatim>\<open>consumeAccessCode\<close> up to its update statement; \<^verbatim>\<open>null < new Date()\<close> reads the null
  as 0.\<close>

definition consume_check :: "string \<Rightarrow> string \<Rightarrow> 'a wsvc_scheme \<Rightarrow> err option" where
  "consume_check uid code w =
     (case findOne_code uid code w of
        None \<Rightarrow> Some (NotFound ''ACCESS_CODE_INVALID'')
      | Some row \<Rightarrow>
          if a_status row = USED then Some (Forbidden ''ACCESS_CODE_ALREADY_USED'')
          else if (case a_expiresAt row of None \<Rightarrow> 0 | Some t \<Rightarrow> t) < clock w
          then Some (BadRequest ''ACCESS_CODE_EXPIRED'') else None)"

definition consumeAccessCode :: "string \<Rightarrow> string \<Rightarrow> 'a wsvc_scheme \<Rightarrow> bool result \<times> 'a wsvc_scheme" where
  "consumeAccessCode uid code w =
     (case consume_check uid code w of
        Some e \<Rightarrow> (Inl e, w)
      | None \<Rightarrow>
          (let (success, w1) = markCodeAsUsed uid code w
           in if \<not> success then (Inl (Forbidden ''ACCESS_CODE_IN_USE''), w1) else (Inr True, w1)))"

definition resetAccessCode :: "string \<Rightarrow> string \<Rightarrow> 'a wsvc_scheme \<Rightarrow> bool result \<times> 'a wsvc_scheme" where
  "resetAccessCode uid code w =
     (case findOne_code uid code w of
        None \<Rightarrow> (Inl (NotFound ''ACCESS_CODE_INVALID''), w)
      | Some row \<Rightarrow>
          if a_status row \<noteq> USED then (Inl (BadRequest ''ACCESS_CODE_NOT_IN_USE''), w)
          else (Inr True, save_code (row\<lparr>a_status := UNUSED\<rparr>) w))"

definition downgradeWorkspace :: "string \<Rightarrow> string \<Rightarrow> 'a wsvc_scheme \<Rightarrow> unit result \<times> 'a wsvc_scheme" where
  "downgradeWorkspace uid uuid w =
     (let (notificationId, w1) = randomUUID w;
          (meta, w2) = createMessage uid '''' w1;
          w3 = emit w2 [Rmq_notify meta uid
                 \<lparr>nt_type = Workspace_downgraded, nt_id = notificationId, nt_createdOn = IsoText (clock w),
                  nt_actedOn = None, nt_fields = WorkspaceDowngraded uuid\<rparr>]
      in case findOne_workspace uuid w3 of
           None \<Rightarrow> (Inr (), w3)
         | Some workspace \<Rightarrow> save_workspace (workspace\<lparr>w_dedicated := False\<rparr>) w3)"

section \<open>Rows of the code table\<close>

lemma findOne_codeD:
  "findOne_code uid code w = Some r \<Longrightarrow> r \<in> set (codes w) \<and> a_uid r = uid \<and> a_code r = code"
  unfolding findOne_code_def by (drule find_SomeD) simp

lemma findOne_code_mem:
  assumes "db_wf w" "r \<in> set (codes w)" "a_uid r = uid" "a_code r = code"
  shows "findOne_code uid code w = Some r"
proof (cases "findOne_code uid code w")
  case None
  with assms show ?thesis by (auto simp: findOne_code_def find_None_iff)
next
  case (Some r')
  with assms have "r' = r"
    by (intro key_unique [of a_code "codes w"]) (auto simp: db_defs dest: findOne_codeD)
  with Some show ?thesis by simp
qed

definition usable :: "string \<Rightarrow> string \<Rightarrow> 'a wsvc_scheme \<Rightarrow> bool" where
  "usable uid code w \<longleftrightarrow>
     (\<exists>r \<in> set (codes w). a_uid r = uid \<and> a_code r = code \<and> a_status r \<noteq> USED \<and>
        clock w \<le> (case a_expiresAt r of None \<Rightarrow> 0 | Some t \<Rightarrow> t))"

lemma consume_check_iff:
  assumes "db_wf w"
  shows "consume_check uid code w = None \<longleftrightarrow> usable uid code w"
proof (cases "findOne_code uid code w")
  case None
  then have "\<forall>r \<in> set (codes w). \<not> (a_uid r = uid \<and> a_code r = code)"
    by (auto simp: findOne_code_def find_None_iff)
  with None show ?thesis by (auto simp: consume_check_def usable_def)
next
  case (Some r)
  note r = findOne_codeD [OF Some]
  have "r' = r" if "r' \<in> set (codes w)" "a_uid r' = uid" "a_code r' = code" for r'
    using findOne_code_mem [OF assms that] Some by simp
  with r have "usable uid code w \<longleftrightarrow> a_status r \<noteq> USED \<and>
      clock w \<le> (case a_expiresAt r of None \<Rightarrow> 0 | Some t \<Rightarrow> t)"
    unfolding usable_def by blast
  with Some show ?thesis by (simp add: consume_check_def not_less)
qed

lemma usable_affected: "usable uid code w \<Longrightarrow> fst (markCodeAsUsed uid code w)"
  by (auto simp: usable_def markCodeAsUsed_def)

lemma consumeAccessCode_eq:
  assumes "db_wf w"
  shows "consumeAccessCode uid code w =
    (if usable uid code w then (Inr True, snd (markCodeAsUsed uid code w))
     else (Inl (the (consume_check uid code w)), w))"
proof (cases "usable uid code w")
  case True
  then have "consume_check uid code w = None" by (simp add: consume_check_iff [OF assms])
  with True usable_affected [OF True] show ?thesis by (simp add: consumeAccessCode_def split_beta)
next
  case False
  then obtain e where "consume_check uid code w = Some e"
    using consume_check_iff [OF assms] by (cases "consume_check uid code w") auto
  with False show ?thesis by (simp add: consumeAccessCode_def)
qed

lemma marked_row:
  "r \<in> set (codes (snd (markCodeAsUsed uid code w))) \<Longrightarrow> a_uid r = uid \<Longrightarrow> a_code r = code \<Longrightarrow>
     a_status r = USED"
  by (simp add: markCodeAsUsed_def image_iff) (metis AccessCode.select_convs(5) AccessCode.surjective
      AccessCode.update_convs(5,7))

lemma marked_not_usable: "\<not> usable uid code (snd (markCodeAsUsed uid code w))"
  using marked_row unfolding usable_def by blast

lemma markCodeAsUsed_wf:
  assumes "db_wf w"
  shows "db_wf (snd (markCodeAsUsed uid code w))"
proof -
  let ?f = "\<lambda>r. if a_uid r = uid \<and> a_code r = code
     then r\<lparr>a_status := USED, a_usedAt := Some (clock w)\<rparr> else r"
  have keys: "map a_id (map ?f (codes w)) = map a_id (codes w)"
    "map a_code (map ?f (codes w)) = map a_code (codes w)" by simp_all
  have rows: "\<forall>r \<in> set (map ?f (codes w)). a_id r < ac_seq w \<and> code_row_ok r"
    using assms by (auto simp: db_defs code_row_ok_def)
  have "codes_wf (map ?f (codes w)) (ac_seq w)"
    unfolding codes_wf_def keys using assms rows by (simp only: db_defs simp_thms)
  with assms show ?thesis by (simp add: markCodeAsUsed_def db_wf_def)
qed

lemma consumeAccessCode_wf: "db_wf w \<Longrightarrow> consumeAccessCode uid code w = (x, w') \<Longrightarrow> db_wf w'"
  using markCodeAsUsed_wf [of w uid code] by (simp add: consumeAccessCode_eq split: if_splits)

lemma resetAccessCode_wf:
  assumes "db_wf w" "resetAccessCode uid code w = (x, w')"
  shows "db_wf w'"
proof (cases "findOne_code uid code w")
  case (Some r)
  then have r: "r \<in> set (codes w)" by (auto dest: findOne_codeD)
  with assms(1) have "code_row_ok (r\<lparr>a_status := UNUSED\<rparr>)" by (auto simp: db_defs code_row_ok_def)
  with assms r have "db_wf (save_code (r\<lparr>a_status := UNUSED\<rparr>) w)"
    by (intro save_code_wf [of w r]) simp_all
  with Some assms show ?thesis by (auto simp: resetAccessCode_def split: if_splits)
qed (use assms in \<open>simp add: resetAccessCode_def\<close>)

lemma deleteAccessCode_wf:
  assumes "db_wf w" "deleteAccessCode skips uid uuid ntfnId code w = (x, w')"
  shows "db_wf w'"
proof -
  have "\<exists>p. same_tables w' (delete_codes p w)"
    using assms(2) unfolding deleteAccessCode_def Let_def split_beta
    by (auto split: if_splits) (rule exI, rule same_tables_refl)+
  then obtain p where "same_tables w' (delete_codes p w)" ..
  from db_wf_cong [OF this] delete_codes_wf [OF assms(1), of p] show ?thesis by simp
qed

lemma getUserProfile_tables [simp]: "same_tables (snd (getUserProfile users uid w)) w"
  by (simp add: getUserProfile_def split: option.splits list.splits)

lemma sendAccessRequestEmail_frame [frame_simps]:
  "same_tables (sendAccessRequestEmail wh to req token w) w"
  "clock (sendAccessRequestEmail wh to req token w) = clock w"
  by (simp_all add: sendAccessRequestEmail_def Let_def frame_simps)

lemma createAccessRequest_eq:
  assumes "getUserProfile users uid w = (profile, w1)" "randomUUID w1 = (rid, w2)"
  shows "createAccessRequest env cluster users sign chunks uid reason w =
    (if \<exists>r \<in> set (codes w). a_uid r = uid \<and> a_status r \<noteq> USED then (Inl (BadRequest ''ACCESS_CODE_LIMIT''), w)
     else case canProvision env cluster w of
            Inl e \<Rightarrow> (Inl e, w)
          | Inr False \<Rightarrow> (Inl (Forbidden ''NO_CAPACITY''), w)
          | Inr True \<Rightarrow>
              (let payload = access_payload profile uid reason rid;
                   w3 = sendAccessRequestEmail (en_webhook env) (en_admin env) (sp_data payload)
                          (sign payload (en_secret env)) w2
               in case accessCode chunks 16 of
                    None \<Rightarrow> (Inl (Waiting ''randomBytes''), w3)
                  | Some code \<Rightarrow>
                      insert_code (new_AccessCode \<lparr>ad_code = Some code, ad_uid = Some uid, ad_usedAt = None,
                         ad_expiresAt = Some (add_days (clock w) (env_int (en_expiry_days env) 5)),
                         ad_status = Some NEW, ad_uuid = Some rid, ad_ntfnId = None\<rparr>) w3))"
proof -
  have "filter (\<lambda>r. a_uid r = uid \<and> (a_status r = UNUSED \<or> a_status r = NEW)) (codes w) \<noteq> [] \<longleftrightarrow>
      (\<exists>r \<in> set (codes w). a_uid r = uid \<and> a_status r \<noteq> USED)"
    by (auto simp: filter_empty_conv) (metis AccessStatus.exhaust)+
  then show ?thesis
    by (cases "\<exists>r \<in> set (codes w). a_uid r = uid \<and> a_status r \<noteq> USED")
      (auto simp: createAccessRequest_def assms Let_def simp del: bex_simps ball_simps split: sum.split bool.split)
qed

lemma createAccessRequest_cases:
  assumes "createAccessRequest env cluster users sign chunks uid reason w = (x, w')"
  shows "(\<exists>e. x = Inl e \<and> same_tables w' w) \<or>
    (\<exists>d v. same_tables v w \<and> insert_code d v = (x, w'))"
proof -
  obtain profile w1 where g: "getUserProfile users uid w = (profile, w1)" by fastforce
  obtain rid w2 where r: "randomUUID w1 = (rid, w2)" by fastforce
  have "same_tables w1 w" using getUserProfile_tables [of users uid w] g by simp
  moreover have "same_tables w2 w1" using r by (auto simp: randomUUID_def same_tables_def)
  ultimately have "same_tables w2 w" by (rule same_tables_trans [rotated])
  then have t: "same_tables (sendAccessRequestEmail a b c d w2) w" for a b c d
    by (rule same_tables_trans [OF sendAccessRequestEmail_frame(1)])
  show ?thesis
  proof (cases "canProvision env cluster w = Inr True \<and> \<not> (\<exists>r \<in> set (codes w). a_uid r = uid \<and> a_status r \<noteq> USED)")
    case True
    with assms t show ?thesis
      unfolding createAccessRequest_eq [OF g r] Let_def by (cases "accessCode chunks 16") auto
  next
    case False
    with assms show ?thesis
      unfolding createAccessRequest_eq [OF g r] Let_def by (auto split: if_splits sum.splits bool.splits)
  qed
qed

lemma createAccessRequest_wf:
  assumes "db_wf w" "createAccessRequest env cluster users sign chunks uid reason w = (x, w')"
  shows "db_wf w'"
  using createAccessRequest_cases [OF assms(2)]
proof (elim disjE exE conjE)
  fix d v assume "same_tables v w" "insert_code d v = (x, w')"
  with assms(1) insert_code_wf [of v] db_wf_cong [of v w] show ?thesis by blast
qed (use assms(1) db_wf_cong in blast)

lemma save_code_status_wf:
  assumes "db_wf w" "r \<in> set (codes w)" "same_tables v w"
  shows "db_wf (save_code (r\<lparr>a_status := st, a_ntfnId := n\<rparr>) v)"
proof -
  from assms have "code_row_ok (r\<lparr>a_status := st, a_ntfnId := n\<rparr>)" by (auto simp: db_defs code_row_ok_def)
  with assms show ?thesis
    by (intro save_code_wf [of v r]) (auto simp: same_tables_def db_wf_cong [OF assms(3)])
qed

section \<open>Fulfilling a request\<close>

text \<open>The notification sent when a request is decided.\<close>

definition access_notice :: "AccessRequestPayload \<Rightarrow> bool \<Rightarrow> string \<Rightarrow> 'a wsvc_scheme \<Rightarrow> 'a wsvc_scheme" where
  "access_notice d success code w =
     emit (w\<lparr>uuidc := Suc (Suc (uuidc w))\<rparr>)
       [Rmq_notify \<lparr>mm_uid = ar_uid d, mm_route = '''', mm_requestId = uuids w (Suc (uuidc w)),
                    mm_timestamp = perf w\<rparr> (ar_uid d)
          \<lparr>nt_type = Workspace_access_code, nt_id = uuids w (uuidc w), nt_createdOn = IsoText (clock w),
           nt_actedOn = None, nt_fields = WorkspaceAccessRequest success code (ar_uuid d)\<rparr>]"

lemma access_notice_tables [simp]: "same_tables (access_notice d b c w) v = same_tables w v"
  by (simp add: access_notice_def) (simp add: same_tables_def)

lemma fulfill_eq:
  assumes "verify token (en_secret env) = Some payload" "sp_data payload = d"
  shows "fulfillAccessRequest env verify action token w =
    (if action = ''reject'' then (Inr (), access_notice d False '''' (delete_codes (\<lambda>r. a_uuid r = ar_uuid d) w))
     else case List.find (\<lambda>r. a_uuid r = ar_uuid d) (codes w) of
            None \<Rightarrow> (Inl (BadRequest ''NOT_FOUND''), w)
          | Some row \<Rightarrow>
              (Inr (), save_code (row\<lparr>a_status := UNUSED, a_ntfnId := Some (uuids w (uuidc w))\<rparr>)
                 (access_notice d True (a_code row) (save_code (row\<lparr>a_status := UNUSED\<rparr>) w))))"
  using assms
  by (simp add: fulfillAccessRequest_def access_notice_def randomUUID_def createMessage_def Let_def
      delete_codes_def save_code_def split: option.split)

lemma fulfill_bad_token:
  "verify token (en_secret env) = None \<Longrightarrow>
     fulfillAccessRequest env verify action token w = (Inl (BadRequest ''BAD_TOKEN''), w)"
  by (simp add: fulfillAccessRequest_def)

lemma save_code_mem: "old \<in> set (codes w) \<Longrightarrow> a_id old = a_id r \<Longrightarrow> r \<in> set (codes (save_code r w))"
  using set_replace_by [of r a_id r "codes w"] by (auto simp: save_code_def)

lemma save_twice:
  assumes "db_wf w" "r \<in> set (codes w)"
  shows "db_wf (save_code (r\<lparr>a_status := st, a_ntfnId := n\<rparr>)
           (access_notice d b c (save_code (r\<lparr>a_status := st\<rparr>) w)))" (is "db_wf (save_code ?r2 ?v)")
    "r\<lparr>a_status := st, a_ntfnId := n\<rparr> \<in> set (codes (save_code (r\<lparr>a_status := st, a_ntfnId := n\<rparr>)
           (access_notice d b c (save_code (r\<lparr>a_status := st\<rparr>) w))))"
proof -
  let ?r1 = "r\<lparr>a_status := st\<rparr>"
  have wf1: "db_wf (save_code ?r1 w)"
    using save_code_status_wf [OF assms same_tables_refl, of "a_ntfnId r" st] by simp
  have m1: "?r1 \<in> set (codes (save_code ?r1 w))"
    using assms(2) by (rule save_code_mem) simp
  have t: "same_tables ?v (save_code ?r1 w)" by simp
  have "?r1\<lparr>a_status := st, a_ntfnId := n\<rparr> = ?r2" by simp
  with save_code_status_wf [OF wf1 m1 t, of n st] show "db_wf (save_code ?r2 ?v)" by simp
  from m1 t have "?r1 \<in> set (codes ?v)" by (simp add: same_tables_def)
  then show "?r2 \<in> set (codes (save_code ?r2 ?v))" by (rule save_code_mem) simp
qed

lemma fulfill_wf:
  assumes "db_wf w" "fulfillAccessRequest env verify action token w = (x, w')"
  shows "db_wf w'"
proof (cases "verify token (en_secret env)")
  case None
  with assms show ?thesis by (simp add: fulfill_bad_token)
next
  case (Some payload)
  note eq = fulfill_eq [where verify = verify, OF Some refl, of action w]
  show ?thesis
  proof (cases "action = ''reject''")
    case True
    have "same_tables w' (delete_codes (\<lambda>r. a_uuid r = ar_uuid (sp_data payload)) w)"
      using eq True assms(2) by auto
    with delete_codes_wf [OF assms(1)] show ?thesis using db_wf_cong by blast
  next
    case False
    show ?thesis
    proof (cases "List.find (\<lambda>r. a_uuid r = ar_uuid (sp_data payload)) (codes w)")
      case None
      with eq False assms show ?thesis by simp
    next
      case (Some row)
      then have "row \<in> set (codes w)" using find_SomeD by fast
      from save_twice(1) [OF assms(1) this] eq False Some assms(2) show ?thesis by fastforce
    qed
  qed
qed

lemma downgradeWorkspace_wf:
  assumes "db_wf w" "downgradeWorkspace uid uuid w = (x, w')"
  shows "db_wf w'"
proof -
  obtain nid w1 where n: "randomUUID w = (nid, w1)" by fastforce
  obtain meta w2 where m: "createMessage uid '''' w1 = (meta, w2)" by fastforce
  have t: "same_tables w2 w"
    using n m by (auto simp: randomUUID_def createMessage_def same_tables_def)
  obtain v where v: "same_tables v w" and d: "(case findOne_workspace uuid v of None \<Rightarrow> (Inr (), v)
      | Some workspace \<Rightarrow> save_workspace (workspace\<lparr>w_dedicated := False\<rparr>) v) = (x, w')"
    using assms(2) t by (auto simp: downgradeWorkspace_def Let_def n m intro: that [rotated])
  have wf: "db_wf v" using db_wf_cong [OF v] assms(1) by simp
  show ?thesis
  proof (cases "findOne_workspace uuid v")
    case (Some r)
    with d have "save_workspace (r\<lparr>w_dedicated := False\<rparr>) v = (x, w')" by simp
    with save_workspace_wf [OF wf this, of r] findOne_workspaceD [OF Some] show ?thesis by simp
  qed (use d wf in simp)
qed

section \<open>From the request to the use of a code\<close>

lemma find_fresh: "(\<forall>x \<in> set xs. \<not> P x) \<Longrightarrow> P r \<Longrightarrow> List.find P (xs @ [r]) = Some r"
  by (induction xs) auto

lemma sendAccessRequestEmail_out:
  "\<exists>m. out (sendAccessRequestEmail wh to req token w) = out w @ [Smtp_mail m] \<and> ml_to m = to \<and>
     (\<exists>a b. ml_html m = a @ wh @ ''/access-fulfill?action=approve&token='' @ token @ b)"
proof -
  let ?a = "nl @ ''    '' @ ''<h2>Request for access code</h2>''
               @ nl @ ''    '' @ ''<span>Username: '' @ ar_username req @ ''</span><br/>''
               @ nl @ ''    '' @ ''<span>Name: '' @ ar_name req @ ''</span><br/>''
               @ nl @ ''    '' @ ''<span>Reason: <br/>'' @ (case ar_reason req of None \<Rightarrow> ''NA'' | Some r \<Rightarrow> r) @ ''</span>''
               @ nl @ ''    '' @ ''<br/>'' @ nl @ ''    '' @ ''<br/>'' @ nl @ ''    '' @ ''<a href=\"''"
  show ?thesis
    unfolding sendAccessRequestEmail_def Let_def emit_def
    by (rule exI, intro conjI, simp, simp, rule exI [of _ ?a], rule exI, simp)
qed

text \<open>A request that succeeds: the new row, and the mail with the link that approves it.\<close>

lemma createAccessRequest_Inr:
  assumes "createAccessRequest env cluster users sign chunks uid reason w = (Inr u, w')"
    "getUserProfile users uid w = (profile, w1)" "randomUUID w1 = (rid, w2)"
  shows "\<exists>r code m a b. accessCode chunks 16 = Some code \<and> codes w' = codes w @ [r] \<and>
    a_uid r = uid \<and> a_code r = code \<and> a_uuid r = rid \<and> a_status r = NEW \<and>
    a_expiresAt r = Some (add_days (clock w) (env_int (en_expiry_days env) 5)) \<and>
    out w' = out w @ [Smtp_mail m] \<and> ml_to m = en_admin env \<and>
    ml_html m = a @ en_webhook env @ ''/access-fulfill?action=approve&token='' @
      sign (access_payload profile uid reason rid) (en_secret env) @ b \<and> clock w' = clock w"
proof -
  let ?p = "access_payload profile uid reason rid"
  let ?w3 = "sendAccessRequestEmail (en_webhook env) (en_admin env) (sp_data ?p) (sign ?p (en_secret env)) w2"
  from assms(1) obtain code where c: "accessCode chunks 16 = Some code"
    and i: "insert_code (new_AccessCode \<lparr>ad_code = Some code, ad_uid = Some uid, ad_usedAt = None,
        ad_expiresAt = Some (add_days (clock w) (env_int (en_expiry_days env) 5)),
        ad_status = Some NEW, ad_uuid = Some rid, ad_ntfnId = None\<rparr>) ?w3 = (Inr u, w')"
    unfolding createAccessRequest_eq [OF assms(2,3)] Let_def
    by (auto split: if_splits sum.splits bool.splits option.splits)
  from insert_code_Inr [OF i] obtain r where r: "w' = ?w3\<lparr>codes := codes ?w3 @ [r], ac_seq := ac_seq ?w3 + 1\<rparr>"
      "a_uid r = uid" "a_code r = code" "a_uuid r = rid" "a_status r = NEW"
      "a_expiresAt r = Some (add_days (clock w) (env_int (en_expiry_days env) 5))"
    by (auto simp: new_AccessCode_def keep_truthy_def split: if_splits)
  have w1: "codes w1 = codes w" "out w1 = out w" "clock w1 = clock w"
    using assms(2) by (auto simp: getUserProfile_def frame_simps tables_net split: option.splits list.splits)
  then have w2: "codes w2 = codes w" "out w2 = out w" "clock w2 = clock w"
    using assms(3) by (auto simp: randomUUID_def)
  have "codes ?w3 = codes w" "clock ?w3 = clock w"
    using w2 by (simp_all add: sendAccessRequestEmail_def Let_def frame_simps)
  moreover obtain m where "out ?w3 = out w @ [Smtp_mail m]" "ml_to m = en_admin env"
      "\<exists>a b. ml_html m = a @ en_webhook env @ ''/access-fulfill?action=approve&token='' @ sign ?p (en_secret env) @ b"
    using sendAccessRequestEmail_out w2(2) by metis
  ultimately show ?thesis using c r by auto
qed

lemma approve_makes_usable:
  assumes "db_wf w" "verify token (en_secret env) = Some p" "row \<in> set (codes w)"
    "List.find (\<lambda>r. a_uuid r = ar_uuid (sp_data p)) (codes w) = Some row"
    "clock w \<le> (case a_expiresAt row of None \<Rightarrow> 0 | Some t \<Rightarrow> t)"
  shows "\<exists>w'. fulfillAccessRequest env verify ''approve'' token w = (Inr (), w') \<and> db_wf w' \<and>
    usable (a_uid row) (a_code row) w'"
proof -
  let ?r = "row\<lparr>a_status := UNUSED, a_ntfnId := Some (uuids w (uuidc w))\<rparr>"
  let ?w = "save_code ?r (access_notice (sp_data p) True (a_code row) (save_code (row\<lparr>a_status := UNUSED\<rparr>) w))"
  have f: "fulfillAccessRequest env verify ''approve'' token w = (Inr (), ?w)"
    using fulfill_eq [where verify = verify, OF assms(2) refl, of "''approve''" w] assms(4) by simp
  have "clock ?w = clock w" by (simp add: save_code_def access_notice_def emit_def)
  moreover have "?r \<in> set (codes ?w)" by (rule save_twice(2) [OF assms(1,3)])
  ultimately have "usable (a_uid row) (a_code row) ?w"
    unfolding usable_def using assms(5) by (intro bexI [of _ ?r]) simp_all
  with f save_twice(1) [OF assms(1,3)] show ?thesis by blast
qed

section \<open>The capacity of a node given in millicores\<close>

lemma parse_digits_stop:
  "(\<forall>c \<in> set ds. digit_of 10 c \<noteq> None) \<Longrightarrow> digit_of 10 x = None \<Longrightarrow>
     parse_digits 10 (ds @ x # s) acc = parse_digits 10 ds acc"
  by (induction ds arbitrary: acc) (auto split: option.split)

definition plain_number :: "string \<Rightarrow> bool" where
  "plain_number ds \<longleftrightarrow> ds \<noteq> [] \<and> (\<forall>c \<in> set ds. digit_of 10 c \<noteq> None)"

lemma digit_not_special:
  assumes "digit_of 10 c \<noteq> None"
  shows "\<not> js_space c" "c \<noteq> CHR ''-''" "c \<noteq> CHR ''+''" "c \<noteq> CHR ''x''" "c \<noteq> CHR ''X''" "c \<noteq> CHR ''m''"
  using assms by (auto simp: digit_of_def js_space_def Let_def split: if_splits)

lemma parse_plain:
  assumes "plain_number ds"
  shows "js_parseInt (ds @ ''m'') = map_option int (parse_digits 10 ds None)"
    "js_parseInt ds = map_option int (parse_digits 10 ds None)"
proof -
  obtain c cs where ds: "ds = c # cs" "digit_of 10 c \<noteq> None" using assms by (cases ds) (auto simp: plain_number_def)
  have x: "take 2 ds \<noteq> ''0x'' \<and> take 2 ds \<noteq> ''0X''" "take 2 (ds @ ''m'') \<noteq> ''0x'' \<and> take 2 (ds @ ''m'') \<noteq> ''0X''"
    using assms digit_not_special unfolding plain_number_def ds by (cases cs; force)+
  have m: "digit_of 10 (CHR ''m'') = None" by (simp add: digit_of_def Let_def)
  have "parse_digits 10 (ds @ ''m'') None = parse_digits 10 ds None"
    using assms parse_digits_stop [of ds "CHR ''m''" "[]"] m by (simp add: plain_number_def)
  moreover have "dropWhile js_space ds = ds" "dropWhile js_space (ds @ ''m'') = ds @ ''m''"
    "hd ds = c" "hd (ds @ ''m'') = c" using digit_not_special [OF ds(2)] ds(1) by simp_all
  ultimately show "js_parseInt (ds @ ''m'') = map_option int (parse_digits 10 ds None)"
    "js_parseInt ds = map_option int (parse_digits 10 ds None)"
    unfolding js_parseInt_def Let_def using digit_not_special [OF ds(2)] x by simp_all
qed

end
