(* ===== verification/Workspace_Service.thy ===== *)
theory Workspace_Service
  imports Manage_Access
begin

text \<open>
  The workspace service as a whole: its handlers as the steps of a transition relation on the shared
  state, two clients that consume an access code at the same time, and the properties of the service.
\<close>

section \<open>Steps\<close>

inductive ws_step :: "'a wsvc_scheme \<Rightarrow> 'a wsvc_scheme \<Rightarrow> bool" where
  create: "createWorkspace profile_rpc uid data w = (r, w') \<Longrightarrow> ws_step w w'"
| update: "updateWorkspace sign secret uid upd w = (r', w') \<Longrightarrow> ws_step w w'"
| update_status: "updateWorkspaceStatus uuid status w = (r', w') \<Longrightarrow> ws_step w w'"
| delete: "deleteWorkspace uid u w = (r', w') \<Longrightarrow> ws_step w w'"
| delete_owned: "deleteOwnedWorkspaces uid w = (r'', w') \<Longrightarrow> ws_step w w'"
| invite: "inviteUser sign secret uid dto True w = (r', w') \<Longrightarrow> ws_step w w'"
| invite_all: "inviteAllUsers sign secret uid dtos w = (r', w') \<Longrightarrow> ws_step w w'"
| accept: "acceptInvitation verify secret uid token w = (k, w') \<Longrightarrow> ws_step w w'"
| ignore: "ignoreInvitation verify secret uid token w = (r', w') \<Longrightarrow> ws_step w w'"
| access_request: "createAccessRequest env cluster users asign chunks uid reason w = (r', w') \<Longrightarrow> ws_step w w'"
| access_fulfill: "fulfillAccessRequest env averify action token w = (r', w') \<Longrightarrow> ws_step w w'"
| access_delete: "deleteAccessCode skips uid uuid' ntfnId code' w = (r'', w') \<Longrightarrow> ws_step w w'"
| access_consume: "consumeAccessCode uid code w = (r'', w') \<Longrightarrow> ws_step w w'"
| access_reset: "resetAccessCode uid code w = (r'', w') \<Longrightarrow> ws_step w w'"
| downgrade: "downgradeWorkspace uid uuid w = (r', w') \<Longrightarrow> ws_step w w'"
| other: "same_tables w' w \<Longrightarrow> ws_step w w'"
  \<comment> \<open>time passes, other services use the cache and the transports\<close>

inductive_cases ws_stepE: "ws_step w w'"

definition ws_initial :: "'a wsvc_scheme \<Rightarrow> bool" where
  "ws_initial w \<longleftrightarrow> workspaces w = [] \<and> memberships w = [] \<and> codes w = [] \<and> ws_seq w = 1 \<and> ac_seq w = 1"

lemma inviteUser_tables: "inviteUser sign secret uid dto v w = (r, w') \<Longrightarrow> same_tables w' w"
  by (auto simp: inviteUser_def Let_def randomUUID_def createMessage_def same_tables_def emit_def
      split: option.splits if_splits)

lemma inviteAllUsers_tables: "inviteAllUsers sign secret uid dto w = (r, w') \<Longrightarrow> same_tables w' w"
  by (cases r) (auto dest: inviteAllUsers_Inl inviteAllUsers_Inr(1))

lemma ignoreInvitation_tables: "ignoreInvitation verify secret uid token w = (r, w') \<Longrightarrow> same_tables w' w"
  by (auto simp: ignoreInvitation_def Let_def randomUUID_def createMessage_def same_tables_def emit_def
      split: sum.splits)

lemmas handler_wf =
  createWorkspace_wf updateWorkspace_wf updateWorkspaceStatus_wf deleteWorkspace_wf
  deleteOwnedWorkspaces_wf accept_wf createAccessRequest_wf fulfill_wf deleteAccessCode_wf
  consumeAccessCode_wf resetAccessCode_wf downgradeWorkspace_wf

lemmas handler_tables = inviteUser_tables inviteAllUsers_tables ignoreInvitation_tables

lemma ws_step_wf:
  assumes "ws_step w w'" "db_wf w"
  shows "db_wf w'"
  using assms
proof cases
  case other
  with assms(2) show ?thesis by (simp add: db_wf_cong)
qed (erule handler_wf [OF assms(2)] | (drule handler_tables, simp add: db_wf_cong assms(2)))+

lemma ws_steps_wf: "ws_step\<^sup>*\<^sup>* w w' \<Longrightarrow> db_wf w \<Longrightarrow> db_wf w'"
  by (induction rule: rtranclp_induct) (auto intro: ws_step_wf)

lemma ws_initial_wf: "ws_initial w \<Longrightarrow> db_wf w"
  by (simp add: ws_initial_def db_defs)

section \<open>Two clients and one code\<close>

text \<open>
  Two requests to consume the same code. Each is at the start, past the checks, or done; the checks
  and the update statement are separate database accesses, so the steps of the two interleave.
\<close>

datatype consume_phase = Start | Checked | Done "bool result"

definition consume_advance ::
  "string \<Rightarrow> string \<Rightarrow> consume_phase \<Rightarrow> 'a wsvc_scheme \<Rightarrow> consume_phase \<times> 'a wsvc_scheme" where
  "consume_advance uid code ph w =
     (case ph of
        Start \<Rightarrow> (case consume_check uid code w of None \<Rightarrow> (Checked, w) | Some e \<Rightarrow> (Done (Inl e), w))
      | Checked \<Rightarrow>
          (let (success, w1) = markCodeAsUsed uid code w
           in if \<not> success then (Done (Inl (Forbidden ''ACCESS_CODE_IN_USE'')), w1) else (Done (Inr True), w1))
      | Done r \<Rightarrow> (Done r, w))"

inductive consume_race ::
  "string \<Rightarrow> string \<Rightarrow> consume_phase \<times> consume_phase \<times> 'a wsvc_scheme \<Rightarrow>
   consume_phase \<times> consume_phase \<times> 'a wsvc_scheme \<Rightarrow> bool" for uid code where
  first: "consume_advance uid code p w = (p', w') \<Longrightarrow> consume_race uid code (p, q, w) (p', q, w')"
| second: "consume_advance uid code q w = (q', w') \<Longrightarrow> consume_race uid code (p, q, w) (p, q', w')"

lemma consume_advance_alone:
  "consumeAccessCode uid code w = (r, w') \<Longrightarrow>
     (case consume_advance uid code Start w of (p, v) \<Rightarrow> consume_advance uid code p v) = (Done r, w')"
  by (auto simp: consumeAccessCode_def consume_advance_def Let_def split: option.splits if_splits prod.splits)

lemma mark_keeps_rows: "fst (markCodeAsUsed uid code (snd (markCodeAsUsed uid code w))) = fst (markCodeAsUsed uid code w)"
proof -
  let ?f = "\<lambda>r. if a_uid r = uid \<and> a_code r = code
     then r\<lparr>a_status := USED, a_usedAt := Some (clock w)\<rparr> else r"
  have f: "a_uid (?f r) = a_uid r" "a_code (?f r) = a_code r" for r by simp_all
  have "(\<exists>r \<in> set (map ?f (codes w)). a_uid r = uid \<and> a_code r = code) \<longleftrightarrow>
      (\<exists>r \<in> set (codes w). a_uid r = uid \<and> a_code r = code)"
    by (simp only: set_map bex_simps f)
  then show ?thesis by (simp add: markCodeAsUsed_def del: set_map)
qed

lemma race_both_win:
  assumes "db_wf w" "usable uid code w"
  shows "\<exists>w'. (consume_race uid code)\<^sup>*\<^sup>* (Start, Start, w) (Done (Inr True), Done (Inr True), w')"
proof -
  let ?w1 = "snd (markCodeAsUsed uid code w)"
  let ?w2 = "snd (markCodeAsUsed uid code ?w1)"
  have c: "consume_advance uid code Start w = (Checked, w)"
    using consume_check_iff [OF assms(1), of uid code] assms(2) by (simp add: consume_advance_def)
  have m1: "consume_advance uid code Checked w = (Done (Inr True), ?w1)"
    using usable_affected [OF assms(2)] by (simp add: consume_advance_def split_beta)
  have m2: "consume_advance uid code Checked ?w1 = (Done (Inr True), ?w2)"
    using usable_affected [OF assms(2)] by (simp add: consume_advance_def split_beta mark_keeps_rows)
  have "consume_race uid code (Start, Start, w) (Checked, Start, w)" by (rule first [OF c])
  moreover have "consume_race uid code (Checked, Start, w) (Checked, Checked, w)" by (rule second [OF c])
  moreover have "consume_race uid code (Checked, Checked, w) (Done (Inr True), Checked, ?w1)"
    by (rule first [OF m1])
  moreover have "consume_race uid code (Done (Inr True), Checked, ?w1) (Done (Inr True), Done (Inr True), ?w2)"
    by (rule second [OF m2])
  ultimately show ?thesis by (meson converse_rtranclp_into_rtranclp rtranclp.rtrancl_refl)
qed

section \<open>Updates of the members, end to end\<close>

lemma update_members_run:
  assumes "db_wf w" "u_id data = Some i" "u_members data = Some reqs"
    "updateWorkspace sign secret uid data w = (Inr u, w')"
  shows "\<exists>m found added removed v x. findOne_membership i uid w = Some m \<and> m_role m \<noteq> ''member'' \<and>
    findOne_workspace_id i w = Some found \<and> update_diff i reqs w = (added, removed) \<and>
    updateMembers sign secret uid (update_target data found) added removed (u_sshKey data) w = (Inr x, v) \<and>
    w' = v\<lparr>workspaces := replace_by w_id (update_target data found) (workspaces v)\<rparr>"
proof -
  from updateWorkspace_refused_or [OF assms(4)] assms(2,3) obtain m found r v where
      f: "findOne_membership i uid w = Some m" "m_role m \<noteq> ''member''" "findOne_workspace_id i w = Some found"
    and u: "updateMembers sign secret uid (update_target data found)
            (fst (update_diff i reqs w)) (snd (update_diff i reqs w)) (u_sshKey data) w = (r, v)"
    and x: "(Inr u, w') = (case r of Inl e \<Rightarrow> (Inl e, v) | Inr _ \<Rightarrow> save_workspace (update_target data found) v)"
    by auto
  from x obtain y where "r = Inr y" "save_workspace (update_target data found) v = (Inr u, w')"
    by (cases r) auto
  with f u show ?thesis
    by (cases "update_diff i reqs w") (auto simp: save_workspace_def split: if_splits)
qed

lemma update_diff_sets:
  assumes "update_diff i reqs w = (added, removed)"
  shows "set removed = {m_userId m |m. m \<in> set (memberships w) \<and> m_workspaceId m = i} - set reqs"
    "set added = set reqs - {m_userId m |m. m \<in> set (memberships w) \<and> m_workspaceId m = i}"
  using assms by (auto simp: update_diff_def Let_def find_memberships_def)

lemma kept_members:
  assumes "set removed = {m_userId m |m. m \<in> set rows \<and> m_workspaceId m = i} - set reqs"
  shows "filter (\<lambda>m. \<not> (m_workspaceId m = i \<and> m_userId m \<in> set removed)) rows =
    filter (\<lambda>m. m_workspaceId m = i \<longrightarrow> m_userId m \<in> set reqs) rows"
  unfolding assms by (rule filter_cong) auto

section \<open>A concrete service\<close>

definition ann_ws :: Workspace where
  "ann_ws = \<lparr>w_id = 1, w_uuid = ''W'', w_image = ''img'', w_name = ''Work'', w_description = ''d'',
    w_status = READY, w_dedicated = False, w_createdAt = 0\<rparr>"

definition sample_ws :: wsvc where
  "sample_ws = \<lparr>cache = [], out = [], uuids = (\<lambda>n. replicate (Suc n) (CHR ''u'')), uuidc = 0, clock = 1000, perf = 0,
     workspaces = [ann_ws],
     memberships = [\<lparr>m_workspaceId = 1, m_userId = ''ann'', m_role = ''owner'', m_joinedAt = 0\<rparr>,
                    \<lparr>m_workspaceId = 1, m_userId = ''bob'', m_role = ''member'', m_joinedAt = 0\<rparr>],
     codes = [\<lparr>a_id = 1, a_code = ''K'', a_uid = ''ann'', a_uuid = ''R'', a_status = UNUSED, a_ntfnId = None,
               a_usedAt = None, a_expiresAt = Some 2000\<rparr>],
     ws_seq = 2, ac_seq = 2, db_uuids = (\<lambda>i. ''D'')\<rparr>"

definition empty_ws :: wsvc where
  "empty_ws = sample_ws\<lparr>workspaces := [], memberships := [], codes := [], ws_seq := 1, ac_seq := 1\<rparr>"

definition no_profile :: user_profile where
  "no_profile = \<lparr>up_uid = None, up_name = None, up_username = None, up_email = None, up_picture = None,
     up_issuer = None, up_expireAt = None\<rparr>"

definition work_draft :: WorkspaceDraft where
  "work_draft = \<lparr>d_name = Some ''Work'', d_description = Some ''d'', d_uuid = Some ''W'', d_image = Some ''img'',
     d_status = None, d_dedicated = None\<rparr>"

definition members_only :: "string \<Rightarrow> UpdateDTO" where
  "members_only u = \<lparr>u_id = Some 1, u_name = None, u_description = None, u_members = Some [u], u_sshKey = None\<rparr>"

lemma sample_wf: "db_wf sample_ws"
  by (simp add: sample_ws_def ann_ws_def db_defs workspace_row_ok_def membership_row_ok_def code_row_ok_def)

lemma sample_manage: "may_manage ''ann'' ''W'' sample_ws"
  by (simp add: sample_ws_def ann_ws_def may_manage_def)

lemma sample_usable: "usable ''ann'' ''K'' sample_ws"
  by (simp add: sample_ws_def usable_def)

section \<open>The cache after a deletion\<close>

text \<open>The session of a presence document that a deletion closes: the first one with the workspace open.\<close>

definition opened_in :: "string \<Rightarrow> CachedPresence \<Rightarrow> (string \<times> CachedSession) option" where
  "opened_in x p = (case List.find (\<lambda>(sid, s). cs_wsUuid s = Some x) p of
     None \<Rightarrow> None | Some (sid, s) \<Rightarrow> if sid = [] then None else Some (sid, s))"

definition closes :: "string \<Rightarrow> 'a net_scheme \<Rightarrow> string \<Rightarrow> CachedPresence \<Rightarrow> string \<Rightarrow> CachedSession \<Rightarrow> bool" where
  "closes x w u p sid s \<longleftrightarrow> get_presence w u = Some p \<and> opened_in x p = Some (sid, s)"

lemma clear_member_eq:
  "clear_member x (u, pr) w = (case pr of None \<Rightarrow> w | Some p \<Rightarrow> (case opened_in x p of None \<Rightarrow> w | Some (sid, s) \<Rightarrow>
     set_presence (cache_del (emit w [Socket_send (Some (u, sid)) u sid ''env'' (Env_disconnect ''WORKSPACE_DELETED'')])
       (CACHEKEY_PRESENCE_WORKSPACE u sid x)) u (ob_set p sid (s\<lparr>cs_wsUuid := None\<rparr>))))"
  by (auto simp: clear_member_def opened_in_def Let_def split: option.splits)

lemma clear_members_frame:
  assumes "\<forall>u \<in> set us. \<forall>p sid s. closes x w u p sid s \<longrightarrow> k \<noteq> CACHEKEY_PRESENCE u \<and> k \<noteq> CACHEKEY_PRESENCE_WORKSPACE u sid x"
  shows "cache_get (fold (clear_member x) (zip us (map (get_presence w) us)) v) k = cache_get v k"
  using assms
proof (induction us arbitrary: v)
  case (Cons u us)
  then have "cache_get (clear_member x (u, get_presence w u) v) k = cache_get v k"
    by (auto simp: clear_member_eq closes_def set_presence_def cache_simps split: option.splits)
  with Cons show ?case by simp
qed simp

lemma clear_members_closed:
  assumes "u \<in> set us" "\<forall>u \<in> set us. colon_free u" "closes x w u p sid s"
  shows "cache_get (fold (clear_member x) (zip us (map (get_presence w) us)) v) (CACHEKEY_PRESENCE u) =
      Some (CvPresence (ob_set p sid (s\<lparr>cs_wsUuid := None\<rparr>))) \<and>
    cache_get (fold (clear_member x) (zip us (map (get_presence w) us)) v) (CACHEKEY_PRESENCE_WORKSPACE u sid x) = None"
  using assms(1,2)
proof (induction us rule: rev_induct)
  case (snoc a us)
  let ?v = "fold (clear_member x) (zip us (map (get_presence w) us)) v"
  have run: "fold (clear_member x) (zip (us @ [a]) (map (get_presence w) (us @ [a]))) v = clear_member x (a, get_presence w a) ?v"
    by simp
  have apart: "CACHEKEY_PRESENCE_WORKSPACE u' t x \<noteq> CACHEKEY_PRESENCE a" "CACHEKEY_PRESENCE_WORKSPACE u' t x \<noteq> CACHEKEY_PRESENCE u" for u' t
    using snoc.prems by (auto simp: presence_key_apart)
  show ?case
  proof (cases "a = u")
    case True
    with assms(3) apart show ?thesis unfolding run
      by (simp add: clear_member_eq closes_def set_presence_def cache_simps)
  next
    case False
    with snoc have "cache_get ?v (CACHEKEY_PRESENCE u) = Some (CvPresence (ob_set p sid (s\<lparr>cs_wsUuid := None\<rparr>)))"
      "cache_get ?v (CACHEKEY_PRESENCE_WORKSPACE u sid x) = None" by auto
    with False apart apart [THEN not_sym] show ?thesis unfolding run
      by (auto simp: clear_member_eq set_presence_def cache_simps split: option.split)
  qed
qed simp

lemma cleared_cache:
  fixes us x w
  defines "v \<equiv> clearCacheOnDelete us x w"
  shows "cache_get v (CACHEKEY_WORKSPACE x) = None"
    and "\<forall>u \<in> set us. colon_free u \<Longrightarrow> u \<in> set us \<Longrightarrow> closes x w u p sid s \<Longrightarrow>
      get_presence v u = Some (ob_set p sid (s\<lparr>cs_wsUuid := None\<rparr>)) \<and> cache_get v (CACHEKEY_PRESENCE_WORKSPACE u sid x) = None"
    and "k \<noteq> CACHEKEY_WORKSPACE x \<Longrightarrow>
      \<forall>u \<in> set us. \<forall>p sid s. closes x w u p sid s \<longrightarrow> k \<noteq> CACHEKEY_PRESENCE u \<and> k \<noteq> CACHEKEY_PRESENCE_WORKSPACE u sid x \<Longrightarrow>
      cache_get v k = cache_get w k"
  using clear_members_closed [of u us x w p sid s w] clear_members_frame [of us x w k w]
  by (simp_all add: v_def clearCacheOnDelete_def cache_simps get_presence_def)

text \<open>From empty tables, whatever sequence of handlers runs, the database keeps its constraints.\<close>

lemma reachable_db_wf: "ws_initial w \<Longrightarrow> ws_step\<^sup>*\<^sup>* w w' \<Longrightarrow> db_wf w'"
  using ws_steps_wf ws_initial_wf by blast

lemma workspace_members:
  assumes "db_wf w" "ws \<in> set (workspaces w)" "w_uuid ws = uuid"
  shows "set (map m_userId (find_memberships (w_id ws) w)) =
    {m_userId m |m. m \<in> set (memberships w) \<and> (\<exists>r \<in> set (workspaces w). w_uuid r = uuid \<and> w_id r = m_workspaceId m)}"
proof -
  have "r = ws" if "r \<in> set (workspaces w)" "w_uuid r = uuid" for r
    using assms that by (intro key_unique [of w_uuid "workspaces w"]) (simp_all add: db_defs)
  then have "(\<exists>r \<in> set (workspaces w). w_uuid r = uuid \<and> w_id r = i) \<longleftrightarrow> i = w_id ws" for i
    using assms(2,3) by blast
  then show ?thesis by (auto simp: find_memberships_def)
qed

section \<open>Properties\<close>

text \<open>C22. Deleting a workspace succeeds exactly for its owner or an admin; everybody else is refused and nothing changes. It
  removes the workspace and all its memberships and nothing else of the database, and never violates the foreign key. Of the
  cache it removes the workspace document; for every member who has the workspace open, the first session that has it open
  loses it in the presence document, where all else stays, and the timer of that session for the workspace is removed. No
  other entry of the cache changes. User ids are free of colons, as Firebase's are.\<close>

theorem delete_workspace_authorized:
  assumes "db_wf w" "deleteWorkspace uid (Some uuid) w = (x, w')"
    and "members = {m_userId m |m. m \<in> set (memberships w) \<and> (\<exists>r \<in> set (workspaces w). w_uuid r = uuid \<and> w_id r = m_workspaceId m)}"
    and "\<forall>u \<in> members. colon_free u"
  shows "if may_manage uid uuid w
    then x = Inr () \<and> workspaces w' = filter (\<lambda>r. w_uuid r \<noteq> uuid) (workspaces w) \<and>
      memberships w' = filter (\<lambda>m. \<not> (\<exists>r \<in> set (workspaces w). w_uuid r = uuid \<and> w_id r = m_workspaceId m))
        (memberships w) \<and> codes w' = codes w \<and> cache_get w' (CACHEKEY_WORKSPACE uuid) = None \<and>
      (\<forall>u p sid s. u \<in> members \<and> closes uuid w u p sid s \<longrightarrow>
         get_presence w' u = Some (ob_set p sid (s\<lparr>cs_wsUuid := None\<rparr>)) \<and>
         cache_get w' (CACHEKEY_PRESENCE_WORKSPACE u sid uuid) = None) \<and>
      (\<forall>k. k \<noteq> CACHEKEY_WORKSPACE uuid \<and> (\<forall>u \<in> members. \<forall>p sid s. closes uuid w u p sid s \<longrightarrow>
           k \<noteq> CACHEKEY_PRESENCE u \<and> k \<noteq> CACHEKEY_PRESENCE_WORKSPACE u sid uuid) \<longrightarrow> cache_get w' k = cache_get w k)
    else (\<exists>e. x = Inl e) \<and> w' = w"
proof (cases "may_manage uid uuid w")
  case True
  then obtain ws where ws: "ws \<in> set (workspaces w)" "w_uuid ws = uuid" by (auto simp: may_manage_def)
  then have f: "findOne_workspace uuid w = Some ws" using findOne_workspace_mem [OF assms(1)] by blast
  have us: "set (map m_userId (find_memberships (w_id ws) w)) = members"
    unfolding assms(3) by (rule workspace_members [OF assms(1) ws])
  let ?us = "map m_userId (find_memberships (w_id ws) w)"
  from deleteWorkspace_ok [OF assms(1) f True] obtain v es where
    d: "deleteWorkspace uid (Some uuid) w = (Inr (), emit (clearCacheOnDelete ?us uuid v) es)"
    and v: "cache v = cache w" "clock v = clock w" by fastforce
  have w': "w' = emit (clearCacheOnDelete ?us uuid v) es" using assms(2) d by simp
  have g: "cache_get v = cache_get w" "get_presence v = get_presence w" "closes uuid v = closes uuid w"
    using cache_get_cong [OF v] by (simp_all add: fun_eq_iff get_presence_def closes_def)
  note c = cleared_cache [where us = ?us and x = uuid and w = v, unfolded us g]
  have "cache_get w' (CACHEKEY_WORKSPACE uuid) = None" by (simp add: w' cache_simps c(1))
  moreover have "get_presence w' u = Some (ob_set p sid (s\<lparr>cs_wsUuid := None\<rparr>)) \<and>
      cache_get w' (CACHEKEY_PRESENCE_WORKSPACE u sid uuid) = None" if "u \<in> members" "closes uuid w u p sid s" for u p sid s
    using c(2) [OF assms(4) that] by (simp only: w' cache_simps simp_thms)
  moreover have "cache_get w' k = cache_get w k" if "k \<noteq> CACHEKEY_WORKSPACE uuid" "\<forall>u \<in> members. \<forall>p sid s.
      closes uuid w u p sid s \<longrightarrow> k \<noteq> CACHEKEY_PRESENCE u \<and> k \<noteq> CACHEKEY_PRESENCE_WORKSPACE u sid uuid" for k
    using c(3) [OF that] by (simp only: w' cache_simps)
  moreover note deleteWorkspace_tables [OF assms(1,2), unfolded if_P [OF True]]
  ultimately show ?thesis unfolding if_P [OF True] by blast
next
  case False
  with deleteWorkspace_tables [OF assms(1,2)] show ?thesis by simp
qed

text \<open>Bob has Ann's workspace open.\<close>

definition bob_session :: CachedSession where
  "bob_session = \<lparr>cs_state = Active, cs_socketId = ''k'', cs_gatewayId = ''g'', cs_wsUuid = Some ''W''\<rparr>"

definition open_ws :: wsvc where
  "open_ws = sample_ws\<lparr>cache := [(CACHEKEY_PRESENCE ''bob'', (CvPresence [(''s'', bob_session)], None))]\<rparr>"

theorem delete_workspace_authorized_witness:
  "workspaces (snd (deleteWorkspace ''ann'' (Some ''W'') open_ws)) = [] \<and>
   get_presence (snd (deleteWorkspace ''ann'' (Some ''W'') open_ws)) ''bob'' = Some [(''s'', bob_session\<lparr>cs_wsUuid := None\<rparr>)]"
proof -
  let ?ms = "{m_userId m |m. m \<in> set (memberships open_ws) \<and> (\<exists>r \<in> set (workspaces open_ws). w_uuid r = ''W'' \<and> w_id r = m_workspaceId m)}"
  have o: "workspaces open_ws = [ann_ws]" "memberships open_ws = memberships sample_ws" "w_uuid ann_ws = ''W''" "w_id ann_ws = 1"
    "workspaces sample_ws = [ann_ws]"
    by (simp_all add: open_ws_def sample_ws_def ann_ws_def)
  have "memberships sample_ws = [\<lparr>m_workspaceId = 1, m_userId = ''ann'', m_role = ''owner'', m_joinedAt = 0\<rparr>,
      \<lparr>m_workspaceId = 1, m_userId = ''bob'', m_role = ''member'', m_joinedAt = 0\<rparr>]" by (simp add: sample_ws_def)
  then have "set (map m_userId (find_memberships 1 sample_ws)) = {''ann'', ''bob''}" by (simp add: find_memberships_def)
  with workspace_members [of open_ws ann_ws "''W''"] sample_wf have "?ms = {''ann'', ''bob''}"
    by (simp add: o open_ws_def db_defs find_memberships_def sample_ws_def [symmetric])
  moreover have "db_wf open_ws" using sample_wf by (simp add: open_ws_def db_defs)
  moreover have "may_manage ''ann'' ''W'' open_ws" using sample_manage by (simp add: open_ws_def may_manage_def)
  moreover have "closes ''W'' open_ws ''bob'' [(''s'', bob_session)] ''s'' bob_session"
    by (simp add: closes_def opened_in_def bob_session_def open_ws_def get_presence_def cache_get_def alive_def)
  ultimately show ?thesis
    using delete_workspace_authorized [OF _ surjective_pairing refl, of open_ws "''W''" "''ann''"]
    by (simp add: o colon_free_def)
qed

text \<open>C23. A successful update of the member list: the actor was owner or admin and stays a member;
  exactly the members that are not in the requested list lose their row; and the last thing other
  services hear is the change, with the users to invite and the users removed.\<close>

theorem update_members_ok:
  assumes "db_wf w" "u_id data = Some i" "u_members data = Some reqs"
    "updateWorkspace sign secret uid data w = (Inr u, w')"
  shows "\<exists>ws \<in> set (workspaces w). w_id ws = i \<and> may_manage uid (w_uuid ws) w \<and> uid \<in> set reqs \<and>
    memberships w' = filter (\<lambda>m. m_workspaceId m = i \<longrightarrow> m_userId m \<in> set reqs) (memberships w) \<and>
    (\<exists>added removed. last (out w') = Ev_members_modified (w_uuid ws) added removed \<and>
       set added = set reqs - {m_userId m |m. m \<in> set (memberships w) \<and> m_workspaceId m = i} \<and>
       set removed = {m_userId m |m. m \<in> set (memberships w) \<and> m_workspaceId m = i} - set reqs)"
proof -
  from update_members_run [OF assms] obtain m found added removed v x where
    m: "findOne_membership i uid w = Some m" "m_role m \<noteq> ''member''" and
    f: "findOne_workspace_id i w = Some found" and d: "update_diff i reqs w = (added, removed)" and
    u: "updateMembers sign secret uid (update_target data found) added removed (u_sshKey data) w = (Inr x, v)"
    and w': "w' = v\<lparr>workspaces := replace_by w_id (update_target data found) (workspaces v)\<rparr>" by blast
  note f = findOne_workspace_idD [OF f] and m1 = findOne_membershipD [OF m(1)]
  note sets = update_diff_sets [OF d]
  have may: "may_manage uid (w_uuid found) w"
    unfolding may_manage_def using f m(2) m1 by (intro bexI [of _ found] bexI [of _ m]) auto
  have "uid \<notin> set removed"
    using updateMembers_actor_stays [OF assms(1) _ _ _ u, of found] f by simp
  with sets(1) m1 have stays: "uid \<in> set reqs" by auto
  have mem: "memberships w' = filter (\<lambda>m. m_workspaceId m = i \<longrightarrow> m_userId m \<in> set reqs) (memberships w)"
    using updateMembers_tables(1) [OF u] kept_members [OF sets(1)] f by (simp add: w')
  have ev: "last (out w') = Ev_members_modified (w_uuid found) added removed"
    using updateMembers_Inr [OF u] by (auto simp: w')
  show ?thesis using f may stays mem ev sets by (intro bexI [of _ found]) blast+
qed

theorem update_members_ok_witness:
  "map m_userId (memberships (snd (updateWorkspace (\<lambda>p k. '''') ''s'' ''ann'' (members_only ''ann'') sample_ws)))
     = [''ann'']"
proof -
  have "fst (updateWorkspace (\<lambda>p k. '''') ''s'' ''ann'' (members_only ''ann'') sample_ws) = Inr ()"
    by code_simp
  then have "updateWorkspace (\<lambda>p k. '''') ''s'' ''ann'' (members_only ''ann'') sample_ws =
      (Inr (), snd (updateWorkspace (\<lambda>p k. '''') ''s'' ''ann'' (members_only ''ann'') sample_ws))"
    by (metis prod.collapse)
  from update_members_ok [OF sample_wf _ _ this, of 1 "[''ann'']"] show ?thesis
    by (auto simp: members_only_def sample_ws_def)
qed

text \<open>C24. An owner or admin whose requested list leaves out themself: the request is answered with
  an error, yet the listed members are already gone from the database, while no service is told: the
  only messages are notifications to users, and the cache is as before.\<close>

theorem self_removal_half_done:
  assumes "db_wf w" "u_id data = Some i" "u_members data = Some reqs" "u_name data = None"
    "findOne_membership i uid w = Some m" "m_role m \<noteq> ''member''" "uid \<notin> set reqs"
  shows "\<exists>w'. updateWorkspace sign secret uid data w = (Inl (Forbidden ''NO_WORKSPACE_MEMBERSHIP''), w') \<and>
    memberships w' = filter (\<lambda>m. m_workspaceId m = i \<longrightarrow> m_userId m \<in> set reqs) (memberships w) \<and>
    cache w' = cache w \<and> (\<forall>e \<in> set (out w') - set (out w). \<exists>meta u n. e = Rmq_notify meta u n)"
proof -
  note m1 = findOne_membershipD [OF assms(5)]
  from membership_workspace [OF assms(1), of m] m1 obtain r where
    r: "r \<in> set (workspaces w)" "w_id r = i" by auto
  then have f: "findOne_workspace_id i w = Some r" using findOne_workspace_id_mem [OF assms(1)] by blast
  obtain added removed where d: "update_diff i reqs w = (added, removed)" by fastforce
  note sets = update_diff_sets [OF d]
  have "uid \<in> set removed" using sets(1) m1 assms(7) by auto
  from updateMembers_self_removed [OF assms(1) r(1) _ _ this, of "update_target data r" sign secret added "u_sshKey data"]
  obtain w' where u: "updateMembers sign secret uid (update_target data r) added removed (u_sshKey data) w =
      (Inl (Forbidden ''NO_WORKSPACE_MEMBERSHIP''), w')" and c: "cache w' = cache w"
      "\<forall>e \<in> set (out w') - set (out w). \<exists>meta u n. e = Rmq_notify meta u n" by auto
  have "updateWorkspace sign secret uid data w = (Inl (Forbidden ''NO_WORKSPACE_MEMBERSHIP''), w')"
    using assms f d u by (simp add: updateWorkspace_def role_below_iff)
  moreover have "memberships w' = filter (\<lambda>m. m_workspaceId m = i \<longrightarrow> m_userId m \<in> set reqs) (memberships w)"
    using updateMembers_tables(1) [OF u] kept_members [OF sets(1)] r by simp
  ultimately show ?thesis using c by blast
qed

theorem self_removal_half_done_witness:
  "\<exists>w'. updateWorkspace (\<lambda>p k. '''') ''s'' ''ann'' (members_only ''bob'') sample_ws =
     (Inl (Forbidden ''NO_WORKSPACE_MEMBERSHIP''), w') \<and> map m_userId (memberships w') = [''bob'']"
proof -
  let ?m = "\<lparr>m_workspaceId = 1, m_userId = ''ann'', m_role = ''owner'', m_joinedAt = 0\<rparr>"
  have "findOne_membership 1 ''ann'' sample_ws = Some ?m"
    by (simp add: sample_ws_def findOne_membership_def)
  from self_removal_half_done [OF sample_wf _ _ _ this, of "members_only ''bob''" "[''bob'']" "\<lambda>p k. ''''" "''s''"]
  show ?thesis by (auto simp: members_only_def sample_ws_def)
qed

text \<open>C25. When a user is deleted, every workspace the user owns disappears with all its
  memberships, the user is a member of nothing, and every other row stays.\<close>

theorem delete_owned_complete:
  assumes "db_wf w" "deleteOwnedWorkspaces uid w = (x, w')"
  shows "x = Inr True \<and> workspaces w' = filter (\<lambda>r. \<not> owns uid w r) (workspaces w) \<and>
    memberships w' = filter (\<lambda>m. m_userId m \<noteq> uid \<and>
       m_workspaceId m \<notin> w_id ` {r \<in> set (workspaces w). owns uid w r}) (memberships w) \<and>
    codes w' = codes w"
  using deleteOwnedWorkspaces_tables [OF assms] by blast

theorem delete_owned_complete_witness:
  "workspaces (snd (deleteOwnedWorkspaces ''ann'' sample_ws)) = [] \<and>
   workspaces (snd (deleteOwnedWorkspaces ''bob'' sample_ws)) = [ann_ws]"
  using delete_owned_complete [OF sample_wf surjective_pairing, of "''ann''"]
    delete_owned_complete [OF sample_wf surjective_pairing, of "''bob''"]
  by (simp add: sample_ws_def ann_ws_def owns_def)

text \<open>C26. A successful creation: the new workspace has a fresh identifier and uuid, the requested
  name, which is a valid one, and the status READY; its creator gets one membership, as owner; no
  other membership is new.\<close>

theorem create_workspace_owner:
  assumes "createWorkspace profile_rpc uid data w = (Inr dto, w')"
  shows "\<exists>ws m. workspaces w' = workspaces w @ [ws] \<and> w_id ws = ws_seq w \<and>
    w_uuid ws \<notin> w_uuid ` set (workspaces w) \<and> w_status ws = READY \<and>
    rx_test nameRegex (w_name ws) \<and> d_name data = Some (w_name ws) \<and>
    m_pk m = (w_id ws, uid) \<and> m_role m = ''owner'' \<and> m \<in> set (memberships w') \<and>
    set (memberships w') \<subseteq> insert m (set (memberships w))"
proof -
  have "d_name data \<noteq> None"
    using assms by (cases "d_name data") (auto simp: createWorkspace_def validateCreation_def)
  with createWorkspace_Inr [OF assms] show ?thesis
    by (elim exE conjE, intro exI [of _ "wd_workspace dto"] exI) (auto simp: js_str_def split: option.splits)
qed

theorem create_workspace_owner_witness:
  "\<exists>m. m \<in> set (memberships (snd (createWorkspace (\<lambda>u. Inr no_profile) ''ann'' work_draft empty_ws))) \<and>
     m_userId m = ''ann'' \<and> m_role m = ''owner''"
proof -
  have "isl (fst (createWorkspace (\<lambda>u. Inr no_profile) ''ann'' work_draft empty_ws)) = False"
    by code_simp
  then obtain dto where "createWorkspace (\<lambda>u. Inr no_profile) ''ann'' work_draft empty_ws =
      (Inr dto, snd (createWorkspace (\<lambda>u. Inr no_profile) ''ann'' work_draft empty_ws))"
    by (metis prod.collapse sum.collapse(2))
  from create_workspace_owner [OF this] show ?thesis by blast
qed

text \<open>The membership check that the gateway relies on succeeds exactly for the users who have a
  membership row of the workspace, and then replies its image and whether it is dedicated.\<close>

lemma membership_check_exact:
  assumes "db_wf w" "ws \<in> set (workspaces w)"
  shows "isUserMemberOf uid (w_uuid ws) w =
    (if (w_id ws, uid) \<in> m_pk ` set (memberships w) then Inr (w_image ws, w_dedicated ws)
     else Inl (Forbidden ''NO_WORKSPACE_MEMBERSHIP''))"
  using findOne_workspace_mem [OF assms] findOne_membership_None [of "w_id ws" uid w]
  by (cases "findOne_membership (w_id ws) uid w") (simp_all add: isUserMemberOf_def)

lemma membership_check_exact_example:
  "isUserMemberOf ''bob'' ''W'' sample_ws = Inr (''img'', False) \<and>
   isUserMemberOf ''eve'' ''W'' sample_ws = Inl (Forbidden ''NO_WORKSPACE_MEMBERSHIP'')"
  using membership_check_exact [OF sample_wf, of ann_ws "''bob''"] membership_check_exact [OF sample_wf, of ann_ws "''eve''"]
  by (simp add: sample_ws_def ann_ws_def)

text \<open>C27. The way of an invitation. When the token verifies to what was signed, an invitation by an
  owner or admin reaches the invitee as one notification, and accepting the token in it makes the
  invitee a member of that workspace and changes no other membership.\<close>

theorem invite_then_accept:
  assumes "db_wf w" "may_manage inviterId (i_workspaceUUID dto) w"
    "verify (sign (invitation_of inviterId dto w) secret) secret = Some (invitation_of inviterId dto w)"
    "i_inviteeId dto \<noteq> []" "length (i_inviteeId dto) \<le> 64"
  shows "\<exists>w1 meta n jwt key w2 ws.
    inviteUser sign secret inviterId dto True w = (Inr (), w1) \<and>
    out w1 = out w @ [Rmq_notify meta (i_inviteeId dto) n] \<and>
    nt_fields n = WorkspaceInvite inviterId (i_workspaceUUID dto) jwt \<and>
    acceptInvitation verify secret (i_inviteeId dto) jwt w1 = (Inr key, w2) \<and> key = i_sshKey dto \<and>
    ws \<in> set (workspaces w) \<and> w_uuid ws = i_workspaceUUID dto \<and>
    member_added (w_id ws) (i_inviteeId dto) w w2 \<and> db_wf w2"
proof -
  let ?jwt = "sign (invitation_of inviterId dto w) secret"
  let ?u = "i_inviteeId dto"
  have v: "validateInvite inviterId (i_workspaceUUID dto) w = None"
    using validateInvite_None_iff [OF assms(1)] assms(2) by blast
  obtain w1 where i: "inviteUser sign secret inviterId dto True w = (Inr (), w1)"
    and o1: "\<exists>meta n. out w1 = out w @ [Rmq_notify meta ?u n] \<and>
        nt_fields n = WorkspaceInvite inviterId (i_workspaceUUID dto) ?jwt"
    using inviteUser_sends [of sign secret inviterId dto w] inviteUser_validated [OF v, of sign secret]
    by (fastforce simp: frame_simps)
  have t: "same_tables w1 w" by (rule inviteUser_tables [OF i])
  then have wf1: "db_wf w1" using assms(1) db_wf_cong by blast
  obtain ws where ws: "findOne_workspace (i_workspaceUUID dto) w = Some ws"
    using v by (auto simp: validateInvite_def split: option.splits)
  then have ws1: "findOne_workspace (i_workspaceUUID dto) w1 = Some ws"
    using t by (simp add: findOne_workspace_def same_tables_def)
  have p: "verify ?jwt secret = Some (invitation_of inviterId dto w)" by (rule assms(3))
  obtain w2 where a: "acceptInvitation verify secret ?u ?jwt w1 = (Inr (i_sshKey dto), w2)"
    using accept_succeeds [OF wf1, where verify = verify, OF p, of ?u ws] ws1 assms(4,5)
    by (cases "acceptInvitation verify secret ?u ?jwt w1") (simp add: invitation_of_def)
  have "member_added (w_id ws) ?u w1 w2"
    using accept_member [OF a] p ws1 by (auto simp: invitation_of_def)
  then have "member_added (w_id ws) ?u w w2" using t by (simp add: member_added_def same_tables_def)
  with i o1 a findOne_workspaceD [OF ws] accept_wf [OF wf1 a] show ?thesis by blast
qed

definition cy_dto :: InviteDTO where
  "cy_dto = \<lparr>i_inviteeId = ''cy'', i_workspaceUUID = ''W'', i_sshKey = None\<rparr>"

theorem invite_then_accept_witness:
  "\<exists>w1 jwt w2. inviteUser (\<lambda>p k. ''T'' @ k) ''s'' ''ann'' cy_dto True sample_ws = (Inr (), w1) \<and>
     acceptInvitation (\<lambda>t k. if t = ''T'' @ k then Some (invitation_of ''ann'' cy_dto sample_ws) else None)
       ''s'' ''cy'' jwt w1 = (Inr None, w2) \<and> (\<exists>m \<in> set (memberships w2). m_pk m = (1, ''cy''))"
proof -
  let ?verify = "\<lambda>t k. if t = ''T'' @ k then Some (invitation_of ''ann'' cy_dto sample_ws) else None"
  from invite_then_accept [OF sample_wf, of "''ann''" cy_dto ?verify "\<lambda>p k. ''T'' @ k" "''s''"]
  obtain w1 jwt w2 ws where "inviteUser (\<lambda>p k. ''T'' @ k) ''s'' ''ann'' cy_dto True sample_ws = (Inr (), w1)"
      "acceptInvitation ?verify ''s'' ''cy'' jwt w1 = (Inr None, w2)" "ws \<in> set (workspaces sample_ws)"
      "member_added (w_id ws) ''cy'' sample_ws w2"
    using sample_manage by (auto simp: cy_dto_def)
  moreover from this(3) have "w_id ws = 1" by (simp add: sample_ws_def ann_ws_def)
  ultimately show ?thesis unfolding member_added_def by metis
qed

text \<open>The time limit of an invitation is written into the token and never read: a token whose
  limit has passed is accepted, and also one whose invitee was a member before and was removed.\<close>

lemma expired_invitation_accepted:
  assumes "db_wf w" "verify token secret = Some p" "iv_inviteeId (sp_data p) = uid"
    "iv_validTill (sp_data p) < clock w" "findOne_workspace (iv_workspaceUUID (sp_data p)) w = Some ws"
    "uid \<noteq> []" "length uid \<le> 64"
  shows "\<exists>key w'. acceptInvitation verify secret uid token w = (Inr key, w') \<and> member_added (w_id ws) uid w w'"
proof -
  obtain w' where a: "acceptInvitation verify secret uid token w = (Inr (iv_sshKey (sp_data p)), w')"
    using accept_succeeds [OF assms(1), where verify = verify, OF assms(2,3,5-7)]
    by (cases "acceptInvitation verify secret uid token w") simp
  with accept_member [OF a] assms(2,5) show ?thesis by auto
qed

lemma expired_invitation_accepted_example:
  "\<exists>key w'. acceptInvitation (\<lambda>t k. Some (invitation_of ''ann'' cy_dto (sample_ws\<lparr>clock := - 1000000000\<rparr>)))
     ''s'' ''cy'' ''T'' sample_ws = (Inr key, w') \<and> member_added 1 ''cy'' sample_ws w'"
proof -
  let ?p = "invitation_of ''ann'' cy_dto (sample_ws\<lparr>clock := - 1000000000\<rparr>)"
  have "findOne_workspace ''W'' sample_ws = Some ann_ws"
    by (simp add: findOne_workspace_def sample_ws_def ann_ws_def)
  then show ?thesis
    using expired_invitation_accepted [OF sample_wf, of "\<lambda>t k. Some ?p" "''T''" "''s''" ?p "''cy''" ann_ws]
    by (simp add: invitation_of_def cy_dto_def add_days_def day_ms_def sample_ws_def ann_ws_def)
qed

text \<open>C28. A code can be consumed exactly while it belongs to the user, is not used and has not
  expired; consuming it marks it used, and a second attempt that starts afterwards is refused with
  the state unchanged.\<close>

theorem consume_once:
  assumes "db_wf w"
  shows "(isOk (consumeAccessCode uid code w) \<longleftrightarrow> usable uid code w) \<and>
    \<not> isOk (consumeAccessCode uid code (snd (markCodeAsUsed uid code w))) \<and>
    snd (consumeAccessCode uid code w) = (if usable uid code w then snd (markCodeAsUsed uid code w) else w)"
  using consumeAccessCode_eq [OF assms] consumeAccessCode_eq [OF markCodeAsUsed_wf [OF assms]]
    marked_not_usable [of uid code w]
  by (simp_all add: isOk_def)

theorem consume_once_witness:
  "isOk (consumeAccessCode ''ann'' ''K'' sample_ws) \<and>
   \<not> isOk (consumeAccessCode ''ann'' ''K'' (snd (markCodeAsUsed ''ann'' ''K'' sample_ws))) \<and>
   snd (consumeAccessCode ''bob'' ''K'' sample_ws) = sample_ws"
proof -
  have "\<not> usable ''bob'' ''K'' sample_ws" by (simp add: usable_def sample_ws_def)
  then show ?thesis
    using consume_once [OF sample_wf, of "''ann''" "''K''"] consume_once [OF sample_wf, of "''bob''" "''K''"] sample_usable by simp
qed

text \<open>C29. Two requests that interleave: both may pass the checks before either updates the row, and
  then both succeed with the same code. The reply ACCESS_CODE_IN_USE, meant for this case, is not
  given, because the update statement does not test the status.\<close>

theorem consume_race_double_spend:
  assumes "db_wf w" "usable uid code w"
  shows "\<exists>w'. (consume_race uid code)\<^sup>*\<^sup>* (Start, Start, w) (Done (Inr True), Done (Inr True), w')"
  using race_both_win [OF assms] .

theorem consume_race_double_spend_witness:
  "\<exists>w'. (consume_race ''ann'' ''K'')\<^sup>*\<^sup>* (Start, Start, sample_ws) (Done (Inr True), Done (Inr True), w')"
  using consume_race_double_spend [OF sample_wf sample_usable] .

text \<open>C30. The way of an access code. After a successful request the administrator has a mail with
  an approval link; when its token verifies to what was signed and the request id is a fresh one,
  approving makes the code usable, and the user can consume it at once.\<close>

theorem access_code_flow:
  assumes "db_wf w" "createAccessRequest env cluster users sign chunks uid reason w = (Inr u, w1)"
    "uuids w (uuidc w) \<notin> a_uuid ` set (codes w)" "0 \<le> env_int (en_expiry_days env) 5"
    "p = access_payload (fst (getUserProfile users uid w)) uid reason (uuids w (uuidc w))"
    "verify (sign p (en_secret env)) (en_secret env) = Some p"
  shows "\<exists>m a b code w2 w3. out w1 = out w @ [Smtp_mail m] \<and> ml_to m = en_admin env \<and>
    ml_html m = a @ en_webhook env @ ''/access-fulfill?action=approve&token='' @ sign p (en_secret env) @ b \<and>
    accessCode chunks 16 = Some code \<and>
    fulfillAccessRequest env verify ''approve'' (sign p (en_secret env)) w1 = (Inr (), w2) \<and>
    consumeAccessCode uid code w2 = (Inr True, w3)"
proof -
  obtain profile v where g: "getUserProfile users uid w = (profile, v)" by fastforce
  have "uuids v = uuids w" "uuidc v = uuidc w"
    using g by (auto simp: getUserProfile_def frame_simps split: option.splits list.splits)
  then obtain v2 where r: "randomUUID v = (uuids w (uuidc w), v2)" by (simp add: randomUUID_def)
  from createAccessRequest_Inr [OF assms(2) g r] obtain row code m a b where
      c: "accessCode chunks 16 = Some code" and rows: "codes w1 = codes w @ [row]" and
      row: "a_uid row = uid" "a_code row = code" "a_uuid row = uuids w (uuidc w)"
        "a_expiresAt row = Some (add_days (clock w) (env_int (en_expiry_days env) 5))" and
      o: "out w1 = out w @ [Smtp_mail m]" "ml_to m = en_admin env"
        "ml_html m = a @ en_webhook env @ ''/access-fulfill?action=approve&token='' @ sign p (en_secret env) @ b"
      and cl: "clock w1 = clock w" using g assms(5) by fastforce
  have wf1: "db_wf w1" by (rule createAccessRequest_wf [OF assms(1,2)])
  have id: "ar_uuid (sp_data p) = a_uuid row" using assms(5) row(3) by (simp add: access_payload_def Let_def)
  have f: "List.find (\<lambda>r. a_uuid r = ar_uuid (sp_data p)) (codes w1) = Some row"
    unfolding rows id by (rule find_fresh) (use assms(3) row(3) in \<open>auto simp: image_iff\<close>)
  have "clock w1 \<le> (case a_expiresAt row of None \<Rightarrow> 0 | Some t \<Rightarrow> t)"
    using assms(4) cl row(4) by (simp add: add_days_def day_ms_def)
  from approve_makes_usable [where verify = verify, OF wf1 assms(6) _ f this] rows obtain w2 where
      "fulfillAccessRequest env verify ''approve'' (sign p (en_secret env)) w1 = (Inr (), w2)"
      "db_wf w2" "usable uid code w2" using row by auto
  with consumeAccessCode_eq [of w2 uid code] o c show ?thesis by auto
qed

definition sample_env :: workspace_env where
  "sample_env = \<lparr>en_secret = ''s'', en_admin = ''admin'', en_webhook = ''https://h'', en_expiry_days = None,
     en_ws_cpu = None, en_idle_cpu = None, en_simulate = Some ''x,true''\<rparr>"

definition no_cluster :: cluster where
  "no_cluster = \<lparr>cl_nodes = Inr [], cl_pods = Inr []\<rparr>"

theorem access_code_flow_witness:
  "\<exists>w2 w3. fulfillAccessRequest sample_env (\<lambda>t k. Some (access_payload None ''ann'' None ''u'')) ''approve'' ''T''
       (snd (createAccessRequest sample_env no_cluster (\<lambda>u. []) (\<lambda>p k. ''T'') [replicate 16 0] ''ann'' None empty_ws))
     = (Inr (), w2) \<and> consumeAccessCode ''ann'' (replicate 16 (CHR ''A'')) w2 = (Inr True, w3)"
proof -
  let ?r = "createAccessRequest sample_env no_cluster (\<lambda>u. []) (\<lambda>p k. ''T'') [replicate 16 0] ''ann'' None empty_ws"
  have c: "accessCode [replicate 16 0] 16 = Some (replicate 16 (CHR ''A''))" by code_simp
  have "fst ?r = Inr ()"
    using c by (simp add: createAccessRequest_def canProvision_def sample_env_def empty_ws_def sample_ws_def
        getUserProfile_def get_user_def cache_get_def randomUUID_def sendAccessRequestEmail_def Let_def emit_def
        insert_code_def new_AccessCode_def keep_truthy_def code_row_ok_def)
  then have r: "?r = (Inr (), snd ?r)" by (metis prod.collapse)
  have "getUserProfile (\<lambda>u. []) ''ann'' empty_ws = (None, empty_ws)"
    by (simp add: getUserProfile_def get_user_def cache_get_def empty_ws_def sample_ws_def)
  with access_code_flow [OF ws_initial_wf r, of "access_payload None ''ann'' None ''u''"
      "\<lambda>t k. Some (access_payload None ''ann'' None ''u'')"] c
  show ?thesis by (auto simp: ws_initial_def empty_ws_def sample_ws_def sample_env_def env_int_def)
qed

text \<open>The allocatable cpu of a node that Kubernetes reports in millicores, as in 3920m, is read
  as that many cores: one thousand times too much.\<close>

lemma millicores_overestimated:
  assumes "plain_number ds" "parse_digits 10 ds None = Some n" "n \<noteq> 0"
  shows "allocatable (Some (ds @ ''m'')) = Some (1000 * int n)"
    \<comment> \<open>the same as for \<open>ds\<close> cores\<close>
  using parse_plain(1) [OF assms(1)] assms(2,3) by (simp add: allocatable_def Let_def)

lemma millicores_overestimated_example:
  "allocatable (Some ''3920m'') = Some 3920000"
  using millicores_overestimated [of "''3920''" 3920]
  by (simp add: plain_number_def digit_of_def Let_def)

end
