(* ===== verification/Gateway_Service.thy ===== *)
theory Gateway_Service
  imports Gateway_Sessions Workspace_Service
begin

text \<open>
  The properties of the gateway: sessions and their timers, locks, delivery of messages and their
  routing to the env service.
\<close>

section \<open>What the expiry of a timer does\<close>

lemma no_lock:
  "ob_get (locks w) (''locks:'' @ k) = None \<Longrightarrow>
     acquireLock k d w = (Inr (), w\<lparr>locks := ob_set (locks w) (''locks:'' @ k) (clock w + d)\<rparr>)"
  by (simp add: acquireLock_def Let_def)

lemma expire_session_free:
  assumes "ob_get (locks w) (''locks:'' @ CACHEKEY_PRESENCE_SESSION u s) = None" "colon_free u" "colon_free s"
    "v = (cache_del w (CACHEKEY_PRESENCE_SESSION u s))\<lparr>locks := ob_set (locks w)
        (''locks:'' @ CACHEKEY_PRESENCE_SESSION u s) (clock w + 10000)\<rparr>"
  shows "expire_key cfg disp (CACHEKEY_PRESENCE_SESSION u s) w =
    (case handleStaleSession cfg disp u s v of
       (Inl e, w2) \<Rightarrow> (Inl e, w2) | (Inr _, w2) \<Rightarrow> (Inr (), releaseLock (CACHEKEY_PRESENCE_SESSION u s) w2))"
proof -
  let ?k = "CACHEKEY_PRESENCE_SESSION u s"
  have l: "locks (cache_del w ?k) = locks w" "clock (cache_del w ?k) = clock w" by (simp_all add: cache_del_def)
  have "acquireLock ?k 10000 (cache_del w ?k) = (Inr (), v)"
    unfolding assms(4) using no_lock [of "cache_del w ?k" ?k 10000] assms(1) unfolding l by blast
  then show ?thesis
    using assms(2,3)
    by (simp add: expire_key_def handleCacheExpiry_def Let_def split_session_key handleStalePresence_def part_def)
qed

lemma session_locks [simp]:
  "get_presence (w\<lparr>locks := l\<rparr>) u = get_presence w u" "session (w\<lparr>locks := l\<rparr>) u s = session w u s"
  for w :: "'a gw_scheme"
  using cache_get_cong [of "w\<lparr>locks := l\<rparr>" w] by (simp_all add: session_def get_presence_def)

lemma expired_session: "colon_free u \<Longrightarrow>
  session (cache_del w (CACHEKEY_PRESENCE_SESSION u s)) u s = session w u s \<and>
  clock (cache_del w (CACHEKEY_PRESENCE_SESSION u s)) = clock w"
  using presence_key_apart(1) [of u] by (simp add: session_def get_presence_def cache_simps frame_simps)

text \<open>An active session becomes inactive, with a new timer; the document that holds it has no time
  limit.\<close>

lemma stale_active:
  assumes "session w u s = Some x" "cs_state x = Active" "colon_free u" "colon_free s"
  shows "\<exists>p w1. handleStaleSession cfg disp u s w = (Inr (), w1) \<and> ob_get p s = Some (x\<lparr>cs_state := Inactive\<rparr>) \<and>
    ob_get (cache w1) (CACHEKEY_PRESENCE u) = Some (CvPresence p, None) \<and>
    ob_get (cache w1) (CACHEKEY_PRESENCE_SESSION u s) = Some (CvNum 0, Some (clock w + sessionActivityTimeout cfg)) \<and>
    clock w1 = clock w \<and> net.more w1 = net.more w"
proof -
  from assms(1) obtain p where p: "get_presence w u = Some p" "ob_get p s = Some x"
    by (auto simp: session_def split: option.splits)
  let ?w1 = "if truthy (cs_wsUuid x) then setWorkspaceState cfg (get_workspace w (js_str (cs_wsUuid x)))
      u s (cs_wsUuid x) Inactive w else w"
  let ?p = "ob_set p s (x\<lparr>cs_state := Inactive\<rparr>)"
  let ?w2 = "cache_set (set_presence ?w1 u ?p) (CACHEKEY_PRESENCE_SESSION u s) (CvNum 0)
      (Some (sessionActivityTimeout cfg))"
  have c: "clock ?w1 = clock w" "net.more ?w1 = net.more w"
    by (auto simp: setWorkspaceState_def Let_def set_workspace_def frame_simps split: option.splits)
  have "handleStaleSession cfg disp u s w = (Inr (), ?w2)"
    using p assms(2) by (simp add: handleStaleSession_def Let_def setSessionState_def)
  moreover have "ob_get (cache ?w2) (CACHEKEY_PRESENCE u) = Some (CvPresence ?p, None)"
    using presence_key_apart(1) [OF assms(3)] by (simp add: raw_ops set_presence_def)
  moreover have "ob_get (cache ?w2) (CACHEKEY_PRESENCE_SESSION u s) = Some (CvNum 0, Some (clock w + sessionActivityTimeout cfg))"
    using c(1) by (simp add: raw_ops set_presence_def frame_simps)
  moreover have "clock ?w2 = clock w" "net.more ?w2 = net.more w" using c by (simp_all add: set_presence_def frame_simps)
  ultimately show ?thesis by (intro exI [of _ ?p] exI [of _ ?w2]) simp
qed

text \<open>An inactive session is dropped, when the provisioner answers.\<close>

lemma stale_inactive:
  assumes "session w u s = Some x" "cs_state x = Inactive" "colon_free u"
  shows "\<exists>w1. handleStaleSession cfg (Inr ()) u s w = (Inr (), w1) \<and> session w1 u s = None"
proof -
  from assms(1) obtain p where p: "get_presence w u = Some p" "ob_get p s = Some x"
    by (auto simp: session_def split: option.splits)
  obtain r w1 where h: "handleSessionExpiry (Inr ()) p u s w = (r, w1)" by fastforce
  have "r = Inr ()"
    using h p by (auto simp: handleSessionExpiry_def handleWorkspaceExpiry_def Let_def split: if_splits)
  with session_expiry_run [OF p(2) h] obtain w2 where
    "w1 = (if ob_del p s = [] then cache_del w2 (CACHEKEY_PRESENCE u) else set_presence w2 u (ob_del p s))" by auto
  then have "session w1 u s = None" 
    by (subst dropped_session(1) [OF assms(3)]) auto
  with h \<open>r = Inr ()\<close> p assms(2) show ?thesis by (simp add: handleStaleSession_def)
qed

lemma expire_active:
  assumes "colon_free u" "colon_free s" "session w u s = Some x" "cs_state x = Active"
    "ob_get (locks w) (''locks:'' @ CACHEKEY_PRESENCE_SESSION u s) = None"
  shows "\<exists>p w1. expire_key cfg disp (CACHEKEY_PRESENCE_SESSION u s) w = (Inr (), w1) \<and>
    ob_get p s = Some (x\<lparr>cs_state := Inactive\<rparr>) \<and>
    ob_get (cache w1) (CACHEKEY_PRESENCE u) = Some (CvPresence p, None) \<and>
    ob_get (cache w1) (CACHEKEY_PRESENCE_SESSION u s) = Some (CvNum 0, Some (clock w + sessionActivityTimeout cfg)) \<and>
    ob_get (locks w1) (''locks:'' @ CACHEKEY_PRESENCE_SESSION u s) = None"
proof -
  let ?k = "CACHEKEY_PRESENCE_SESSION u s"
  define v where "v = (cache_del w ?k)\<lparr>locks := ob_set (locks w) (''locks:'' @ ?k) (clock w + 10000)\<rparr>"
  have v: "session v u s = Some x" "clock v = clock w"
    using expired_session [OF assms(1), of w s] assms(3) by (simp_all add: v_def)
  from stale_active [OF v(1) assms(4,1,2), of cfg disp] obtain p w1 where
      "handleStaleSession cfg disp u s v = (Inr (), w1)" "ob_get p s = Some (x\<lparr>cs_state := Inactive\<rparr>)"
      "ob_get (cache w1) (CACHEKEY_PRESENCE u) = Some (CvPresence p, None)"
      "ob_get (cache w1) ?k = Some (CvNum 0, Some (clock w + sessionActivityTimeout cfg))"
    unfolding v(2) by blast
  then show ?thesis
    unfolding expire_session_free [OF assms(5,1,2) v_def]
    by (intro exI [of _ p] exI [of _ "releaseLock ?k w1"]) (simp add: releaseLock_def)
qed

lemma expire_inactive:
  assumes "colon_free u" "colon_free s" "session w u s = Some x" "cs_state x = Inactive"
    "ob_get (locks w) (''locks:'' @ CACHEKEY_PRESENCE_SESSION u s) = None"
  shows "\<exists>w1. expire_key cfg (Inr ()) (CACHEKEY_PRESENCE_SESSION u s) w = (Inr (), w1) \<and> session w1 u s = None"
proof -
  let ?k = "CACHEKEY_PRESENCE_SESSION u s"
  define v where "v = (cache_del w ?k)\<lparr>locks := ob_set (locks w) (''locks:'' @ ?k) (clock w + 10000)\<rparr>"
  have v: "session v u s = Some x" using expired_session [OF assms(1), of w s] assms(3) by (simp add: v_def)
  from stale_inactive [OF v assms(4,1), of cfg] obtain w1 where
    "handleStaleSession cfg (Inr ()) u s v = (Inr (), w1)" "session w1 u s = None" by blast
  then show ?thesis
    unfolding expire_session_free [OF assms(5,1,2) v_def]
    by (intro exI [of _ "releaseLock ?k w1"]) (simp add: releaseLock_def session_locks)
qed

text \<open>When the request to the provisioner fails, the session of an open workspace stays, without a
  timer.\<close>

lemma handleWorkspaceExpiry_presence:
  "colon_free u \<Longrightarrow> get_presence (snd (handleWorkspaceExpiry disp x w)) u = get_presence w u"
proof -
  assume u: "colon_free u"
  have "get_presence (fold (\<lambda>(v, sid) w. cache_del w (CACHEKEY_PRESENCE_WORKSPACE v (js_str sid) x)) ps w) u
      = get_presence w u" for ps and w :: "'a net_scheme"
    by (induction ps arbitrary: w) (auto simp: cache_simps u)
  then show ?thesis by (simp add: handleWorkspaceExpiry_def Let_def cache_simps split: option.split)
qed

lemma handleWorkspaceExpiry_raw:
  assumes "colon_free u" "colon_free s"
  shows "ob_get (cache (snd (handleWorkspaceExpiry disp x w))) (CACHEKEY_PRESENCE_SESSION u s) =
    ob_get (cache w) (CACHEKEY_PRESENCE_SESSION u s)"
proof -
  have "ob_get (cache (fold (\<lambda>(v, sid) w. cache_del w (CACHEKEY_PRESENCE_WORKSPACE v (js_str sid) x)) ps w))
      (CACHEKEY_PRESENCE_SESSION u s) = ob_get (cache w) (CACHEKEY_PRESENCE_SESSION u s)" for ps and w :: "'a net_scheme"
    by (induction ps arbitrary: w) (auto simp: raw_ops session_key_apart assms)
  then show ?thesis
    by (simp add: handleWorkspaceExpiry_def Let_def raw_ops frame_simps split: option.split)
qed

lemma stale_failed:
  assumes "session w u s = Some x" "cs_state x = Inactive" "truthy (cs_wsUuid x)" "colon_free u" "colon_free s"
    "\<not> timed w u s"
  shows "\<exists>w1. handleStaleSession cfg (Inl e) u s w = (Inl e, w1) \<and> session w1 u s = Some x \<and> \<not> timed w1 u s"
proof -
  from assms(1) obtain p where p: "get_presence w u = Some p" "ob_get p s = Some x"
    by (auto simp: session_def split: option.splits)
  define v where "v = emit w [Ev_gateway_close (''gateway.'' @ cs_gatewayId x) (cs_socketId x)]"
  obtain w1 where h: "handleWorkspaceExpiry (Inl e) (js_str (cs_wsUuid x)) v = (Inl e, w1)"
    by (simp add: handleWorkspaceExpiry_def Let_def)
  then have "handleStaleSession cfg (Inl e) u s w = (Inl e, w1)"
    unfolding handleStaleSession_def handleSessionExpiry_def Let_def v_def using p assms(2,3) by simp
  moreover have "session w1 u s = Some x"
    using p h handleWorkspaceExpiry_presence [OF assms(4), of "Inl e" "js_str (cs_wsUuid x)" v]
    by (simp add: session_def v_def cache_simps)
  moreover have "\<not> timed w1 u s"
    using assms(6) h handleWorkspaceExpiry_raw [OF assms(4,5), of "Inl e" "js_str (cs_wsUuid x)" v]
    by (simp add: timed_def v_def frame_simps)
  ultimately show ?thesis by blast
qed

section \<open>Locks\<close>

lemma authentication_frame:
  assumes "validate tok = Inr u" "users u = Inr us"
  shows "\<exists>w'. handleAuthentication validate users tok w = (Some u, w') \<and> locks w' = locks w \<and> clock w' = clock w"
proof -
  have "locks (emit v es) = locks v" "locks (cache_set v k x t) = locks v" for v :: "'a gw_scheme" and es k x t
    by (simp_all add: emit_def cache_set_def)
  then show ?thesis
    using assms by (auto simp: handleAuthentication_def Let_def frame_simps split: option.splits list.splits)
qed

section \<open>What reaches the env service\<close>

fun is_env :: "emission \<Rightarrow> bool" where
  "is_env (Ev_env_message _ _ _ _) = True"
| "is_env (Nats_env_message _ _ _) = True"
| "is_env _ = False"

definition env_out :: "'a net_scheme \<Rightarrow> emission list" where
  "env_out w = filter is_env (out w)"

definition cache_coherent :: "'b wsvc_scheme \<Rightarrow> 'a net_scheme \<Rightarrow> bool" where
  "cache_coherent db w \<longleftrightarrow> (\<forall>u x flag. cached_flag w u x = Some flag \<longrightarrow> flag_truthy flag \<and> is_member u x db)"

lemma coherent_iff: "ws_authority.coherent db w \<longleftrightarrow> cache_coherent db w"
  by (simp add: cache_coherent_def ws_authority.coherent_def)

lemma env_out_simps [simp]:
  "env_out (emit w es) = env_out w @ filter is_env es" "env_out (cache_set w k v t) = env_out w"
  "env_out (set_workspace w x d) = env_out w" "env_out (set_membership w x m) = env_out w"
  by (simp_all add: env_out_def frame_simps set_workspace_def set_membership_def)

lemma env_out_quiet [simp]:
  "env_out (reply_error sid c code w) = env_out w" "env_out (env_lost sid d s m w) = env_out w"
  by (simp_all add: reply_error_def env_lost_def handleFSLoss_def handleSSHSLoss_def split: in_payload.split)

lemma env_out_check: "env_out (snd (checkMembership reply u x w)) = env_out w"
  by (auto simp: checkMembership_eq cacheMembership_def split: option.split sum.split)

text \<open>The message as it is passed on, and whether it can be.\<close>

definition env_channel :: "CachedWorkspace \<Rightarrow> string \<Rightarrow> in_payload \<Rightarrow> string" where
  "env_channel d s p = ''env.'' @ js_str (env_target d s p)"

definition forwarded :: "CachedWorkspace \<Rightarrow> string \<Rightarrow> string \<Rightarrow> in_message \<Rightarrow> emission" where
  "forwarded d u s m = (if in_action (im_payload m) \<in> set stickyActions
     then Ev_env_message (env_channel d s (im_payload m)) u s m else Nats_env_message u s m)"

definition reachable :: "(string \<Rightarrow> bool) \<Rightarrow> CachedWorkspace \<Rightarrow> string \<Rightarrow> in_message \<Rightarrow> bool" where
  "reachable health d s m \<longleftrightarrow> (in_action (im_payload m) \<in> set stickyActions \<longrightarrow>
     health (env_channel d s (im_payload m) @ ''.health''))"

lemma is_env_forwarded [simp]: "is_env (forwarded d u s m)"
  by (simp add: forwarded_def)

lemma env_message_out:
  assumes "get_workspace w (in_uuid (im_payload m)) = Some d"
    "checkMembership reply u (in_uuid (im_payload m)) w = (r, w1)"
  shows "env_out (snd (handleEnvMessage reply health sid u s m w)) =
    env_out w @ (if (\<exists>flag. r = Inr flag \<and> flag_truthy flag) \<and> reachable health d s m then [forwarded d u s m] else [])"
proof -
  have "env_out w1 = env_out w" using env_out_check [of reply u "in_uuid (im_payload m)" w] assms(2) by simp
  with assms show ?thesis
    by (cases r) (auto simp: handleEnvMessage_def Let_def reachable_def forwarded_def env_channel_def)
qed

section \<open>Sample states\<close>

definition cfg0 :: presence_config where
  "cfg0 = new_PresenceService None None None None"

definition sess0 :: "activity \<Rightarrow> string option \<Rightarrow> CachedSession" where
  "sess0 st x = \<lparr>cs_state = st, cs_socketId = ''sock'', cs_gatewayId = ''gw-1'', cs_wsUuid = x\<rparr>"

definition gw_of :: "(string, cache_value \<times> int option) obj \<Rightarrow> gw" where
  "gw_of c = \<lparr>cache = c, out = [], uuids = \<lambda>_. ''id'', uuidc = 0, clock = 1000, perf = 0, locks = [],
     instanceId = ''gw-1'', allowConnections = True, socket_data = [], server_sockets = []\<rparr>"

definition gw_one :: "activity \<Rightarrow> string option \<Rightarrow> gw" where
  "gw_one st x = gw_of [(CACHEKEY_PRESENCE ''ann'', CvPresence [(''s1'', sess0 st x)], None),
     (CACHEKEY_PRESENCE_SESSION ''ann'' ''s1'', CvNum 1, Some 1000)]"

lemma gw_of_cache [simp]: "cache (gw_of c) = c" "locks (gw_of c) = []" "socket_data (gw_of c) = []" "clock (gw_of c) = 1000"
  by (simp_all add: gw_of_def)

lemma gw_one_session: "session (gw_one st x) ''ann'' ''s1'' = Some (sess0 st x)"
  by (simp add: gw_one_def session_def get_presence_def cache_get_def alive_def)

lemma gw_one_locks: "locks (gw_one st x) = []"
  by (simp add: gw_one_def)

section \<open>Properties\<close>






text \<open>C10. A session whose browser is gone is closed after two timeouts: the expiry of the timer of an
  active session makes it inactive and sets a timer for the activity timeout, and once that one has run
  out, its expiry event removes the session. The locks are free and the provisioner answers the second
  time.\<close>

theorem two_timeouts_close:
  assumes "colon_free u" "colon_free s" "session w u s = Some x" "cs_state x = Active"
    "locks w = []" "clock w + sessionActivityTimeout cfg \<le> t"
  shows "\<exists>w1 w2. expire_key cfg disp (CACHEKEY_PRESENCE_SESSION u s) w = (Inr (), w1) \<and>
    session w1 u s = Some (x\<lparr>cs_state := Inactive\<rparr>) \<and>
    due (w1\<lparr>clock := t\<rparr>) (CACHEKEY_PRESENCE_SESSION u s) \<and>
    expire_key cfg (Inr ()) (CACHEKEY_PRESENCE_SESSION u s) (w1\<lparr>clock := t\<rparr>) = (Inr (), w2) \<and>
    session w2 u s = None"
proof -
  let ?k = "CACHEKEY_PRESENCE_SESSION u s"
  from expire_active [OF assms(1-4), of cfg disp] assms(5) obtain p w1 where
      w1: "expire_key cfg disp ?k w = (Inr (), w1)" "ob_get p s = Some (x\<lparr>cs_state := Inactive\<rparr>)"
        "ob_get (cache w1) (CACHEKEY_PRESENCE u) = Some (CvPresence p, None)"
        "ob_get (cache w1) ?k = Some (CvNum 0, Some (clock w + sessionActivityTimeout cfg))"
        "ob_get (locks w1) (''locks:'' @ ?k) = None" by auto
  have s: "session v u s = Some (x\<lparr>cs_state := Inactive\<rparr>)" if "cache v = cache w1" for v :: "'a gw_scheme"
    using w1(2,3) that by (simp add: session_def get_presence_def cache_get_def alive_def)
  have "due (w1\<lparr>clock := t\<rparr>) ?k" using w1(4) assms(6) by (simp add: due_def alive_def)
  moreover obtain w2 where "expire_key cfg (Inr ()) ?k (w1\<lparr>clock := t\<rparr>) = (Inr (), w2)" "session w2 u s = None"
    using expire_inactive [OF assms(1,2) s, of "w1\<lparr>clock := t\<rparr>" cfg] w1(5) by auto
  ultimately show ?thesis using w1(1) s [of w1] by blast
qed

theorem two_timeouts_close_witness:
  "\<exists>w1 w2. expire_key cfg0 (Inr ()) (CACHEKEY_PRESENCE_SESSION ''ann'' ''s1'') (gw_one Active None) = (Inr (), w1) \<and>
    session w1 ''ann'' ''s1'' = Some (sess0 Inactive None) \<and>
    due (w1\<lparr>clock := 361000\<rparr>) (CACHEKEY_PRESENCE_SESSION ''ann'' ''s1'') \<and>
    expire_key cfg0 (Inr ()) (CACHEKEY_PRESENCE_SESSION ''ann'' ''s1'') (w1\<lparr>clock := 361000\<rparr>) = (Inr (), w2) \<and>
    session w2 ''ann'' ''s1'' = None"
proof -
  have x: "(sess0 Active None)\<lparr>cs_state := Inactive\<rparr> = sess0 Inactive None" by (simp add: sess0_def)
  have t: "clock (gw_one Active None) + sessionActivityTimeout cfg0 \<le> 361000"
    by (simp add: gw_one_def cfg0_def new_PresenceService_def env_int_def)
  show ?thesis
    using two_timeouts_close [OF _ _ gw_one_session _ gw_one_locks t, of "Inr ()"]
    unfolding x by (simp add: colon_free_def sess0_def)
qed

text \<open>C8. Authorisation and routing of the messages to the env service, complete: a message of a browser
  is passed on exactly if the session exists, the workspace is open, the user is a member of it according
  to the database of the workspace service and, for an action bound to an instance, that instance
  answers; and it is passed on once, to the channel of that instance or to any instance. The cache has to
  be coherent with the database.\<close>

theorem env_messages_authorised:
  assumes "db_wf db" "cache_coherent db w" "ob_get (socket_data w) sid = Some (u, s)"
    "uuid = in_uuid (im_payload m)"
    "handleSocketMessage cfg (membership_reply db u uuid) health sid (Msg_env m) w = (r, w')"
  shows "env_out w' = env_out w @
    (case get_workspace w uuid of None \<Rightarrow> []
     | Some d \<Rightarrow> if session w u s \<noteq> None \<and> is_member u uuid db \<and> reachable health d s m
                 then [forwarded d u s m] else [])"
proof (cases "session w u s")
  case None
  then show ?thesis using assms(3,5)
    by (auto simp: handleSocketMessage_def session_def split: option.splits)
next
  case (Some x)
  let ?h = "handleEnvMessage (membership_reply db u uuid) health sid u s m w"
  have w': "w' = snd ?h"
    using Some assms(3,5) by (auto simp: handleSocketMessage_def session_def split: option.splits)
  obtain rc w1 where c: "checkMembership (membership_reply db u uuid) u uuid w = (rc, w1)" by fastforce
  have "(\<exists>flag. rc = Inr flag \<and> flag_truthy flag) \<longleftrightarrow> is_member u uuid db"
    using ws_authority.check_sound [OF assms(1), of w u uuid] assms(2) c by (simp add: coherent_iff)
  then show ?thesis
    using w' Some env_message_out [of w m _ "membership_reply db u uuid" u rc w1 health sid s] c
    unfolding assms(4)
    by (cases "get_workspace w (in_uuid (im_payload m))") (auto simp: handleEnvMessage_def Let_def)
qed

definition gw_env :: "string \<Rightarrow> gw" where
  "gw_env u = (gw_of [(CACHEKEY_PRESENCE u, CvPresence [(''s1'', sess0 Active (Some ''W''))], None),
      (CACHEKEY_WORKSPACE ''W'', CvWorkspace \<lparr>cw_state = Active, cw_fs = ''e1'', cw_dirs = [], cw_docs = [(7, ''e2'')],
         cw_sshs = []\<rparr>, None)])\<lparr>socket_data := [(''sock'', u, ''s1'')]\<rparr>"

definition run_msg :: "in_message" where
  "run_msg = \<lparr>im_payload = Fs_open_ack ''W'' 7, im_correlationId = None\<rparr>"

theorem env_messages_authorised_witness:
  "env_out (snd (handleSocketMessage cfg0 (membership_reply sample_ws ''bob'' ''W'') (\<lambda>_. True) ''sock'' (Msg_env run_msg)
      (gw_env ''bob''))) = [Ev_env_message ''env.e2'' ''bob'' ''s1'' run_msg] \<and>
   env_out (snd (handleSocketMessage cfg0 (membership_reply sample_ws ''eve'' ''W'') (\<lambda>_. True) ''sock'' (Msg_env run_msg)
      (gw_env ''eve''))) = []"
proof -
  have c: "cache_coherent sample_ws (gw_env u)" for u
    by (simp add: cache_coherent_def cached_flag_def get_membership_def cache_get_def gw_env_def CACHEKEY_MEMBERSHIP_def
        CACHEKEY_PRESENCE_def CACHEKEY_WORKSPACE_def)
  have h: "env_out (snd (handleSocketMessage cfg0 (membership_reply sample_ws u ''W'') (\<lambda>_. True) ''sock'' (Msg_env run_msg)
      (gw_env u))) = (if is_member u ''W'' sample_ws then [Ev_env_message ''env.e2'' u ''s1'' run_msg] else [])" for u
  proof -
    have s: "ob_get (socket_data (gw_env u)) ''sock'' = Some (u, ''s1'')" "''W'' = in_uuid (im_payload run_msg)"
      by (simp_all add: gw_env_def run_msg_def)
    have "session (gw_env u) u ''s1'' \<noteq> None" "env_out (gw_env u) = []"
      by (simp_all add: session_def get_presence_def cache_get_def alive_def gw_env_def env_out_def gw_of_def)
    moreover obtain d where "get_workspace (gw_env u) ''W'' = Some d" "cw_docs d = [(7, ''e2'')]"
      by (simp add: get_workspace_def cache_get_def alive_def gw_env_def CACHEKEY_PRESENCE_def CACHEKEY_WORKSPACE_def)
    moreover from this(2) have "forwarded d u ''s1'' run_msg = Ev_env_message ''env.e2'' u ''s1'' run_msg"
        "reachable (\<lambda>_. True) d ''s1'' run_msg"
      by (simp_all add: forwarded_def env_channel_def env_target_def run_msg_def stickyActions_def reachable_def)
    ultimately show ?thesis
      using env_messages_authorised [OF sample_wf c s surjective_pairing, of cfg0 "\<lambda>_. True"] by simp
  qed
  have "is_member ''bob'' ''W'' sample_ws" "\<not> is_member ''eve'' ''W'' sample_ws"
    by (simp_all add: is_member_def sample_ws_def ann_ws_def)
  then show ?thesis by (simp add: h)
qed

text \<open>When the provisioner does not answer while an inactive session with an open workspace expires,
  the handler stops with the error: the session stays in the presence document and no longer has a timer,
  so nothing closes it any more.\<close>

lemma failed_dispose_orphans:
  assumes "colon_free u" "colon_free s" "session w u s = Some x" "cs_state x = Inactive" "truthy (cs_wsUuid x)"
    "locks w = []"
  shows "\<exists>w1. expire_key cfg (Inl e) (CACHEKEY_PRESENCE_SESSION u s) w = (Inl e, w1) \<and>
    session w1 u s = Some x \<and> \<not> timed w1 u s"
proof -
  let ?k = "CACHEKEY_PRESENCE_SESSION u s"
  define v where "v = (cache_del w ?k)\<lparr>locks := ob_set (locks w) (''locks:'' @ ?k) (clock w + 10000)\<rparr>"
  have v: "session v u s = Some x" "\<not> timed v u s"
    using expired_session [OF assms(1), of w s] assms(3) by (simp_all add: v_def timed_def raw_ops)
  have l: "ob_get (locks w) (''locks:'' @ ?k) = None" using assms(6) by simp
  from stale_failed [OF v(1) assms(4,5,1,2) v(2), of cfg e] show ?thesis
    unfolding expire_session_free [OF l assms(1,2) v_def] by auto
qed

lemma failed_dispose_orphans_example:
  "\<exists>w1. expire_key cfg0 (Inl (LibErr ''fetch failed'')) (CACHEKEY_PRESENCE_SESSION ''ann'' ''s1'') (gw_one Inactive (Some ''x'')) =
      (Inl (LibErr ''fetch failed''), w1) \<and>
    session w1 ''ann'' ''s1'' = Some (sess0 Inactive (Some ''x'')) \<and> \<not> timed w1 ''ann'' ''s1''"
  by (rule failed_dispose_orphans [OF _ _ gw_one_session _ _ gw_one_locks]) (simp_all add: colon_free_def sess0_def)

text \<open>A socket whose session is gone keeps the lock when it closes: the handler returns early without
  releasing it, and a reconnect of that session whose last attempt at the lock comes within the ten
  seconds of the lock fails.\<close>

lemma disconnect_holds_lock:
  assumes "ob_get (socket_data w) sid = Some (u, s)" "session w u s = None" "locks w = []" "allowConnections w"
    "validate tok = Inr u" "users u = Inr us" "tok \<noteq> []" "t < clock w + 10000"
    "handleDisconnect cfg sid w = (r, w1)"
  shows "r = Inr () \<and>
    fst (handleConnection cfg validate users sid' (Some tok) s (w1\<lparr>clock := t\<rparr>)) = Inl (LibErr ''ExecutionError'')"
proof -
  let ?k = "''locks:'' @ u @ '':'' @ s"
  have w1: "w1 = w\<lparr>locks := ob_set (locks w) ?k (clock w + 10000)\<rparr>" "r = Inr ()"
    using assms(1,2,3,9) by (auto simp: handleDisconnect_def acquireLock_def session_def split: option.splits)
  let ?v = "w1\<lparr>clock := t\<rparr>"
  obtain v where v: "handleAuthentication validate users tok ?v = (Some u, v)" "locks v = locks ?v" "clock v = t"
    using authentication_frame [of validate tok u users us ?v] assms(5,6) by auto
  have "fst (acquireLock (u @ '':'' @ s) 10000 v) = Inl (LibErr ''ExecutionError'')"
    using v(2,3) assms(8) by (simp add: acquireLock_def Let_def w1)
  then have "fst (handleConnection cfg validate users sid' (Some tok) s ?v) = Inl (LibErr ''ExecutionError'')"
    using v(1) assms(4,7) by (auto simp: handleConnection_def w1 split: prod.split sum.split)
  with w1(2) show ?thesis by blast
qed

definition gw_gone :: gw where
  "gw_gone = (gw_of [])\<lparr>socket_data := [(''sock'', ''ann'', ''s1'')]\<rparr>"

lemma disconnect_holds_lock_example:
  "fst (handleDisconnect cfg0 ''sock'' gw_gone) = Inr () \<and>
   fst (handleConnection cfg0 (\<lambda>_. Inr ''ann'') (\<lambda>_. Inr []) ''sock2'' (Some ''tok'') ''s1''
     ((snd (handleDisconnect cfg0 ''sock'' gw_gone))\<lparr>clock := 2000\<rparr>)) = Inl (LibErr ''ExecutionError'')"
proof (rule disconnect_holds_lock [OF _ _ _ _ _ _ _ _ prod.collapse [symmetric], where u = "''ann''"])
  show "session gw_gone ''ann'' ''s1'' = None" by code_simp
qed (simp_all add: gw_gone_def gw_of_def)

text \<open>A broadcast is all or nothing: when every session named exists, or its user has no presence, the
  message goes to the socket of each session in order; when one user's presence lacks the session named,
  the handler throws and nobody gets the message.\<close>

lemma broadcast_all_or_none:
  assumes "length uids = length sids"
  shows "broadcast uids sids pat msg w =
    (if \<forall>(u, s) \<in> set (zip uids sids). get_presence w u = None \<or> session w u s \<noteq> None
     then (Inr (), emit w (map (\<lambda>c. Socket_emit c pat msg)
       (filter (\<lambda>c. c \<noteq> []) (List.map_filter (\<lambda>(u, s). map_option cs_socketId (session w u s)) (zip uids sids)))))
     else (Inl TypeErr, w))"
proof -
  have z: "map (\<lambda>i. socket_at w (uids ! i) (part sids i)) [0..<length uids] =
      map (\<lambda>(u, s). socket_at w u (Some s)) (zip uids sids)"
    using assms by (intro nth_equalityI) (auto simp: part_def)
  have l: "isl (socket_at w u (Some s)) \<longleftrightarrow> \<not> (get_presence w u = None \<or> session w u s \<noteq> None)" for u s
    by (auto simp: socket_at_def session_def split: option.split)
  have c: "\<forall>(u, s) \<in> set ps. get_presence w u = None \<or> session w u s \<noteq> None \<Longrightarrow>
      concat (map (\<lambda>r. case r of Inr (Some c) \<Rightarrow> if c \<noteq> [] then [Socket_emit c pat msg] else [] | _ \<Rightarrow> [])
        (map (\<lambda>(u, s). socket_at w u (Some s)) ps)) =
      map (\<lambda>c. Socket_emit c pat msg)
       (filter (\<lambda>c. c \<noteq> []) (List.map_filter (\<lambda>(u, s). map_option cs_socketId (session w u s)) ps))" for ps
    by (induction ps)
      (auto simp: List.map_filter_simps socket_at_def session_def split: option.splits)
  have e: "(\<exists>r \<in> set (map (\<lambda>(u, s). socket_at w u (Some s)) ps). isl r) \<longleftrightarrow>
      \<not> (\<forall>(u, s) \<in> set ps. get_presence w u = None \<or> session w u s \<noteq> None)" for ps
    by (induction ps) (auto simp: l)
  define ok where "ok \<longleftrightarrow> (\<forall>(u, s) \<in> set (zip uids sids). get_presence w u = None \<or> session w u s \<noteq> None)"
  show ?thesis
    unfolding broadcast_def Let_def z e ok_def [symmetric] using c [of "zip uids sids", folded ok_def] by (cases ok) simp_all
qed

lemma broadcast_all_or_none_example:
  "broadcast [''ann'', ''ann''] [''s1'', ''s2''] ''env'' (Reply_error ''x'') (gw_one Active None) =
     (Inl TypeErr, gw_one Active None)"
proof -
  have "session (gw_one Active None) ''ann'' ''s2'' = None" "get_presence (gw_one Active None) ''ann'' \<noteq> None"
    by code_simp+
  then show ?thesis
    using broadcast_all_or_none [of "[''ann'', ''ann'']" "[''s1'', ''s2'']" "''env''" "Reply_error ''x''" "gw_one Active None"]
    by simp
qed

definition deliver_events :: "emission list \<Rightarrow> 'a gw_scheme \<Rightarrow> 'a gw_scheme" where
  "deliver_events es w = fold (\<lambda>e w. case event_of e of None \<Rightarrow> w | Some (c, ev) \<Rightarrow> instance_message c ev w) es w"

text \<open>The requests of the gateway to close the socket of an older connection are never carried out:
  whatever the gateway instances have emitted, an instance that receives it closes no socket, since the
  events lack the user that the receiver asks for.\<close>

lemma close_events_ignored:
  "deliver_events es w = w"
  unfolding deliver_events_def
  by (induction es) (auto simp: event_of_def instance_message_def split: emission.split)

end
