(* ===== verification/Env_Docs.thy ===== *)
theory Env_Docs
  imports Net_State
begin

text \<open>
  The collaborative documents of the env service: \<^verbatim>\<open>env/src/utils/shareddoc.ts\<close> and
  \<^verbatim>\<open>env/src/core/sync.service.ts\<close>.

  The CRDT library (Yjs, its sync and awareness protocols and the binary encoding) is not part of the
  repository. Its operations are the fields of \<open>ylib\<close>, over a type \<open>'y\<close> of library documents; an operation
  that changes a document returns the update the library hands to the handlers, if it makes one.
  Binary messages are the base64 texts that are sent. \<open>wsnode\<close> holds the replies of the HTTP server in the
  workspace. The documents are objects: the maps of the service and the timers refer to them by number,
  since a timer outlives the closing of its document.
\<close>

section \<open>Libraries and remote servers\<close>

record aw_update =
  aw_added :: "int list"
  aw_updated :: "int list"
  aw_removed :: "int list"

record 'y ylib =
  yl_new :: 'y
  yl_clientId :: "'y \<Rightarrow> int"
  yl_text :: "'y \<Rightarrow> string"                       \<comment> \<open>getText('monaco').toJSON()\<close>
  yl_insert :: "string \<Rightarrow> 'y \<Rightarrow> 'y \<times> string option" \<comment> \<open>insert at 0\<close>
  yl_replace :: "string \<Rightarrow> 'y \<Rightarrow> 'y \<times> string option"
  yl_decode :: "string \<Rightarrow> (int \<times> string) option"  \<comment> \<open>type and rest of a message, \<open>None\<close> when it throws\<close>
  yl_frame :: "int \<Rightarrow> string \<Rightarrow> string"             \<comment> \<open>message of a type with a body\<close>
  yl_read :: "string \<Rightarrow> 'y \<Rightarrow> 'y \<times> string option \<times> string option"
    \<comment> \<open>readSyncMessage: document, update, reply; no reply when it throws\<close>
  yl_update :: "string \<Rightarrow> string"                  \<comment> \<open>writeUpdate\<close>
  yl_step1 :: "'y \<Rightarrow> string"
  yl_clients :: "'y \<Rightarrow> int list"                   \<comment> \<open>clients with an awareness state\<close>
  yl_awEncode :: "int list \<Rightarrow> 'y \<Rightarrow> string"
  yl_awApply :: "string \<Rightarrow> 'y \<Rightarrow> ('y \<times> aw_update option) option"
  yl_awRemove :: "int list \<Rightarrow> 'y \<Rightarrow> 'y \<times> aw_update option"
  yl_sha256 :: "string \<Rightarrow> string"

record wsnode =
  nd_stat :: "string \<Rightarrow> string \<Rightarrow> StatDTO option"  \<comment> \<open>uuid, path; \<open>None\<close> when the request fails\<close>
  nd_read :: "string \<Rightarrow> string \<Rightarrow> string option"
  nd_hash :: "string \<Rightarrow> string \<Rightarrow> string option"
  nd_dir :: "string \<Rightarrow> string \<Rightarrow> FSOpenDTO list option"
  nd_command :: "string \<Rightarrow> string \<Rightarrow> string \<Rightarrow> bool option" \<comment> \<open>\<open>None\<close>: no response, else whether it is a success\<close>
  nd_ready :: "string \<Rightarrow> bool"
  nd_affine :: "string \<Rightarrow> string \<Rightarrow> bool"
  nd_docHash :: "string \<Rightarrow> string \<Rightarrow> int \<Rightarrow> string option result" \<comment> \<open>reply of another instance to doc.hash\<close>

section \<open>State\<close>

definition YMessage_SYNC :: int where
  "YMessage_SYNC = 0"

definition YMessage_AWARENESS :: int where
  "YMessage_AWARENESS = 1"

record 'y WSSharedDoc =
  dc_ino :: int
  dc_path :: string
  dc_uuid :: string
  dc_y :: 'y
  dc_hash :: string
  dc_users :: "(string, int list) obj"
  dc_isDisplaced :: bool
  dc_isConflicting :: bool
  dc_conflictResolver :: string

text \<open>What is to run later: the flush of a document, the delivery of a batch of file events, the end of
  a burst of events below a path. The last two belong to the entry of the workspace they were made for.\<close>

datatype timer = T_flush nat | T_process nat string | T_cooldown nat string string

record burst =
  bu_lastEvent :: int
  bu_count :: int
  bu_bursting :: bool

record path_state =
  ps_id :: nat
  ps_batch :: "FSEvent list"
  ps_paths :: "(string, burst) obj"

record ssh_conn =
  sc_conn :: nat
  sc_sessionId :: string
  sc_sessions :: "(string, nat) obj"

record 'y env = net +
  ev_id :: string
  ev_heap :: "(nat, 'y WSSharedDoc) obj"
  ev_next :: nat
  ev_docs :: "(string, (int, nat) obj) obj"
  ev_timers :: "(timer, int) obj"
  ev_paths :: "(string, path_state) obj"
  ev_conns :: "(string, (string, ssh_conn) obj) obj"

definition set_timer :: "timer \<Rightarrow> int \<Rightarrow> ('y, 'a) env_scheme \<Rightarrow> ('y, 'a) env_scheme" where
  "set_timer t wait w = w\<lparr>ev_timers := ob_set (ev_timers w) t (clock w + wait)\<rparr>"

definition doc_at :: "('y, 'a) env_scheme \<Rightarrow> string \<Rightarrow> int \<Rightarrow> nat option" where
  "doc_at w uuid ino = (case ob_get (ev_docs w) uuid of None \<Rightarrow> None | Some ds \<Rightarrow> ob_get ds ino)"

definition upd_doc :: "nat \<Rightarrow> ('y WSSharedDoc \<Rightarrow> 'y WSSharedDoc) \<Rightarrow> ('y, 'a) env_scheme \<Rightarrow> ('y, 'a) env_scheme" where
  "upd_doc d f w =
     (case ob_get (ev_heap w) d of None \<Rightarrow> w | Some doc \<Rightarrow> w\<lparr>ev_heap := ob_set (ev_heap w) d (f doc)\<rparr>)"

definition the_doc :: "('y, 'a) env_scheme \<Rightarrow> nat \<Rightarrow> 'y WSSharedDoc" where
  "the_doc w d = the (ob_get (ev_heap w) d)"

section \<open>Messages to the users of a document\<close>

definition getSessionId :: "string \<Rightarrow> string \<Rightarrow> 'a net_scheme \<Rightarrow> string option" where
  "getSessionId uid uuid w = (case get_presence w uid of None \<Rightarrow> None | Some p \<Rightarrow> session_of p uuid)"

definition sync_send ::
  "string \<Rightarrow> string \<Rightarrow> int \<Rightarrow> string \<Rightarrow> string option \<Rightarrow> 'a net_scheme \<Rightarrow> 'a net_scheme" where
  "sync_send uid uuid ino buf sessionId w =
     (let sid = (if truthy sessionId then sessionId else getSessionId uid uuid w)
      in if \<not> truthy sid then w
         else emit w [Socket_send (Some (uid, js_str sid)) uid (js_str sid) ''fs'' (Out_sync uuid ino buf)])"

text \<open>The users that have a session on the workspace, each with it.\<close>

definition active_sessions :: "string \<Rightarrow> string list \<Rightarrow> 'a net_scheme \<Rightarrow> (string \<times> string) list" where
  "active_sessions uuid uids w =
     map (\<lambda>(u, s). (u, js_str s)) (filter (\<lambda>(u, s). truthy s) (map (\<lambda>u. (u, getSessionId u uuid w)) uids))"

definition to_active :: "string \<Rightarrow> string list \<Rightarrow> out_message \<Rightarrow> 'a net_scheme \<Rightarrow> 'a net_scheme" where
  "to_active uuid uids msg w =
     (if uids = [] then w
      else (let act = active_sessions uuid uids w
            in emit w [Socket_broadcast (map fst act) (map snd act) ''fs'' msg]))"

definition sync_broadcast :: "'y WSSharedDoc \<Rightarrow> string \<Rightarrow> 'a net_scheme \<Rightarrow> 'a net_scheme" where
  "sync_broadcast doc buf w = to_active (dc_uuid doc) (ob_keys (dc_users doc)) (Out_sync (dc_uuid doc) (dc_ino doc) buf) w"

definition sendFileMovedOrDeleted :: "string list \<Rightarrow> string \<Rightarrow> int \<Rightarrow> 'a net_scheme \<Rightarrow> 'a net_scheme" where
  "sendFileMovedOrDeleted uids uuid ino w = to_active uuid uids (Out_displaced uuid ino) w"

definition sendConflictResolved :: "string \<Rightarrow> string list \<Rightarrow> int \<Rightarrow> 'a net_scheme \<Rightarrow> 'a net_scheme" where
  "sendConflictResolved uuid uids ino w = to_active uuid uids (Out_resolved uuid ino) w"

definition sync_sendError ::
  "string \<Rightarrow> string \<Rightarrow> string \<Rightarrow> string option \<Rightarrow> 'a net_scheme \<Rightarrow> 'a net_scheme" where
  "sync_sendError uid sessionId code correlationId w =
     (if truthy correlationId
      then emit w [Socket_send (Some (uid, sessionId)) uid sessionId (js_str correlationId) (Reply_error code)] else w)"

definition sync_sendSuccess ::
  "string \<Rightarrow> string \<Rightarrow> string option \<Rightarrow> bool \<Rightarrow> string \<Rightarrow> 'a net_scheme \<Rightarrow> 'a net_scheme" where
  "sync_sendSuccess uid sessionId correlationId isConflicting conflictResolver w =
     (if truthy correlationId
      then emit w [Socket_send (Some (uid, sessionId)) uid sessionId (js_str correlationId)
             (Reply_file isConflicting conflictResolver)] else w)"

definition sendFSLoss :: "string \<Rightarrow> string \<Rightarrow> int \<Rightarrow> 'a net_scheme \<Rightarrow> 'a net_scheme" where
  "sendFSLoss uid sessionId ino w =
     emit w [Socket_send (Some (uid, sessionId)) uid sessionId ''fs'' (Out_lost ino)]"

definition conflict_to :: "string \<Rightarrow> int \<Rightarrow> string list \<Rightarrow> string \<Rightarrow> 'a net_scheme \<Rightarrow> 'a net_scheme" where
  "conflict_to uuid ino uids resolver w =
     emit w (map (\<lambda>(u, s). Socket_send (Some (u, s)) u s ''fs'' (Out_conflict uuid ino resolver))
       (active_sessions uuid uids w))"

definition sync_sendConflict :: "'y WSSharedDoc \<Rightarrow> 'a net_scheme \<Rightarrow> 'a net_scheme" where
  "sync_sendConflict doc w =
     conflict_to (dc_uuid doc) (dc_ino doc) (ob_keys (dc_users doc)) (dc_conflictResolver doc) w"

section \<open>Shared documents\<close>

definition computeHash :: "'y ylib \<Rightarrow> nat \<Rightarrow> ('y, 'a) env_scheme \<Rightarrow> string \<times> ('y, 'a) env_scheme" where
  "computeHash L d w =
     (let h = yl_sha256 L (yl_text L (dc_y (the_doc w d))) in (h, upd_doc d (\<lambda>doc. doc\<lparr>dc_hash := h\<rparr>) w))"

definition isResolverRemoved :: "'y WSSharedDoc \<Rightarrow> string list \<Rightarrow> string list \<Rightarrow> bool" where
  "isResolverRemoved doc initialUids updatedUids \<longleftrightarrow>
     dc_conflictResolver doc \<noteq> [] \<and> dc_conflictResolver doc \<in> set initialUids \<and>
     dc_conflictResolver doc \<notin> set updatedUids"

text \<open>The client numbers of the user whose message made the change.\<close>

definition trackClients :: "nat \<Rightarrow> aw_update \<Rightarrow> string option \<Rightarrow> ('y, 'a) env_scheme \<Rightarrow> ('y, 'a) env_scheme" where
  "trackClients d up uid w =
     (case uid of None \<Rightarrow> w
      | Some u \<Rightarrow>
          (case ob_get (dc_users (the_doc w d)) u of None \<Rightarrow> w
           | Some ids \<Rightarrow>
               upd_doc d (\<lambda>doc. doc\<lparr>dc_users := ob_set (dc_users doc) u
                 (filter (\<lambda>c. c \<notin> set (aw_removed up)) (js_set (ids @ aw_added up)))\<rparr>) w))"

definition awarenessChangeHandler ::
  "'y ylib \<Rightarrow> nat \<Rightarrow> aw_update \<Rightarrow> string option \<Rightarrow> ('y, 'a) env_scheme \<Rightarrow> ('y, 'a) env_scheme" where
  "awarenessChangeHandler L d up uid w =
     (let initialUids = ob_keys (dc_users (the_doc w d));
          changedClients = aw_added up @ aw_updated up @ aw_removed up;
          w1 = trackClients d up uid w;
          doc = the_doc w1 d;
          w2 = sync_broadcast doc (yl_frame L YMessage_AWARENESS (yl_awEncode L changedClients (dc_y doc))) w1;
          updatedUids = ob_keys (dc_users (the_doc w2 d))
      in if dc_isConflicting (the_doc w2 d) \<and> aw_removed up \<noteq> [] \<and>
            isResolverRemoved (the_doc w2 d) initialUids updatedUids
         then sync_sendConflict (the_doc w2 d) w2 else w2)"

definition updateHandler :: "'y ylib \<Rightarrow> nat \<Rightarrow> string \<Rightarrow> ('y, 'a) env_scheme \<Rightarrow> ('y, 'a) env_scheme" where
  "updateHandler L d update w =
     set_timer (T_flush d) 5000
       (sync_broadcast (the_doc w d) (yl_frame L YMessage_SYNC (yl_update L update)) w)"

text \<open>A change of the library document, with the handler it triggers.\<close>

definition y_changed ::
  "'y ylib \<Rightarrow> nat \<Rightarrow> 'y \<times> string option \<Rightarrow> ('y, 'a) env_scheme \<Rightarrow> ('y, 'a) env_scheme" where
  "y_changed L d r w =
     (let w1 = upd_doc d (\<lambda>doc. doc\<lparr>dc_y := fst r\<rparr>) w
      in case snd r of None \<Rightarrow> w1 | Some update \<Rightarrow> updateHandler L d update w1)"

definition aw_changed ::
  "'y ylib \<Rightarrow> nat \<Rightarrow> 'y \<times> aw_update option \<Rightarrow> string option \<Rightarrow> ('y, 'a) env_scheme \<Rightarrow> ('y, 'a) env_scheme" where
  "aw_changed L d r uid w =
     (let w1 = upd_doc d (\<lambda>doc. doc\<lparr>dc_y := fst r\<rparr>) w
      in case snd r of None \<Rightarrow> w1 | Some up \<Rightarrow> awarenessChangeHandler L d up uid w1)"

text \<open>Destroying a document removes the awareness state of the server's own client.\<close>

definition doc_destroy :: "'y ylib \<Rightarrow> nat \<Rightarrow> ('y, 'a) env_scheme \<Rightarrow> ('y, 'a) env_scheme" where
  "doc_destroy L d w =
     awarenessChangeHandler L d
       \<lparr>aw_added = [], aw_updated = [], aw_removed = [yl_clientId L (dc_y (the_doc w d))]\<rparr> (Some ''local'') w"

section \<open>Files\<close>

definition setFileContent :: "'y WSSharedDoc \<Rightarrow> string \<Rightarrow> 'a net_scheme \<Rightarrow> 'a net_scheme" where
  "setFileContent doc content w = emit w [Pod_write (dc_uuid doc) (dc_path doc) content]"

definition loadFileContent ::
  "'y ylib \<Rightarrow> wsnode \<Rightarrow> nat \<Rightarrow> bool \<Rightarrow> ('y, 'a) env_scheme \<Rightarrow> bool \<times> ('y, 'a) env_scheme" where
  "loadFileContent L N d replace w =
     (let doc = the_doc w d
      in case nd_read N (dc_uuid doc) (dc_path doc) of
           None \<Rightarrow> (False, w)
         | Some content \<Rightarrow>
             (True, y_changed L d (if replace then yl_replace L content (dc_y doc) else yl_insert L content (dc_y doc)) w))"

definition new_WSSharedDoc ::
  "'y ylib \<Rightarrow> wsnode \<Rightarrow> int \<Rightarrow> string \<Rightarrow> string \<Rightarrow> ('y, 'a) env_scheme \<Rightarrow> nat \<times> bool \<times> ('y, 'a) env_scheme" where
  "new_WSSharedDoc L N ino path uuid w =
     (let d = ev_next w;
          w1 = w\<lparr>ev_next := Suc d, ev_heap := ob_set (ev_heap w) d
                 \<lparr>dc_ino = ino, dc_path = path, dc_uuid = uuid, dc_y = yl_new L, dc_hash = '''', dc_users = [],
                  dc_isDisplaced = False, dc_isConflicting = False, dc_conflictResolver = ''''\<rparr>\<rparr>
      in (d, loadFileContent L N d False w1))"

definition sync_updateCache :: "string \<Rightarrow> int \<Rightarrow> bool \<Rightarrow> ('y, 'a) env_scheme \<Rightarrow> ('y, 'a) env_scheme" where
  "sync_updateCache uuid ino add w =
     (case get_workspace w uuid of None \<Rightarrow> w
      | Some wCache \<Rightarrow>
          set_workspace w uuid (wCache\<lparr>cw_docs := (if add then ob_set (cw_docs wCache) ino (ev_id w)
                                                   else ob_del (cw_docs wCache) ino)\<rparr>))"

text \<open>The document for an open request: the open one, or a new one, which is \<open>None\<close> when its file cannot
  be read. The caller has made sure that the workspace has an entry in the map of documents.\<close>

definition obtain_doc ::
  "'y ylib \<Rightarrow> wsnode \<Rightarrow> int \<Rightarrow> string \<Rightarrow> string \<Rightarrow> ('y, 'a) env_scheme \<Rightarrow> nat option \<times> ('y, 'a) env_scheme" where
  "obtain_doc L N ino path uuid w =
     (case doc_at w uuid ino of
        Some d \<Rightarrow> (Some d, w)
      | None \<Rightarrow>
          (case new_WSSharedDoc L N ino path uuid w of
             (d, False, w1) \<Rightarrow>
               (let w2 = doc_destroy L d w1;
                    size = (case ob_get (ev_docs w2) uuid of None \<Rightarrow> 0 | Some ds \<Rightarrow> length ds)
                in (None, if size = 1 then w2\<lparr>ev_docs := ob_del (ev_docs w2) uuid\<rparr> else w2))
           | (d, True, w1) \<Rightarrow>
               (let (h, w2) = computeHash L d w1;
                    ds = (case ob_get (ev_docs w2) uuid of None \<Rightarrow> [] | Some ds \<Rightarrow> ds)
                in (Some d, w2\<lparr>ev_docs := ob_set (ev_docs w2) uuid (ob_set ds ino d)\<rparr>))))"

definition openFile ::
  "'y ylib \<Rightarrow> wsnode \<Rightarrow> string \<Rightarrow> string \<Rightarrow> string \<Rightarrow> string \<Rightarrow> StatDTO \<Rightarrow> string option \<Rightarrow>
   ('y, 'a) env_scheme \<Rightarrow> ('y, 'a) env_scheme" where
  "openFile L N uid sessionId uuid path stat correlationId w =
     (case get_workspace w uuid of
        None \<Rightarrow> sync_sendError uid sessionId ''FATAL_ERR_NO_WORKSPACE'' correlationId w
      | Some workspace \<Rightarrow>
          (let ino = st_ino stat; envInstanceId = ob_get (cw_docs workspace) ino
           in if truthy envInstanceId \<and> js_str envInstanceId \<noteq> ev_id w
              then emit w [Ev_env_openfile (''env.'' @ js_str envInstanceId @ ''.openfile'') uid sessionId uuid path stat correlationId]
              else
                (let w1 = (if ob_get (ev_docs w) uuid = None then w\<lparr>ev_docs := ob_set (ev_docs w) uuid []\<rparr> else w)
                 in case obtain_doc L N ino path uuid w1 of
                      (None, w2) \<Rightarrow> sync_sendError uid sessionId ''FS_ERR_READ_FILE'' correlationId w2
                    | (Some d, w2) \<Rightarrow>
                        (let w3 = upd_doc d (\<lambda>doc. doc\<lparr>dc_users := ob_set (dc_users doc) uid []\<rparr>) w2;
                             w4 = sync_updateCache uuid ino True w3;
                             doc = the_doc w4 d
                         in sync_sendSuccess uid sessionId correlationId (dc_isConflicting doc) (dc_conflictResolver doc) w4))))"

text \<open>The end of \<^verbatim>\<open>closeFile\<close>, when the last user has left.\<close>

definition drop_doc :: "'y ylib \<Rightarrow> string \<Rightarrow> int \<Rightarrow> nat \<Rightarrow> ('y, 'a) env_scheme \<Rightarrow> ('y, 'a) env_scheme" where
  "drop_doc L uuid ino d w =
     (let w1 = doc_destroy L d w;
          ds = (case ob_get (ev_docs w1) uuid of None \<Rightarrow> [] | Some ds \<Rightarrow> ds);
          w2 = (if ob_get (ev_docs w1) uuid = None then w1
                else w1\<lparr>ev_docs := ob_set (ev_docs w1) uuid (ob_del ds ino)\<rparr>);
          w3 = sync_updateCache uuid ino False w2
      in if (case ob_get (ev_docs w3) uuid of None \<Rightarrow> True | Some ds \<Rightarrow> ds = [])
         then w3\<lparr>ev_docs := ob_del (ev_docs w3) uuid\<rparr> else w3)"

definition closeFile ::
  "'y ylib \<Rightarrow> string \<Rightarrow> string \<Rightarrow> string \<Rightarrow> int \<Rightarrow> ('y, 'a) env_scheme \<Rightarrow> ('y, 'a) env_scheme" where
  "closeFile L uid sessionId uuid ino w =
     (case get_workspace w uuid of None \<Rightarrow> w
      | Some workspace \<Rightarrow>
          (let envInstanceId = ob_get (cw_docs workspace) ino
           in if truthy envInstanceId \<and> js_str envInstanceId \<noteq> ev_id w
              then emit w [Ev_env_closefile (''env.'' @ js_str envInstanceId @ ''.closefile'') uid sessionId uuid ino]
              else
                (case doc_at w uuid ino of None \<Rightarrow> w
                 | Some d \<Rightarrow>
                     (case ob_get (dc_users (the_doc w d)) uid of None \<Rightarrow> w
                      | Some controlledIds \<Rightarrow>
                          (let w1 = upd_doc d (\<lambda>doc. doc\<lparr>dc_users := ob_del (dc_users doc) uid\<rparr>) w;
                               w2 = aw_changed L d (yl_awRemove L controlledIds (dc_y (the_doc w1 d))) None w1
                           in if dc_users (the_doc w2 d) \<noteq> [] then w2 else drop_doc L uuid ino d w2)))))"

section \<open>Editing\<close>

definition handleSync ::
  "'y ylib \<Rightarrow> string \<Rightarrow> string \<Rightarrow> string \<Rightarrow> int \<Rightarrow> string \<Rightarrow> ('y, 'a) env_scheme \<Rightarrow> ('y, 'a) env_scheme" where
  "handleSync L uid sessionId uuid ino buf w =
     (case doc_at w uuid ino of None \<Rightarrow> w
      | Some d \<Rightarrow>
          (case yl_decode L buf of None \<Rightarrow> w
           | Some (messageType, body) \<Rightarrow>
               if messageType = YMessage_SYNC then
                 (case yl_read L body (dc_y (the_doc w d)) of
                    (y, update, reply) \<Rightarrow>
                      (let w1 = y_changed L d (y, update) w
                       in if truthy reply
                          then sync_send uid uuid ino (yl_frame L YMessage_SYNC (js_str reply)) (Some sessionId) w1
                          else w1))
               else if messageType = YMessage_AWARENESS then
                 (case yl_awApply L body (dc_y (the_doc w d)) of None \<Rightarrow> w
                  | Some r \<Rightarrow> aw_changed L d r (Some uid) w)
               else w))"

definition flush :: "'y ylib \<Rightarrow> wsnode \<Rightarrow> nat \<Rightarrow> ('y, 'a) env_scheme \<Rightarrow> ('y, 'a) env_scheme" where
  "flush L N d w =
     (let doc = the_doc w d
      in if dc_isDisplaced doc \<or> dc_isConflicting doc then w
         else if (case nd_stat N (dc_uuid doc) (dc_path doc) of None \<Rightarrow> False | Some stat \<Rightarrow> \<not> st_isDir stat)
         then setFileContent doc (yl_text L (dc_y doc)) w
         else sendFileMovedOrDeleted (ob_keys (dc_users doc)) (dc_uuid doc) (dc_ino doc)
                (upd_doc d (\<lambda>doc. doc\<lparr>dc_isDisplaced := True\<rparr>) w))"

definition handleOpenAck ::
  "'y ylib \<Rightarrow> string \<Rightarrow> string \<Rightarrow> string \<Rightarrow> int \<Rightarrow> ('y, 'a) env_scheme \<Rightarrow> ('y, 'a) env_scheme" where
  "handleOpenAck L uid sessionId uuid ino w =
     (case doc_at w uuid ino of None \<Rightarrow> w
      | Some d \<Rightarrow>
          (let doc = the_doc w d;
               w1 = sync_send uid (dc_uuid doc) ino (yl_frame L YMessage_SYNC (yl_step1 L (dc_y doc))) None w;
               cs = yl_clients L (dc_y doc)
           in if cs \<noteq> []
              then sync_send uid (dc_uuid doc) ino (yl_frame L YMessage_AWARENESS (yl_awEncode L cs (dc_y doc)))
                     (Some sessionId) w1
              else w1))"

definition handleConflictResolve ::
  "'y ylib \<Rightarrow> wsnode \<Rightarrow> string \<Rightarrow> string \<Rightarrow> string \<Rightarrow> int \<Rightarrow> decision \<Rightarrow> ('y, 'a) env_scheme \<Rightarrow>
   ('y, 'a) env_scheme" where
  "handleConflictResolve L N uid sessionId uuid ino dec w =
     (case doc_at w uuid ino of
        None \<Rightarrow> sendFSLoss uid sessionId ino w
      | Some d \<Rightarrow>
          (let doc = the_doc w d;
               w1 = (if dec = Keep then setFileContent doc (yl_text L (dc_y doc)) w
                     else snd (loadFileContent L N d True w));
               w2 = upd_doc d (\<lambda>doc. doc\<lparr>dc_isConflicting := False, dc_conflictResolver := ''''\<rparr>) w1
           in sendConflictResolved uuid (ob_keys (dc_users (the_doc w2 d))) ino w2))"

end
