(* ===== verification/Env_Files.thy ===== *)
theory Env_Files
  imports Env_Docs
begin

text \<open>
  Directories and file events of the env service (\<^verbatim>\<open>env/src/core/fs.service.ts\<close>).

  An asynchronous function that may throw returns a result. \<^verbatim>\<open>_process\<close> waits in its middle, so it is
  given in two halves between which other handlers may run; the loop over the batch is in the first half
  and sees what is pushed before it ends. The random choice of a resolver is the argument
  \<open>pick\<close>.
\<close>

section \<open>Directories\<close>

definition setWorkspace :: "string \<Rightarrow> ('y, 'a) env_scheme \<Rightarrow> ('y, 'a) env_scheme" where
  "setWorkspace wsUuid w =
     w\<lparr>ev_next := Suc (ev_next w),
       ev_paths := ob_set (ev_paths w) wsUuid \<lparr>ps_id = ev_next w, ps_batch = [], ps_paths = []\<rparr>\<rparr>"

definition fs_updateCache :: "string \<Rightarrow> string \<Rightarrow> string \<Rightarrow> bool \<Rightarrow> 'a net_scheme \<Rightarrow> 'a net_scheme" where
  "fs_updateCache uid wsUuid path add w =
     (case get_workspace w wsUuid of None \<Rightarrow> w
      | Some workspace \<Rightarrow>
          (let dirs = cw_dirs workspace; watchers = ob_get dirs path
           in if add then
                set_workspace w wsUuid (workspace\<lparr>cw_dirs := ob_set dirs path
                  (js_set ((case watchers of None \<Rightarrow> [] | Some us \<Rightarrow> us) @ [uid]))\<rparr>)
              else
                (case watchers of
                   Some us \<Rightarrow>
                     if uid \<in> set us then
                       (let us' = js_splice_out uid us
                        in if us' = []
                           then set_workspace (emit w [Ev_watch (''workspace.'' @ wsUuid @ ''.watch.remove'') path]) wsUuid
                                  (workspace\<lparr>cw_dirs := ob_del dirs path\<rparr>)
                           else set_workspace w wsUuid (workspace\<lparr>cw_dirs := ob_set dirs path us'\<rparr>))
                     else set_workspace w wsUuid workspace
                 | None \<Rightarrow> set_workspace w wsUuid workspace)))"

definition fs_sendSuccess ::
  "string \<Rightarrow> string \<Rightarrow> FSOpenDTO list \<Rightarrow> string option \<Rightarrow> 'a net_scheme \<Rightarrow> 'a net_scheme" where
  "fs_sendSuccess uid sessionId entries correlationId w =
     (if truthy correlationId
      then emit w [Socket_send (Some (uid, sessionId)) uid sessionId (js_str correlationId)
             (Reply_entries entries (js_str correlationId))] else w)"

definition fs_sendError ::
  "string \<Rightarrow> string \<Rightarrow> string \<Rightarrow> string option \<Rightarrow> 'a net_scheme \<Rightarrow> 'a net_scheme" where
  "fs_sendError uid sessionId code correlationId w =
     (if truthy correlationId
      then emit w [Socket_send (Some (uid, sessionId)) uid sessionId (js_str correlationId) (Reply_error code)] else w)"

definition openDir ::
  "wsnode \<Rightarrow> string \<Rightarrow> string \<Rightarrow> string \<Rightarrow> string \<Rightarrow> string option \<Rightarrow> 'a net_scheme \<Rightarrow> 'a net_scheme" where
  "openDir N uid sessionId uuid path correlationId w =
     (let w1 = emit w [Ev_watch (''workspace.'' @ uuid @ ''.watch.add'') path]
      in case nd_dir N uuid path of
           None \<Rightarrow> fs_sendError uid sessionId ''FS_ERR_FETCH_DIRECTORY'' correlationId w1
         | Some entries \<Rightarrow>
             fs_updateCache uid uuid path True (fs_sendSuccess uid sessionId entries correlationId w1))"

definition closeDir :: "string \<Rightarrow> string \<Rightarrow> string \<Rightarrow> 'a net_scheme \<Rightarrow> 'a net_scheme" where
  "closeDir uid wsUuid path w = fs_updateCache uid wsUuid path False w"

text \<open>\<^verbatim>\<open>closeDirs\<close> changes the document it is given; the caller stores it.\<close>

definition closeDirs ::
  "string \<Rightarrow> string \<Rightarrow> string list \<Rightarrow> CachedWorkspace \<Rightarrow> 'a net_scheme \<Rightarrow> CachedWorkspace \<times> 'a net_scheme" where
  "closeDirs uid wsUuid paths workspace w =
     fold (\<lambda>path (ws, w).
        (let us' = js_splice_out uid (case ob_get (cw_dirs ws) path of None \<Rightarrow> [] | Some us \<Rightarrow> us)
         in if us' = []
            then (ws\<lparr>cw_dirs := ob_del (cw_dirs ws) path\<rparr>,
                  emit w [Ev_watch (''workspace.'' @ wsUuid @ ''.watch.remove'') path])
            else (ws\<lparr>cw_dirs := ob_set (cw_dirs ws) path us'\<rparr>, w)))
       paths (workspace, w)"

section \<open>Bursts of file events\<close>

definition BURST_THRESHOLD :: int where
  "BURST_THRESHOLD = 50"

definition BURST_INTERVAL :: int where
  "BURST_INTERVAL = 200"

definition COOLDOWN :: int where
  "COOLDOWN = 500"

text \<open>The users that watch a path; a path that nobody watches has no list, and mapping over it throws.\<close>

definition getWatchingUsersFromPath ::
  "string \<Rightarrow> string \<Rightarrow> 'a net_scheme \<Rightarrow> (string \<times> string option) list result" where
  "getWatchingUsersFromPath uuid path w =
     (case get_workspace w uuid of None \<Rightarrow> Inr []
      | Some wCache \<Rightarrow>
          (case ob_get (cw_dirs wCache) path of None \<Rightarrow> Inl TypeErr
           | Some uids \<Rightarrow> Inr (map (\<lambda>u. (u, getSessionId u uuid w)) uids)))"

definition signal :: "string \<Rightarrow> string \<Rightarrow> bool \<Rightarrow> 'a net_scheme \<Rightarrow> unit result \<times> 'a net_scheme" where
  "signal uuid path block w =
     (case getWatchingUsersFromPath uuid path w of
        Inl e \<Rightarrow> (Inl e, w)
      | Inr us \<Rightarrow>
          (Inr (), emit w (map (\<lambda>(u, s). Socket_send (Some (u, js_str s)) u (js_str s) ''fs''
             (if block then Out_block path else Out_resume path)) (filter (\<lambda>(u, s). truthy s) us))))"

definition put_burst :: "string \<Rightarrow> string \<Rightarrow> burst \<Rightarrow> ('y, 'a) env_scheme \<Rightarrow> ('y, 'a) env_scheme" where
  "put_burst uuid path b w =
     (case ob_get (ev_paths w) uuid of None \<Rightarrow> w
      | Some ps \<Rightarrow> w\<lparr>ev_paths := ob_set (ev_paths w) uuid (ps\<lparr>ps_paths := ob_set (ps_paths ps) path b\<rparr>)\<rparr>)"

definition push_event :: "string \<Rightarrow> FSEvent \<Rightarrow> ('y, 'a) env_scheme \<Rightarrow> ('y, 'a) env_scheme" where
  "push_event uuid event w =
     (case ob_get (ev_paths w) uuid of None \<Rightarrow> w
      | Some ps \<Rightarrow> w\<lparr>ev_paths := ob_set (ev_paths w) uuid (ps\<lparr>ps_batch := ps_batch ps @ [event]\<rparr>)\<rparr>)"

definition handleWatchEvent ::
  "FSEvent \<Rightarrow> string \<Rightarrow> ('y, 'a) env_scheme \<Rightarrow> unit result \<times> ('y, 'a) env_scheme" where
  "handleWatchEvent event uuid w =
     (case ob_get (ev_paths w) uuid of None \<Rightarrow> (Inr (), w)
      | Some wState \<Rightarrow>
          (let path = fe_watchedPath event;
               state = (case ob_get (ps_paths wState) path of
                          None \<Rightarrow> \<lparr>bu_lastEvent = 0, bu_count = 0, bu_bursting = False\<rparr> | Some b \<Rightarrow> b);
               cnt = (if fe_timestamp event - bu_lastEvent state > BURST_INTERVAL then 0 else bu_count state) + 1;
               state1 = state\<lparr>bu_count := cnt, bu_lastEvent := fe_timestamp event\<rparr>;
               starts = (\<not> bu_bursting state \<and> cnt > BURST_THRESHOLD);
               state2 = (if starts then state1\<lparr>bu_bursting := True\<rparr> else state1);
               w1 = put_burst uuid path state2 w
           in case (if starts then signal uuid path True w1 else (Inr (), w1)) of
                (Inl e, w2) \<Rightarrow> (Inl e, w2)
              | (Inr _, w2) \<Rightarrow>
                  if bu_bursting state2
                  then (Inr (), set_timer (T_cooldown (ps_id wState) uuid path) COOLDOWN w2)
                  else (Inr (), set_timer (T_process (ps_id wState) uuid) 250 (push_event uuid event w2))))"

text \<open>The timer of a burst: the state it belongs to may have been replaced meanwhile.\<close>

definition cooldown ::
  "nat \<Rightarrow> string \<Rightarrow> string \<Rightarrow> ('y, 'a) env_scheme \<Rightarrow> unit result \<times> ('y, 'a) env_scheme" where
  "cooldown pid uuid path w =
     (let w1 = (case ob_get (ev_paths w) uuid of None \<Rightarrow> w
                | Some ps \<Rightarrow>
                    if ps_id ps \<noteq> pid then w
                    else (case ob_get (ps_paths ps) path of None \<Rightarrow> w
                          | Some b \<Rightarrow> put_burst uuid path (b\<lparr>bu_bursting := False\<rparr>) w))
      in signal uuid path False w1)"

section \<open>Delivery of events\<close>

definition getFileHash :: "wsnode \<Rightarrow> string \<Rightarrow> string \<Rightarrow> string" where
  "getFileHash N uuid path = (case nd_hash N uuid path of None \<Rightarrow> '''' | Some h \<Rightarrow> h)"

definition getDocHash ::
  "'y ylib \<Rightarrow> wsnode \<Rightarrow> string \<Rightarrow> int option \<Rightarrow> CachedWorkspace \<Rightarrow> ('y, 'a) env_scheme \<Rightarrow>
   string option result \<times> ('y, 'a) env_scheme" where
  "getDocHash L N uuid ino wCache w =
     (case (case ino of None \<Rightarrow> None | Some i \<Rightarrow> map_option (Pair i) (ob_get (cw_docs wCache) i)) of
        None \<Rightarrow> (Inr None, w)
      | Some (i, envInstanceId) \<Rightarrow>
          if envInstanceId = [] then (Inr None, w)
          else if envInstanceId = ev_id w then
            (case doc_at w uuid i of None \<Rightarrow> (Inr None, w)
             | Some d \<Rightarrow> (let (h, w1) = computeHash L d w in (Inr (Some h), w1)))
          else (nd_docHash N envInstanceId uuid i, w))"

text \<open>One event of a batch: whether it is delivered, after the check for a conflict.\<close>

definition check_event ::
  "'y ylib \<Rightarrow> wsnode \<Rightarrow> (string list \<Rightarrow> string) \<Rightarrow> string \<Rightarrow> CachedWorkspace \<Rightarrow> FSEvent \<Rightarrow>
   ('y, 'a) env_scheme \<Rightarrow> bool result \<times> ('y, 'a) env_scheme" where
  "check_event L N pick uuid wCache event w =
     (if fe_type event = Fs_file \<and> fe_action event = Fs_write then
        (case getDocHash L N uuid (fe_ino event) wCache w of
           (Inl e, w1) \<Rightarrow> (Inl e, w1)
         | (Inr docHash, w1) \<Rightarrow>
             if \<not> truthy docHash then (Inr False, w1)
             else if getFileHash N uuid (fe_path event) = js_str docHash then (Inr False, w1)
             else
               (case (case fe_ino event of None \<Rightarrow> None | Some i \<Rightarrow> doc_at w1 uuid i) of
                  None \<Rightarrow> (Inr True, w1)
                | Some d \<Rightarrow>
                    (let uids = ob_keys (dc_users (the_doc w1 d));
                         resolver = pick uids;
                         w2 = upd_doc d (\<lambda>doc. doc\<lparr>dc_isConflicting := True, dc_conflictResolver := resolver\<rparr>) w1;
                         doc = the_doc w2 d
                     in (Inr True, conflict_to (dc_uuid doc) (dc_ino doc) uids resolver w2))))
      else (Inr True, w))"

definition clean_watched :: "FSEvent \<Rightarrow> FSEvent" where
  "clean_watched event =
     (if fe_watchedPath event = ''/workspace'' then event\<lparr>fe_watchedPath := ''/workspace/''\<rparr> else event)"

definition add_to_batches ::
  "CachedWorkspace \<Rightarrow> FSEvent \<Rightarrow> (string, FSEvent list) obj \<Rightarrow> (string, FSEvent list) obj" where
  "add_to_batches wCache event batches =
     fold (\<lambda>uid bs. ob_set bs uid ((case ob_get bs uid of None \<Rightarrow> [] | Some es \<Rightarrow> es) @ [event]))
       (case ob_get (cw_dirs wCache) (fe_watchedPath event) of None \<Rightarrow> [] | Some us \<Rightarrow> us) batches"

fun sync_events ::
  "'y ylib \<Rightarrow> wsnode \<Rightarrow> (string list \<Rightarrow> string) \<Rightarrow> string \<Rightarrow> CachedWorkspace \<Rightarrow> FSEvent list \<Rightarrow>
   (string, FSEvent list) obj \<Rightarrow> ('y, 'a) env_scheme \<Rightarrow> (string, FSEvent list) obj result \<times> ('y, 'a) env_scheme" where
  "sync_events L N pick uuid wCache [] batches w = (Inr batches, w)"
| "sync_events L N pick uuid wCache (event # es) batches w =
     (case check_event L N pick uuid wCache event w of
        (Inl e, w1) \<Rightarrow> (Inl e, w1)
      | (Inr deliver, w1) \<Rightarrow>
          sync_events L N pick uuid wCache es
            (if deliver then add_to_batches wCache (clean_watched event) batches else batches) w1)"

definition getWatchingUsersFromUid ::
  "string \<Rightarrow> string list \<Rightarrow> 'a net_scheme \<Rightarrow> (string \<times> string option) list" where
  "getWatchingUsersFromUid uuid uids w = map (\<lambda>u. (u, getSessionId u uuid w)) uids"

definition sendBatch :: "string \<Rightarrow> string \<Rightarrow> FSEvent list \<Rightarrow> emission" where
  "sendBatch uid sessionId events = Socket_send (Some (uid, sessionId)) uid sessionId ''fs'' (Out_batch events)"

definition fs_sync ::
  "'y ylib \<Rightarrow> wsnode \<Rightarrow> (string list \<Rightarrow> string) \<Rightarrow> string \<Rightarrow> FSEvent list \<Rightarrow> ('y, 'a) env_scheme \<Rightarrow>
   unit result \<times> ('y, 'a) env_scheme" where
  "fs_sync L N pick uuid batch w =
     (case get_workspace w uuid of None \<Rightarrow> (Inr (), w)
      | Some wCache \<Rightarrow>
          (case sync_events L N pick uuid wCache batch [] w of
             (Inl e, w1) \<Rightarrow> (Inl e, w1)
           | (Inr batches, w1) \<Rightarrow>
               (Inr (), emit w1 (map (\<lambda>(u, s). sendBatch u (js_str s)
                    (case ob_get batches u of None \<Rightarrow> [] | Some es \<Rightarrow> es))
                  (filter (\<lambda>(u, s). truthy s) (getWatchingUsersFromUid uuid (ob_keys batches) w1))))))"

text \<open>The two halves of \<^verbatim>\<open>_process\<close>, before and after it waits for \<^verbatim>\<open>sync\<close>.\<close>

definition process_start ::
  "'y ylib \<Rightarrow> wsnode \<Rightarrow> (string list \<Rightarrow> string) \<Rightarrow> string \<Rightarrow> ('y, 'a) env_scheme \<Rightarrow>
   unit result \<times> ('y, 'a) env_scheme" where
  "process_start L N pick uuid w =
     (case ob_get (ev_paths w) uuid of None \<Rightarrow> (Inr (), w)
      | Some wState \<Rightarrow> fs_sync L N pick uuid (ps_batch wState) w)"

definition process_end :: "nat \<Rightarrow> string \<Rightarrow> ('y, 'a) env_scheme \<Rightarrow> ('y, 'a) env_scheme" where
  "process_end pid uuid w =
     (case ob_get (ev_paths w) uuid of None \<Rightarrow> w
      | Some wState \<Rightarrow>
          if ps_id wState = pid then w\<lparr>ev_paths := ob_set (ev_paths w) uuid (wState\<lparr>ps_batch := []\<rparr>)\<rparr> else w)"

definition fs_process ::
  "'y ylib \<Rightarrow> wsnode \<Rightarrow> (string list \<Rightarrow> string) \<Rightarrow> string \<Rightarrow> ('y, 'a) env_scheme \<Rightarrow>
   unit result \<times> ('y, 'a) env_scheme" where
  "fs_process L N pick uuid w =
     (case ob_get (ev_paths w) uuid of None \<Rightarrow> (Inr (), w)
      | Some wState \<Rightarrow>
          (case process_start L N pick uuid w of
             (Inl e, w1) \<Rightarrow> (Inl e, w1)
           | (Inr _, w1) \<Rightarrow> (Inr (), process_end (ps_id wState) uuid w1)))"

end
