(* ===== verification/Env_Ssh.thy ===== *)
theory Env_Ssh
  imports Env_Docs
begin

text \<open>
  Terminals of the env service (\<^verbatim>\<open>env/src/core/sshproxy.service.ts\<close>).

  The SSH library calls back: each callback is an operation of its own, with the values the closure has.
  Connections and streams are numbers. \<open>dev\<close> is whether the service runs in development on Kubernetes.
\<close>

section \<open>Connections\<close>

definition ssh_at :: "('y, 'a) env_scheme \<Rightarrow> string \<Rightarrow> string \<Rightarrow> ssh_conn option" where
  "ssh_at w uid uuid = (case ob_get (ev_conns w) uid of None \<Rightarrow> None | Some cs \<Rightarrow> ob_get cs uuid)"

definition ssh_send :: "string \<Rightarrow> string \<Rightarrow> out_message \<Rightarrow> emission" where
  "ssh_send uid sessionId msg = Socket_send None uid sessionId ''ssh'' msg"

definition handleNewSSHConnection ::
  "bool \<Rightarrow> string \<Rightarrow> string \<Rightarrow> ('y, 'a) env_scheme \<Rightarrow> ('y, 'a) env_scheme" where
  "handleNewSSHConnection dev uuid privateKey w =
     emit (w\<lparr>ev_next := Suc (ev_next w)\<rparr>)
       [Ssh_connect (ev_next w) (if dev then ''host.docker.internal'' else ''workspace-'' @ uuid) privateKey]"

definition handleNewSSHSession ::
  "string \<Rightarrow> string \<Rightarrow> ('y, 'a) env_scheme \<Rightarrow> unit result \<times> ('y, 'a) env_scheme" where
  "handleNewSSHSession uid uuid w =
     (case ssh_at w uid uuid of None \<Rightarrow> (Inl TypeErr, w)
      | Some c \<Rightarrow> (Inr (), emit w [Ssh_shell (sc_conn c)]))"

definition handleSSHConnection ::
  "bool \<Rightarrow> string \<Rightarrow> string \<Rightarrow> string \<Rightarrow> ('y, 'a) env_scheme \<Rightarrow> unit result \<times> ('y, 'a) env_scheme" where
  "handleSSHConnection dev uid uuid privateKey w =
     (let w1 = (if ob_get (ev_conns w) uid = None then w\<lparr>ev_conns := ob_set (ev_conns w) uid []\<rparr> else w)
      in if ssh_at w1 uid uuid = None then (Inr (), handleNewSSHConnection dev uuid privateKey w1)
         else handleNewSSHSession uid uuid w1)"

text \<open>\<open>add\<close> is the user for whom a terminal is opened when the entry is added.\<close>

definition updateConnCache ::
  "string \<Rightarrow> string \<Rightarrow> string option \<Rightarrow> ('y, 'a) env_scheme \<Rightarrow> unit result \<times> ('y, 'a) env_scheme" where
  "updateConnCache sessionId wsUuid add w =
     (case get_workspace w wsUuid of None \<Rightarrow> (Inr (), w)
      | Some workspace \<Rightarrow>
          (case add of
             Some uid \<Rightarrow>
               handleNewSSHSession uid wsUuid (set_workspace w wsUuid
                 (workspace\<lparr>cw_sshs := ob_set (cw_sshs workspace) sessionId (ev_id w)\<rparr>))
           | None \<Rightarrow>
               (Inr (), set_workspace w wsUuid (workspace\<lparr>cw_sshs := ob_del (cw_sshs workspace) sessionId\<rparr>))))"

section \<open>Callbacks of the library\<close>

definition conn_ready ::
  "nat \<Rightarrow> string \<Rightarrow> string \<Rightarrow> string \<Rightarrow> ('y, 'a) env_scheme \<Rightarrow> unit result \<times> ('y, 'a) env_scheme" where
  "conn_ready conn uid sessionId uuid w =
     (case ob_get (ev_conns w) uid of None \<Rightarrow> (Inl TypeErr, w)
      | Some cs \<Rightarrow>
          updateConnCache sessionId uuid (Some uid)
            (w\<lparr>ev_conns := ob_set (ev_conns w) uid
                (ob_set cs uuid \<lparr>sc_conn = conn, sc_sessionId = sessionId, sc_sessions = []\<rparr>)\<rparr>))"

definition conn_error :: "string \<Rightarrow> string \<Rightarrow> ('y, 'a) env_scheme \<Rightarrow> ('y, 'a) env_scheme" where
  "conn_error uid sessionId w = emit w [ssh_send uid sessionId (Ssh_error ''SSH connection failed'')]"

definition conn_close ::
  "string \<Rightarrow> string \<Rightarrow> string \<Rightarrow> ('y, 'a) env_scheme \<Rightarrow> unit result \<times> ('y, 'a) env_scheme" where
  "conn_close uid sessionId uuid w =
     (let w1 = (case ob_get (ev_conns w) uid of None \<Rightarrow> w
                | Some cs \<Rightarrow> w\<lparr>ev_conns := ob_set (ev_conns w) uid (ob_del cs uuid)\<rparr>)
      in updateConnCache sessionId uuid None w1)"

section \<open>Terminals\<close>

definition handleSSHData ::
  "string \<Rightarrow> string \<Rightarrow> string \<Rightarrow> string \<Rightarrow> ('y, 'a) env_scheme \<Rightarrow> unit result \<times> ('y, 'a) env_scheme" where
  "handleSSHData uid uuid sshSessionId input w =
     (case ob_get (ev_conns w) uid of None \<Rightarrow> (Inr (), w)
      | Some cs \<Rightarrow>
          (case ob_get cs uuid of None \<Rightarrow> (Inl TypeErr, w)
           | Some c \<Rightarrow>
               (case ob_get (sc_sessions c) sshSessionId of None \<Rightarrow> (Inr (), w)
                | Some stream \<Rightarrow> (Inr (), emit w [Ssh_write stream input]))))"

definition handleSSHClose ::
  "string \<Rightarrow> string \<Rightarrow> string \<Rightarrow> string \<Rightarrow> ('y, 'a) env_scheme \<Rightarrow> unit result \<times> ('y, 'a) env_scheme" where
  "handleSSHClose uid sessionId uuid sshSessionId w =
     (if sshSessionId = ''#all'' then
        (let w1 = (case ssh_at w uid uuid of None \<Rightarrow> w
                   | Some c \<Rightarrow> emit w (map Ssh_stream_close (map snd (sc_sessions c)) @ [Ssh_end (sc_conn c)]))
         in updateConnCache sessionId uuid None w1)
      else
        (let w1 = (case ssh_at w uid uuid of None \<Rightarrow> w
                   | Some c \<Rightarrow> (case ob_get (sc_sessions c) sshSessionId of None \<Rightarrow> w
                               | Some stream \<Rightarrow> emit w [Ssh_stream_close stream]))
         in case ob_get (ev_conns w) uid of
              None \<Rightarrow> updateConnCache sessionId uuid None w1
            | Some cs \<Rightarrow>
                (case ob_get cs uuid of None \<Rightarrow> (Inl TypeErr, w1)
                 | Some c \<Rightarrow> if sc_sessions c = [] then updateConnCache sessionId uuid None w1 else (Inr (), w1))))"

text \<open>The callback of \<^verbatim>\<open>conn.shell\<close>, with the stream unless there is an error.\<close>

definition shell_opened ::
  "nat option \<Rightarrow> string \<Rightarrow> string \<Rightarrow> string \<Rightarrow> string \<Rightarrow> ('y, 'a) env_scheme \<Rightarrow> unit result \<times> ('y, 'a) env_scheme" where
  "shell_opened stream uid sessionId uuid clientId w =
     (case stream of
        None \<Rightarrow> handleSSHClose uid sessionId uuid '''' (emit w [ssh_send uid sessionId (Ssh_error ''Failed to start shell'')])
      | Some s \<Rightarrow>
          (let (sshSessionId, w1) = randomUUID w
           in case ob_get (ev_conns w1) uid of None \<Rightarrow> (Inl TypeErr, w1)
              | Some cs \<Rightarrow>
                  (case ob_get cs uuid of None \<Rightarrow> (Inl TypeErr, w1)
                   | Some c \<Rightarrow>
                       (Inr (), emit (w1\<lparr>ev_conns := ob_set (ev_conns w1) uid
                            (ob_set cs uuid (c\<lparr>sc_sessions := ob_set (sc_sessions c) sshSessionId s\<rparr>))\<rparr>)
                          [ssh_send uid sessionId (Ssh_open sshSessionId clientId)]))))"

definition stream_data :: "string \<Rightarrow> string \<Rightarrow> string \<Rightarrow> string \<Rightarrow> ('y, 'a) env_scheme \<Rightarrow> ('y, 'a) env_scheme" where
  "stream_data uid sessionId sshSessionId output w = emit w [ssh_send uid sessionId (Ssh_output sshSessionId output)]"

definition stream_close :: "string \<Rightarrow> string \<Rightarrow> string \<Rightarrow> ('y, 'a) env_scheme \<Rightarrow> ('y, 'a) env_scheme" where
  "stream_close uid sessionId sshSessionId w = emit w [ssh_send uid sessionId (Ssh_closed sshSessionId False)]"

end
