(* ===== verification/Env_Workspace.thy ===== *)
theory Env_Workspace
  imports Env_Files Env_Ssh
begin

text \<open>
  Opening, closing and messages of a workspace in the env service (\<^verbatim>\<open>env/src/core/workspace.service.ts\<close>)
  and the dispatch of what arrives (\<^verbatim>\<open>core.controller.ts\<close>).

  Arguments: \<open>member\<close> is the reply to the membership check, \<open>None\<close> when it fails; \<open>provision\<close> the reply of the
  provisioner, whether the caller has to wait; \<open>lock\<close> whether Redlock grants the lock. The lock is held for
  the locked part only, so it leaves no trace in the state.
\<close>

section \<open>Opening a workspace\<close>

definition invalidatePreviousSessions :: "string \<Rightarrow> string \<Rightarrow> 'a net_scheme \<Rightarrow> 'a net_scheme" where
  "invalidatePreviousSessions uid uuid w =
     (case get_presence w uid of None \<Rightarrow> w
      | Some presence \<Rightarrow>
          (let stale = filter (\<lambda>(sid, s). cs_wsUuid s = Some uuid) presence;
               w1 = fold (\<lambda>(sid, s) w. cache_del w (CACHEKEY_PRESENCE_WORKSPACE uid sid uuid)) stale w;
               presence' = map (\<lambda>(sid, s). (sid, if cs_wsUuid s = Some uuid then s\<lparr>cs_wsUuid := None\<rparr> else s)) presence;
               w2 = set_presence w1 uid presence'
           in case get_workspace w2 uuid of None \<Rightarrow> w2
              | Some workspace \<Rightarrow>
                  (let paths = map fst (filter (\<lambda>(path, uids). uid \<in> set uids) (cw_dirs workspace));
                       (workspace', w3) = closeDirs uid uuid paths workspace w2
                   in set_workspace w3 uuid workspace')))"

text \<open>The locked part: the workspace document, made or taken over by this instance.\<close>

definition claim_workspace ::
  "wsnode \<Rightarrow> string \<Rightarrow> ('y, 'a) env_scheme \<Rightarrow> unit result \<times> ('y, 'a) env_scheme" where
  "claim_workspace N uuid w =
     (let workspace = get_workspace w uuid;
          ws1 = (case workspace of
                   None \<Rightarrow> \<lparr>cw_state = Active, cw_fs = ev_id w, cw_dirs = [], cw_docs = [], cw_sshs = []\<rparr>
                 | Some ws \<Rightarrow> ws);
          ws2 = (if cw_dirs ws1 = [] then ws1\<lparr>cw_fs := ev_id w\<rparr> else ws1);
          dirty = (workspace = None \<or> cw_dirs ws1 = [])
      in if \<not> dirty then (Inr (), w)
         else if \<not> nd_affine N uuid (ev_id w) then (Inl (RpcErr 500 ''UNKNOWN''), w)
         else (Inr (), set_workspace (setWorkspace uuid w) uuid ws2))"

definition handleEnvReady ::
  "wsnode \<Rightarrow> bool \<Rightarrow> string \<Rightarrow> string \<Rightarrow> string \<Rightarrow> ('y, 'a) env_scheme \<Rightarrow> unit result \<times> ('y, 'a) env_scheme" where
  "handleEnvReady N lock uid uuid sessionId w =
     (if \<not> nd_ready N uuid then (Inl (RpcErr 503 ''WORKSPACE_UNREACHABLE''), w)
      else if \<not> lock then (Inl (LibErr ''UNKNOWN''), w)
      else
        (case claim_workspace N uuid (invalidatePreviousSessions uid uuid w) of
           (Inl e, w1) \<Rightarrow> (Inl e, w1)
         | (Inr _, w1) \<Rightarrow>
             (case (case get_presence w1 uid of None \<Rightarrow> Inr w1
                    | Some presence \<Rightarrow>
                        (case ob_get presence sessionId of None \<Rightarrow> Inl TypeErr
                         | Some s \<Rightarrow> Inr (set_presence w1 uid (ob_set presence sessionId (s\<lparr>cs_wsUuid := Some uuid\<rparr>))))) of
                Inl e \<Rightarrow> (Inl e, w1)
              | Inr w2 \<Rightarrow>
                  (Inr (), cache_set w2 (CACHEKEY_PRESENCE_WORKSPACE uid sessionId uuid) (CvNum 1) (Some 20000)))))"

text \<open>Whether the caller has to wait for the workspace.\<close>

definition handleEnvOpen ::
  "(string \<times> bool) option \<Rightarrow> bool option \<Rightarrow> wsnode \<Rightarrow> bool \<Rightarrow> string \<Rightarrow> string \<Rightarrow> string \<Rightarrow>
   ('y, 'a) env_scheme \<Rightarrow> bool result \<times> ('y, 'a) env_scheme" where
  "handleEnvOpen member provision N lock uid uuid sessionId w =
     (if sessionId = [] then (Inl (RpcErr 400 ''WORKSPACE_OPEN_INVALID_REQUEST''), w)
      else
        (case member of None \<Rightarrow> (Inl (RpcErr 401 ''NO_WORKSPACE_MEMBERSHIP''), w)
         | Some (img, dedicated) \<Rightarrow>
             (let w1 = emit w [Http_provision img uuid sessionId uid dedicated]
              in case provision of
                   None \<Rightarrow> (Inl (RpcErr 500 ''WORKSPACE_OPEN_FAILED''), w1)
                 | Some wait \<Rightarrow>
                     if wait then (Inr True, w1)
                     else (case handleEnvReady N lock uid uuid sessionId w1 of
                             (Inl e, w2) \<Rightarrow> (Inl e, w2) | (Inr _, w2) \<Rightarrow> (Inr False, w2)))))"

section \<open>Closing a workspace\<close>

text \<open>The end of \<^verbatim>\<open>handleEnvClose\<close>: directories of the user, then the workspace if nobody is left.\<close>

definition close_dirs_of ::
  "int \<Rightarrow> string \<Rightarrow> string \<Rightarrow> string \<Rightarrow> CachedWorkspace \<Rightarrow> ('y, 'a) env_scheme \<Rightarrow> ('y, 'a) env_scheme" where
  "close_dirs_of wsActivityTimeout uid sessionId uuid workspace w =
     (let dirs = filter (\<lambda>path. path \<noteq> []) (map fst (filter (\<lambda>(path, uids). uid \<in> set uids) (cw_dirs workspace)));
          w1 = fold (\<lambda>dir w. closeDir uid uuid dir w) dirs w
      in case get_workspace w1 uuid of None \<Rightarrow> w1
         | Some ws \<Rightarrow>
             if cw_dirs ws = []
             then cache_set (set_workspace w1 uuid (ws\<lparr>cw_state := Inactive\<rparr>))
                    (CACHEKEY_PRESENCE_WORKSPACE uid sessionId uuid) (CvNum 0) (Some wsActivityTimeout)
             else w1)"

definition handleEnvClose ::
  "(string \<times> bool) option \<Rightarrow> bool \<Rightarrow> int \<Rightarrow> string \<Rightarrow> string \<Rightarrow> ('y, 'a) env_scheme \<Rightarrow> ('y, 'a) env_scheme" where
  "handleEnvClose member lock wsActivityTimeout uid uuid w =
     (if member = None \<or> \<not> lock then w
      else
        (case get_presence w uid of None \<Rightarrow> w
         | Some presence \<Rightarrow>
             (case session_of presence uuid of None \<Rightarrow> w
              | Some sessionId \<Rightarrow>
                  if sessionId = [] then w
                  else
                    (let w1 = set_presence w uid
                                (map (\<lambda>(sid, s). (sid, if sid = sessionId then s\<lparr>cs_wsUuid := None\<rparr> else s)) presence);
                         w2 = cache_del w1 (CACHEKEY_PRESENCE_WORKSPACE uid sessionId uuid)
                     in case get_workspace w2 uuid of None \<Rightarrow> w2
                        | Some workspace \<Rightarrow>
                            close_dirs_of wsActivityTimeout uid sessionId uuid workspace
                              (snd (handleSSHClose uid sessionId uuid ''#all'' w2))))))"

section \<open>Messages\<close>

definition env_stickyActions :: "string list" where
  "env_stickyActions = [''fs.sync'', ''ssh.data'', ''ssh.close'', ''workspace.watch'', ''doc.hash'', ''fs.open.ack'',
     ''fs.conflict.resolve'', ''ws.run'']"

definition handleOpen ::
  "'y ylib \<Rightarrow> wsnode \<Rightarrow> string \<Rightarrow> string \<Rightarrow> string \<Rightarrow> string \<Rightarrow> string option \<Rightarrow> ('y, 'a) env_scheme \<Rightarrow>
   ('y, 'a) env_scheme" where
  "handleOpen L N uid sessionId uuid path correlationId w =
     (let full = ''/workspace'' @ path
      in case nd_stat N uuid full of
           None \<Rightarrow> if truthy correlationId
                   then emit w [Socket_send (Some (uid, sessionId)) uid sessionId (js_str correlationId) (Reply_error ''UNKNOWN'')]
                   else w
         | Some stat \<Rightarrow>
             if st_isDir stat then openDir N uid sessionId uuid full correlationId w
             else openFile L N uid sessionId uuid full stat correlationId w)"

definition handleClose ::
  "'y ylib \<Rightarrow> string \<Rightarrow> string \<Rightarrow> string \<Rightarrow> string \<Rightarrow> int option \<Rightarrow> ('y, 'a) env_scheme \<Rightarrow> ('y, 'a) env_scheme" where
  "handleClose L uid sessionId uuid path ino w =
     (case ino of
        Some i \<Rightarrow> if i \<noteq> 0 then closeFile L uid sessionId uuid i w else closeDir uid uuid (''/workspace'' @ path) w
      | None \<Rightarrow> closeDir uid uuid (''/workspace'' @ path) w)"

definition env_handleEnvMessage ::
  "'y ylib \<Rightarrow> wsnode \<Rightarrow> bool \<Rightarrow> string \<Rightarrow> string \<Rightarrow> in_message \<Rightarrow> ('y, 'a) env_scheme \<Rightarrow>
   unit result \<times> ('y, 'a) env_scheme" where
  "env_handleEnvMessage L N dev uid sessionId msg w =
     (if in_action (im_payload msg) \<in> set env_stickyActions then (Inr (), w)
      else
        (case im_payload msg of
           Ssh_request uuid privateKey clientId \<Rightarrow> handleSSHConnection dev uid uuid privateKey w
         | Fs_open uuid path \<Rightarrow> (Inr (), handleOpen L N uid sessionId uuid path (im_correlationId msg) w)
         | Fs_close uuid path ino \<Rightarrow> (Inr (), handleClose L uid sessionId uuid path ino w)
         | _ \<Rightarrow> (Inr (), w)))"

definition runCommand ::
  "wsnode \<Rightarrow> string \<Rightarrow> string \<Rightarrow> string \<Rightarrow> string \<Rightarrow> string \<Rightarrow> string option \<Rightarrow> 'a net_scheme \<Rightarrow> unit result \<times> 'a net_scheme" where
  "runCommand N uid sessionId uuid command ctx correlationId w =
     (let w1 = emit w [Pod_command uuid command ctx]
      in case nd_command N uuid command ctx of
           None \<Rightarrow> (Inl (LibErr ''fetch failed''), w1)
         | Some ok \<Rightarrow>
             (Inr (), if truthy correlationId
                then emit w1 [Socket_send (Some (uid, sessionId)) uid sessionId (js_str correlationId)
                       (if ok then Reply_ok else Reply_error ''UNKNOWN'')]
                else w1))"

text \<open>A message bound to this instance, with the value of the reply. \<^verbatim>\<open>handleSSHClose\<close> is not awaited: its
  promise is the value, and an error in it does not surface.\<close>

definition handleStickyEnvMessage ::
  "'y ylib \<Rightarrow> wsnode \<Rightarrow> string \<Rightarrow> string \<Rightarrow> in_message \<Rightarrow> ('y, 'a) env_scheme \<Rightarrow>
   string option result \<times> ('y, 'a) env_scheme" where
  "handleStickyEnvMessage L N uid sessionId msg w =
     (case im_payload msg of
        Workspace_watch event uuid \<Rightarrow>
          (case handleWatchEvent event uuid w of (Inl e, w1) \<Rightarrow> (Inl e, w1) | (Inr _, w1) \<Rightarrow> (Inr None, w1))
      | Doc_hash uuid ino \<Rightarrow>
          (case doc_at w uuid ino of None \<Rightarrow> (Inr None, w)
           | Some d \<Rightarrow> (let (h, w1) = computeHash L d w in (Inr (Some h), w1)))
      | Ssh_data uuid sshSessionId input \<Rightarrow>
          (case handleSSHData uid uuid sshSessionId input w of (Inl e, w1) \<Rightarrow> (Inl e, w1) | (Inr _, w1) \<Rightarrow> (Inr None, w1))
      | Ssh_close uuid sshSessionId \<Rightarrow> (Inr (Some ''{}''), snd (handleSSHClose uid sessionId uuid sshSessionId w))
      | Fs_sync uuid ino buf \<Rightarrow> (Inr None, handleSync L uid sessionId uuid ino buf w)
      | Fs_open_ack uuid ino \<Rightarrow> (Inr None, handleOpenAck L uid sessionId uuid ino w)
      | Fs_conflict_resolve uuid ino dec \<Rightarrow> (Inr None, handleConflictResolve L N uid sessionId uuid ino dec w)
      | Ws_run uuid command ctx \<Rightarrow>
          (case runCommand N uid sessionId uuid command ctx (im_correlationId msg) w of
             (Inl e, w1) \<Rightarrow> (Inl e, w1) | (Inr _, w1) \<Rightarrow> (Inr None, w1))
      | _ \<Rightarrow> (Inr None, w))"

section \<open>Dispatch\<close>

definition channels :: "('y, 'a) env_scheme \<Rightarrow> string list" where
  "channels w = [''env.'' @ ev_id w, ''env.'' @ ev_id w @ ''.health'', ''env.'' @ ev_id w @ ''.openfile'',
     ''env.'' @ ev_id w @ ''.closefile'']"

text \<open>The data of a message on a channel of an instance: a health check, the two requests of another
  instance, or a message with the user and session of its meta data.\<close>

datatype env_event =
    Evt_health
  | Evt_openfile string string string string StatDTO "string option"
  | Evt_closefile string string string int
  | Evt_message "string option" "string option" in_message

definition sticky_ids :: "string option \<Rightarrow> string option \<Rightarrow> in_payload \<Rightarrow> string option \<times> string option" where
  "sticky_ids uid sessionId p =
     (if in_action p = ''workspace.watch'' \<or> in_action p = ''doc.hash'' then (Some ''#'', Some ''#'') else (uid, sessionId))"

definition onMessage ::
  "'y ylib \<Rightarrow> wsnode \<Rightarrow> string \<Rightarrow> env_event \<Rightarrow> ('y, 'a) env_scheme \<Rightarrow> ('y, 'a) env_scheme" where
  "onMessage L N chan ev w =
     (if chan \<notin> set (channels w) then w
      else if suffix ''.health'' chan then emit w [Redis_reply (chan @ ''.reply'') ''{}'']
      else if suffix ''.openfile'' chan then
        (case ev of Evt_openfile uid sessionId uuid path stat correlationId \<Rightarrow>
           openFile L N uid sessionId uuid path stat correlationId w | _ \<Rightarrow> w)
      else if suffix ''.closefile'' chan then
        (case ev of Evt_closefile uid sessionId uuid ino \<Rightarrow> closeFile L uid sessionId uuid ino w | _ \<Rightarrow> w)
      else
        (case ev of
           Evt_message uid0 sessionId0 msg \<Rightarrow>
             (case sticky_ids uid0 sessionId0 (im_payload msg) of
                (uid, sessionId) \<Rightarrow>
                  if \<not> truthy uid \<or> \<not> truthy sessionId then w
                  else
                    (case handleStickyEnvMessage L N (js_str uid) (js_str sessionId) msg w of
                       (Inr v, w1) \<Rightarrow> if truthy v then emit w1 [Redis_reply (chan @ ''.reply'') (js_str v)] else w1
                     | (Inl e, w1) \<Rightarrow> w1))
         | _ \<Rightarrow> w))"

text \<open>The payload of \<^verbatim>\<open>env.internal\<close>; every field may be missing.\<close>

definition handleEnvInternalMessage ::
  "wsnode \<Rightarrow> bool \<Rightarrow> string \<Rightarrow> string option \<Rightarrow> string option \<Rightarrow> string option \<Rightarrow> ('y, 'a) env_scheme \<Rightarrow>
   unit result \<times> ('y, 'a) env_scheme" where
  "handleEnvInternalMessage N lock reqAction uuid uid sessionId w =
     (if reqAction \<noteq> ''affinity'' then (Inr (), w)
      else if \<not> truthy uuid \<or> \<not> truthy uid \<or> \<not> truthy sessionId then (Inr (), w)
      else
        (case handleEnvReady N lock (js_str uid) (js_str uuid) (js_str sessionId) w of
           (Inl e, w1) \<Rightarrow> (Inl e, w1)
         | (Inr _, w1) \<Rightarrow>
             (Inr (), emit w1 [Socket_send (Some (js_str uid, js_str sessionId)) (js_str uid) (js_str sessionId)
                ''provision'' (Provision_ready ''Ready'')])))"

datatype env_request = Req_open string string | Req_close string | Req_message in_message
datatype env_reply = Rep_wait bool | Rep_ok bool | Rep_none

text \<open>The exception for the caller: one without a status code is answered with 400; the text of a
  type error is not modelled.\<close>

definition rpc_exception :: "err \<Rightarrow> err" where
  "rpc_exception e = (case e of
     RpcErr c m \<Rightarrow> RpcErr (if c \<noteq> 0 then c else 400) m | LibErr m \<Rightarrow> RpcErr 400 m | _ \<Rightarrow> RpcErr 400 ''TypeError'')"

definition core_handleEnvMessage ::
  "'y ylib \<Rightarrow> wsnode \<Rightarrow> bool \<Rightarrow> (string \<times> bool) option \<Rightarrow> bool option \<Rightarrow> bool \<Rightarrow> int \<Rightarrow> string option \<Rightarrow> string option \<Rightarrow>
   env_request \<Rightarrow> ('y, 'a) env_scheme \<Rightarrow> env_reply result \<times> ('y, 'a) env_scheme" where
  "core_handleEnvMessage L N dev member provision lock wsActivityTimeout uid sessionId req w =
     (case req of
        Req_open uuid sid \<Rightarrow>
          if \<not> truthy uid then (Inl (RpcErr 400 ''WORKSPACE_OPEN_INVALID_REQUEST''), w)
          else (case handleEnvOpen member provision N lock (js_str uid) uuid sid w of
                  (Inl e, w1) \<Rightarrow> (Inl (rpc_exception e), w1) | (Inr wait, w1) \<Rightarrow> (Inr (Rep_wait wait), w1))
      | Req_close uuid \<Rightarrow>
          if \<not> truthy uid then (Inr (Rep_ok False), w)
          else (Inr (Rep_ok True), handleEnvClose member lock wsActivityTimeout (js_str uid) uuid w)
      | Req_message msg \<Rightarrow>
          if \<not> truthy uid \<or> \<not> truthy sessionId then (Inr Rep_none, w)
          else (case env_handleEnvMessage L N dev (js_str uid) (js_str sessionId) msg w of
                  (Inl e, w1) \<Rightarrow> (Inl e, w1) | (Inr _, w1) \<Rightarrow> (Inr Rep_none, w1)))"

section \<open>Timers\<close>

text \<open>A timer runs once; a timer of a workspace entry processes whatever entry the workspace has then.\<close>

definition fire ::
  "'y ylib \<Rightarrow> wsnode \<Rightarrow> (string list \<Rightarrow> string) \<Rightarrow> timer \<Rightarrow> ('y, 'a) env_scheme \<Rightarrow> unit result \<times> ('y, 'a) env_scheme" where
  "fire L N pick t w =
     (let w1 = w\<lparr>ev_timers := ob_del (ev_timers w) t\<rparr>
      in case t of
           T_flush d \<Rightarrow> (Inr (), flush L N d w1)
         | T_process pid uuid \<Rightarrow> fs_process L N pick uuid w1
         | T_cooldown pid uuid path \<Rightarrow> cooldown pid uuid path w1)"

end
