(* ===== verification/Env_Service.thy ===== *)
theory Env_Service
  imports Env_Workspace
begin

text \<open>
  The env service as a whole: its steps as a transition relation, the invariant of its open documents, and
  the properties of editing, conflicts and file events.
\<close>

section \<open>Steps\<close>

text \<open>Every handler with any replies, the callbacks of the SSH library, the timers that are due, the passing
  of time, and what other services do to the shared cache.\<close>

inductive env_step :: "'y ylib \<Rightarrow> ('y, 'a) env_scheme \<Rightarrow> ('y, 'a) env_scheme \<Rightarrow> bool" for L where
  request: "core_handleEnvMessage L N dev member provision lock t uid sid req w = (r, w') \<Longrightarrow> env_step L w w'"
| affinity: "handleEnvInternalMessage N lock act uuid uid sid w = (r, w') \<Longrightarrow> env_step L w w'"
| channel: "w' = onMessage L N chan ev w \<Longrightarrow> env_step L w w'"
| ready: "conn_ready c uid sid uuid w = (r, w') \<Longrightarrow> env_step L w w'"
| failed: "w' = conn_error uid sid w \<Longrightarrow> env_step L w w'"
| closed: "conn_close uid sid uuid w = (r, w') \<Longrightarrow> env_step L w w'"
| shell: "shell_opened stream uid sid uuid client w = (r, w') \<Longrightarrow> env_step L w w'"
| printed: "w' = stream_data uid sid ssh bs w \<Longrightarrow> env_step L w w'"
| ended: "w' = stream_close uid sid ssh w \<Longrightarrow> env_step L w w'"
| timer: "\<lbrakk>ob_get (ev_timers w) tm = Some at; at \<le> clock w; fire L N pick tm w = (r, w')\<rbrakk> \<Longrightarrow> env_step L w w'"
| other: "w' = w\<lparr>cache := c\<rparr> \<Longrightarrow> env_step L w w'"
| tick: "clock w \<le> t \<Longrightarrow> w' = w\<lparr>clock := t\<rparr> \<Longrightarrow> env_step L w w'"

section \<open>Open documents\<close>

text \<open>Every open document is an object of the workspace and file it is filed under; objects and timers are
  below the counter of objects; every open document but those in \<open>X\<close> has a user.\<close>

definition docs_inv :: "nat set \<Rightarrow> ('y, 'a) env_scheme \<Rightarrow> bool" where
  "docs_inv X w \<longleftrightarrow>
     (\<forall>uuid ino d. doc_at w uuid ino = Some d \<longrightarrow>
        (\<exists>doc. ob_get (ev_heap w) d = Some doc \<and> dc_uuid doc = uuid \<and> dc_ino doc = ino \<and>
           (d \<in> X \<or> dc_users doc \<noteq> []))) \<and>
     (\<forall>d. ob_get (ev_heap w) d \<noteq> None \<longrightarrow> d < ev_next w) \<and>
     (\<forall>d. ob_get (ev_timers w) (T_flush d) \<noteq> None \<longrightarrow> ob_get (ev_heap w) d \<noteq> None)"

lemma docs_invD:
  assumes "docs_inv X w" "doc_at w uuid ino = Some d"
  obtains doc where "ob_get (ev_heap w) d = Some doc" "dc_uuid doc = uuid" "dc_ino doc = ino" "d \<in> X \<or> dc_users doc \<noteq> []"
  using assms unfolding docs_inv_def by blast

lemma docs_invI:
  assumes "\<And>uuid ino d. doc_at w uuid ino = Some d \<Longrightarrow>
      \<exists>doc. ob_get (ev_heap w) d = Some doc \<and> dc_uuid doc = uuid \<and> dc_ino doc = ino \<and> (d \<in> X \<or> dc_users doc \<noteq> [])"
    "\<And>d. ob_get (ev_heap w) d \<noteq> None \<Longrightarrow> d < ev_next w"
    "\<And>d. ob_get (ev_timers w) (T_flush d) \<noteq> None \<Longrightarrow> ob_get (ev_heap w) d \<noteq> None"
  shows "docs_inv X w"
  using assms unfolding docs_inv_def by blast

lemma docs_inv_rest:
  assumes "docs_inv X w"
  shows "ob_get (ev_heap w) d \<noteq> None \<Longrightarrow> d < ev_next w"
    "ob_get (ev_timers w) (T_flush d) \<noteq> None \<Longrightarrow> ob_get (ev_heap w) d \<noteq> None"
  using assms unfolding docs_inv_def by blast+

lemma docs_inv_mono: "docs_inv X w \<Longrightarrow> X \<subseteq> Y \<Longrightarrow> docs_inv Y w"
  unfolding docs_inv_def by blast

text \<open>A change that opens and closes no document.\<close>

definition doc_like :: "'y WSSharedDoc \<Rightarrow> 'y WSSharedDoc \<Rightarrow> bool" where
  "doc_like doc doc' \<longleftrightarrow> dc_uuid doc' = dc_uuid doc \<and> dc_ino doc' = dc_ino doc \<and> dc_path doc' = dc_path doc \<and>
     (dc_users doc' = [] \<longleftrightarrow> dc_users doc = [])"

definition mild :: "('y, 'a) env_scheme \<Rightarrow> ('y, 'a) env_scheme \<Rightarrow> bool" where
  "mild w w' \<longleftrightarrow> ev_docs w' = ev_docs w \<and> (\<forall>d. rel_option doc_like (ob_get (ev_heap w) d) (ob_get (ev_heap w') d)) \<and>
     ev_next w \<le> ev_next w' \<and>
     (\<forall>d. ob_get (ev_timers w') (T_flush d) \<noteq> None \<longrightarrow>
        ob_get (ev_timers w) (T_flush d) \<noteq> None \<or> ob_get (ev_heap w) d \<noteq> None)"

named_theorems milds

lemma doc_like_refl [simp]: "doc_like doc doc"
  by (simp add: doc_like_def)

lemma doc_like_trans: "doc_like a b \<Longrightarrow> doc_like b c \<Longrightarrow> doc_like a c"
  by (simp add: doc_like_def)

lemma mild_heap:
  assumes "mild w w'"
  shows "ob_get (ev_heap w') d = None \<longleftrightarrow> ob_get (ev_heap w) d = None"
    "ob_get (ev_heap w) d = Some doc \<Longrightarrow> \<exists>doc'. ob_get (ev_heap w') d = Some doc' \<and> doc_like doc doc'"
proof -
  have r: "rel_option doc_like (ob_get (ev_heap w) d) (ob_get (ev_heap w') d)" using assms unfolding mild_def by blast
  show "ob_get (ev_heap w') d = None \<longleftrightarrow> ob_get (ev_heap w) d = None"
    using r by (cases "ob_get (ev_heap w) d"; cases "ob_get (ev_heap w') d") simp_all
  show "ob_get (ev_heap w) d = Some doc \<Longrightarrow> \<exists>doc'. ob_get (ev_heap w') d = Some doc' \<and> doc_like doc doc'"
    using r by (cases "ob_get (ev_heap w') d") simp_all
qed

lemma mild_rest:
  assumes "mild w w'"
  shows "ev_docs w' = ev_docs w" "doc_at w' = doc_at w" "ev_next w \<le> ev_next w'"
    "ob_get (ev_timers w') (T_flush d) \<noteq> None \<Longrightarrow> ob_get (ev_timers w) (T_flush d) \<noteq> None \<or> ob_get (ev_heap w) d \<noteq> None"
  using assms unfolding mild_def by (simp_all add: fun_eq_iff doc_at_def)

lemma mild_refl [simp, intro]: "mild w w"
  by (simp add: mild_def option.rel_refl)

lemma mild_trans:
  assumes "mild u v" "mild v w"
  shows "mild u w"
  unfolding mild_def
proof (intro conjI allI impI)
  show "ev_docs w = ev_docs u" "ev_next u \<le> ev_next w"
    using mild_rest(1,3) [OF assms(1)] mild_rest(1,3) [OF assms(2)] by simp_all
next
  fix d
  have "rel_option doc_like (ob_get (ev_heap u) d) (ob_get (ev_heap v) d)"
    "rel_option doc_like (ob_get (ev_heap v) d) (ob_get (ev_heap w) d)" using assms unfolding mild_def by blast+
  then show "rel_option doc_like (ob_get (ev_heap u) d) (ob_get (ev_heap w) d)"
    by (cases "ob_get (ev_heap u) d"; cases "ob_get (ev_heap v) d"; cases "ob_get (ev_heap w) d")
      (auto intro: doc_like_trans)
next
  fix d assume "ob_get (ev_timers w) (T_flush d) \<noteq> None"
  then show "ob_get (ev_timers u) (T_flush d) \<noteq> None \<or> ob_get (ev_heap u) d \<noteq> None"
    using mild_rest(4) [OF assms(2)] mild_rest(4) [OF assms(1)] mild_heap(1) [OF assms(1), of d] by blast
qed

lemma mild_inv:
  assumes "docs_inv X w" "mild w w'"
  shows "docs_inv X w'"
proof (rule docs_invI)
  fix uuid ino d assume "doc_at w' uuid ino = Some d"
  then have "doc_at w uuid ino = Some d" by (simp add: mild_rest(2) [OF assms(2)])
  then obtain doc where doc: "ob_get (ev_heap w) d = Some doc" "dc_uuid doc = uuid" "dc_ino doc = ino"
      "d \<in> X \<or> dc_users doc \<noteq> []" by (rule docs_invD [OF assms(1)])
  from mild_heap(2) [OF assms(2) doc(1)] obtain doc' where "ob_get (ev_heap w') d = Some doc'" "doc_like doc doc'" by blast
  with doc(2-4) show "\<exists>doc. ob_get (ev_heap w') d = Some doc \<and> dc_uuid doc = uuid \<and> dc_ino doc = ino \<and>
      (d \<in> X \<or> dc_users doc \<noteq> [])" by (simp add: doc_like_def)
next
  fix d assume "ob_get (ev_heap w') d \<noteq> None"
  then have "ob_get (ev_heap w) d \<noteq> None" using mild_heap(1) [OF assms(2), of d] by simp
  from docs_inv_rest(1) [OF assms(1) this] mild_rest(3) [OF assms(2)] show "d < ev_next w'" by (rule order_less_le_trans)
next
  fix d assume "ob_get (ev_timers w') (T_flush d) \<noteq> None"
  then have "ob_get (ev_heap w) d \<noteq> None"
    using mild_rest(4) [OF assms(2), of d] docs_inv_rest(2) [OF assms(1), of d] by blast
  then show "ob_get (ev_heap w') d \<noteq> None" using mild_heap(1) [OF assms(2), of d] by simp
qed

lemma more_mild: "net.more w' = net.more w \<Longrightarrow> mild w w'" for w w' :: "('y, 'a) env_scheme"
  by (cases w, cases w') (simp add: mild_def option.rel_refl)

lemma mild_emit [milds]: "mild w (emit w es)"
  by (rule more_mild) (simp add: frame_simps)

lemma mild_cache [milds]:
  "mild w (cache_set w k v t)" "mild w (cache_del w k)" "mild w (set_workspace w x d)" "mild w (set_presence w u p)"
  by (rule more_mild; simp add: frame_simps set_workspace_def set_presence_def)+

lemmas mild_via = mild_trans [OF _ mild_emit] mild_trans [OF _ mild_cache(1)] mild_trans [OF _ mild_cache(2)]
  mild_trans [OF _ mild_cache(3)] mild_trans [OF _ mild_cache(4)]

lemma mild_fold: "(\<And>x w. mild w (f x w)) \<Longrightarrow> mild w (fold f xs w)"
  by (induction xs arbitrary: w) (auto intro: mild_trans)

section \<open>Operations that open and close nothing\<close>

lemma mild_messages [milds]:
  "mild w (sync_send u x ino buf so w)" "mild w (to_active x us m w)" "mild w (sync_broadcast doc buf w)"
  "mild w (sendFileMovedOrDeleted us x ino w)" "mild w (sendConflictResolved x us ino w)"
  "mild w (sync_sendError u s code c w)" "mild w (sync_sendSuccess u s c b res w)" "mild w (sendFSLoss u s ino w)"
  "mild w (conflict_to x ino us res w)" "mild w (sync_sendConflict doc w)" "mild w (setFileContent doc content w)"
  unfolding sync_send_def to_active_def sync_broadcast_def sendFileMovedOrDeleted_def sendConflictResolved_def
    sync_sendError_def sync_sendSuccess_def sendFSLoss_def conflict_to_def sync_sendConflict_def setFileContent_def Let_def
  by (auto intro: milds)

lemma upd_doc_heap:
  "ob_get (ev_heap (upd_doc d f w)) d' = (if d' = d then map_option f (ob_get (ev_heap w) d) else ob_get (ev_heap w) d')"
  by (simp add: upd_doc_def split: option.split)

lemma upd_doc_frame [simp]:
  "ev_docs (upd_doc d f w) = ev_docs w" "ev_next (upd_doc d f w) = ev_next w" "ev_timers (upd_doc d f w) = ev_timers w"
  "cache (upd_doc d f w) = cache w" "clock (upd_doc d f w) = clock w" "out (upd_doc d f w) = out w"
  "ev_id (upd_doc d f w) = ev_id w" "ev_paths (upd_doc d f w) = ev_paths w"
  by (simp_all add: upd_doc_def split: option.split)

lemma mild_upd_doc:
  "(\<And>doc. ob_get (ev_heap w) d = Some doc \<Longrightarrow> doc_like doc (f doc)) \<Longrightarrow> mild w (upd_doc d f w)"
  unfolding mild_def upd_doc_heap by (auto simp: option.rel_refl split: option.split) (simp add: option.rel_map rel_option_iff split: option.split)

lemma mild_timer:
  "(\<And>d. t = T_flush d \<Longrightarrow> ob_get (ev_heap w) d \<noteq> None) \<Longrightarrow> mild w (set_timer t wait w)"
  by (auto simp: mild_def set_timer_def option.rel_refl)

lemma mild_computeHash [milds]: "mild w (snd (computeHash L d w))"
  by (auto simp: computeHash_def Let_def doc_like_def intro!: mild_upd_doc)

lemma ob_set_not_Nil [simp]: "ob_set xs k v \<noteq> []"
proof
  assume "ob_set xs k v = []"
  then have "ob_get (ob_set xs k v) k = None" by simp
  then show False by (simp only: ob_get_set) simp
qed

lemma mild_trackClients [milds]: "mild w (trackClients d up uid w)"
proof -
  let ?f = "\<lambda>u ids doc. doc\<lparr>dc_users := ob_set (dc_users doc) u (filter (\<lambda>c. c \<notin> set (aw_removed up)) (js_set (ids @ aw_added up)))\<rparr>"
  have "mild w (upd_doc d (?f u ids) w)" if "ob_get (dc_users (the_doc w d)) u = Some ids" for u ids
  proof (rule mild_upd_doc)
    fix doc assume "ob_get (ev_heap w) d = Some doc"
    with that have "ob_get (dc_users doc) u \<noteq> None" by (simp add: the_doc_def)
    then have "dc_users doc \<noteq> []" by auto
    then show "doc_like doc (?f u ids doc)" by (simp add: doc_like_def)
  qed
  then show ?thesis unfolding trackClients_def by (auto split: option.split)
qed

lemma mild_awarenessChangeHandler [milds]: "mild w (awarenessChangeHandler L d up uid w)"
proof -
  have m: "mild w (sync_broadcast doc buf (trackClients d up uid w))" for doc buf
    by (rule mild_trans [OF mild_trackClients mild_messages(3)])
  show ?thesis
    unfolding awarenessChangeHandler_def Let_def
    by (simp only: m mild_trans [OF m mild_messages(10)] split: if_split) simp
qed

lemma mild_updateHandler:
  "ob_get (ev_heap w) d \<noteq> None \<Longrightarrow> mild w (updateHandler L d update w)"
  unfolding updateHandler_def
  by (rule mild_trans [OF mild_messages(3) mild_timer]) (simp add: mild_heap(1) [OF mild_messages(3)])

lemma mild_y_changed:
  assumes "ob_get (ev_heap w) d \<noteq> None"
  shows "mild w (y_changed L d r w)"
proof -
  let ?w1 = "upd_doc d (\<lambda>doc. doc\<lparr>dc_y := fst r\<rparr>) w"
  have m: "mild w ?w1" by (rule mild_upd_doc) (simp add: doc_like_def)
  have "mild ?w1 (updateHandler L d u ?w1)" for u
    by (rule mild_updateHandler) (use assms mild_heap(1) [OF m] in simp)
  then show ?thesis using m by (auto simp: y_changed_def Let_def split: option.split intro: mild_trans)
qed

lemma mild_aw_changed [milds]: "mild w (aw_changed L d r uid w)"
proof -
  have m: "mild w (upd_doc d (\<lambda>doc. doc\<lparr>dc_y := fst r\<rparr>) w)" by (rule mild_upd_doc) (simp add: doc_like_def)
  then show ?thesis
    by (auto simp: aw_changed_def Let_def split: option.split intro: mild_trans mild_awarenessChangeHandler)
qed

lemma mild_doc_destroy [milds]: "mild w (doc_destroy L d w)"
  unfolding doc_destroy_def by (rule mild_awarenessChangeHandler)

lemma mild_loadFileContent:
  "ob_get (ev_heap w) d \<noteq> None \<Longrightarrow> mild w (snd (loadFileContent L N d b w))"
  by (auto simp: loadFileContent_def Let_def mild_y_changed split: option.split)

lemma mild_sync_updateCache [milds]: "mild w (sync_updateCache x ino add w)"
  by (auto simp: sync_updateCache_def split: option.split intro: milds)

lemma mild_handleSync:
  assumes "docs_inv X w"
  shows "mild w (handleSync L u s x ino buf w)"
proof (cases "doc_at w x ino")
  case (Some d)
  then have h: "ob_get (ev_heap w) d \<noteq> None" using docs_invD [OF assms] by (metis option.distinct(1))
  then show ?thesis
    using Some by (auto simp: handleSync_def Let_def split: option.split prod.split
        intro: mild_y_changed mild_trans [OF mild_y_changed] milds)
qed (simp add: handleSync_def)

lemma mild_flush: "mild w (flush L N d w)"
proof -
  have m: "mild w (upd_doc d (\<lambda>doc. doc\<lparr>dc_isDisplaced := True\<rparr>) w)" by (rule mild_upd_doc) (simp add: doc_like_def)
  show ?thesis
    unfolding flush_def Let_def
    by (simp only: mild_refl mild_messages(11) mild_trans [OF m mild_messages(4)] split: if_split) simp
qed

lemma mild_handleOpenAck [milds]: "mild w (handleOpenAck L u s x ino w)"
  by (auto simp: handleOpenAck_def Let_def split: option.split intro: milds mild_trans [OF mild_messages(1)])

lemma mild_handleConflictResolve:
  assumes "docs_inv X w"
  shows "mild w (handleConflictResolve L N u s x ino dec w)"
proof (cases "doc_at w x ino")
  case (Some d)
  then have h: "ob_get (ev_heap w) d \<noteq> None" using docs_invD [OF assms] by (metis option.distinct(1))
  let ?w1 = "if dec = Keep then setFileContent (the_doc w d) (yl_text L (dc_y (the_doc w d))) w
      else snd (loadFileContent L N d True w)"
  let ?w2 = "upd_doc d (\<lambda>doc. doc\<lparr>dc_isConflicting := False, dc_conflictResolver := ''''\<rparr>) ?w1"
  have "mild w ?w1" by (simp add: mild_loadFileContent [OF h] mild_messages(11))
  moreover have "mild ?w1 ?w2" by (rule mild_upd_doc) (simp add: doc_like_def)
  ultimately have "mild w ?w2" by (rule mild_trans)
  then show ?thesis
    unfolding handleConflictResolve_def Let_def using Some by (simp add: mild_trans [OF _ mild_messages(5)])
qed (simp add: handleConflictResolve_def milds)

lemma mild_files [milds]:
  "mild w (fs_updateCache u x path add w)" "mild w (fs_sendSuccess u s es c w)" "mild w (fs_sendError u s code c w)"
  unfolding fs_updateCache_def fs_sendSuccess_def fs_sendError_def Let_def
  by (auto split: option.split intro: milds mild_trans)

lemma mild_dirs [milds]: "mild w (openDir N u s x path c w)" "mild w (closeDir u x path w)"
  unfolding openDir_def closeDir_def Let_def
  by (auto split: option.split intro: milds mild_trans [OF mild_trans [OF mild_emit mild_files(2)]] mild_trans [OF mild_emit])

lemma mild_closeDirs [milds]: "mild w (snd (closeDirs u x paths ws w))"
  unfolding closeDirs_def
proof (induction paths arbitrary: ws w)
  case (Cons p paths)
  then show ?case
    by (simp add: Let_def) (blast intro: mild_trans mild_emit)
qed simp

lemma mild_signal [milds]: "mild w (snd (signal x path b w))"
  by (auto simp: signal_def split: sum.split intro: milds)

lemma mild_paths [milds]: "mild w (put_burst x path b w)" "mild w (push_event x e w)" "mild w (setWorkspace x w)"
  "mild w (process_end pid x w)"
  by (auto simp: put_burst_def push_event_def setWorkspace_def process_end_def mild_def option.rel_refl split: option.split)

lemma mild_other_timer [milds]: "mild w (set_timer (T_process n x) wait w)" "mild w (set_timer (T_cooldown n x path) wait w)"
  by (rule mild_timer, simp)+

lemma mild_handleWatchEvent [milds]: "mild w (snd (handleWatchEvent e x w))"
proof (cases "ob_get (ev_paths w) x")
  case (Some ps)
  have m: "mild w (snd (if b then signal x p True (put_burst x p st w) else (Inr (), put_burst x p st w)))" for b p st
    by (simp add: mild_trans [OF mild_paths(1) mild_signal] mild_paths(1))
  have t: "mild w (snd (case X of (Inl e, w2) \<Rightarrow> (Inl e, w2)
      | (Inr _, w2) \<Rightarrow> if b then (Inr (), set_timer (T_cooldown n x p) c w2)
          else (Inr (), set_timer (T_process n x) c' (push_event x e w2))))"
    if "mild w (snd X)" for X b n p c c' e
  proof -
    obtain r w2 where X: "X = (r, w2)" by fastforce
    with that have w2: "mild w w2" by simp
    show ?thesis
      using w2 mild_trans [OF w2 mild_other_timer(2)] mild_trans [OF mild_trans [OF w2 mild_paths(2)] mild_other_timer(1)]
      unfolding X by (simp split: sum.split)
  qed
  show ?thesis
    using Some by (simp only: handleWatchEvent_def Let_def option.case) (rule t [OF m])
qed (simp add: handleWatchEvent_def)

lemma mild_cooldown [milds]: "mild w (snd (cooldown pid x path w))"
  unfolding cooldown_def Let_def
  by (rule mild_trans [OF _ mild_signal]) (auto split: option.split intro: milds)

lemma mild_getDocHash [milds]: "mild w (snd (getDocHash L N x ino d w))"
  by (auto simp: getDocHash_def Let_def split_beta split: option.split intro: milds)

lemma mild_check_event [milds]: "mild w (snd (check_event L N pick x d e w))"
proof -
  obtain r w1 where g: "getDocHash L N x (fe_ino e) d w = (r, w1)" by fastforce
  then have m: "mild w w1" using mild_getDocHash [of w L N x "fe_ino e" d] by simp
  have "mild w1 (upd_doc n (\<lambda>doc. doc\<lparr>dc_isConflicting := True, dc_conflictResolver := res\<rparr>) w1)" for n res
    by (rule mild_upd_doc) (simp add: doc_like_def)
  from mild_trans [OF mild_trans [OF m this] mild_messages(9)] m g show ?thesis
    by (cases r) (simp_all add: check_event_def Let_def split: option.split)
qed

lemma mild_sync_events [milds]: "mild w (snd (sync_events L N pick x d es bs w))"
proof (induction es arbitrary: bs w)
  case (Cons e es)
  obtain r w1 where c: "check_event L N pick x d e w = (r, w1)" by fastforce
  then have "mild w w1" using mild_check_event [of w L N pick x d e] by simp
  with c Cons.IH show ?case by (cases r) (auto intro: mild_trans)
qed simp

lemma mild_fs_sync [milds]: "mild w (snd (fs_sync L N pick x es w))"
proof (cases "get_workspace w x")
  case (Some d)
  obtain r w1 where c: "sync_events L N pick x d es [] w = (r, w1)" by fastforce
  then have "mild w w1" using mild_sync_events [of w L N pick x d es "[]"] by simp
  with c Some mild_trans [OF this mild_emit] show ?thesis by (cases r) (simp_all add: fs_sync_def)
qed (simp add: fs_sync_def)

lemma mild_fs_process [milds]: "mild w (snd (fs_process L N pick x w))"
proof (cases "ob_get (ev_paths w) x")
  case (Some ps)
  obtain r w1 where c: "process_start L N pick x w = (r, w1)" by fastforce
  then have "mild w w1" using mild_fs_sync [of w L N pick x "ps_batch ps"] Some by (simp add: process_start_def)
  with c Some mild_trans [OF this mild_paths(4)] show ?thesis by (cases r) (simp_all add: fs_process_def)
qed (simp add: fs_process_def)

lemma mild_conns: "mild w (w\<lparr>ev_conns := c\<rparr>)"
  by (simp add: mild_def option.rel_refl)

lemma mild_ssh_session [milds]: "mild w (snd (handleNewSSHSession u x w))"
  by (auto simp: handleNewSSHSession_def split: option.split intro: milds)

lemma mild_updateConnCache [milds]: "mild w (snd (updateConnCache s x add w))"
  by (auto simp: updateConnCache_def split: option.split intro: milds mild_trans [OF mild_cache(3) mild_ssh_session])

lemma mild_handleSSHConnection [milds]: "mild w (snd (handleSSHConnection dev u x key w))"
proof -
  let ?w1 = "if ob_get (ev_conns w) u = None then w\<lparr>ev_conns := ob_set (ev_conns w) u []\<rparr> else w"
  have m: "mild w ?w1" by (simp add: mild_conns)
  have "mild v (v\<lparr>ev_next := Suc (ev_next v)\<rparr>)" for v :: "('a, 'b) env_scheme" by (simp add: mild_def option.rel_refl)
  then have "mild ?w1 (handleNewSSHConnection dev x key ?w1)"
    unfolding handleNewSSHConnection_def by (rule mild_trans [OF _ mild_emit])
  from mild_trans [OF m this] mild_trans [OF m mild_ssh_session] show ?thesis
    unfolding handleSSHConnection_def Let_def by simp
qed

lemma mild_handleSSHData [milds]: "mild w (snd (handleSSHData u x ssh inp w))"
  by (auto simp: handleSSHData_def split: option.split intro: milds)

lemma mild_handleSSHClose [milds]: "mild w (snd (handleSSHClose u s x ssh w))"
proof -
  define w1 where "w1 = (case ssh_at w u x of None \<Rightarrow> w
    | Some c \<Rightarrow> emit w (map Ssh_stream_close (map snd (sc_sessions c)) @ [Ssh_end (sc_conn c)]))"
  define w2 where "w2 = (case ssh_at w u x of None \<Rightarrow> w
    | Some c \<Rightarrow> (case ob_get (sc_sessions c) ssh of None \<Rightarrow> w | Some stream \<Rightarrow> emit w [Ssh_stream_close stream]))"
  have m: "mild w w1" "mild w w2" by (simp_all add: w1_def w2_def mild_emit split: option.split)
  show ?thesis
    unfolding handleSSHClose_def Let_def w1_def [symmetric] w2_def [symmetric]
    using m mild_trans [OF m(1) mild_updateConnCache] mild_trans [OF m(2) mild_updateConnCache]
    by (simp split: option.split)
qed

lemma mild_callbacks [milds]:
  "mild w (snd (conn_ready c u s x w))" "mild w (snd (conn_close u s x w))" "mild w (conn_error u s w)"
  "mild w (stream_data u s ssh bs w)" "mild w (stream_close u s ssh w)"
  unfolding conn_ready_def conn_close_def conn_error_def stream_data_def stream_close_def Let_def
  by (auto split: option.split intro: milds mild_trans [OF mild_conns mild_updateConnCache])

lemma mild_shell_opened [milds]: "mild w (snd (shell_opened stream u s x client w))"
proof (cases stream)
  case None
  show ?thesis unfolding None shell_opened_def option.case by (rule mild_trans [OF mild_emit mild_handleSSHClose])
next
  case (Some n)
  have "mild w (snd (randomUUID w))" by (simp add: randomUUID_def mild_def option.rel_refl)
  from this mild_trans [OF mild_trans [OF this mild_conns] mild_emit] show ?thesis
    by (simp add: Some shell_opened_def split_beta split: option.split)
qed

section \<open>Opening and closing\<close>

lemma mild_invalidatePreviousSessions [milds]: "mild w (invalidatePreviousSessions u x w)"
proof (cases "get_presence w u")
  case (Some p)
  define w2 where "w2 = set_presence (fold (\<lambda>(sid, s) w. cache_del w (CACHEKEY_PRESENCE_WORKSPACE u sid x))
      (filter (\<lambda>(sid, s). cs_wsUuid s = Some x) p) w) u
      (map (\<lambda>(sid, s). (sid, if cs_wsUuid s = Some x then s\<lparr>cs_wsUuid := None\<rparr> else s)) p)"
  have "mild w (fold (\<lambda>(sid, s) w. cache_del w (CACHEKEY_PRESENCE_WORKSPACE u sid x)) ps w)" for ps
    by (rule mild_fold) (auto intro: milds)
  then have m: "mild w w2" unfolding w2_def by (rule mild_via(5))
  show ?thesis
    unfolding invalidatePreviousSessions_def Some option.case Let_def w2_def [symmetric]
    using m mild_trans [OF mild_trans [OF m mild_closeDirs] mild_cache(3)]
    by (simp split: option.split add: split_beta)
qed (simp add: invalidatePreviousSessions_def)

lemma mild_claim_workspace [milds]: "mild w (snd (claim_workspace N x w))"
  by (auto simp: claim_workspace_def Let_def split: option.split intro: mild_trans [OF mild_paths(3) mild_cache(3)])

lemma mild_handleEnvReady [milds]: "mild w (snd (handleEnvReady N lock u x s w))"
proof -
  obtain r w1 where c: "claim_workspace N x (invalidatePreviousSessions u x w) = (r, w1)" by fastforce
  then have m: "mild w w1"
    using mild_trans [OF mild_invalidatePreviousSessions mild_claim_workspace, of w N x u x] by simp
  have m2: "mild w (cache_set (set_presence w1 u p) k v t)" "mild w (cache_set w1 k v t)" for p k v t
    using mild_via(2) [OF mild_via(5) [OF m]] mild_via(2) [OF m] by simp_all
  show ?thesis
    unfolding handleEnvReady_def c using m m2 by (cases r) (simp_all split: option.split)
qed

lemma mild_handleEnvOpen [milds]: "mild w (snd (handleEnvOpen member prov N lock u x s w))"
proof -
  have "mild w (snd (handleEnvReady N lock u x s (emit w es)))" for es by (rule mild_trans [OF mild_emit mild_handleEnvReady])
  then have r: "handleEnvReady N lock u x s (emit w es) = (r, w2) \<Longrightarrow> mild w w2" for es r w2 by (metis snd_conv)
  show ?thesis
    unfolding handleEnvOpen_def Let_def
    by (auto split: option.split sum.split prod.split intro: milds dest: r)
qed

lemma mild_close_dirs_of [milds]: "mild w (close_dirs_of t u s x d w)"
proof -
  have m: "mild w (fold (\<lambda>dir w. closeDir u x dir w) ds w)" for ds by (rule mild_fold) (rule mild_dirs(2))
  show ?thesis
    unfolding close_dirs_of_def Let_def
    by (auto split: option.split intro: m mild_via(2) [OF mild_via(4) [OF m]])
qed

lemma mild_handleEnvClose [milds]: "mild w (handleEnvClose member lock t u x w)"
proof -
  have m: "mild w (cache_del (set_presence w u p) k)" for p k by (rule mild_via(3) [OF mild_cache(4)])
  show ?thesis
    unfolding handleEnvClose_def Let_def
    by (auto split: option.split
        intro: m mild_trans [OF m] mild_trans [OF mild_handleSSHClose mild_close_dirs_of])
qed

text \<open>A change of the map of documents alone.\<close>

lemma docs_inv_docs:
  assumes "docs_inv X w" "w' = w\<lparr>ev_docs := m\<rparr>"
    "\<And>uuid ino d. doc_at w' uuid ino = Some d \<Longrightarrow> d \<notin> Y \<Longrightarrow> doc_at w uuid ino = Some d \<and> d \<notin> X"
    "\<And>uuid ino d. doc_at w' uuid ino = Some d \<Longrightarrow> d \<in> Y \<Longrightarrow>
       \<exists>doc. ob_get (ev_heap w) d = Some doc \<and> dc_uuid doc = uuid \<and> dc_ino doc = ino"
  shows "docs_inv Y w'"
proof (rule docs_invI)
  fix uuid ino d assume d: "doc_at w' uuid ino = Some d"
  show "\<exists>doc. ob_get (ev_heap w') d = Some doc \<and> dc_uuid doc = uuid \<and> dc_ino doc = ino \<and> (d \<in> Y \<or> dc_users doc \<noteq> [])"
  proof (cases "d \<in> Y")
    case True
    with assms(4) [OF d] show ?thesis by (auto simp: assms(2))
  next
    case False
    from assms(3) [OF d this] have "doc_at w uuid ino = Some d" "d \<notin> X" by auto
    with docs_invD [OF assms(1) this(1)] show ?thesis by (auto simp: assms(2))
  qed
qed (use docs_inv_rest [OF assms(1)] in \<open>simp_all add: assms(2)\<close>)

lemma doc_at_set: "doc_at (w\<lparr>ev_docs := ob_set (ev_docs w) x ds\<rparr>) y i = (if y = x then ob_get ds i else doc_at w y i)"
  by (simp add: doc_at_def)

lemma doc_at_del: "doc_at (w\<lparr>ev_docs := ob_del (ev_docs w) x\<rparr>) y i = (if y = x then None else doc_at w y i)"
  by (simp add: doc_at_def)

lemma docs_inv_del: "docs_inv X w \<Longrightarrow> docs_inv X (w\<lparr>ev_docs := ob_del (ev_docs w) x\<rparr>)"
  unfolding docs_inv_def doc_at_del by (auto split: if_splits)

text \<open>A new object.\<close>

lemma docs_inv_new:
  assumes "docs_inv X w"
  shows "docs_inv X (w\<lparr>ev_next := Suc (ev_next w), ev_heap := ob_set (ev_heap w) (ev_next w) doc\<rparr>)"
proof (rule docs_invI)
  let ?w = "w\<lparr>ev_next := Suc (ev_next w), ev_heap := ob_set (ev_heap w) (ev_next w) doc\<rparr>"
  fix uuid ino d assume "doc_at ?w uuid ino = Some d"
  then have "doc_at w uuid ino = Some d" by (simp add: doc_at_def)
  then obtain doc' where doc': "ob_get (ev_heap w) d = Some doc'" "dc_uuid doc' = uuid" "dc_ino doc' = ino"
      "d \<in> X \<or> dc_users doc' \<noteq> []" by (rule docs_invD [OF assms])
  moreover from docs_inv_rest(1) [OF assms, of d] doc'(1) have "d \<noteq> ev_next w" by simp
  ultimately show "\<exists>doc. ob_get (ev_heap ?w) d = Some doc \<and> dc_uuid doc = uuid \<and> dc_ino doc = ino \<and>
      (d \<in> X \<or> dc_users doc \<noteq> [])" by simp
next
  fix d assume "ob_get (ev_heap (w\<lparr>ev_next := Suc (ev_next w), ev_heap := ob_set (ev_heap w) (ev_next w) doc\<rparr>)) d \<noteq> None"
  then have "d = ev_next w \<or> ob_get (ev_heap w) d \<noteq> None" by (simp split: if_splits)
  with docs_inv_rest(1) [OF assms, of d] show "d < ev_next (w\<lparr>ev_next := Suc (ev_next w), ev_heap := ob_set (ev_heap w) (ev_next w) doc\<rparr>)"
    by auto
qed (use docs_inv_rest(2) [OF assms] in simp)

text \<open>A change of the users of one document.\<close>

lemma docs_inv_upd:
  assumes "docs_inv X w" "\<And>doc. dc_uuid (f doc) = dc_uuid doc" "\<And>doc. dc_ino (f doc) = dc_ino doc"
  shows "docs_inv (insert d X) (upd_doc d f w)"
proof (rule docs_invI)
  fix uuid ino n assume "doc_at (upd_doc d f w) uuid ino = Some n"
  then have "doc_at w uuid ino = Some n" by (simp add: doc_at_def)
  then show "\<exists>doc. ob_get (ev_heap (upd_doc d f w)) n = Some doc \<and> dc_uuid doc = uuid \<and> dc_ino doc = ino \<and>
      (n \<in> insert d X \<or> dc_users doc \<noteq> [])"
    by (rule docs_invD [OF assms(1)]) (auto simp: upd_doc_heap assms(2,3))
next
  fix n assume "ob_get (ev_heap (upd_doc d f w)) n \<noteq> None"
  then have "ob_get (ev_heap w) n \<noteq> None" by (auto simp: upd_doc_heap split: if_splits)
  from docs_inv_rest(1) [OF assms(1) this] show "n < ev_next (upd_doc d f w)" by simp
next
  fix n assume "ob_get (ev_timers (upd_doc d f w)) (T_flush n) \<noteq> None"
  then have "ob_get (ev_heap w) n \<noteq> None" using docs_inv_rest(2) [OF assms(1), of n] by simp
  then show "ob_get (ev_heap (upd_doc d f w)) n \<noteq> None" by (auto simp: upd_doc_heap)
qed

lemma docs_inv_used:
  assumes "docs_inv {d} w" "\<And>doc. ob_get (ev_heap w) d = Some doc \<Longrightarrow> dc_users doc \<noteq> []"
  shows "docs_inv {} w"
proof (rule docs_invI)
  fix uuid ino n assume "doc_at w uuid ino = Some n"
  then obtain doc where doc: "ob_get (ev_heap w) n = Some doc" "dc_uuid doc = uuid" "dc_ino doc = ino"
      "n \<in> {d} \<or> dc_users doc \<noteq> []" by (rule docs_invD [OF assms(1)])
  with assms(2) have "dc_users doc \<noteq> []" by (cases "n = d") simp_all
  with doc(1-3) show "\<exists>doc. ob_get (ev_heap w) n = Some doc \<and> dc_uuid doc = uuid \<and> dc_ino doc = ino \<and>
      (n \<in> {} \<or> dc_users doc \<noteq> [])" by blast
qed (use docs_inv_rest [OF assms(1)] in simp_all)

lemma obtain_doc_inv:
  assumes "docs_inv {} w" "obtain_doc L N ino path x w = (r, w')"
  shows "case r of None \<Rightarrow> docs_inv {} w' | Some d \<Rightarrow> docs_inv {d} w'"
proof (cases "doc_at w x ino")
  case (Some d)
  then have "r = Some d" "w' = w" using assms(2) by (simp_all add: obtain_doc_def)
  with docs_inv_mono [OF assms(1), of "{d}"] show ?thesis by simp
next
  case None
  let ?d = "ev_next w"
  let ?doc = "\<lparr>dc_ino = ino, dc_path = path, dc_uuid = x, dc_y = yl_new L, dc_hash = '''', dc_users = [],
      dc_isDisplaced = False, dc_isConflicting = False, dc_conflictResolver = ''''\<rparr>"
  let ?w0 = "w\<lparr>ev_next := Suc ?d, ev_heap := ob_set (ev_heap w) ?d ?doc\<rparr>"
  obtain ok w1 where l: "loadFileContent L N ?d False ?w0 = (ok, w1)" by fastforce
  have m0: "mild ?w0 w1" using mild_loadFileContent [of ?w0 ?d L N False] l by simp
  have i1: "docs_inv {} w1" by (rule mild_inv [OF docs_inv_new [OF assms(1)] m0])
  show ?thesis
  proof (cases ok)
    case False
    have "docs_inv {} (doc_destroy L ?d w1)" by (rule mild_inv [OF i1 mild_doc_destroy])
    with docs_inv_del [OF this] None assms(2) l False show ?thesis
      by (auto simp: obtain_doc_def new_WSSharedDoc_def Let_def split: if_splits option.splits)
  next
    case True
    define w2 where "w2 = snd (computeHash L ?d w1)"
    have m: "mild ?w0 w2" unfolding w2_def by (rule mild_trans [OF m0 mild_computeHash])
    have i2: "docs_inv {} w2" unfolding w2_def by (rule mild_inv [OF i1 mild_computeHash])
    from mild_heap(2) [OF m, of ?d ?doc] obtain doc where doc: "ob_get (ev_heap w2) ?d = Some doc" "dc_uuid doc = x" "dc_ino doc = ino"
      by (auto simp: doc_like_def)
    define ds where "ds = (case ob_get (ev_docs w2) x of None \<Rightarrow> [] | Some ds \<Rightarrow> ds)"
    have ds: "ob_get ds i = doc_at w2 x i" for i by (simp add: ds_def doc_at_def split: option.split)
    have "r = Some ?d" "w' = w2\<lparr>ev_docs := ob_set (ev_docs w2) x (ob_set ds ino ?d)\<rparr>"
      using None assms(2) l True
      by (auto simp: obtain_doc_def new_WSSharedDoc_def Let_def w2_def ds_def split_beta)
    moreover have "docs_inv {?d} (w2\<lparr>ev_docs := ob_set (ev_docs w2) x (ob_set ds ino ?d)\<rparr>)"
    proof (rule docs_inv_docs [OF i2 refl])
      fix uuid i n
      assume n: "doc_at (w2\<lparr>ev_docs := ob_set (ev_docs w2) x (ob_set ds ino ?d)\<rparr>) uuid i = Some n"
      show "n \<notin> {?d} \<Longrightarrow> doc_at w2 uuid i = Some n \<and> n \<notin> {}"
        using n by (auto simp: doc_at_set ds split: if_splits)
      show "\<exists>doc. ob_get (ev_heap w2) n = Some doc \<and> dc_uuid doc = uuid \<and> dc_ino doc = i" if "n \<in> {?d}"
      proof (cases "uuid = x \<and> i = ino")
        case True
        with doc that show ?thesis by simp
      next
        case False
        with n have "doc_at w2 uuid i = Some n" by (auto simp: doc_at_set ds split: if_splits)
        then show ?thesis by (rule docs_invD [OF i2]) blast
      qed
    qed
    ultimately show ?thesis by simp
  qed
qed

lemma openFile_inv:
  assumes "docs_inv {} w"
  shows "docs_inv {} (openFile L N u s x path stat c w)"
proof (cases "get_workspace w x")
  case None
  then show ?thesis by (simp add: openFile_def mild_inv [OF assms] milds)
next
  case (Some ws)
  let ?ino = "st_ino stat"
  define w1 where "w1 = (if ob_get (ev_docs w) x = None then w\<lparr>ev_docs := ob_set (ev_docs w) x []\<rparr> else w)"
  have "doc_at w1 = doc_at w" by (auto simp: fun_eq_iff w1_def doc_at_def)
  with assms have i1: "docs_inv {} w1" unfolding docs_inv_def by (simp add: w1_def)
  obtain r w2 where o: "obtain_doc L N ?ino path x w1 = (r, w2)" by fastforce
  note i2 = obtain_doc_inv [OF i1 o]
  show ?thesis
  proof (cases r)
    case None
    with i2 have "docs_inv {} (sync_sendError u s ''FS_ERR_READ_FILE'' c w2)" by (simp add: mild_inv milds)
    with mild_inv [OF assms mild_emit] Some o None show ?thesis
      by (simp add: openFile_def Let_def w1_def [symmetric])
  next
    case (Some d)
    define w3 where "w3 = upd_doc d (\<lambda>doc. doc\<lparr>dc_users := ob_set (dc_users doc) u []\<rparr>) w2"
    have "docs_inv {d} w3" unfolding w3_def using docs_inv_upd [of "{d}" w2 _ d] i2 Some by simp
    then have i3: "docs_inv {} w3" by (rule docs_inv_used) (auto simp: w3_def upd_doc_heap)
    have "docs_inv {} (sync_sendSuccess u s c b res (sync_updateCache x ?ino True w3))" for b res
      by (rule mild_inv [OF i3 mild_trans [OF mild_sync_updateCache mild_messages(7)]])
    with mild_inv [OF assms mild_emit] \<open>get_workspace w x = Some ws\<close> o Some show ?thesis
      by (simp add: openFile_def Let_def w1_def [symmetric] w3_def [symmetric])
  qed
qed

lemma drop_doc_inv:
  assumes "docs_inv {d} w" "doc_at w x ino = Some d"
  shows "docs_inv {} (drop_doc L x ino d w)"
proof -
  define w1 where "w1 = doc_destroy L d w"
  have i1: "docs_inv {d} w1" unfolding w1_def by (rule mild_inv [OF assms(1) mild_doc_destroy])
  have at: "doc_at w1 x ino = Some d" using mild_rest(2) [OF mild_doc_destroy [of w L d]] assms(2) by (simp add: w1_def)
  then obtain ds where ds: "ob_get (ev_docs w1) x = Some ds" by (auto simp: doc_at_def split: option.splits)
  define w2 where "w2 = w1\<lparr>ev_docs := ob_set (ev_docs w1) x (ob_del ds ino)\<rparr>"
  have i2: "docs_inv {} w2"
  proof (rule docs_inv_docs [OF i1 w2_def])
    fix uuid i n assume n: "doc_at w2 uuid i = Some n"
    then have a: "doc_at w1 uuid i = Some n" "\<not> (uuid = x \<and> i = ino)"
      using ds by (auto simp: w2_def doc_at_def split: if_splits option.splits)
    have "n \<noteq> d"
    proof
      assume "n = d"
      from docs_invD [OF i1 at] docs_invD [OF i1 a(1)] have "uuid = x \<and> i = ino"
        unfolding \<open>n = d\<close> by (metis option.inject)
      with a(2) show False by blast
    qed
    with a(1) show "doc_at w1 uuid i = Some n \<and> n \<notin> {d}" by simp
  qed simp
  have i3: "docs_inv {} (sync_updateCache x ino False w2)" by (rule mild_inv [OF i2 mild_sync_updateCache])
  show ?thesis
    unfolding drop_doc_def Let_def w1_def [symmetric] ds option.case
    using i3 docs_inv_del [OF i3] by (simp add: w2_def)
qed

lemma closeFile_inv:
  assumes "docs_inv {} w"
  shows "docs_inv {} (closeFile L u s x ino w)"
proof (cases "doc_at w x ino")
  case None
  then show ?thesis
    using assms mild_inv [OF assms mild_emit] by (auto simp: closeFile_def Let_def split: option.split)
next
  case (Some d)
  define w1 where "w1 = upd_doc d (\<lambda>doc. doc\<lparr>dc_users := ob_del (dc_users doc) u\<rparr>) w"
  have i1: "docs_inv {d} w1" unfolding w1_def using docs_inv_upd [OF assms, of _ d] by simp
  have at1: "doc_at w1 = doc_at w" by (simp add: w1_def fun_eq_iff doc_at_def)
  have i2: "docs_inv {d} (aw_changed L d r None w1)" for r by (rule mild_inv [OF i1 mild_aw_changed])
  have used: "docs_inv {} (aw_changed L d r None w1)" if "dc_users (the_doc (aw_changed L d r None w1) d) \<noteq> []" for r
    by (rule docs_inv_used [OF i2]) (use that in \<open>simp add: the_doc_def\<close>)
  have at2: "doc_at (aw_changed L d r None w1) x ino = Some d" for r
    using mild_rest(2) [OF mild_aw_changed [of w1 L d r None]] at1 Some by simp
  show ?thesis
    unfolding closeFile_def Let_def w1_def [symmetric] Some option.case
    using assms mild_inv [OF assms mild_emit] used drop_doc_inv [OF i2 at2]
    by (simp split: option.split)
qed

section \<open>Every step keeps the invariant\<close>

lemma handleOpen_inv: "docs_inv {} w \<Longrightarrow> docs_inv {} (handleOpen L N u s x path c w)"
  by (auto simp: handleOpen_def Let_def split: option.split intro: openFile_inv mild_inv milds)

lemma handleClose_inv: "docs_inv {} w \<Longrightarrow> docs_inv {} (handleClose L u s x path ino w)"
  by (auto simp: handleClose_def split: option.split intro: closeFile_inv mild_inv milds)

lemma env_message_inv: "docs_inv {} w \<Longrightarrow> docs_inv {} (snd (env_handleEnvMessage L N dev u s m w))"
  by (auto simp: env_handleEnvMessage_def split: in_payload.split intro: handleOpen_inv handleClose_inv mild_inv milds)

lemma mild_runCommand [milds]: "mild w (snd (runCommand N u s x cmd ctx c w))"
  by (auto simp: runCommand_def Let_def split: option.split intro: mild_emit mild_trans [OF mild_emit])

lemma sticky_message_inv:
  assumes "docs_inv {} w"
  shows "docs_inv {} (snd (handleStickyEnvMessage L N u s m w))"
proof -
  have via: "docs_inv {} (snd (case h of (Inl e, w1) \<Rightarrow> (Inl e, w1) | (Inr _, w1) \<Rightarrow> (Inr None, w1)))"
    if "mild w (snd h)" for h :: "unit result \<times> _"
    using mild_inv [OF assms that] by (auto split: prod.split sum.split)
  show ?thesis
  proof (cases "im_payload m")
    case (Doc_hash x ino)
    then show ?thesis
      using assms mild_inv [OF assms mild_computeHash] by (simp add: handleStickyEnvMessage_def split_beta split: option.split)
  qed (simp_all add: handleStickyEnvMessage_def via milds assms mild_inv [OF assms] mild_handleSync [OF assms]
      mild_handleConflictResolve [OF assms])
qed

lemma onMessage_inv:
  assumes "docs_inv {} w"
  shows "docs_inv {} (onMessage L N chan ev w)"
proof (cases ev)
  case (Evt_message u0 s0 m)
  obtain u s where i: "sticky_ids u0 s0 (im_payload m) = (u, s)" by fastforce
  obtain r w1 where h: "handleStickyEnvMessage L N (js_str u) (js_str s) m w = (r, w1)" by fastforce
  have "docs_inv {} w1" using sticky_message_inv [OF assms, of L N "js_str u" "js_str s" m] h by simp
  then show ?thesis
    using assms i h mild_inv [OF assms mild_emit] mild_inv [OF \<open>docs_inv {} w1\<close> mild_emit]
    by (cases r) (simp_all add: onMessage_def Evt_message)
qed (simp_all add: onMessage_def assms mild_inv [OF assms] milds openFile_inv closeFile_inv)

lemma request_inv:
  assumes "docs_inv {} w" "core_handleEnvMessage L N dev member provision lock t uid sid req w = (r, w')"
  shows "docs_inv {} w'"
proof (cases req)
  case (Req_open x s)
  obtain q w1 where h: "handleEnvOpen member provision N lock (js_str uid) x s w = (q, w1)" by fastforce
  then have "docs_inv {} w1" using mild_inv [OF assms(1) mild_handleEnvOpen [of w member provision N lock "js_str uid" x s]] by simp
  with assms h show ?thesis by (cases q) (auto simp: core_handleEnvMessage_def Req_open split: if_splits)
next
  case (Req_close x)
  with assms mild_inv [OF assms(1) mild_handleEnvClose] show ?thesis
    by (auto simp: core_handleEnvMessage_def split: if_splits)
next
  case (Req_message m)
  obtain q w1 where h: "env_handleEnvMessage L N dev (js_str uid) (js_str sid) m w = (q, w1)" by fastforce
  then have "docs_inv {} w1" using env_message_inv [OF assms(1), of L N dev "js_str uid" "js_str sid" m] by simp
  with assms h show ?thesis by (cases q) (auto simp: core_handleEnvMessage_def Req_message split: if_splits)
qed

lemma mild_internal: "mild w (snd (handleEnvInternalMessage N lock act x u s w))"
proof -
  obtain q w1 where h: "handleEnvReady N lock (js_str u) (js_str x) (js_str s) w = (q, w1)" by fastforce
  then have m: "mild w w1" using mild_handleEnvReady [of w N lock "js_str u" "js_str x" "js_str s"] by simp
  with h mild_trans [OF m mild_emit] show ?thesis by (cases q) (simp_all add: handleEnvInternalMessage_def)
qed

lemma mild_fire: "mild w (snd (fire L N pick t w))"
proof -
  have m: "mild w (w\<lparr>ev_timers := ob_del (ev_timers w) t\<rparr>)" for t by (simp add: mild_def option.rel_refl)
  show ?thesis
    by (cases t) (simp_all add: fire_def mild_trans [OF m mild_flush] mild_trans [OF m mild_fs_process]
        mild_trans [OF m mild_cooldown])
qed

lemma env_step_inv:
  assumes "env_step L w w'" "docs_inv {} w"
  shows "docs_inv {} w'"
proof -
  have more: "docs_inv {} (w\<lparr>cache := c\<rparr>)" "docs_inv {} (w\<lparr>clock := t\<rparr>)" for c t
    by (rule mild_inv [OF assms(2)], rule more_mild, simp)+
  from assms(1) show ?thesis
  proof cases
    case (affinity N lock act uuid uid sid r)
    then show ?thesis using mild_inv [OF assms(2) mild_internal [of w N lock act uuid uid sid]] by simp
  next
    case (ready c uid sid uuid r)
    then show ?thesis using mild_inv [OF assms(2) mild_callbacks(1) [of w c uid sid uuid]] by simp
  next
    case (closed uid sid uuid r)
    then show ?thesis using mild_inv [OF assms(2) mild_callbacks(2) [of w uid sid uuid]] by simp
  next
    case (shell stream uid sid uuid client r)
    then show ?thesis using mild_inv [OF assms(2) mild_shell_opened [of w stream uid sid uuid client]] by simp
  next
    case (timer tm at N pick r)
    then show ?thesis using mild_inv [OF assms(2) mild_fire [of w L N pick tm]] by simp
  qed (use assms(2) more in \<open>auto intro: request_inv onMessage_inv mild_inv milds\<close>)
qed

lemma env_steps_inv: "(env_step L)\<^sup>*\<^sup>* w w' \<Longrightarrow> docs_inv {} w \<Longrightarrow> docs_inv {} w'"
  by (induction rule: rtranclp_induct) (auto intro: env_step_inv)

end
