(* ===== verification/Env_Editing.thy ===== *)
theory Env_Editing
  imports Env_Service
begin

text \<open>
  The properties of the env service: documents and their users, saving of edits, conflicts with changes on
  disk, bursts of file events.
\<close>

section \<open>What changes of a document leave alone\<close>

text \<open>Changes of the library document and its handlers leave the cache, the clock and the maps alone.\<close>

definition doc_only :: "('y, 'a) env_scheme \<Rightarrow> ('y, 'a) env_scheme \<Rightarrow> bool" where
  "doc_only w w' \<longleftrightarrow> cache w' = cache w \<and> clock w' = clock w \<and> ev_docs w' = ev_docs w \<and> ev_id w' = ev_id w"

lemma doc_only_refl [simp, intro]: "doc_only w w"
  by (simp add: doc_only_def)

lemma doc_only_trans: "doc_only u v \<Longrightarrow> doc_only v w \<Longrightarrow> doc_only u w"
  by (simp add: doc_only_def)

lemma doc_only_emit: "doc_only w (emit w es)"
  by (simp add: doc_only_def emit_def)

lemma doc_only_upd: "doc_only w (upd_doc d f w)"
  by (simp add: doc_only_def)

lemma doc_only_timer: "doc_only w (set_timer t n w)"
  by (simp add: doc_only_def set_timer_def)

lemma doc_only_messages:
  "doc_only w (sync_send u x ino buf so w)" "doc_only w (to_active x us m w)" "doc_only w (sync_broadcast doc buf w)"
  "doc_only w (sync_sendConflict doc w)" "doc_only w (sync_sendError u s code c w)" "doc_only w (sync_sendSuccess u s c b res w)"
  unfolding sync_send_def sync_broadcast_def to_active_def sync_sendConflict_def conflict_to_def sync_sendError_def
    sync_sendSuccess_def Let_def
  by (auto intro: doc_only_emit)

lemma doc_only_track: "doc_only w (trackClients d up uid w)"
  by (auto simp: trackClients_def doc_only_upd split: option.split)

lemma doc_only_awareness: "doc_only w (awarenessChangeHandler L d up uid w)"
proof -
  have m: "doc_only w (sync_broadcast doc buf (trackClients d up uid w))" for doc buf
    by (rule doc_only_trans [OF doc_only_track doc_only_messages(3)])
  show ?thesis
    unfolding awarenessChangeHandler_def Let_def
    by (simp only: m doc_only_trans [OF m doc_only_messages(4)] split: if_split) simp
qed

lemma doc_only_changed: "doc_only w (y_changed L d r w)" "doc_only w (aw_changed L d q uid w)"
proof -
  note u = doc_only_trans [OF doc_only_upd]
  show "doc_only w (y_changed L d r w)"
    by (auto simp: y_changed_def updateHandler_def Let_def split: option.split
        intro: doc_only_upd u doc_only_trans [OF doc_only_messages(3) doc_only_timer])
  show "doc_only w (aw_changed L d q uid w)"
    by (auto simp: aw_changed_def Let_def split: option.split intro: doc_only_upd u doc_only_awareness)
qed

lemma doc_only_load: "doc_only w (snd (loadFileContent L N d b w))"
  by (auto simp: loadFileContent_def Let_def doc_only_changed split: option.split)

lemma doc_only_hash: "doc_only w (snd (computeHash L d w))"
  by (simp add: computeHash_def Let_def doc_only_upd)

lemma doc_only_workspace: "doc_only w w' \<Longrightarrow> get_workspace w' = get_workspace w"
  using cache_get_cong [of w' w] by (simp add: doc_only_def get_workspace_def fun_eq_iff)

lemma doc_only_at: "doc_only w w' \<Longrightarrow> doc_at w' = doc_at w"
  by (simp add: doc_only_def doc_at_def fun_eq_iff)

lemma env_emit [simp]:
  "ev_heap (emit w es) = ev_heap w" "ev_timers (emit w es) = ev_timers w" "ev_docs (emit w es) = ev_docs w"
  "ev_id (emit w es) = ev_id w" "ev_paths (emit w es) = ev_paths w"
  by (simp_all add: emit_def)

lemma sync_send_eq: "\<exists>es. sync_send u x ino buf so w = emit w es"
proof -
  have "w = emit w []" by (simp add: emit_def)
  then show ?thesis unfolding sync_send_def Let_def by (metis (full_types))
qed

text \<open>An edit: the new content, the timer, and the update for everybody who has the document open.\<close>

lemma handleSync_edit:
  assumes "doc_at w x ino = Some d" "ob_get (ev_heap w) d = Some doc" "dc_users doc \<noteq> []"
    "yl_decode L buf = Some (YMessage_SYNC, body)" "yl_read L body (dc_y doc) = (y, Some up, reply)"
  shows "\<exists>es es'. ob_get (ev_heap (handleSync L u s x ino buf w)) d = Some (doc\<lparr>dc_y := y\<rparr>) \<and>
    ob_get (ev_timers (handleSync L u s x ino buf w)) (T_flush d) = Some (clock w + 5000) \<and>
    out (handleSync L u s x ino buf w) = out w @ es @ es' \<and>
    es = [Socket_broadcast (map fst (active_sessions (dc_uuid doc) (ob_keys (dc_users doc)) w))
            (map snd (active_sessions (dc_uuid doc) (ob_keys (dc_users doc)) w)) ''fs''
            (Out_sync (dc_uuid doc) (dc_ino doc) (yl_frame L YMessage_SYNC (yl_update L up)))]"
proof -
  define w1 where "w1 = y_changed L d (y, Some up) w"
  let ?w0 = "upd_doc d (\<lambda>doc. doc\<lparr>dc_y := y\<rparr>) w"
  have d0: "the_doc ?w0 d = doc\<lparr>dc_y := y\<rparr>" using assms(2) by (simp add: the_doc_def upd_doc_heap)
  have "get_presence ?w0 = get_presence w"
    using cache_get_cong [of ?w0 w] by (simp add: fun_eq_iff get_presence_def)
  then have a: "active_sessions z us ?w0 = active_sessions z us w" for z us
    by (simp add: active_sessions_def getSessionId_def)
  have h1: "ob_get (ev_heap w1) d = Some (doc\<lparr>dc_y := y\<rparr>)" "ob_get (ev_timers w1) (T_flush d) = Some (clock w + 5000)"
      "out w1 = out w @ [Socket_broadcast (map fst (active_sessions (dc_uuid doc) (ob_keys (dc_users doc)) w))
            (map snd (active_sessions (dc_uuid doc) (ob_keys (dc_users doc)) w)) ''fs''
            (Out_sync (dc_uuid doc) (dc_ino doc) (yl_frame L YMessage_SYNC (yl_update L up)))]"
    using assms(2,3)
    by (simp_all add: w1_def y_changed_def updateHandler_def d0 sync_broadcast_def to_active_def Let_def a set_timer_def
        upd_doc_heap frame_simps)
  obtain es where "handleSync L u s x ino buf w = emit w1 es"
  proof (cases "truthy reply")
    case True
    with assms sync_send_eq [of u x ino "yl_frame L YMessage_SYNC (js_str reply)" "Some s" w1] that show thesis
      by (auto simp: handleSync_def the_doc_def w1_def)
  next
    case False
    have "w1 = emit w1 []" by (simp add: emit_def)
    with False assms that show thesis by (simp add: handleSync_def the_doc_def w1_def)
  qed
  with h1 show ?thesis by (simp add: frame_simps)
qed

text \<open>What an operation sends, by a condition on the messages.\<close>

definition sends_only :: "(emission \<Rightarrow> bool) \<Rightarrow> 'a net_scheme \<Rightarrow> 'a net_scheme \<Rightarrow> bool" where
  "sends_only P w w' \<longleftrightarrow> (\<exists>es. out w' = out w @ es \<and> (\<forall>e \<in> set es. P e))"

lemma sends_only_refl [simp, intro]: "out w' = out w \<Longrightarrow> sends_only P w w'"
  by (simp add: sends_only_def)

lemma sends_only_trans: "sends_only P u v \<Longrightarrow> sends_only P v w \<Longrightarrow> sends_only P u w"
  unfolding sends_only_def by (metis append.assoc set_append Un_iff)

lemma sends_only_emit: "\<forall>e \<in> set es. P e \<Longrightarrow> sends_only P w (emit w es)"
  by (auto simp: sends_only_def frame_simps)

fun is_write :: "emission \<Rightarrow> bool" where
  "is_write (Pod_write _ _ _) = True"
| "is_write _ = False"

abbreviation no_write :: "'a net_scheme \<Rightarrow> 'a net_scheme \<Rightarrow> bool" where
  "no_write \<equiv> sends_only (\<lambda>e. \<not> is_write e)"

lemma getDocHash_out: "out (snd (getDocHash L N x ino d w)) = out w"
  by (auto simp: getDocHash_def computeHash_def Let_def split: option.split)

lemma check_event_quiet: "no_write w (snd (check_event L N pick x d e w))"
proof -
  obtain r w1 where g: "getDocHash L N x (fe_ino e) d w = (r, w1)" by fastforce
  have "no_write w w1" using getDocHash_out [of L N x "fe_ino e" d w] g by simp
  moreover have "no_write w1 (conflict_to y i us res (upd_doc n f w1))" for y i us res n f
    by (rule sends_only_trans [OF sends_only_refl [of "upd_doc n f w1"]]) (auto simp: conflict_to_def intro!: sends_only_emit)
  ultimately show ?thesis
    using g sends_only_trans by (cases r) (auto simp: check_event_def Let_def split: option.split, blast)
qed

lemma sync_events_quiet: "no_write w (snd (sync_events L N pick x d es bs w))"
proof (induction es arbitrary: bs w)
  case (Cons e es)
  obtain r w1 where c: "check_event L N pick x d e w = (r, w1)" by fastforce
  then have "no_write w w1" using check_event_quiet [of w L N pick x d e] by simp
  with c Cons.IH show ?case by (cases r) (auto intro: sends_only_trans)
qed simp

lemma fs_process_quiet: "no_write w (snd (fs_process L N pick x w))"
proof -
  have s: "no_write w (snd (fs_sync L N pick x es w))" for es
  proof (cases "get_workspace w x")
    case (Some d)
    obtain r w1 where c: "sync_events L N pick x d es [] w = (r, w1)" by fastforce
    then have q: "no_write w w1" using sync_events_quiet [of w L N pick x d es "[]"] by simp
    have "no_write w (emit w1 (map (\<lambda>(u, s). sendBatch u (js_str s) (f u)) us))" for f us
      by (rule sends_only_trans [OF q sends_only_emit]) (auto simp: sendBatch_def)
    with q c Some show ?thesis by (cases r) (simp_all add: fs_sync_def)
  qed (simp add: fs_sync_def)
  have e: "out (process_end n x v) = out v" for n and v :: "('a, 'b) env_scheme"
    by (simp add: process_end_def split: option.split)
  show ?thesis
  proof (cases "ob_get (ev_paths w) x")
    case (Some ps)
    obtain r w1 where c: "process_start L N pick x w = (r, w1)" by fastforce
    with s [of "ps_batch ps"] Some have q: "no_write w w1" by (simp add: process_start_def)
    have "no_write w (process_end n x w1)" for n by (rule sends_only_trans [OF q sends_only_refl [OF e]])
    with q c Some show ?thesis by (cases r) (simp_all add: fs_process_def)
  qed (simp add: fs_process_def)
qed

lemma cooldown_quiet: "no_write w (snd (cooldown n x p w))"
proof -
  have b: "out (put_burst x p b v) = out v" for b and v :: "('a, 'b) env_scheme"
    by (simp add: put_burst_def split: option.split)
  have "no_write v (snd (signal x p False v))" for v :: "('a, 'b) env_scheme"
    by (auto simp: signal_def split: sum.split intro!: sends_only_emit)
  then show ?thesis
    unfolding cooldown_def Let_def
    by (rule sends_only_trans [rotated]) (auto simp: b split: option.split)
qed

text \<open>The users of a document do not change in the handler of awareness changes, so it never finds that
  the one who resolves a conflict has left.\<close>

lemma trackClients_users:
  "set (ob_keys (dc_users (the_doc (trackClients d up uid w) d))) = set (ob_keys (dc_users (the_doc w d)))"
proof (cases uid)
  case (Some u)
  show ?thesis
  proof (cases "ob_get (dc_users (the_doc w d)) u")
    case (Some ids)
    then have k: "u \<in> set (ob_keys (dc_users (the_doc w d)))" by (metis domI dom_map_of_conv_image_fst list.set_map)
    show ?thesis
    proof (cases "ob_get (ev_heap w) d")
      case (Some doc)
      with k \<open>uid = Some u\<close> \<open>ob_get (dc_users (the_doc w d)) u = Some ids\<close> show ?thesis
        using ob_keys_set [of "dc_users doc" u] by (auto simp: trackClients_def the_doc_def upd_doc_heap)
    qed (simp add: trackClients_def upd_doc_def \<open>uid = Some u\<close> \<open>ob_get (dc_users (the_doc w d)) u = Some ids\<close>)
  qed (simp add: trackClients_def \<open>uid = Some u\<close>)
qed (simp add: trackClients_def)

lemma awareness_no_conflict:
  "awarenessChangeHandler L d up uid w =
     (let w1 = trackClients d up uid w; doc = the_doc w1 d
      in sync_broadcast doc (yl_frame L YMessage_AWARENESS
           (yl_awEncode L (aw_added up @ aw_updated up @ aw_removed up) (dc_y doc))) w1)"
proof -
  have b: "the_doc (sync_broadcast doc buf v) d = the_doc v d" for doc buf and v :: "('a, 'b) env_scheme"
    by (simp add: the_doc_def sync_broadcast_def to_active_def Let_def)
  show ?thesis
    unfolding awarenessChangeHandler_def Let_def b isResolverRemoved_def
    using trackClients_users [of d up uid w] by simp
qed

section \<open>A concrete library and state\<close>

definition text_lib :: "string ylib" where
  "text_lib = \<lparr>yl_new = '''', yl_clientId = (\<lambda>y. 0), yl_text = (\<lambda>y. y),
     yl_insert = (\<lambda>s y. (s @ y, if s = [] then None else Some s)), yl_replace = (\<lambda>s y. (s, Some s)),
     yl_decode = (\<lambda>b. Some (0, b)), yl_frame = (\<lambda>t b. b), yl_read = (\<lambda>b y. (y @ b, Some b, Some '''')),
     yl_update = (\<lambda>b. b), yl_step1 = (\<lambda>y. ''''), yl_clients = (\<lambda>y. []), yl_awEncode = (\<lambda>cs y. ''''),
     yl_awApply = (\<lambda>b y. Some (y, None)), yl_awRemove = (\<lambda>cs y. (y, None)), yl_sha256 = (\<lambda>s. s)\<rparr>"

definition file_stat :: StatDTO where
  "file_stat = \<lparr>st_name = ''f'', st_size = 1, st_isDir = False, st_ino = 7\<rparr>"

definition disk :: "string option \<Rightarrow> wsnode" where
  "disk content = \<lparr>nd_stat = (\<lambda>u p. Some file_stat), nd_read = (\<lambda>u p. content), nd_hash = (\<lambda>u p. content),
     nd_dir = (\<lambda>u p. Some []), nd_command = (\<lambda>u c x. Some True), nd_ready = (\<lambda>u. True), nd_affine = (\<lambda>u e. True),
     nd_docHash = (\<lambda>e u i. Inr (Some ''remote''))\<rparr>"

definition env_of :: "(string, string) obj \<Rightarrow> string env" where
  "env_of dirs = \<lparr>cache = [(CACHEKEY_WORKSPACE ''W'', CvWorkspace \<lparr>cw_state = Active, cw_fs = ''e1'',
       cw_dirs = map (\<lambda>(p, u). (p, [u])) dirs, cw_docs = [], cw_sshs = []\<rparr>, None),
      (CACHEKEY_PRESENCE ''ann'', CvPresence [(''s1'', \<lparr>cs_state = Active, cs_socketId = ''k'', cs_gatewayId = ''g'',
         cs_wsUuid = Some ''W''\<rparr>)], None)],
     out = [], uuids = (\<lambda>n. ''id''), uuidc = 0, clock = 0, perf = 0, ev_id = ''e1'', ev_heap = [], ev_next = 0,
     ev_docs = [], ev_timers = [], ev_paths = [], ev_conns = []\<rparr>"

definition one_open :: "string env" where
  "one_open = openFile text_lib (disk (Some ''abc'')) ''ann'' ''s1'' ''W'' ''/workspace/f'' file_stat (Some ''c'') (env_of [])"

lemma one_open_step: "env_step text_lib (env_of []) one_open"
proof -
  let ?m = "\<lparr>im_payload = Fs_open ''W'' ''/f'', im_correlationId = Some ''c''\<rparr>"
  have "core_handleEnvMessage text_lib (disk (Some ''abc'')) False None None True 0 (Some ''ann'') (Some ''s1'') (Req_message ?m) (env_of [])
      = (Inr Rep_none, one_open)"
    by (simp add: core_handleEnvMessage_def env_handleEnvMessage_def env_stickyActions_def handleOpen_def Let_def
        one_open_def disk_def file_stat_def)
  then show ?thesis by (rule env_step.request)
qed

lemma one_open_doc: "doc_at one_open ''W'' 7 = Some 0"
  by code_simp

section \<open>Properties\<close>

text \<open>C17. The documents of an instance are in order in every state it reaches from its start, whatever
  requests, messages, callbacks and timers come and whatever other services do to the cache: a document
  filed under a workspace and a file belongs to them, and somebody has it open.\<close>

theorem open_docs_used:
  assumes "(env_step L)\<^sup>*\<^sup>* w w'" "ev_docs w = []" "ev_heap w = []" "ev_timers w = []" "doc_at w' uuid ino = Some d"
  shows "\<exists>doc. ob_get (ev_heap w') d = Some doc \<and> dc_uuid doc = uuid \<and> dc_ino doc = ino \<and> dc_users doc \<noteq> []"
proof -
  have "docs_inv {} w" using assms(2-4) by (simp add: docs_inv_def doc_at_def)
  with assms(1) have "docs_inv {} w'" by (rule env_steps_inv)
  with assms(5) show ?thesis by (auto elim: docs_invD)
qed

theorem open_docs_used_witness:
  "\<exists>doc. ob_get (ev_heap one_open) 0 = Some doc \<and> dc_uuid doc = ''W'' \<and> dc_ino doc = 7 \<and> dc_users doc \<noteq> []"
  by (rule open_docs_used [OF r_into_rtranclp [of "env_step text_lib", OF one_open_step] _ _ _ one_open_doc])
    (simp_all add: env_of_def)

text \<open>C16. Edits reach the other users at once and the disk in time: an edit of a document that is neither
  displaced nor in conflict is sent to every user who has it open, and sets the timer of five seconds; when
  that timer fires and the path is still a file, the current content is written to it.\<close>

theorem edits_saved:
  assumes "doc_at w uuid ino = Some d" "ob_get (ev_heap w) d = Some doc" "dc_users doc \<noteq> []"
    "\<not> dc_isDisplaced doc" "\<not> dc_isConflicting doc"
    "yl_decode L buf = Some (YMessage_SYNC, body)" "yl_read L body (dc_y doc) = (y, Some up, reply)"
    "nd_stat N (dc_uuid doc) (dc_path doc) = Some st" "\<not> st_isDir st"
    "w1 = handleSync L uid sid uuid ino buf w"
  shows "Socket_broadcast (map fst (active_sessions (dc_uuid doc) (ob_keys (dc_users doc)) w))
      (map snd (active_sessions (dc_uuid doc) (ob_keys (dc_users doc)) w)) ''fs''
      (Out_sync (dc_uuid doc) (dc_ino doc) (yl_frame L YMessage_SYNC (yl_update L up))) \<in> set (out w1) \<and>
    ob_get (ev_timers w1) (T_flush d) = Some (clock w + 5000) \<and>
    (\<exists>w2. fire L N pick (T_flush d) (w1\<lparr>clock := t\<rparr>) = (Inr (), w2) \<and>
       out w2 = out w1 @ [Pod_write (dc_uuid doc) (dc_path doc) (yl_text L y)])"
proof -
  from handleSync_edit [OF assms(1-3,6,7), of uid sid] obtain es' where
      h: "ob_get (ev_heap w1) d = Some (doc\<lparr>dc_y := y\<rparr>)" "ob_get (ev_timers w1) (T_flush d) = Some (clock w + 5000)"
        "out w1 = out w @ [Socket_broadcast (map fst (active_sessions (dc_uuid doc) (ob_keys (dc_users doc)) w))
            (map snd (active_sessions (dc_uuid doc) (ob_keys (dc_users doc)) w)) ''fs''
            (Out_sync (dc_uuid doc) (dc_ino doc) (yl_frame L YMessage_SYNC (yl_update L up)))] @ es'"
    unfolding assms(10) [symmetric] by blast
  have "fire L N pick (T_flush d) (w1\<lparr>clock := t\<rparr>) =
      (Inr (), emit (w1\<lparr>clock := t, ev_timers := ob_del (ev_timers w1) (T_flush d)\<rparr>)
        [Pod_write (dc_uuid doc) (dc_path doc) (yl_text L y)])"
    using h(1) assms(4,5,8,9) by (simp add: fire_def flush_def the_doc_def Let_def setFileContent_def)
  with h show ?thesis by (simp add: frame_simps)
qed

theorem edits_saved_witness:
  "\<exists>w2. fire text_lib (disk None) hd (T_flush 0) ((handleSync text_lib ''ann'' ''s1'' ''W'' 7 ''!'' one_open)\<lparr>clock := 5000\<rparr>)
      = (Inr (), w2) \<and> last (out w2) = Pod_write ''W'' ''/workspace/f'' ''abc!''"
proof -
  obtain doc where doc: "ob_get (ev_heap one_open) 0 = Some doc" "dc_users doc \<noteq> []" "\<not> dc_isDisplaced doc"
      "\<not> dc_isConflicting doc" "dc_uuid doc = ''W''" "dc_path doc = ''/workspace/f''" "dc_y doc = ''abc''"
  proof -
    have "map_option (\<lambda>doc. (dc_users doc = [], dc_isDisplaced doc, dc_isConflicting doc, dc_uuid doc, dc_path doc, dc_y doc))
        (ob_get (ev_heap one_open) 0) = Some (False, False, False, ''W'', ''/workspace/f'', ''abc'')" by code_simp
    with that show thesis by auto
  qed
  have y: "yl_decode text_lib ''!'' = Some (YMessage_SYNC, ''!'')"
      "yl_read text_lib ''!'' (dc_y doc) = (''abc!'', Some ''!'', Some '''')"
      "nd_stat (disk None) (dc_uuid doc) (dc_path doc) = Some file_stat" "\<not> st_isDir file_stat"
      "yl_text text_lib ''abc!'' = ''abc!''"
    using doc(7) by (simp_all add: text_lib_def disk_def file_stat_def YMessage_SYNC_def)
  from edits_saved [OF one_open_doc doc(1-4) y(1-4) refl, of "''ann''" "''s1''" hd 5000] show ?thesis
    by (auto simp: doc(5,6) y(5))
qed

text \<open>C18. Nothing is written behind the back of the users: whichever timer fires, the only write it can
  make is the current content of the document the timer was set for, and only while the document is neither
  displaced nor in conflict and its path is a file.\<close>

theorem timers_write_clean:
  assumes "docs_inv {} w" "ob_get (ev_timers w) tm \<noteq> None" "fire L N pick tm w = (r, w')"
  shows "\<exists>es. out w' = out w @ es \<and> (\<forall>u p c. Pod_write u p c \<in> set es \<longrightarrow>
    (\<exists>d doc st. tm = T_flush d \<and> ob_get (ev_heap w) d = Some doc \<and> \<not> dc_isDisplaced doc \<and> \<not> dc_isConflicting doc \<and>
       u = dc_uuid doc \<and> p = dc_path doc \<and> c = yl_text L (dc_y doc) \<and> nd_stat N u p = Some st \<and> \<not> st_isDir st))"
proof -
  let ?w1 = "w\<lparr>ev_timers := ob_del (ev_timers w) tm\<rparr>"
  have quiet: ?thesis if "no_write ?w1 w'"
    using that unfolding sends_only_def by (auto, metis is_write.simps(1))
  show ?thesis
  proof (cases tm)
    case (T_flush d)
    from docs_inv_rest(2) [OF assms(1), of d] assms(2) obtain doc where doc: "ob_get (ev_heap w) d = Some doc"
      unfolding T_flush by auto
    then have td: "the_doc ?w1 d = doc" by (simp add: the_doc_def)
    have w': "w' = flush L N d ?w1" using assms(3) by (simp add: fire_def T_flush)
    show ?thesis
    proof (cases "dc_isDisplaced doc \<or> dc_isConflicting doc \<or>
        \<not> (case nd_stat N (dc_uuid doc) (dc_path doc) of None \<Rightarrow> False | Some st \<Rightarrow> \<not> st_isDir st)")
      case True
      have "no_write v (sendFileMovedOrDeleted us x i v)" for us x i and v :: "('a, 'b) env_scheme"
        by (auto simp: sendFileMovedOrDeleted_def to_active_def Let_def intro!: sends_only_emit)
      then have "no_write ?w1 (sendFileMovedOrDeleted us x i (upd_doc d f ?w1))" for us x i f
        by (rule sends_only_trans [rotated]) simp
      with True have "no_write ?w1 w'" unfolding w' flush_def Let_def td by auto
      then show ?thesis by (rule quiet)
    next
      case False
      then have "w' = emit ?w1 [Pod_write (dc_uuid doc) (dc_path doc) (yl_text L (dc_y doc))]"
        unfolding w' flush_def Let_def td by (auto simp: setFileContent_def)
      with False doc T_flush show ?thesis by (auto simp: frame_simps split: option.splits)
    qed
  next
    case (T_process n x)
    with assms(3) fs_process_quiet [of ?w1 L N pick x] show ?thesis by (intro quiet) (simp add: fire_def)
  next
    case (T_cooldown n x p)
    with assms(3) cooldown_quiet [of ?w1 n x p] show ?thesis by (intro quiet) (simp add: fire_def)
  qed
qed

lemma one_open_inv: "docs_inv {} one_open"
proof -
  have "docs_inv {} (env_of [])" by (simp add: docs_inv_def doc_at_def env_of_def)
  then show ?thesis using one_open_step env_step_inv by blast
qed

theorem timers_write_clean_witness:
  "\<exists>es. out (snd (fire text_lib (disk None) hd (T_flush 0) one_open)) = out one_open @ es \<and>
     (\<forall>u p c. Pod_write u p c \<in> set es \<longrightarrow> u = ''W'' \<and> p = ''/workspace/f'' \<and> c = ''abc'')"
proof -
  have t: "ob_get (ev_timers one_open) (T_flush 0) \<noteq> None" by code_simp
  have "map_option (\<lambda>doc. (dc_uuid doc, dc_path doc, dc_y doc)) (ob_get (ev_heap one_open) 0) =
      Some (''W'', ''/workspace/f'', ''abc'')" by code_simp
  then obtain doc where "ob_get (ev_heap one_open) 0 = Some doc" "dc_uuid doc = ''W''" "dc_path doc = ''/workspace/f''"
      "dc_y doc = ''abc''" by auto
  with timers_write_clean [OF one_open_inv t surjective_pairing, of text_lib "disk None" hd] show ?thesis
    by (auto simp: text_lib_def)
qed

text \<open>C39. A file that cannot be read takes the only other open document of the workspace with it: the
  instance forgets that document, although its users have it open.\<close>

theorem open_failure_drops_other:
  assumes "ob_get (ev_docs w) uuid = Some [(other, d)]" "st_ino stat \<noteq> other" "get_workspace w uuid = Some ws"
    "ob_get (cw_docs ws) (st_ino stat) = None" "nd_read N uuid path = None"
  shows "doc_at w uuid other = Some d \<and> doc_at (openFile L N uid sid uuid path stat cid w) uuid other = None"
proof -
  have at: "doc_at w uuid (st_ino stat) = None" using assms(1,2) by (simp add: doc_at_def)
  let ?w0 = "w\<lparr>ev_next := Suc (ev_next w), ev_heap := ob_set (ev_heap w) (ev_next w)
      \<lparr>dc_ino = st_ino stat, dc_path = path, dc_uuid = uuid, dc_y = yl_new L, dc_hash = '''', dc_users = [],
       dc_isDisplaced = False, dc_isConflicting = False, dc_conflictResolver = ''''\<rparr>\<rparr>"
  have "loadFileContent L N (ev_next w) False ?w0 = (False, ?w0)"
    using assms(5) by (simp add: loadFileContent_def the_doc_def Let_def)
  moreover have "ev_docs (doc_destroy L (ev_next w) ?w0) = ev_docs w"
    using mild_rest(1) [OF mild_doc_destroy [of ?w0 L "ev_next w"]] by simp
  ultimately have "obtain_doc L N (st_ino stat) path uuid w =
      (None, (doc_destroy L (ev_next w) ?w0)\<lparr>ev_docs := ob_del (ev_docs w) uuid\<rparr>)"
    using assms(1) at by (simp add: obtain_doc_def new_WSSharedDoc_def Let_def)
  with assms(1,3,4) have "ev_docs (openFile L N uid sid uuid path stat cid w) = ob_del (ev_docs w) uuid"
    by (simp add: openFile_def Let_def sync_sendError_def)
  with assms(1) show ?thesis by (simp add: doc_at_def)
qed

theorem open_failure_drops_other_witness:
  "doc_at one_open ''W'' 7 = Some 0 \<and>
   doc_at (openFile text_lib (disk None) ''bob'' ''s2'' ''W'' ''/workspace/g'' (file_stat\<lparr>st_ino := 8\<rparr>) None one_open) ''W'' 7 = None"
proof -
  have "map_option (\<lambda>ws. ob_get (cw_docs ws) 8) (get_workspace one_open ''W'') = Some None" by code_simp
  then obtain ws where "get_workspace one_open ''W'' = Some ws" "ob_get (cw_docs ws) 8 = None" by auto
  moreover have "ob_get (ev_docs one_open) ''W'' = Some [(7, 0)]" by code_simp
  ultimately show ?thesis
    by (intro open_failure_drops_other) (simp_all add: file_stat_def disk_def)
qed

text \<open>When the user who is to resolve a conflict closes the document, nobody else is asked: the
  document stays in conflict with a resolver who is gone, the only messages are awareness updates, and the
  document is not saved any more.\<close>

lemma resolver_leaves_conflict:
  assumes "doc_at w uuid ino = Some d" "ob_get (ev_heap w) d = Some doc" "dc_isConflicting doc"
    "dc_conflictResolver doc = u" "ob_get (dc_users doc) u = Some ids" "ob_del (dc_users doc) u \<noteq> []"
    "get_workspace w uuid = Some ws" "ob_get (cw_docs ws) ino = Some (ev_id w)" "w' = closeFile L u sid uuid ino w"
  shows "(\<exists>doc'. ob_get (ev_heap w') d = Some doc' \<and> dc_isConflicting doc' \<and> dc_conflictResolver doc' = u \<and>
      dc_users doc' = ob_del (dc_users doc) u) \<and>
    sends_only (\<lambda>e. \<exists>us ss buf. e = Socket_broadcast us ss ''fs'' (Out_sync (dc_uuid doc) (dc_ino doc) buf)) w w' \<and>
    flush L N d w' = w'"
proof -
  let ?w1 = "upd_doc d (\<lambda>doc. doc\<lparr>dc_users := ob_del (dc_users doc) u\<rparr>) w"
  let ?r = "yl_awRemove L ids (dc_y doc)"
  let ?w2 = "upd_doc d (\<lambda>doc. doc\<lparr>dc_y := fst ?r\<rparr>) ?w1"
  let ?doc = "doc\<lparr>dc_users := ob_del (dc_users doc) u, dc_y := fst ?r\<rparr>"
  have h: "ob_get (ev_heap ?w2) d = Some ?doc" using assms(2) by (simp add: upd_doc_heap)
  have t1: "dc_y (the_doc ?w1 d) = dc_y doc" using assms(2) by (simp add: the_doc_def upd_doc_heap)
  obtain es where es: "aw_changed L d ?r None ?w1 = emit ?w2 es"
      "\<forall>e \<in> set es. \<exists>us ss buf. e = Socket_broadcast us ss ''fs'' (Out_sync (dc_uuid doc) (dc_ino doc) buf)"
  proof (cases "snd ?r")
    case None
    have "?w2 = emit ?w2 []" by (simp add: emit_def)
    with None that [of "[]"] show thesis by (simp add: aw_changed_def Let_def)
  next
    case (Some up)
    have "dc_users ?doc \<noteq> []" using assms(6) by simp
    with Some h that show thesis
      by (simp add: aw_changed_def Let_def awareness_no_conflict trackClients_def the_doc_def sync_broadcast_def to_active_def)
  qed
  have "the_doc (emit ?w2 es) d = ?doc" using h by (simp add: the_doc_def)
  with assms(1,2,5,6,7,8) es(1) t1 have w': "w' = emit ?w2 es"
    unfolding assms(9) by (simp add: closeFile_def Let_def the_doc_def)
  have "sends_only (\<lambda>e. \<exists>us ss buf. e = Socket_broadcast us ss ''fs'' (Out_sync (dc_uuid doc) (dc_ino doc) buf)) w w'"
    unfolding w' sends_only_def using es(2) by (auto simp: frame_simps)
  moreover have "flush L N d w' = w'" using h assms(3) by (simp add: w' flush_def the_doc_def)
  ultimately show ?thesis using h assms(3,4) by (simp add: w')
qed

definition in_conflict :: "string env" where
  "in_conflict = upd_doc 0 (\<lambda>doc. doc\<lparr>dc_isConflicting := True, dc_conflictResolver := ''ann''\<rparr>)
     (openFile text_lib (disk None) ''bob'' ''s2'' ''W'' ''/workspace/f'' file_stat None one_open)"

lemma in_conflict_facts:
  obtains doc ws where "doc_at in_conflict ''W'' 7 = Some 0" "ob_get (ev_heap in_conflict) 0 = Some doc"
    "dc_isConflicting doc" "dc_conflictResolver doc = ''ann''" "dc_users doc = [(''ann'', []), (''bob'', [])]"
    "get_workspace in_conflict ''W'' = Some ws" "ob_get (cw_docs ws) 7 = Some (ev_id in_conflict)"
proof -
  have "doc_at in_conflict ''W'' 7 = Some 0" by code_simp
  moreover have "map_option (\<lambda>doc. (dc_isConflicting doc, dc_conflictResolver doc, dc_users doc)) (ob_get (ev_heap in_conflict) 0)
      = Some (True, ''ann'', [(''ann'', []), (''bob'', [])])" by code_simp
  moreover have "map_option (\<lambda>ws. ob_get (cw_docs ws) 7) (get_workspace in_conflict ''W'') = Some (Some (ev_id in_conflict))"
    by code_simp
  ultimately show thesis using that by auto
qed

lemma resolver_leaves_conflict_example:
  "\<exists>doc. ob_get (ev_heap (closeFile text_lib ''ann'' ''s1'' ''W'' 7 in_conflict)) 0 = Some doc \<and> dc_isConflicting doc \<and>
     dc_conflictResolver doc = ''ann'' \<and> ob_keys (dc_users doc) = [''bob'']"
proof -
  obtain doc ws where f: "doc_at in_conflict ''W'' 7 = Some 0" "ob_get (ev_heap in_conflict) 0 = Some doc"
    "dc_isConflicting doc" "dc_conflictResolver doc = ''ann''" "dc_users doc = [(''ann'', []), (''bob'', [])]"
    "get_workspace in_conflict ''W'' = Some ws" "ob_get (cw_docs ws) 7 = Some (ev_id in_conflict)"
    by (rule in_conflict_facts)
  have "ob_get (dc_users doc) ''ann'' = Some []" "ob_del (dc_users doc) ''ann'' = [(''bob'', [])]"
    using f(5) by (simp_all add: ob_del_def)
  with resolver_leaves_conflict [OF f(1-4) _ _ f(6,7) refl, of "[]" text_lib "''s1''" "disk None"] show ?thesis by auto
qed

text \<open>C20. A change on disk of a file that is open on this instance: when the hash of the file differs from
  that of the document, the document is put in conflict with the resolver that was drawn, every user with a
  session is told who that is, and the event is passed on; when the hashes agree, which is the echo of the
  service's own write, the event is dropped and the document stays as it is.\<close>

theorem conflict_detected:
  assumes "fe_type e = Fs_file" "fe_action e = Fs_write" "fe_ino e = Some i" "ob_get (cw_docs ws) i = Some (ev_id w)"
    "ev_id w \<noteq> []" "doc_at w uuid i = Some d" "ob_get (ev_heap w) d = Some doc"
    "h = yl_sha256 L (yl_text L (dc_y doc))" "h \<noteq> []" "changed \<longleftrightarrow> getFileHash N uuid (fe_path e) \<noteq> h"
  shows "\<exists>w'. check_event L N pick uuid ws e w = (Inr changed, w') \<and>
    ob_get (ev_heap w') d = Some (if changed then doc\<lparr>dc_hash := h, dc_isConflicting := True,
        dc_conflictResolver := pick (ob_keys (dc_users doc))\<rparr> else doc\<lparr>dc_hash := h\<rparr>) \<and>
    out w' = out w @ (if changed then map (\<lambda>(u, s). Socket_send (Some (u, s)) u s ''fs''
        (Out_conflict (dc_uuid doc) (dc_ino doc) (pick (ob_keys (dc_users doc)))))
        (active_sessions (dc_uuid doc) (ob_keys (dc_users doc)) w) else [])"
proof -
  let ?w1 = "upd_doc d (\<lambda>doc. doc\<lparr>dc_hash := h\<rparr>) w"
  have h1: "ob_get (ev_heap ?w1) d = Some (doc\<lparr>dc_hash := h\<rparr>)" using assms(7) by (simp add: upd_doc_heap)
  have g: "getDocHash L N uuid (fe_ino e) ws w = (Inr (Some h), ?w1)"
    using assms(3-8) by (simp add: getDocHash_def computeHash_def the_doc_def Let_def)
  have at: "doc_at ?w1 uuid i = Some d" using assms(6) by (simp add: doc_at_def)
  let ?w3 = "upd_doc d (\<lambda>doc'. doc'\<lparr>dc_isConflicting := True, dc_conflictResolver := pick (ob_keys (dc_users doc))\<rparr>) ?w1"
  have h3: "ob_get (ev_heap ?w3) d = Some (doc\<lparr>dc_hash := h, dc_isConflicting := True,
      dc_conflictResolver := pick (ob_keys (dc_users doc))\<rparr>)" using assms(7) by (simp add: upd_doc_heap)
  have "get_presence ?w3 = get_presence w" using cache_get_cong [of ?w3 w] by (simp add: fun_eq_iff get_presence_def)
  then have a: "active_sessions z us ?w3 = active_sessions z us w" for z us
    by (simp add: active_sessions_def getSessionId_def)
  show ?thesis
  proof (cases changed)
    case True
    have "check_event L N pick uuid ws e w =
        (Inr True, conflict_to (dc_uuid doc) (dc_ino doc) (ob_keys (dc_users doc)) (pick (ob_keys (dc_users doc))) ?w3)"
      using assms(1-3,9,10) True g at h1 h3 by (simp add: check_event_def Let_def the_doc_def)
    with True h3 show ?thesis by (simp add: conflict_to_def a frame_simps)
  next
    case False
    then have "check_event L N pick uuid ws e w = (Inr False, ?w1)"
      using assms(1,2,9,10) g by (simp add: check_event_def)
    with False h1 show ?thesis by simp
  qed
qed

definition write_event :: FSEvent where
  "write_event = \<lparr>fe_watchedPath = ''/workspace/'', fe_path = ''/workspace/f'', fe_oldPath = None, fe_ino = Some 7,
     fe_action = Fs_write, fe_timestamp = 5, fe_type = Fs_file\<rparr>"

theorem conflict_detected_witness:
  "\<exists>w'. fst (check_event text_lib (disk (Some ''xyz'')) hd ''W'' (the (get_workspace one_open ''W'')) write_event one_open) = Inr True \<and>
     snd (check_event text_lib (disk (Some ''xyz'')) hd ''W'' (the (get_workspace one_open ''W'')) write_event one_open) = w' \<and>
     last (out w') = Socket_send (Some (''ann'', ''s1'')) ''ann'' ''s1'' ''fs'' (Out_conflict ''W'' 7 ''ann'')"
proof -
  have "map_option (\<lambda>doc. (dc_uuid doc, dc_ino doc, dc_users doc, dc_y doc)) (ob_get (ev_heap one_open) 0) =
      Some (''W'', 7, [(''ann'', [])], ''abc'')" by code_simp
  then obtain doc where doc: "ob_get (ev_heap one_open) 0 = Some doc" "dc_uuid doc = ''W''" "dc_ino doc = 7"
      "dc_users doc = [(''ann'', [])]" "dc_y doc = ''abc''" by auto
  have c: "ob_get (cw_docs (the (get_workspace one_open ''W''))) 7 = Some (ev_id one_open)" "ev_id one_open \<noteq> []"
      "active_sessions ''W'' [''ann''] one_open = [(''ann'', ''s1'')]" by code_simp+
  have h: "''abc'' = yl_sha256 text_lib (yl_text text_lib (dc_y doc))" using doc(5) by (simp add: text_lib_def)
  have g: "True \<longleftrightarrow> getFileHash (disk (Some ''xyz'')) ''W'' (fe_path write_event) \<noteq> ''abc''"
    by (simp add: getFileHash_def disk_def)
  from conflict_detected [OF _ _ _ c(1,2) one_open_doc doc(1) h _ g, of hd] doc c(3) show ?thesis
    by (auto simp: write_event_def)
qed

text \<open>The same change goes unnoticed when the document is open on another instance than the one that
  watches the files: that the hashes differ has no effect but the delivery of the event, so the document
  is not put in conflict and its next save overwrites the change.\<close>

lemma remote_conflict_missed:
  assumes "fe_type e = Fs_file" "fe_action e = Fs_write" "fe_ino e = Some i" "ob_get (cw_docs ws) i = Some other"
    "other \<noteq> []" "other \<noteq> ev_id w" "doc_at w uuid i = None" "nd_docHash N other uuid i = Inr (Some h)" "h \<noteq> []"
    "getFileHash N uuid (fe_path e) \<noteq> h"
  shows "check_event L N pick uuid ws e w = (Inr True, w)"
  using assms by (simp add: check_event_def getDocHash_def)

end
