(* ===== verification/Env_Events.thy ===== *)
theory Env_Events
  imports Env_Editing
begin

text \<open>
  Bursts of file events, and opening and closing a document as a round trip.
\<close>

section \<open>Bursts\<close>

definition first_burst :: burst where
  "first_burst = \<lparr>bu_lastEvent = 0, bu_count = 0, bu_bursting = False\<rparr>"

definition next_burst :: "FSEvent \<Rightarrow> burst \<Rightarrow> burst" where
  "next_burst e b =
     (let n = (if fe_timestamp e - bu_lastEvent b > BURST_INTERVAL then 0 else bu_count b) + 1
      in \<lparr>bu_lastEvent = fe_timestamp e, bu_count = n, bu_bursting = (bu_bursting b \<or> n > BURST_THRESHOLD)\<rparr>)"

lemma signal_paths: "ev_paths (snd (signal x p b w)) = ev_paths w"
  by (simp add: signal_def split: sum.split)

lemma watch_step:
  assumes "ob_get (ev_paths w) x = Some ps" "b = (case ob_get (ps_paths ps) (fe_watchedPath e) of None \<Rightarrow> first_burst | Some b \<Rightarrow> b)"
  shows "ob_get (ev_paths (snd (handleWatchEvent e x w))) x =
    Some (ps\<lparr>ps_paths := ob_set (ps_paths ps) (fe_watchedPath e) (next_burst e b),
             ps_batch := ps_batch ps @ (if bu_bursting (next_burst e b) then [] else [e])\<rparr>)"
proof -
  let ?p = "fe_watchedPath e"
  let ?n = "(if fe_timestamp e - bu_lastEvent b > BURST_INTERVAL then 0 else bu_count b) + 1"
  let ?starts = "\<not> bu_bursting b \<and> ?n > BURST_THRESHOLD"
  let ?b1 = "b\<lparr>bu_count := ?n, bu_lastEvent := fe_timestamp e\<rparr>"
  have b2: "(if ?starts then ?b1\<lparr>bu_bursting := True\<rparr> else ?b1) = next_burst e b"
    by (cases b) (auto simp: next_burst_def Let_def)
  let ?w1 = "put_burst x ?p (next_burst e b) w"
  have w1: "ob_get (ev_paths ?w1) x = Some (ps\<lparr>ps_paths := ob_set (ps_paths ps) ?p (next_burst e b)\<rparr>)"
    using assms(1) by (simp add: put_burst_def)
  obtain r w2 where s: "(if ?starts then signal x ?p True ?w1 else (Inr (), ?w1)) = (r, w2)" by fastforce
  have p2: "ev_paths w2 = ev_paths ?w1" using s signal_paths [of x ?p True ?w1] by (auto split: if_splits)
  have h: "handleWatchEvent e x w = (case (r, w2) of (Inl e', w2) \<Rightarrow> (Inl e', w2)
      | (Inr _, w2) \<Rightarrow> if bu_bursting (next_burst e b)
          then (Inr (), set_timer (T_cooldown (ps_id ps) x ?p) COOLDOWN w2)
          else (Inr (), set_timer (T_process (ps_id ps) x) 250 (push_event x e w2)))"
    unfolding handleWatchEvent_def assms(1) option.case Let_def first_burst_def [symmetric] assms(2) [symmetric] b2 s ..
  show ?thesis
  proof (cases r)
    case (Inl err)
    then have "?starts" using s by (auto split: if_splits)
    then have "bu_bursting (next_burst e b)" by (simp add: next_burst_def Let_def)
    with Inl h w1 p2 show ?thesis by simp
  next
    case (Inr u)
    with h w1 p2 show ?thesis by (simp add: set_timer_def push_event_def)
  qed
qed

abbreviation watch_all :: "string \<Rightarrow> FSEvent list \<Rightarrow> ('y, 'a) env_scheme \<Rightarrow> ('y, 'a) env_scheme" where
  "watch_all x es w \<equiv> fold (\<lambda>e w. snd (handleWatchEvent e x w)) es w"

lemma burst_state:
  assumes "ob_get (ev_paths w) x = Some ps" "ob_get (ps_paths ps) p = None"
  shows "es \<noteq> [] \<Longrightarrow> \<forall>e \<in> set es. fe_watchedPath e = p \<Longrightarrow>
    successively (\<lambda>a b. fe_timestamp b - fe_timestamp a \<le> BURST_INTERVAL) es \<Longrightarrow>
    \<exists>ps'. ob_get (ev_paths (watch_all x es w)) x = Some ps' \<and> ps_batch ps' = ps_batch ps @ take 50 es \<and>
      ob_get (ps_paths ps') p = Some \<lparr>bu_lastEvent = fe_timestamp (last es), bu_count = int (length es),
        bu_bursting = (50 < length es)\<rparr>"
proof (induction es rule: rev_induct)
  case (snoc e es)
  show ?case
  proof (cases "es = []")
    case True
    with snoc.prems assms watch_step [OF assms(1) refl, of e] show ?thesis
      by (simp add: first_burst_def next_burst_def Let_def BURST_THRESHOLD_def)
  next
    case False
    with snoc.prems have p: "\<forall>e \<in> set es. fe_watchedPath e = p" "fe_watchedPath e = p"
        "successively (\<lambda>a b. fe_timestamp b - fe_timestamp a \<le> BURST_INTERVAL) es"
        "fe_timestamp e - fe_timestamp (last es) \<le> BURST_INTERVAL"
      by (simp_all add: successively_append_iff)
    from snoc.IH [OF False p(1,3)] obtain ps' where ps': "ob_get (ev_paths (watch_all x es w)) x = Some ps'"
        "ps_batch ps' = ps_batch ps @ take 50 es" "ob_get (ps_paths ps') p = Some \<lparr>bu_lastEvent = fe_timestamp (last es),
          bu_count = int (length es), bu_bursting = (50 < length es)\<rparr>" by blast
    have "next_burst e \<lparr>bu_lastEvent = fe_timestamp (last es), bu_count = int (length es), bu_bursting = (50 < length es)\<rparr> =
        \<lparr>bu_lastEvent = fe_timestamp e, bu_count = int (Suc (length es)), bu_bursting = (50 < Suc (length es))\<rparr>"
      using p(4) by (auto simp: next_burst_def Let_def BURST_THRESHOLD_def)
    with watch_step [OF ps'(1) refl, of e] ps'(2,3) p(2) show ?thesis by simp
  qed
qed simp

text \<open>C21. A burst is cut off: when events below one path follow each other within the burst interval, however
  many they are, exactly the first fifty are put in the batch that is delivered.\<close>

theorem burst_bounded:
  assumes "ob_get (ev_paths w) uuid = Some ps" "ob_get (ps_paths ps) p = None" "\<forall>e \<in> set es. fe_watchedPath e = p"
    "successively (\<lambda>a b. fe_timestamp b - fe_timestamp a \<le> BURST_INTERVAL) es"
  shows "\<exists>ps'. ob_get (ev_paths (fold (\<lambda>e w. snd (handleWatchEvent e uuid w)) es w)) uuid = Some ps' \<and>
    ps_batch ps' = ps_batch ps @ take 50 es"
  using burst_state [OF assms(1,2) _ assms(3,4)] assms(1) by (cases "es = []") auto

theorem burst_bounded_witness:
  "\<exists>ps'. ob_get (ev_paths (fold (\<lambda>e w. snd (handleWatchEvent e ''W'' w)) (replicate 60 write_event) (setWorkspace ''W'' (env_of [])))) ''W'' =
     Some ps' \<and> length (ps_batch ps') = 50"
proof -
  have s: "successively (\<lambda>a b. fe_timestamp b - fe_timestamp a \<le> BURST_INTERVAL) (replicate n write_event)" for n
    by (simp add: successively_conv_nth BURST_INTERVAL_def)
  have w: "ob_get (ev_paths (setWorkspace ''W'' (env_of []))) ''W'' = Some \<lparr>ps_id = 0, ps_batch = [], ps_paths = []\<rparr>"
    by (simp add: setWorkspace_def env_of_def)
  from burst_bounded [OF w _ _ s, of "''/workspace/''" 60] show ?thesis by (auto simp: write_event_def)
qed

section \<open>Opening and closing a document\<close>

lemma y_changed_heap:
  "ob_get (ev_heap w) d = Some doc \<Longrightarrow> ob_get (ev_heap (y_changed L d r w)) d = Some (doc\<lparr>dc_y := fst r\<rparr>)"
  by (cases "snd r") (simp_all add: y_changed_def updateHandler_def set_timer_def sync_broadcast_def to_active_def Let_def upd_doc_heap)

lemma workspace_update:
  "get_workspace w x = Some ws \<Longrightarrow>
     get_workspace (sync_updateCache x ino add w) x = Some (ws\<lparr>cw_docs := if add then ob_set (cw_docs ws) ino (ev_id w)
       else ob_del (cw_docs ws) ino\<rparr>)"
  by (simp add: sync_updateCache_def cache_simps)

lemma updateCache_frame [simp]:
  "ev_docs (sync_updateCache x ino add w) = ev_docs w" "ev_heap (sync_updateCache x ino add w) = ev_heap w"
  "ev_id (sync_updateCache x ino add w) = ev_id w"
  by (simp_all add: sync_updateCache_def set_workspace_def cache_set_def split: option.split)

lemma sendSuccess_frame [simp]:
  "ev_docs (sync_sendSuccess u s c b r w) = ev_docs w" "ev_heap (sync_sendSuccess u s c b r w) = ev_heap w"
  "ev_id (sync_sendSuccess u s c b r w) = ev_id w" "get_workspace (sync_sendSuccess u s c b r w) = get_workspace w"
  by (simp_all add: sync_sendSuccess_def fun_eq_iff get_workspace_def cache_simps)

lemma workspace_docs: "get_workspace (w\<lparr>ev_docs := m\<rparr>) = get_workspace w" "get_workspace (upd_doc d f w) = get_workspace w"
  "get_workspace (w\<lparr>ev_next := n, ev_heap := h\<rparr>) = get_workspace w"
  for w :: "('y, 'a) env_scheme"
  using cache_get_cong [of "w\<lparr>ev_docs := m\<rparr>" w] cache_get_cong [of "upd_doc d f w" w]
    cache_get_cong [of "w\<lparr>ev_next := n, ev_heap := h\<rparr>" w]
  by (simp_all add: fun_eq_iff get_workspace_def)

text \<open>A file that was not open: a new document, filed under it, with one user.\<close>

lemma openFile_new:
  assumes "get_workspace w x = Some ws" "ob_get (cw_docs ws) (st_ino stat) = None" "doc_at w x (st_ino stat) = None"
    "nd_read N x path = Some content" "w1 = openFile L N u s x path stat c w"
  shows "\<exists>d doc. ob_get (ev_heap w1) d = Some doc \<and> dc_users doc = [(u, [])] \<and> dc_y doc = fst (yl_insert L content (yl_new L)) \<and>
    (\<forall>y i. doc_at w1 y i = (if y = x \<and> i = st_ino stat then Some d else doc_at w y i)) \<and> ev_id w1 = ev_id w \<and>
    get_workspace w1 x = Some (ws\<lparr>cw_docs := ob_set (cw_docs ws) (st_ino stat) (ev_id w)\<rparr>)"
proof -
  let ?ino = "st_ino stat"
  define v where "v = (if ob_get (ev_docs w) x = None then w\<lparr>ev_docs := ob_set (ev_docs w) x []\<rparr> else w)"
  have v: "doc_at v = doc_at w" "ev_id v = ev_id w" "get_workspace v = get_workspace w"
    by (auto simp: fun_eq_iff v_def doc_at_def workspace_docs)
  let ?d = "ev_next v"
  let ?doc = "\<lparr>dc_ino = ?ino, dc_path = path, dc_uuid = x, dc_y = yl_new L, dc_hash = '''', dc_users = [],
      dc_isDisplaced = False, dc_isConflicting = False, dc_conflictResolver = ''''\<rparr>"
  let ?v0 = "v\<lparr>ev_next := Suc ?d, ev_heap := ob_set (ev_heap v) ?d ?doc\<rparr>"
  let ?r = "yl_insert L content (yl_new L)"
  define v1 where "v1 = y_changed L ?d ?r ?v0"
  have l: "loadFileContent L N ?d False ?v0 = (True, v1)"
    using assms(4) by (simp add: loadFileContent_def the_doc_def Let_def v1_def)
  have h1: "ob_get (ev_heap v1) ?d = Some (?doc\<lparr>dc_y := fst ?r\<rparr>)" unfolding v1_def by (rule y_changed_heap) simp
  obtain h v2 where c: "computeHash L ?d v1 = (h, v2)" by fastforce
  have h2: "ob_get (ev_heap v2) ?d = Some (?doc\<lparr>dc_y := fst ?r, dc_hash := h\<rparr>)"
    using c h1 by (auto simp: computeHash_def Let_def upd_doc_heap)
  have "doc_only ?v0 v1" by (simp add: v1_def doc_only_changed)
  moreover have "doc_only v1 v2" using doc_only_hash [of v1 L ?d] c by simp
  ultimately have only: "doc_only ?v0 v2" by (rule doc_only_trans)
  have at2: "doc_at v2 = doc_at w" using doc_only_at [OF only] v(1) by (simp add: fun_eq_iff doc_at_def)
  have ws2: "get_workspace v2 x = Some ws" "ev_id v2 = ev_id w"
    using doc_only_workspace [OF only] v only assms(1) by (simp_all add: workspace_docs doc_only_def)
  define ds where "ds = (case ob_get (ev_docs v2) x of None \<Rightarrow> [] | Some ds \<Rightarrow> ds)"
  have "ob_get ds i = doc_at v2 x i" for i by (simp add: ds_def doc_at_def split: option.split)
  then have ds: "ob_get ds i = doc_at w x i" for i by (simp add: at2)
  define v3 where "v3 = v2\<lparr>ev_docs := ob_set (ev_docs v2) x (ob_set ds ?ino ?d)\<rparr>"
  have o: "obtain_doc L N ?ino path x v = (Some ?d, v3)"
    using assms(3) v(1) l c by (simp add: obtain_doc_def new_WSSharedDoc_def Let_def v3_def ds_def)
  have w1: "\<exists>b res. w1 = sync_sendSuccess u s c b res (sync_updateCache x ?ino True
      (upd_doc ?d (\<lambda>doc. doc\<lparr>dc_users := ob_set (dc_users doc) u []\<rparr>) v3))"
    unfolding assms(5) openFile_def Let_def v_def [symmetric] using assms(1,2) o by auto
  have "doc_at w1 y i = (if y = x \<and> i = ?ino then Some ?d else doc_at w y i)" for y i
    using w1 at2 ds by (auto simp: doc_at_def v3_def fun_eq_iff)
  moreover have "get_workspace w1 x = Some (ws\<lparr>cw_docs := ob_set (cw_docs ws) ?ino (ev_id w)\<rparr>)" "ev_id w1 = ev_id w"
    using w1 ws2 by (auto simp: workspace_docs workspace_update v3_def)
  moreover have "ob_get (ev_heap w1) ?d = Some (?doc\<lparr>dc_y := fst ?r, dc_hash := h, dc_users := [(u, [])]\<rparr>)"
    using w1 h2 by (auto simp: upd_doc_heap v3_def ob_set_def)
  ultimately show ?thesis by (intro exI [of _ ?d] exI) auto
qed

text \<open>The last user leaves: the document is dropped.\<close>

lemma closeFile_last:
  assumes "get_workspace w x = Some ws" "ob_get (cw_docs ws) ino = Some (ev_id w)" "doc_at w x ino = Some d"
    "ob_get (ev_heap w) d = Some doc" "dc_users doc = [(u, ids)]" "w1 = closeFile L u s x ino w"
  shows "doc_at w1 y i = (if y = x \<and> i = ino then None else doc_at w y i)"
    "get_workspace w1 x = Some (ws\<lparr>cw_docs := ob_del (cw_docs ws) ino\<rparr>)" "ev_id w1 = ev_id w"
proof -
  define v where "v = upd_doc d (\<lambda>doc. doc\<lparr>dc_users := ob_del (dc_users doc) u\<rparr>) w"
  let ?r = "yl_awRemove L ids (dc_y (the_doc v d))"
  define v1 where "v1 = aw_changed L d ?r None v"
  define v2 where "v2 = doc_destroy L d v1"
  have "ob_get (ev_heap v) d = Some (doc\<lparr>dc_users := []\<rparr>)"
    using assms(4,5) by (simp add: v_def upd_doc_heap ob_del_def)
  from mild_heap(2) [OF mild_aw_changed [of v L d ?r None] this] have e: "dc_users (the_doc v1 d) = []"
    by (auto simp: v1_def the_doc_def doc_like_def)
  have "doc_only v v1" "doc_only v1 v2"
    by (simp_all add: v1_def v2_def doc_only_changed doc_destroy_def doc_only_awareness)
  then have only: "doc_only v v2" by (rule doc_only_trans)
  have ws2: "get_workspace v2 x = Some ws" "ev_id v2 = ev_id w" "ev_docs v2 = ev_docs w"
    using doc_only_workspace [OF only] only assms(1) by (simp_all add: v_def workspace_docs doc_only_def)
  have us: "dc_users (the_doc w d) = [(u, ids)]" using assms(4,5) by (simp add: the_doc_def)
  have w1: "w1 = drop_doc L x ino d v1"
    using assms(1-3) us e unfolding assms(6) closeFile_def
    by (simp add: Let_def truthy_def js_str_def v_def [symmetric] v1_def [symmetric])
  obtain ds where ds: "ob_get (ev_docs w) x = Some ds"
    using assms(3) by (auto simp: doc_at_def split: option.splits)
  define v3 where "v3 = sync_updateCache x ino False (v2\<lparr>ev_docs := ob_set (ev_docs w) x (ob_del ds ino)\<rparr>)"
  have w1': "w1 = (if ob_del ds ino = [] then v3\<lparr>ev_docs := ob_del (ob_set (ev_docs w) x (ob_del ds ino)) x\<rparr> else v3)"
    using w1 ds ws2(3) by (simp add: drop_doc_def Let_def v2_def [symmetric] v3_def)
  show "doc_at w1 y i = (if y = x \<and> i = ino then None else doc_at w y i)"
    using w1' ds by (auto simp: doc_at_def v3_def dest: arg_cong [of _ "[]" "\<lambda>l. ob_get l i"])
  show "get_workspace w1 x = Some (ws\<lparr>cw_docs := ob_del (cw_docs ws) ino\<rparr>)" "ev_id w1 = ev_id w"
    using w1' ws2 by (auto simp: v3_def workspace_docs workspace_update)
qed

text \<open>C19. Opening a file and closing it is a round trip. When a user opens a file no instance has open, the
  document holds the content read from the workspace, it is filed under its inode, and the workspace record in
  the cache names this instance as its holder; when the same user closes it, the documents of the instance
  and the holders in the record are as they were.\<close>

theorem open_close_restores:
  assumes "get_workspace w x = Some ws" "ob_get (cw_docs ws) (st_ino stat) = None" "doc_at w x (st_ino stat) = None"
    "nd_read N x path = Some content"
    "w1 = openFile L N u s x path stat c w" "w2 = closeFile L u s x (st_ino stat) w1"
  shows "\<exists>d ws1 ws2. doc_at w1 x (st_ino stat) = Some d \<and> dc_y (the_doc w1 d) = fst (yl_insert L content (yl_new L)) \<and>
    get_workspace w1 x = Some ws1 \<and> ob_get (cw_docs ws1) (st_ino stat) = Some (ev_id w) \<and>
    doc_at w2 = doc_at w \<and> get_workspace w2 x = Some ws2 \<and> ob_get (cw_docs ws2) = ob_get (cw_docs ws)"
proof -
  obtain d doc where o: "ob_get (ev_heap w1) d = Some doc" "dc_users doc = [(u, [])]"
      "dc_y doc = fst (yl_insert L content (yl_new L))"
      "\<And>y i. doc_at w1 y i = (if y = x \<and> i = st_ino stat then Some d else doc_at w y i)" "ev_id w1 = ev_id w"
      "get_workspace w1 x = Some (ws\<lparr>cw_docs := ob_set (cw_docs ws) (st_ino stat) (ev_id w)\<rparr>)"
    using openFile_new [OF assms(1-5)] by blast
  have d: "doc_at w1 x (st_ino stat) = Some d" by (simp add: o(4))
  have h: "ob_get (cw_docs (ws\<lparr>cw_docs := ob_set (cw_docs ws) (st_ino stat) (ev_id w)\<rparr>)) (st_ino stat) = Some (ev_id w1)"
    by (simp add: o(5))
  note c = closeFile_last [OF o(6) h d o(1,2) assms(6)]
  have "doc_at w2 = doc_at w" using c(1) o(4) assms(3) by (auto simp: fun_eq_iff)
  moreover have "ob_get (ob_del (ob_set (cw_docs ws) (st_ino stat) (ev_id w)) (st_ino stat)) = ob_get (cw_docs ws)"
    using assms(2) by (auto simp: fun_eq_iff)
  ultimately show ?thesis using d o c(2) by (intro exI conjI) (assumption | simp add: the_doc_def)+
qed

theorem open_close_restores_witness:
  "doc_at (closeFile text_lib ''ann'' ''s1'' ''W'' 7 one_open) = doc_at (env_of []) \<and> dc_y (the_doc one_open 0) = ''abc''"
proof -
  have w: "get_workspace (env_of []) ''W'' = Some \<lparr>cw_state = Active, cw_fs = ''e1'', cw_dirs = [], cw_docs = [], cw_sshs = []\<rparr>"
    by code_simp
  have i: "st_ino file_stat = 7" "doc_at (env_of []) ''W'' (st_ino file_stat) = None" by code_simp+
  show ?thesis
    using open_close_restores [OF w _ i(2) _ one_open_def refl] one_open_doc
    by (auto simp: i(1) disk_def text_lib_def)
qed

end
