(* ===== verification/Firestore.thy ===== *)
theory Firestore
  imports Net_State "HOL-Library.Char_ord" "HOL-Library.List_Lexorder"
begin

text \<open>
  A collection of the document database Firestore, as the user and the notification service use it: a
  dictionary from document ids to documents. A query without an order of its own answers the documents by
  increasing id. A field that is null is absent.

  A call may fail: the operations of the services have the outcome of the calls as an argument \<open>db\<close>, which is
  the error that the first call throws, if any.
\<close>

section \<open>Collections\<close>

type_synonym 'd collection = "(string, 'd) obj"

definition fs_docs :: "'d collection \<Rightarrow> (string \<times> 'd) list" where
  "fs_docs c = sort_key fst c"

definition fs_where :: "('d \<Rightarrow> bool) \<Rightarrow> 'd collection \<Rightarrow> 'd list" where
  "fs_where P c = filter P (map snd (fs_docs c))"

lemma set_fs_docs [simp]: "set (fs_docs c) = set c"
  by (simp add: fs_docs_def)

lemma set_fs_where: "set (fs_where P c) = {d \<in> snd ` set c. P d}"
  by (auto simp: fs_where_def)

lemma fs_where_Nil: "fs_where P c = [] \<longleftrightarrow> (\<forall>d \<in> snd ` set c. \<not> P d)"
  using set_fs_where [of P c] by (metis (mono_tags, lifting) Collect_empty_eq empty_set set_empty)

lemma insort_key_map:
  "insort_key fst (k, f v) (map (apsnd f) xs) = map (apsnd f) (insort_key fst (k, v) xs)"
  by (induction xs) auto

lemma fs_docs_map: "fs_docs (map (apsnd f) c) = map (apsnd f) (fs_docs c)"
  unfolding fs_docs_def by (induction c) (auto simp: insort_key_map)

lemma fs_docs_cong: "map (apsnd f) c = map (apsnd f) c' \<Longrightarrow> map (apsnd f) (fs_docs c) = map (apsnd f) (fs_docs c')"
  by (metis fs_docs_map)

text \<open>In a well-formed collection the documents are those a lookup by id finds.\<close>

lemma fs_doc_get: "ob_wf c \<Longrightarrow> (k, d) \<in> set c \<longleftrightarrow> ob_get c k = Some d"
  by (simp add: ob_wf_def)

lemma fs_docs_values: "ob_wf c \<Longrightarrow> snd ` set c = ran (ob_get c)"
  by (simp add: ob_wf_def ran_distinct)

end
