(* ===== verification/Notification_Service.thy ===== *)
theory Notification_Service
  imports Firestore
begin

text \<open>
  The notification service (\<^verbatim>\<open>notification/src/app.service.ts\<close>, \<^verbatim>\<open>app.controller.ts\<close>): notifications are
  documents of Firestore below their user, by id, and are sent to every session of the user.

  \<open>parseDate\<close> is what \<^verbatim>\<open>new Date(text)\<close> gives for a text that is not in ISO format (\<open>None\<close> for an invalid
  date, which the database refuses).
\<close>

section \<open>Operations\<close>

record nsvc = net +
  ntfns :: "(string, user_notification collection) obj"

definition messages :: "string \<Rightarrow> 'a nsvc_scheme \<Rightarrow> user_notification collection" where
  "messages uid w = (case ob_get (ntfns w) uid of None \<Rightarrow> [] | Some ms \<Rightarrow> ms)"

definition set_messages :: "string \<Rightarrow> user_notification collection \<Rightarrow> 'a nsvc_scheme \<Rightarrow> 'a nsvc_scheme" where
  "set_messages uid ms w = w\<lparr>ntfns := ob_set (ntfns w) uid ms\<rparr>"

fun date_of :: "(string \<Rightarrow> int option) \<Rightarrow> created_on \<Rightarrow> int option" where
  "date_of parseDate (IsoText t) = Some t"
| "date_of parseDate (DateOf t) = Some t"
| "date_of parseDate (RawText s) = parseDate s"

definition pushNotification ::
  "err option \<Rightarrow> (string \<Rightarrow> int option) \<Rightarrow> string \<Rightarrow> user_notification \<Rightarrow> 'a nsvc_scheme \<Rightarrow> unit result \<times> 'a nsvc_scheme" where
  "pushNotification db parseDate uid notification w =
     (case db of Some e \<Rightarrow> (Inl e, w)
      | None \<Rightarrow>
          (case date_of parseDate (nt_createdOn notification) of
             None \<Rightarrow> (Inl (LibErr ''Value for argument seconds is not a valid integer''), w)
           | Some t \<Rightarrow>
               (let w1 = set_messages uid (ob_set (messages uid w) (nt_id notification)
                           (notification\<lparr>nt_createdOn := DateOf t\<rparr>)) w
                in (Inr (), emit w1 (sends_to ''notification'' (Ntfn_new notification) w1 uid)))))"

definition getAllNotifications ::
  "err option \<Rightarrow> string \<Rightarrow> 'a nsvc_scheme \<Rightarrow> user_notification list result" where
  "getAllNotifications db uid w =
     (case db of Some e \<Rightarrow> Inl e | None \<Rightarrow> Inr (map snd (fs_docs (messages uid w))))"

definition pushAllPendingNotifications ::
  "err option \<Rightarrow> string \<Rightarrow> 'a nsvc_scheme \<Rightarrow> unit result \<times> 'a nsvc_scheme" where
  "pushAllPendingNotifications db uid w =
     (case db of Some e \<Rightarrow> (Inl e, w)
      | None \<Rightarrow>
          (let pendingNtfns = map snd (fs_docs (messages uid w))
           in (Inr (), emit w (sends_to ''notification'' (Ntfn_pending pendingNtfns) w uid))))"

definition delete_directive :: "string \<Rightarrow> user_notification" where
  "delete_directive ntfnId = \<lparr>nt_type = Notification_delete, nt_id = ntfnId, nt_createdOn = RawText ''0'',
     nt_actedOn = None, nt_fields = NoFields\<rparr>"

definition handleReadNotification ::
  "err option \<Rightarrow> string \<Rightarrow> string \<Rightarrow> bool \<Rightarrow> bool \<Rightarrow> 'a nsvc_scheme \<Rightarrow> unit result \<times> 'a nsvc_scheme" where
  "handleReadNotification db uid ntfnId ignorePersistent systemRead w =
     (case db of Some e \<Rightarrow> (Inl e, w)
      | None \<Rightarrow>
          (let w1 = (case ob_get (messages uid w) ntfnId of None \<Rightarrow> w
                     | Some ntfn \<Rightarrow>
                         if \<not> ignorePersistent \<or> \<not> isNotificationPersistent ntfn
                         then set_messages uid (ob_del (messages uid w) ntfnId) w else w)
           in (Inr (), if systemRead
                       then emit w1 (sends_to ''notification'' (Ntfn_directive (delete_directive ntfnId)) w1 uid) else w1)))"

definition handleReadAllNotifications ::
  "err option \<Rightarrow> string \<Rightarrow> string list \<Rightarrow> 'a nsvc_scheme \<Rightarrow> unit result \<times> 'a nsvc_scheme" where
  "handleReadAllNotifications db uid ntfnIds w =
     (case db of Some e \<Rightarrow> (Inl e, w)
      | None \<Rightarrow> (Inr (), set_messages uid (fold (\<lambda>i ms. ob_del ms i) ntfnIds (messages uid w)) w))"

text \<open>The routes of \<^verbatim>\<open>app.controller.ts\<close>: the two messages of other services, the event of a user coming
  online, and the requests of a user.\<close>

datatype ntfn_request =
    Ntfn_send string user_notification
  | Ntfn_read string string
  | User_online string
  | Post_read string string
  | Post_readall string "string list"

definition ntfn_handle ::
  "err option \<Rightarrow> (string \<Rightarrow> int option) \<Rightarrow> ntfn_request \<Rightarrow> 'a nsvc_scheme \<Rightarrow> unit result \<times> 'a nsvc_scheme" where
  "ntfn_handle db parseDate rq w =
     (case rq of
        Ntfn_send uid n \<Rightarrow> pushNotification db parseDate uid n w
      | Ntfn_read uid i \<Rightarrow> handleReadNotification db uid i False True w
      | User_online uid \<Rightarrow> pushAllPendingNotifications db uid w
      | Post_read uid i \<Rightarrow> handleReadNotification db uid i True False w
      | Post_readall uid ids \<Rightarrow> handleReadAllNotifications db uid ids w)"

section \<open>The stored notifications\<close>

text \<open>The notification a user has under an id, after each request.\<close>

definition pending :: "'a nsvc_scheme \<Rightarrow> string \<Rightarrow> string \<Rightarrow> user_notification option" where
  "pending w uid i = ob_get (messages uid w) i"

lemma messages_set [simp]: "messages u (set_messages v ms w) = (if u = v then ms else messages u w)"
  by (simp add: messages_def set_messages_def)

lemma messages_emit [simp]: "messages u (emit w es) = messages u w"
  by (simp add: messages_def emit_def)

lemma pending_set: "pending (set_messages v ms w) u i = (if u = v then ob_get ms i else pending w u i)"
  by (simp add: pending_def)

lemma pending_emit [simp]: "pending (emit w es) = pending w"
  by (simp add: pending_def fun_eq_iff)

lemma ob_get_dels: "ob_get (fold (\<lambda>i ms. ob_del ms i) is ms) k = (if k \<in> set is then None else ob_get ms k)"
  by (rule obj.get_fold_del)

lemma push_pending:
  assumes "date_of parseDate (nt_createdOn n) = Some t" "pushNotification None parseDate uid n w = (r, w')"
  shows "r = Inr ()" "pending w' u i = (if u = uid \<and> i = nt_id n then Some (n\<lparr>nt_createdOn := DateOf t\<rparr>) else pending w u i)"
  using assms by (auto simp: pushNotification_def Let_def pending_def)

lemma read_pending:
  assumes "handleReadNotification None uid k ign sys w = (r, w')"
  shows "r = Inr ()" "pending w' u i = (if u = uid \<and> i = k \<and> (\<exists>n. pending w uid k = Some n \<and> (ign \<longrightarrow> \<not> isNotificationPersistent n))
    then None else pending w u i)"
  using assms by (auto simp: handleReadNotification_def Let_def pending_def split: option.splits if_splits)

section \<open>The notifications as an interface\<close>

text \<open>
  What the other services rely on: a notification that is sent is held under its id, reading it does not drop a
  lasting one, clearing drops it, and nothing else changes. \<open>valid\<close> are the notifications whose date can be read.
\<close>

locale inbox =
  fixes send :: "string \<Rightarrow> 'n \<Rightarrow> 's \<Rightarrow> 's"
    and seen :: "string \<Rightarrow> string \<Rightarrow> 's \<Rightarrow> 's"
    and clear :: "string \<Rightarrow> string \<Rightarrow> 's \<Rightarrow> 's"
    and holds :: "'s \<Rightarrow> string \<Rightarrow> string \<Rightarrow> 'm option"
    and ident :: "'n \<Rightarrow> string"
    and valid :: "'n \<Rightarrow> bool"
    and stored :: "'n \<Rightarrow> 'm"
    and lasting :: "'m \<Rightarrow> bool"
  assumes holds_send: "valid n \<Longrightarrow> holds (send u n s) v i = (if v = u \<and> i = ident n then Some (stored n) else holds s v i)"
    and holds_seen: "holds s u k = Some m \<Longrightarrow> holds (seen u k s) v i = (if v = u \<and> i = k \<and> \<not> lasting m then None else holds s v i)"
    and holds_clear: "holds (clear u k s) v i = (if v = u \<and> i = k then None else holds s v i)"
begin

lemma seen_keeps: "holds s u k = Some m \<Longrightarrow> lasting m \<Longrightarrow> holds (seen u k s) = holds s"
  by (simp add: fun_eq_iff holds_seen)

lemma send_seen_clear:
  assumes "valid n" "lasting (stored n)" "holds s u (ident n) = None"
  defines "s1 \<equiv> send u n s"
  defines "s2 \<equiv> seen u (ident n) s1"
  shows "holds s1 u (ident n) = Some (stored n) \<and> holds s2 = holds s1 \<and> holds (clear u (ident n) s2) = holds s"
proof -
  have 1: "holds s1 u (ident n) = Some (stored n)" using assms(1) by (simp add: s1_def holds_send)
  then have 2: "holds s2 = holds s1" unfolding s2_def using assms(2) by (rule seen_keeps)
  have "holds (clear u (ident n) s2) = holds s"
    using assms(1,3) by (auto simp: fun_eq_iff holds_clear 2) (simp_all add: s1_def holds_send)
  with 1 2 show ?thesis by blast
qed

end

definition dated :: "(string \<Rightarrow> int option) \<Rightarrow> user_notification \<Rightarrow> user_notification" where
  "dated parseDate n = n\<lparr>nt_createdOn := DateOf (case date_of parseDate (nt_createdOn n) of None \<Rightarrow> 0 | Some t \<Rightarrow> t)\<rparr>"

lemma ntfn_handle_ok:
  "date_of parseDate (nt_createdOn n) \<noteq> None \<Longrightarrow> fst (ntfn_handle None parseDate (Ntfn_send u n) w) = Inr ()"
  "fst (ntfn_handle None parseDate (Ntfn_read u i) w) = Inr ()"
  "fst (ntfn_handle None parseDate (Post_read u i) w) = Inr ()"
  by (auto simp: ntfn_handle_def pushNotification_def handleReadNotification_def Let_def)

interpretation ntfn_box: inbox
  "\<lambda>u n w. snd (ntfn_handle None parseDate (Ntfn_send u n) w)"
  "\<lambda>u i w. snd (ntfn_handle None parseDate (Post_read u i) w)"
  "\<lambda>u i w. snd (ntfn_handle None parseDate (Ntfn_read u i) w)"
  pending nt_id "\<lambda>n. date_of parseDate (nt_createdOn n) \<noteq> None" "dated parseDate" isNotificationPersistent for parseDate
proof
  fix n u v i k m and w :: "'a nsvc_scheme"
  show "pending (snd (ntfn_handle None parseDate (Ntfn_send u n) w)) v i =
      (if v = u \<and> i = nt_id n then Some (dated parseDate n) else pending w v i)"
    if "date_of parseDate (nt_createdOn n) \<noteq> None"
    using that push_pending(2) [where uid = u and w = w and u = v and i = i and n = n and parseDate = parseDate]
    by (auto simp: ntfn_handle_def dated_def prod_eq_iff)
  show "pending (snd (ntfn_handle None parseDate (Post_read u k) w)) v i =
      (if v = u \<and> i = k \<and> \<not> isNotificationPersistent m then None else pending w v i)" if "pending w u k = Some m"
    using that read_pending(2) [where uid = u and k = k and w = w and u = v and i = i and ign = True and sys = False]
    by (simp add: ntfn_handle_def prod_eq_iff)
  show "pending (snd (ntfn_handle None parseDate (Ntfn_read u k) w)) v i = (if v = u \<and> i = k then None else pending w v i)"
    using read_pending(2) [where uid = u and k = k and w = w and u = v and i = i and ign = False and sys = True]
    by (cases "pending w u k") (auto simp: ntfn_handle_def prod_eq_iff)
qed

text \<open>A persistent notification survives every request of its user but reading all, and a request of one
  user touches no other user.\<close>

lemma ntfn_handle_pending:
  assumes "ntfn_handle db parseDate rq w = (r, w')" "pending w u i = Some n"
  shows "pending w' u i = Some n \<or> rq = Ntfn_read u i \<or> (rq = Post_read u i \<and> \<not> isNotificationPersistent n) \<or>
    (\<exists>ids. rq = Post_readall u ids \<and> i \<in> set ids) \<or> (\<exists>m. rq = Ntfn_send u m \<and> nt_id m = i)"
proof (cases rq)
  case (Ntfn_send v m)
  with assms show ?thesis
    by (auto simp: ntfn_handle_def pushNotification_def Let_def pending_def split: option.splits if_splits)
next
  case (Ntfn_read v k)
  with assms show ?thesis
    by (auto simp: ntfn_handle_def handleReadNotification_def Let_def pending_def split: option.splits if_splits)
next
  case (Post_read v k)
  with assms show ?thesis
    by (auto simp: ntfn_handle_def handleReadNotification_def Let_def pending_def split: option.splits if_splits)
next
  case (Post_readall v ks)
  with assms show ?thesis
    by (auto simp: ntfn_handle_def handleReadAllNotifications_def pending_def ob_get_dels split: option.splits if_splits)
qed (use assms in \<open>auto simp: ntfn_handle_def pushAllPendingNotifications_def split: option.splits\<close>)

end
