(* ===== verification/Auth_Service.thy ===== *)
theory Auth_Service
  imports Net_State Js_Regex
begin

text \<open>
  The auth service, which is written in Java (\<^verbatim>\<open>auth/.../service/AuthService.java\<close>, \<^verbatim>\<open>controller/AuthController.java\<close>):
  validation of tokens and sign-in by a PIN that is sent by e-mail.

  Firebase is a parameter (\<open>firebase\<close>). \<open>rnd\<close> is the sequence of indices that the random generator draws. A
  \<^verbatim>\<open>NullPointerException\<close> is \<open>TypeErr\<close>. The records of sign-ins are kept in Redis with a time to live.
\<close>

section \<open>State and libraries\<close>

record CacheEmailSignIn =
  ce_reqAttemptCount :: int
  ce_verifyAttemptCount :: int
  ce_pin :: string

record asvc = net +
  as_pins :: "(string, CacheEmailSignIn \<times> int) obj"     \<comment> \<open>with the time of expiry\<close>

datatype fb_lookup = Fb_user string | Fb_not_found | Fb_error

record firebase =
  fb_verifyIdToken :: "string \<Rightarrow> user_profile option"
  fb_getUserByEmail :: "string \<Rightarrow> fb_lookup"
  fb_createUser :: "string \<Rightarrow> string result"
  fb_createCustomToken :: "string \<Rightarrow> string result"

definition EMAIL_VERIFICATION_PIN :: "string \<Rightarrow> string" where
  "EMAIL_VERIFICATION_PIN email = ''emailsignin:'' @ email"

definition pin_get :: "string \<Rightarrow> 'a asvc_scheme \<Rightarrow> CacheEmailSignIn option" where
  "pin_get key w = (case ob_get (as_pins w) key of None \<Rightarrow> None | Some (c, t) \<Rightarrow> if clock w < t then Some c else None)"

definition pin_set :: "string \<Rightarrow> CacheEmailSignIn \<Rightarrow> int \<Rightarrow> 'a asvc_scheme \<Rightarrow> 'a asvc_scheme" where
  "pin_set key c ttlSeconds w = w\<lparr>as_pins := ob_set (as_pins w) key (c, clock w + ttlSeconds * 1000)\<rparr>"

definition pin_delete :: "string \<Rightarrow> 'a asvc_scheme \<Rightarrow> 'a asvc_scheme" where
  "pin_delete key w = w\<lparr>as_pins := ob_del (as_pins w) key\<rparr>"

definition CHARS :: string where
  "CHARS = ''0123456789ABCDEFGHIJKLMNOPQRSTUVWXYZ''"

definition generatePin :: "(nat \<Rightarrow> nat) \<Rightarrow> nat \<Rightarrow> string" where
  "generatePin rnd len = map (\<lambda>i. CHARS ! (rnd i mod length CHARS)) [0..<len]"

definition letter :: "char \<Rightarrow> bool" where
  "letter c \<longleftrightarrow> (let n = of_char c :: nat in (65 \<le> n \<and> n \<le> 90) \<or> (97 \<le> n \<and> n \<le> 122))"

definition digit :: "char \<Rightarrow> bool" where
  "digit c \<longleftrightarrow> (let n = of_char c :: nat in 48 \<le> n \<and> n \<le> 57)"

definition EMAIL_REGEX :: rx where
  "EMAIL_REGEX =
     RxSeq (rx_plus (RxChr (\<lambda>c. letter c \<or> digit c \<or> c \<in> set ''._%+-'')))
       (RxSeq (RxChr (\<lambda>c. c = CHR ''@''))
         (RxSeq (rx_plus (RxChr (\<lambda>c. letter c \<or> digit c \<or> c \<in> set ''.-'')))
           (RxSeq (RxChr (\<lambda>c. c = CHR ''.'')) (rx_at_least 2 (RxChr letter)))))"

definition MAX_ATTEMPT_COUNT :: int where
  "MAX_ATTEMPT_COUNT = 3"

section \<open>Operations\<close>

definition validateToken :: "firebase \<Rightarrow> string \<Rightarrow> user_profile result" where
  "validateToken F token = (case fb_verifyIdToken F token of
     None \<Rightarrow> Inl (Unauthorized ''INVALID_TOKEN'')
   | Some t \<Rightarrow> Inr \<lparr>up_uid = up_uid t, up_name = up_name t, up_username = None, up_email = up_email t,
       up_picture = up_picture t, up_issuer = up_issuer t, up_expireAt = None\<rparr>)"

definition extractToken :: "string option \<Rightarrow> string option" where
  "extractToken authHeader = (case authHeader of None \<Rightarrow> None
     | Some h \<Rightarrow> if prefix ''Bearer '' h then Some (drop 7 h) else None)"

definition controller_validateToken :: "firebase \<Rightarrow> string option \<Rightarrow> user_profile result" where
  "controller_validateToken F authHeader =
     (case extractToken authHeader of None \<Rightarrow> Inl (BadRequest ''INVALID_AUTH_HEADER'') | Some token \<Rightarrow> validateToken F token)"

definition validateEmail :: "string \<Rightarrow> bool" where
  "validateEmail email = rx_test EMAIL_REGEX email"

definition pin_mail :: "string \<Rightarrow> string \<Rightarrow> (string \<Rightarrow> string) \<Rightarrow> mail" where
  "pin_mail email pin html = \<lparr>ml_from = ''DoNotReply@hide.saurabhagat.me'', ml_to = email, ml_subject = ''Your sign-in code'',
     ml_text = ''Your one-time PIN is: '' @ pin @ [CHR 0x0A] @ ''It will expire in 5 minutes.'', ml_html = html pin\<rparr>"

text \<open>\<open>html\<close> is the template engine, \<open>mail\<close> the outcome of sending the mail.\<close>

definition sendPinEmail ::
  "(string \<Rightarrow> string) \<Rightarrow> unit result \<Rightarrow> string \<Rightarrow> string \<Rightarrow> 'a net_scheme \<Rightarrow> unit result \<times> 'a net_scheme" where
  "sendPinEmail html mail email pin w = (mail, emit w [Smtp_mail (pin_mail email pin html)])"

definition auth_registerEmail ::
  "(nat \<Rightarrow> nat) \<Rightarrow> (string \<Rightarrow> string) \<Rightarrow> unit result \<Rightarrow> string option \<Rightarrow> 'a asvc_scheme \<Rightarrow> unit result \<times> 'a asvc_scheme" where
  "auth_registerEmail rnd html mail email0 w =
     (case email0 of None \<Rightarrow> (Inl TypeErr, w)
      | Some email \<Rightarrow>
          if \<not> validateEmail email then (Inl (BadRequest ''INVALID_EMAIL''), w)
          else
            (let pin = generatePin rnd 5;
                 key = EMAIL_VERIFICATION_PIN email;
                 old = (case pin_get key w of Some c \<Rightarrow> c
                        | None \<Rightarrow> \<lparr>ce_reqAttemptCount = 0, ce_verifyAttemptCount = 0, ce_pin = pin\<rparr>);
                 cachedPin = old\<lparr>ce_reqAttemptCount := ce_reqAttemptCount old + 1, ce_pin := pin\<rparr>
             in if ce_verifyAttemptCount cachedPin > MAX_ATTEMPT_COUNT
                then (Inl (HttpError ''EMAIL_VERIFY_CODE_MAX_ATTEMPTS_REACHED'' 429), pin_set key cachedPin 900 w)
                else if ce_reqAttemptCount cachedPin > MAX_ATTEMPT_COUNT
                then (Inl (HttpError ''EMAIL_REQUEST_CODE_MAX_ATTEMPTS_REACHED'' 429), pin_set key cachedPin 900 w)
                else sendPinEmail html mail email pin (pin_set key cachedPin 300 w)))"

text \<open>The account of an address, which is made when there is none, and a token for it.\<close>

definition token_for :: "firebase \<Rightarrow> string \<Rightarrow> string result" where
  "token_for F email =
     (case fb_getUserByEmail F email of
        Fb_error \<Rightarrow> Inl (InternalServerError ''UNKNOWN'')
      | Fb_user uid \<Rightarrow> fb_createCustomToken F uid
      | Fb_not_found \<Rightarrow>
          (case fb_createUser F email of Inl e \<Rightarrow> Inl e | Inr uid \<Rightarrow> fb_createCustomToken F uid))"

definition auth_verifyEmail ::
  "firebase \<Rightarrow> string \<Rightarrow> string option \<Rightarrow> 'a asvc_scheme \<Rightarrow> string result \<times> 'a asvc_scheme" where
  "auth_verifyEmail F email pin w =
     (let key = EMAIL_VERIFICATION_PIN email
      in case pin_get key w of None \<Rightarrow> (Inl (BadRequest ''PIN_EXPIRED''), w)
         | Some old \<Rightarrow>
             if ce_verifyAttemptCount old > MAX_ATTEMPT_COUNT
             then (Inl (HttpError ''EMAIL_VERIFY_CODE_MAX_ATTEMPTS_REACHED'' 429), pin_set key old 900 w)
             else
               (let cachedPin = old\<lparr>ce_verifyAttemptCount := ce_verifyAttemptCount old + 1\<rparr>
                in if Some (ce_pin cachedPin) \<noteq> pin
                   then (Inl (BadRequest ''EMAIL_VERIFY_CODE_WRONG''), pin_set key cachedPin 300 w)
                   else (token_for F email, pin_delete key w)))"

text \<open>The status of the reply to an error (\<^verbatim>\<open>AuthExceptionHandler\<close>): only two exceptions have one of their own.\<close>

definition auth_status :: "err \<Rightarrow> int" where
  "auth_status e = (case e of BadRequest _ \<Rightarrow> 400 | Unauthorized _ \<Rightarrow> 401 | _ \<Rightarrow> 500)"

section \<open>Guesses\<close>

text \<open>Requests for PINs, guesses and time that passes, with what the guesses are answered: a wrong PIN, or the
  right one, which removes the record.\<close>

datatype pin_request =
    Register "nat \<Rightarrow> nat" string
  | Verify string "string option"
  | Wait nat

datatype pin_answer = Wrong string | Accepted string | Other_answer

definition pin_step :: "firebase \<Rightarrow> (string \<Rightarrow> string) \<Rightarrow> pin_request \<Rightarrow> 'a asvc_scheme \<Rightarrow> pin_answer \<times> 'a asvc_scheme" where
  "pin_step F html rq w =
     (case rq of
        Register rnd email \<Rightarrow> (Other_answer, snd (auth_registerEmail rnd html (Inr ()) (Some email) w))
      | Verify email pin \<Rightarrow>
          (let (r, w1) = auth_verifyEmail F email pin w
           in (if pin_get (EMAIL_VERIFICATION_PIN email) w \<noteq> None \<and> pin_get (EMAIL_VERIFICATION_PIN email) w1 = None
               then Accepted email
               else if r = Inl (BadRequest ''EMAIL_VERIFY_CODE_WRONG'') then Wrong email else Other_answer, w1))
      | Wait n \<Rightarrow> (Other_answer, w\<lparr>clock := clock w + int n\<rparr>))"

fun pin_run :: "firebase \<Rightarrow> (string \<Rightarrow> string) \<Rightarrow> pin_request list \<Rightarrow> 'a asvc_scheme \<Rightarrow> pin_answer list" where
  "pin_run F html [] w = []"
| "pin_run F html (rq # rqs) w = (let (a, w1) = pin_step F html rq w in a # pin_run F html rqs w1)"

fun waited :: "pin_request list \<Rightarrow> int" where
  "waited [] = 0"
| "waited (Wait n # rqs) = int n + waited rqs"
| "waited (_ # rqs) = waited rqs"

lemma pin_key_eq [simp]: "EMAIL_VERIFICATION_PIN e = EMAIL_VERIFICATION_PIN e' \<longleftrightarrow> e = e'"
  by (simp add: EMAIL_VERIFICATION_PIN_def)

text \<open>The wrong guesses so far, and whether the record outlives a time.\<close>

definition guesses :: "string \<Rightarrow> 'a asvc_scheme \<Rightarrow> int" where
  "guesses e w = (case ob_get (as_pins w) (EMAIL_VERIFICATION_PIN e) of None \<Rightarrow> 0 | Some (c, _) \<Rightarrow> ce_verifyAttemptCount c)"

definition lives :: "string \<Rightarrow> int \<Rightarrow> 'a asvc_scheme \<Rightarrow> bool" where
  "lives e n w = (case ob_get (as_pins w) (EMAIL_VERIFICATION_PIN e) of None \<Rightarrow> True | Some (_, t) \<Rightarrow> clock w + n < t)"

lemma waited_nonneg: "0 \<le> waited rqs"
  by (induction rqs rule: waited.induct) simp_all

lemma register_guesses:
  assumes "lives e n w" "0 \<le> n" "n < 300000" "w' = snd (auth_registerEmail rnd html mail (Some f) w)"
  shows "guesses e w' = guesses e w" "lives e n w'"
proof -
  have "pin_get (EMAIL_VERIFICATION_PIN e) w = map_option fst (ob_get (as_pins w) (EMAIL_VERIFICATION_PIN e))"
    using assms(1,2) by (auto simp: pin_get_def lives_def split: option.split)
  with assms show "guesses e w' = guesses e w" "lives e n w'"
    by (auto simp: auth_registerEmail_def Let_def sendPinEmail_def pin_set_def guesses_def lives_def emit_def split: option.splits)
qed

lemma verify_guesses:
  assumes "lives e n w" "0 \<le> n" "n < 300000" "pin_step F html (Verify f pin) w = (a, w')"
  shows "lives e n w'"
    "a = Wrong e \<Longrightarrow> guesses e w' = guesses e w + 1 \<and> guesses e w \<le> 3"
    "a = Accepted e \<Longrightarrow> guesses e w' = 0"
    "a \<noteq> Wrong e \<Longrightarrow> a \<noteq> Accepted e \<Longrightarrow> guesses e w' = guesses e w"
proof -
  have "pin_get (EMAIL_VERIFICATION_PIN e) w = map_option fst (ob_get (as_pins w) (EMAIL_VERIFICATION_PIN e))"
    using assms(1,2) by (auto simp: pin_get_def lives_def split: option.split)
  note d = this pin_step_def auth_verifyEmail_def Let_def pin_set_def pin_delete_def guesses_def lives_def pin_get_def MAX_ATTEMPT_COUNT_def
  show "lives e n w'" "a = Wrong e \<Longrightarrow> guesses e w' = guesses e w + 1 \<and> guesses e w \<le> 3"
    "a = Accepted e \<Longrightarrow> guesses e w' = 0" "a \<noteq> Wrong e \<Longrightarrow> a \<noteq> Accepted e \<Longrightarrow> guesses e w' = guesses e w"
    using assms by (auto simp: d split: option.splits if_splits prod.splits)
qed

lemma pin_run_bound:
  assumes "lives e (waited rqs) w" "waited rqs < 300000" "0 \<le> guesses e w" "guesses e w \<le> 4"
  shows "int (count_list (pin_run F html rqs w) (Wrong e)) + guesses e w \<le> 4 * (1 + int (count_list (pin_run F html rqs w) (Accepted e)))"
  using assms
proof (induction rqs arbitrary: w)
  case (Cons rq rqs)
  note n = waited_nonneg [of rqs]
  obtain a w' where st: "pin_step F html rq w = (a, w')" by fastforce
  have ih: "int (count_list (pin_run F html rqs w') (Wrong e)) + guesses e w' \<le> 4 * (1 + int (count_list (pin_run F html rqs w') (Accepted e)))"
    if "lives e (waited rqs) w'" "0 \<le> guesses e w'" "guesses e w' \<le> 4"
    using that Cons.prems(2) by (intro Cons.IH) (cases rq; simp)+
  show ?case
  proof (cases rq)
    case (Register rnd f)
    then have w': "a = Other_answer" "w' = snd (auth_registerEmail rnd html (Inr ()) (Some f) w)"
      using st by (simp_all add: pin_step_def)
    have "lives e (waited rqs) w" "waited rqs < 300000" using Cons.prems(1,2) Register by simp_all
    note r = register_guesses [OF this(1) n this(2) w'(2)]
    show ?thesis using ih r Cons.prems(3,4) by (simp add: st w'(1))
  next
    case (Verify f pin)
    have "lives e (waited rqs) w" "waited rqs < 300000" using Cons.prems(1,2) Verify by simp_all
    note v = verify_guesses [OF this(1) n this(2) st [unfolded Verify]]
    consider "a = Wrong e" | "a = Accepted e" | "a \<noteq> Wrong e" "a \<noteq> Accepted e" by blast
    then show ?thesis using ih v Cons.prems(3,4) by cases (simp_all add: st)
  next
    case (Wait k)
    then have w': "a = Other_answer" "w' = w\<lparr>clock := clock w + int k\<rparr>" using st by (simp_all add: pin_step_def)
    have "lives e (waited rqs) w'" "guesses e w' = guesses e w"
      using Cons.prems(1) by (auto simp: w'(2) Wait lives_def guesses_def algebra_simps split: option.splits)
    then show ?thesis using ih Cons.prems(3,4) by (simp add: st w'(1))
  qed
qed simp

text \<open>C11. Guessing a PIN: however many PINs are requested for an address and whatever is sent in between for
  other addresses, within five minutes at most four wrong guesses are let through for each sign-in that
  succeeds, and four if none does. A new PIN does not give new guesses.\<close>

theorem pin_guesses_bounded:
  assumes "ob_get (as_pins w) (EMAIL_VERIFICATION_PIN e) = None" "waited rqs < 300000"
  shows "count_list (pin_run F html rqs w) (Wrong e) \<le> 4 * (1 + count_list (pin_run F html rqs w) (Accepted e))"
proof -
  have "lives e (waited rqs) w" "guesses e w = 0" using assms(1) by (simp_all add: lives_def guesses_def)
  from pin_run_bound [OF this(1) assms(2), of F html] this(2)
  have "int (count_list (pin_run F html rqs w) (Wrong e)) \<le> 4 * (1 + int (count_list (pin_run F html rqs w) (Accepted e)))" by simp
  then show ?thesis by presburger
qed

definition no_firebase :: firebase where
  "no_firebase = \<lparr>fb_verifyIdToken = (\<lambda>t. None), fb_getUserByEmail = (\<lambda>e. Fb_user ''u''),
     fb_createUser = (\<lambda>e. Inr ''u''), fb_createCustomToken = (\<lambda>u. Inr ''token'')\<rparr>"

definition auth0 :: asvc where
  "auth0 = \<lparr>cache = [], out = [], uuids = (\<lambda>n. ''id''), uuidc = 0, clock = 0, perf = 0, as_pins = []\<rparr>"

theorem pin_guesses_bounded_witness:
  "count_list (pin_run no_firebase (\<lambda>p. p) (Register (\<lambda>i. 0) ''a@b.org'' # Wait 1000 # replicate 9 (Verify ''a@b.org'' (Some ''1''))) auth0)
     (Wrong ''a@b.org'') \<le> 4 \<and>
   count_list (pin_run no_firebase (\<lambda>p. p) (Register (\<lambda>i. 0) ''a@b.org'' # Wait 1000 # replicate 9 (Verify ''a@b.org'' (Some ''1''))) auth0)
     (Accepted ''a@b.org'') = 0"
proof -
  let ?r = "pin_run no_firebase (\<lambda>p. p) (Register (\<lambda>i. 0) ''a@b.org'' # Wait 1000 # replicate 9 (Verify ''a@b.org'' (Some ''1''))) auth0"
  have a: "count_list ?r (Accepted ''a@b.org'') = 0" by code_simp
  have "waited (Register (\<lambda>i. 0) ''a@b.org'' # Wait 1000 # replicate 9 (Verify ''a@b.org'' (Some ''1''))) < 300000" by code_simp
  from pin_guesses_bounded [OF _ this, of auth0 "''a@b.org''" no_firebase "\<lambda>p. p"] a show ?thesis by (simp add: auth0_def)
qed

end
