(* ===== verification/Eureka.thy ===== *)
theory Eureka
  imports Js_Prelude
begin

text \<open>
  \<^verbatim>\<open>libs/eureka\<close>: how a service registers with the Eureka registry, keeps its registration alive and withdraws it.
  The registry is only sent requests, whose failures are caught, so the state is the list of requests with their
  times; \<open>eu_beat\<close> is the time of the next heartbeat, \<open>eu_up\<close> says that the process has not exited. The service
  name is ASCII.
\<close>

section \<open>The client\<close>

record EurekaOptions =
  eo_host :: string
  eo_port :: string
  eo_serviceName :: string
  eo_servicePort :: string

record eureka_instance =
  ei_instanceId :: string
  ei_hostName :: string
  ei_app :: string
  ei_ipAddr :: string
  ei_vipAddress :: string
  ei_secureVipAddress :: string
  ei_status :: string
  ei_port :: string
  ei_homePageUrl :: string
  ei_healthCheckUrl :: string
  ei_dataCenterInfo :: "string \<times> string"

datatype eureka_request = Register string eureka_instance | Heartbeat string | Deregister string

record eureka =
  eu_options :: EurekaOptions
  eu_INSTANCE_ID :: string
  eu_EUREKA_URL :: string
  eu_beat :: "int option"
  eu_sent :: "(int \<times> eureka_request) list"
  eu_clock :: int
  eu_up :: bool

definition new_EurekaService :: "string \<Rightarrow> EurekaOptions \<Rightarrow> int \<Rightarrow> eureka" where
  "new_EurekaService hostname options now =
     \<lparr>eu_options = options, eu_INSTANCE_ID = hostname @ '':'' @ js_lower (eo_serviceName options),
      eu_EUREKA_URL = ''http://'' @ eo_host options @ '':'' @ eo_port options @ ''/eureka/v2/apps'',
      eu_beat = None, eu_sent = [], eu_clock = now, eu_up = True\<rparr>"

definition eu_request :: "eureka_request \<Rightarrow> eureka \<Rightarrow> eureka" where
  "eu_request r e = e\<lparr>eu_sent := eu_sent e @ [(eu_clock e, r)]\<rparr>"

definition instance_url :: "eureka \<Rightarrow> string" where
  "instance_url e = eu_EUREKA_URL e @ ''/'' @ eo_serviceName (eu_options e) @ ''/'' @ eu_INSTANCE_ID e"

definition registered_instance :: "eureka \<Rightarrow> eureka_instance" where
  "registered_instance e =
     (let name = eo_serviceName (eu_options e);
          home = ''http://'' @ name @ '':'' @ eo_servicePort (eu_options e) @ ''/''
      in \<lparr>ei_instanceId = eu_INSTANCE_ID e, ei_hostName = name, ei_app = js_upper name, ei_ipAddr = name,
          ei_vipAddress = js_upper name, ei_secureVipAddress = js_upper name, ei_status = ''UP'',
          ei_port = eo_servicePort (eu_options e), ei_homePageUrl = home, ei_healthCheckUrl = home @ ''api/health'',
          ei_dataCenterInfo = (''com.netflix.appinfo.InstanceInfo$DefaultDataCenterInfo'', ''MyOwn'')\<rparr>)"

definition registerWithEureka :: "eureka \<Rightarrow> eureka" where
  "registerWithEureka e =
     eu_request (Register (eu_EUREKA_URL e @ ''/'' @ eo_serviceName (eu_options e)) (registered_instance e)) e"

definition sendHeartbeat :: "eureka \<Rightarrow> eureka" where
  "sendHeartbeat e = eu_request (Heartbeat (instance_url e)) e"

definition deregisterFromEureka :: "eureka \<Rightarrow> eureka" where
  "deregisterFromEureka e = eu_request (Deregister (instance_url e)) e"

definition eureka_onModuleInit :: "eureka \<Rightarrow> eureka" where
  "eureka_onModuleInit e = (let e1 = registerWithEureka e in e1\<lparr>eu_beat := Some (eu_clock e1 + 30 * 1000)\<rparr>)"

text \<open>The callback of the interval, and the one of \<^verbatim>\<open>SIGINT\<close> and \<^verbatim>\<open>SIGTERM\<close>.\<close>

definition interval :: "eureka \<Rightarrow> eureka" where
  "interval e = (sendHeartbeat e)\<lparr>eu_beat := Some (eu_clock e + 30 * 1000)\<rparr>"

definition signalled :: "eureka \<Rightarrow> eureka" where
  "signalled e = (deregisterFromEureka e)\<lparr>eu_up := False\<rparr>"

definition eureka_onModuleDestroy :: "eureka \<Rightarrow> eureka" where
  "eureka_onModuleDestroy e = (deregisterFromEureka e)\<lparr>eu_beat := None\<rparr>"

text \<open>The address of a service from the reply of the registry: its list of instances, each with address and port.
  Without an instance the destructuring throws, which is caught.\<close>

definition getService :: "(string \<times> string) list result \<Rightarrow> string option" where
  "getService reply = (case reply of
     Inl e \<Rightarrow> None
   | Inr instances \<Rightarrow> (case instances of [] \<Rightarrow> None | (ipAddr, port) # _ \<Rightarrow> Some (''http://'' @ ipAddr @ '':'' @ port)))"

section \<open>Heartbeats\<close>

text \<open>Time passes up to the next heartbeat; the interval runs on time.\<close>

inductive eureka_step :: "eureka \<Rightarrow> eureka \<Rightarrow> bool" where
  beat: "\<lbrakk>eu_up e; eu_beat e = Some (eu_clock e)\<rbrakk> \<Longrightarrow> eureka_step e (interval e)"
| signal: "eu_up e \<Longrightarrow> eureka_step e (signalled e)"
| destroy: "eu_up e \<Longrightarrow> eureka_step e (eureka_onModuleDestroy e)"
| tick: "\<lbrakk>eu_clock e \<le> t; \<forall>n. eu_up e \<longrightarrow> eu_beat e = Some n \<longrightarrow> t \<le> n\<rbrakk> \<Longrightarrow> eureka_step e (e\<lparr>eu_clock := t\<rparr>)"

definition kept_alive :: "eureka \<Rightarrow> bool" where
  "kept_alive e \<longleftrightarrow> (\<forall>n. eu_up e \<longrightarrow> eu_beat e = Some n \<longrightarrow> eu_clock e \<le> n \<and> eu_sent e \<noteq> [] \<and> n \<le> fst (last (eu_sent e)) + 30000)"

lemmas eureka_defs = eureka_onModuleInit_def registerWithEureka_def interval_def signalled_def eureka_onModuleDestroy_def
  sendHeartbeat_def deregisterFromEureka_def eu_request_def

lemma eureka_step_alive: "eureka_step e e' \<Longrightarrow> kept_alive e \<Longrightarrow> kept_alive e'"
  by (induction rule: eureka_step.induct) (auto simp: kept_alive_def eureka_defs)

text \<open>A running client has told the registry of itself within the last thirty seconds; Eureka drops an instance
  after ninety.\<close>

lemma registration_kept:
  assumes "eureka_step\<^sup>*\<^sup>* (eureka_onModuleInit (new_EurekaService h os now)) e" "eu_up e" "eu_beat e \<noteq> None"
  shows "eu_sent e \<noteq> [] \<and> eu_clock e \<le> fst (last (eu_sent e)) + 30000"
proof -
  have "kept_alive e" using assms(1)
    by (induction rule: rtranclp_induct)
      (simp add: kept_alive_def eureka_defs new_EurekaService_def Let_def, rule eureka_step_alive)
  with assms(2,3) show ?thesis by (auto simp: kept_alive_def)
qed

text \<open>Every heartbeat and withdrawal names the instance that was registered.\<close>

definition addressed :: "eureka \<Rightarrow> bool" where
  "addressed e \<longleftrightarrow> (\<exists>t rest. eu_sent e =
      (t, Register (eu_EUREKA_URL e @ ''/'' @ eo_serviceName (eu_options e)) (registered_instance e)) # rest \<and>
      snd ` set rest \<subseteq> {Heartbeat (instance_url e), Deregister (instance_url e)})"

lemma eureka_step_addressed: "eureka_step e e' \<Longrightarrow> addressed e \<Longrightarrow> addressed e'"
  by (induction rule: eureka_step.induct)
    (auto simp: addressed_def eureka_defs instance_url_def registered_instance_def Let_def)

lemma eureka_steps_addressed: "eureka_step\<^sup>*\<^sup>* (eureka_onModuleInit e) e' \<Longrightarrow> eu_sent e = [] \<Longrightarrow> addressed e'"
  by (induction rule: rtranclp_induct)
    (simp add: addressed_def eureka_defs registered_instance_def Let_def, blast intro: eureka_step_addressed)

end
