(* ===== verification/User_Service.thy ===== *)
theory User_Service
  imports Firestore Js_Regex
begin

text \<open>
  The user service: profiles (\<^verbatim>\<open>user/src/profile/profile.service.ts\<close>) and their search
  (\<^verbatim>\<open>user/src/search/search.service.ts\<close>), with the converter of \<^verbatim>\<open>libs/common/utils/converter.ts\<close>.

  The profiles are a collection of Firestore by user name. The user of a request is what the header
  \<^verbatim>\<open>x-auth-user\<close> carries (\<open>None\<close> without one). The record of the sign-in provider, the answer of the search
  engine, and the lifetime of a guest account in milliseconds (\<open>None\<close> for a variable that is no number) are arguments.
\<close>

section \<open>State and requests\<close>

record usvc = net +
  users :: "user_profile collection"

record CreateUserDTO =
  cu_name :: "string option"
  cu_username :: "string option"
  cu_picture :: "string option"

definition with_uid :: "string option \<Rightarrow> 'a usvc_scheme \<Rightarrow> user_profile list" where
  "with_uid uid w = fs_where (\<lambda>d. up_uid d = uid) (users w)"

definition userDoc :: "string option \<Rightarrow> string result" where
  "userDoc username = (if truthy username then Inr (js_str username) else Inl (LibErr ''Value for argument documentPath is not a valid resource path''))"

section \<open>Profiles\<close>

definition validateCreateUser :: "CreateUserDTO \<Rightarrow> string option" where
  "validateCreateUser data =
     (if \<not> truthy (cu_name data) \<or> \<not> truthy (cu_username data) then Some ''USER_DETAILS_MISSING''
      else if \<not> rx_test nameRegex (js_str (cu_name data)) then Some ''INVALID_USER_NAME''
      else if \<not> rx_test usernameRegex (js_str (cu_username data)) then Some ''INVALID_USER_USERNAME''
      else None)"

text \<open>The fields \<^verbatim>\<open>toFirestore\<close> writes and \<^verbatim>\<open>fromFirestore\<close> reads are those of the record, so the converters
  are the identity.\<close>

definition toFirestore :: "user_profile \<Rightarrow> user_profile" where
  "toFirestore data = \<lparr>up_uid = up_uid data, up_name = up_name data, up_username = up_username data,
     up_email = up_email data, up_picture = up_picture data, up_issuer = up_issuer data, up_expireAt = up_expireAt data\<rparr>"

text \<open>The document of a new profile: what the token says of the user, with the fields of the request.\<close>

definition new_profile :: "user_profile \<Rightarrow> CreateUserDTO \<Rightarrow> int option \<Rightarrow> user_profile" where
  "new_profile user data expireAt =
     user\<lparr>up_name := cu_name data, up_username := cu_username data,
       up_picture := Some (case cu_picture data of None \<Rightarrow> '''' | Some p \<Rightarrow> p), up_expireAt := expireAt\<rparr>"

definition createUser ::
  "err option \<Rightarrow> (string option \<Rightarrow> nat result) \<Rightarrow> int option \<Rightarrow> user_profile option \<Rightarrow> CreateUserDTO \<Rightarrow> 'a usvc_scheme \<Rightarrow>
   unit result \<times> 'a usvc_scheme" where
  "createUser db getUser guestExpiry header data w =
     (case validateCreateUser data of
        Some e \<Rightarrow> (Inl (BadRequest e), w)
      | None \<Rightarrow>
          (case (header, db) of
             (None, _) \<Rightarrow> (Inl TypeErr, w)
           | (Some user, Some e) \<Rightarrow> (Inl e, w)
           | (Some user, None) \<Rightarrow>
               if with_uid (up_uid user) w = [] then
                 (case getUser (up_uid user) of
                    Inl e \<Rightarrow> (Inl e, w)
                  | Inr providers \<Rightarrow>
                      if providers = 0 \<and> guestExpiry = None then (Inl (LibErr ''Invalid time value''), w)
                      else
                        (let expireAt = (if providers = 0 then map_option (\<lambda>t. clock w + t) guestExpiry else up_expireAt user);
                             w1 = w\<lparr>users := ob_set (users w) (js_str (cu_username data)) (toFirestore (new_profile user data expireAt))\<rparr>
                         in (Inr (), cache_set w1 (CACHEKEY_USER_PROFILE (js_str (up_uid user))) (CvUser user) None)))
               else (Inl (BadRequest ''USER_ALREADY_REGISTERED''), w)))"

definition deleteUser :: "err option \<Rightarrow> user_profile option \<Rightarrow> 'a usvc_scheme \<Rightarrow> unit result \<times> 'a usvc_scheme" where
  "deleteUser db header w =
     (case (header, db) of
        (None, _) \<Rightarrow> (Inl TypeErr, w)
      | (Some user, Some e) \<Rightarrow> (Inl e, w)
      | (Some user, None) \<Rightarrow>
          (case with_uid (up_uid user) w of
             [] \<Rightarrow> (Inl (NotFound ''USER_NOT_FOUND''), w)
           | d # _ \<Rightarrow>
               (case userDoc (up_username d) of
                  Inl e \<Rightarrow> (Inl e, w)
                | Inr username \<Rightarrow> (Inr (), w\<lparr>users := ob_del (users w) username\<rparr>))))"

definition validateUpdateUser :: "string option \<Rightarrow> user_profile \<Rightarrow> string option" where
  "validateUpdateUser uid user =
     (if truthy (up_name user) \<and> \<not> rx_test nameRegex (js_str (up_name user)) then Some ''INVALID_USER_NAME''
      else if truthy (up_username user) \<and> \<not> rx_test usernameRegex (js_str (up_username user)) then Some ''INVALID_USER_USERNAME''
      else if truthy (up_email user) \<and> \<not> rx_test emailRegex (js_str (up_email user)) then Some ''INVALID_EMAIL''
      else if up_uid user \<noteq> uid then Some ''INVALID_USER_IDENTITY''
      else if up_expireAt user \<noteq> None then Some ''UPDATE_USER_FORBIDDEN''
      else None)"

text \<open>The fields of the update that are not empty, and \<^verbatim>\<open>{ ...oldUser, ...updatedUser }\<close>.\<close>

definition updated_fields :: "user_profile \<Rightarrow> user_profile" where
  "updated_fields user =
     (let field = (\<lambda>s. if truthy s then s else None)
      in \<lparr>up_uid = None, up_name = field (up_name user), up_username = field (up_username user),
          up_email = field (up_email user), up_picture = field (up_picture user), up_issuer = None, up_expireAt = None\<rparr>)"

definition spread :: "user_profile \<Rightarrow> user_profile \<Rightarrow> user_profile" where
  "spread old new =
     (let over = (\<lambda>a b. case b of None \<Rightarrow> a | Some _ \<Rightarrow> b)
      in \<lparr>up_uid = over (up_uid old) (up_uid new), up_name = over (up_name old) (up_name new),
          up_username = over (up_username old) (up_username new), up_email = over (up_email old) (up_email new),
          up_picture = over (up_picture old) (up_picture new), up_issuer = over (up_issuer old) (up_issuer new),
          up_expireAt = (case up_expireAt new of None \<Rightarrow> up_expireAt old | Some t \<Rightarrow> Some t)\<rparr>)"

definition isObjEmpty :: "user_profile \<Rightarrow> bool" where
  "isObjEmpty u \<longleftrightarrow> up_uid u = None \<and> up_name u = None \<and> up_username u = None \<and> up_email u = None \<and>
     up_picture u = None \<and> up_issuer u = None \<and> up_expireAt u = None"

definition updateUser ::
  "err option \<Rightarrow> user_profile option \<Rightarrow> user_profile \<Rightarrow> 'a usvc_scheme \<Rightarrow> unit result \<times> 'a usvc_scheme" where
  "updateUser db header user w =
     (case header of None \<Rightarrow> (Inl TypeErr, w)
      | Some h \<Rightarrow>
          (case validateUpdateUser (up_uid h) user of
             Some e \<Rightarrow> (Inl (BadRequest e), w)
           | None \<Rightarrow>
               (let updatedUser = updated_fields user
                in if isObjEmpty updatedUser then (Inr (), w)
                   else
                     (case db of Some e \<Rightarrow> (Inl e, w)
                      | None \<Rightarrow>
                          (case with_uid (up_uid h) w of
                             [] \<Rightarrow> (Inl (NotFound ''USER_NOT_FOUND''), w)
                           | oldUser # _ \<Rightarrow>
                               if truthy (up_username updatedUser) \<and> up_username updatedUser \<noteq> up_username oldUser then
                                 (Inr (), w\<lparr>users := ob_set (users w) (js_str (up_username updatedUser))
                                    (toFirestore (spread oldUser updatedUser))\<rparr>)
                               else
                                 (case userDoc (up_username oldUser) of
                                    Inl e \<Rightarrow> (Inl e, w)
                                  | Inr username \<Rightarrow>
                                      (case ob_get (users w) username of
                                         None \<Rightarrow> (Inl (LibErr ''5 NOT_FOUND''), w)
                                       | Some d \<Rightarrow> (Inr (), w\<lparr>users := ob_set (users w) username (spread d updatedUser)\<rparr>)))))))) "

section \<open>Search\<close>

record search_params =
  sq_q :: "string option"
  sq_query_by :: "string list"
  sq_exclude_fields :: "string list"
  sq_filter_by :: string
  sq_infix :: "string list"
  sq_per_page :: int
  sq_page :: int

record search_hit =
  sh_document :: user_profile
  sh_highlights :: "(string \<times> string option) list option"   \<comment> \<open>field, snippet\<close>

record UserSearchDTO =
  us_data :: "(user_profile \<times> (string \<times> string option) list) list"
  us_page :: int

definition search_page :: "int option \<Rightarrow> int" where
  "search_page page = (if js_num_truthy page then the page else 1)"

text \<open>The hits with their highlights; a hit without highlights throws.\<close>

fun search_hits :: "search_hit list \<Rightarrow> (user_profile \<times> (string \<times> string option) list) list result" where
  "search_hits [] = Inr []"
| "search_hits (h # hs) =
     (case sh_highlights h of None \<Rightarrow> Inl TypeErr
      | Some hl \<Rightarrow> (case search_hits hs of Inl e \<Rightarrow> Inl e | Inr r \<Rightarrow> Inr ((sh_document h, hl) # r)))"

definition searchUsers ::
  "(search_params \<Rightarrow> (int \<times> search_hit list option) result) \<Rightarrow> string \<Rightarrow> string option \<Rightarrow> int option \<Rightarrow> UserSearchDTO result" where
  "searchUsers typesense uid query page =
     (case typesense \<lparr>sq_q = query, sq_query_by = [''name'', ''username''], sq_exclude_fields = [''email''],
          sq_filter_by = ''uid:!='' @ uid, sq_infix = [''always'', ''always''], sq_per_page = 5, sq_page = search_page page\<rparr> of
        Inl e \<Rightarrow> Inl e
      | Inr (p, None) \<Rightarrow> Inr \<lparr>us_data = [], us_page = p\<rparr>
      | Inr (p, Some hits) \<Rightarrow>
          (case search_hits hits of Inl e \<Rightarrow> Inl e | Inr d \<Rightarrow> Inr \<lparr>us_data = d, us_page = p\<rparr>))"

definition hideConfidentialFields :: "user_profile option \<Rightarrow> string option \<Rightarrow> user_profile option" where
  "hideConfidentialFields data uid =
     map_option (\<lambda>d. if up_uid d \<noteq> uid then d\<lparr>up_email := None\<rparr> else d) data"

definition getProfile ::
  "err option \<Rightarrow> string \<Rightarrow> string option \<Rightarrow> 'a usvc_scheme \<Rightarrow> user_profile option result \<times> 'a usvc_scheme" where
  "getProfile db uid actorUid w =
     (case get_user w (CACHEKEY_USER_PROFILE uid) of
        Some profile \<Rightarrow> (Inr (hideConfidentialFields (Some profile) actorUid), w)
      | None \<Rightarrow>
          (case db of Some e \<Rightarrow> (Inl e, w)
           | None \<Rightarrow>
               (case with_uid (Some uid) w of
                  [] \<Rightarrow> (Inl (NotFound ''USER_NOT_FOUND''), w)
                | profile # _ \<Rightarrow>
                    (Inr (hideConfidentialFields (Some profile) actorUid),
                     cache_set w (CACHEKEY_USER_PROFILE uid) (CvUser profile) None))))"

text \<open>A failing call in \<^verbatim>\<open>fetchUserFromDB\<close> is caught.\<close>

definition fetchUserFromDB ::
  "err option \<Rightarrow> string \<Rightarrow> 'a usvc_scheme \<Rightarrow> user_profile option \<times> 'a usvc_scheme" where
  "fetchUserFromDB db uid w =
     (case db of Some e \<Rightarrow> (None, w)
      | None \<Rightarrow>
          (case with_uid (Some uid) w of
             [] \<Rightarrow> (None, w)
           | data # _ \<Rightarrow> (Some data, cache_set w (''users:'' @ uid) (CvUser data) None)))"

fun fetch_missing ::
  "err option \<Rightarrow> (string \<times> user_profile option) list \<Rightarrow> 'a usvc_scheme \<Rightarrow> user_profile option list \<times> 'a usvc_scheme" where
  "fetch_missing db [] w = ([], w)"
| "fetch_missing db ((uid, cached) # xs) w =
     (let (u, w1) = (case cached of Some p \<Rightarrow> (Some p, w) | None \<Rightarrow> fetchUserFromDB db uid w);
          (us, w2) = fetch_missing db xs w1
      in (u # us, w2))"

definition getUsers ::
  "err option \<Rightarrow> string list \<Rightarrow> string option \<Rightarrow> 'a usvc_scheme \<Rightarrow> user_profile option list \<times> 'a usvc_scheme" where
  "getUsers db ids uid w =
     (let (us, w1) = fetch_missing db (map (\<lambda>i. (i, get_user w (''users:'' @ i))) ids) w
      in (map (\<lambda>u. hideConfidentialFields (map_option (\<lambda>d. d\<lparr>up_issuer := None\<rparr>) u) uid) us, w1))"

section \<open>Documents are filed under their user name\<close>

definition users_wf :: "'a usvc_scheme \<Rightarrow> bool" where
  "users_wf w \<longleftrightarrow> ob_wf (users w) \<and>
     (\<forall>k d. ob_get (users w) k = Some d \<longrightarrow> up_username d = Some k \<and> rx_test usernameRegex k)"

inductive user_step :: "'a usvc_scheme \<Rightarrow> 'a usvc_scheme \<Rightarrow> bool" where
  register: "createUser db getUser expiry header data w = (r, w') \<Longrightarrow> user_step w w'"
| delete: "deleteUser db header w = (r, w') \<Longrightarrow> user_step w w'"
| update: "updateUser db header user w = (r, w') \<Longrightarrow> user_step w w'"
| profile: "getProfile db uid actor w = (r, w') \<Longrightarrow> user_step w w'"
| all: "getUsers db ids actor w = (r', w') \<Longrightarrow> user_step w w'"
| tick: "clock w \<le> t \<Longrightarrow> user_step w (w\<lparr>clock := t\<rparr>)"

lemma users_wf_cong: "users w' = users w \<Longrightarrow> users_wf w' \<longleftrightarrow> users_wf w"
  by (simp add: users_wf_def)

lemma with_uid_cong: "users w' = users w \<Longrightarrow> with_uid u w' = with_uid u w"
  by (simp add: with_uid_def)

lemma users_cache [simp]: "users (cache_set w k v t) = users w"
  by (simp add: cache_set_def)

lemma with_uid_Cons:
  assumes "users_wf w" "with_uid uid w = d # ds"
  shows "up_uid d = uid" "\<exists>k. ob_get (users w) k = Some d \<and> up_username d = Some k \<and> rx_test usernameRegex k"
proof -
  have "d \<in> set (with_uid uid w)" by (simp add: assms(2))
  then obtain k where d: "up_uid d = uid" "(k, d) \<in> set (users w)" by (auto simp: with_uid_def set_fs_where)
  then show "up_uid d = uid" by simp
  show "\<exists>k. ob_get (users w) k = Some d \<and> up_username d = Some k \<and> rx_test usernameRegex k"
    using assms(1) d(2) fs_doc_get [of "users w"] by (auto simp: users_wf_def)
qed

lemma with_uid_mem:
  assumes "users_wf w"
  shows "d \<in> set (with_uid uid w) \<longleftrightarrow> up_uid d = uid \<and> (\<exists>k. ob_get (users w) k = Some d)"
  using assms fs_doc_get [of "users w"] by (force simp: with_uid_def set_fs_where users_wf_def)

text \<open>Every name of a profile fits the regular expression of names, which excludes the slash of a path.\<close>

lemma username_doc: "rx_test usernameRegex k \<Longrightarrow> userDoc (Some k) = Inr k"
  by (auto simp: userDoc_def usernameRegex_iff)

lemma toFirestore_id [simp]: "toFirestore d = d"
  by (simp add: toFirestore_def)

lemma new_profile_simps [simp]:
  "up_uid (new_profile user data t) = up_uid user" "up_username (new_profile user data t) = cu_username data"
  by (simp_all add: new_profile_def)

lemma createUser_users:
  assumes "createUser db getUser expiry header data w = (r, w')"
  shows "users w' = users w \<or> (\<exists>user d. header = Some user \<and> r = Inr () \<and> with_uid (up_uid user) w = [] \<and>
    rx_test usernameRegex (js_str (cu_username data)) \<and> up_username d = Some (js_str (cu_username data)) \<and>
    up_uid d = up_uid user \<and> users w' = ob_set (users w) (js_str (cu_username data)) d)"
proof (cases "users w' = users w")
  case False
  with assms have ok: "validateCreateUser data = None" by (auto simp: createUser_def split: option.splits)
  then have n: "rx_test usernameRegex (js_str (cu_username data))" "cu_username data = Some (js_str (cu_username data))"
    by (auto simp: validateCreateUser_def truthy_def split: option.splits if_splits)
  from assms False ok obtain user t where "header = Some user" "r = Inr ()" "with_uid (up_uid user) w = []"
      "users w' = ob_set (users w) (js_str (cu_username data)) (toFirestore (new_profile user data t))"
    by (auto simp: createUser_def Let_def split: option.splits sum.splits if_splits)
  with n show ?thesis by (intro disjI2 exI [of _ user] exI [of _ "new_profile user data t"]) simp
qed simp

lemma users_wf_set:
  "users_wf w \<Longrightarrow> rx_test usernameRegex k \<Longrightarrow> up_username d = Some k \<Longrightarrow> users w' = ob_set (users w) k d \<Longrightarrow> users_wf w'"
  unfolding users_wf_def by (metis (no_types, lifting) ob_get_set ob_wf_set option.inject)

lemma createUser_wf:
  assumes "users_wf w" "createUser db getUser expiry header data w = (r, w')"
  shows "users_wf w'"
  using createUser_users [OF assms(2)]
proof
  assume "users w' = users w"
  with assms(1) show ?thesis using users_wf_cong [of w' w] by blast
qed (use users_wf_set [OF assms(1)] in blast)

lemma users_wf_del: "users_wf w \<Longrightarrow> users_wf (w\<lparr>users := ob_del (users w) k\<rparr>)"
  unfolding users_wf_def by (simp del: ob_get_del) (metis ob_get_del option.distinct(1))

lemma deleteUser_wf: "users_wf w \<Longrightarrow> deleteUser db header w = (r, w') \<Longrightarrow> users_wf w'"
  unfolding deleteUser_def by (auto simp: users_wf_del split: option.splits list.splits sum.splits)

lemma spread_username: "up_username (spread d u) = (case up_username u of None \<Rightarrow> up_username d | Some n \<Rightarrow> Some n)"
  by (simp add: spread_def Let_def split: option.split)

lemma updateUser_users:
  assumes "users_wf w" "updateUser db header user w = (r, w')" "users w' \<noteq> users w"
  shows "\<exists>h old k d. header = Some h \<and> r = Inr () \<and> up_uid user = up_uid h \<and> old \<in> set (with_uid (up_uid h) w) \<and>
    rx_test usernameRegex k \<and> up_username d = Some k \<and> up_uid d = up_uid h \<and> users w' = ob_set (users w) k d"
proof -
  let ?u = "updated_fields user"
  from assms(2,3) obtain h old os where h: "header = Some h" "validateUpdateUser (up_uid h) user = None" "db = None"
      "with_uid (up_uid h) w = old # os" "r = Inr ()"
    by (auto simp: updateUser_def Let_def split: option.splits list.splits if_splits sum.splits)
  have id: "up_uid user = up_uid h" and v: "truthy (up_username user) \<longrightarrow> rx_test usernameRegex (js_str (up_username user))"
    using h(2) by (auto simp: validateUpdateUser_def split: if_splits)
  note old = with_uid_Cons [OF assms(1) h(4)]
  then obtain k where k: "ob_get (users w) k = Some old" "up_username old = Some k" "rx_test usernameRegex k" by blast
  have u: "up_uid ?u = None" "up_username ?u = (if truthy (up_username user) then up_username user else None)"
    by (simp_all add: updated_fields_def Let_def)
  have uid: "up_uid (spread old ?u) = up_uid h" using old(1) u(1) by (simp add: spread_def Let_def)
  show ?thesis
  proof (cases "truthy (up_username ?u) \<and> up_username ?u \<noteq> up_username old")
    case True
    then have "users w' = ob_set (users w) (js_str (up_username ?u)) (toFirestore (spread old ?u))"
      using assms(2,3) h by (auto simp: updateUser_def Let_def split: if_splits)
    moreover have "up_username ?u = Some (js_str (up_username ?u))" "rx_test usernameRegex (js_str (up_username ?u))"
      using True u(2) v by (auto simp: truthy_def split: option.splits if_splits)
    moreover have "up_username (spread old ?u) = up_username ?u" using True by (auto simp: spread_username split: option.splits)
    ultimately show ?thesis using h id uid by (intro exI [of _ h] exI [of _ old] exI [of _ "js_str (up_username ?u)"] exI [of _ "spread old ?u"]) simp
  next
    case False
    then have "users w' = ob_set (users w) k (spread old ?u)"
      using assms(2,3) h k username_doc [OF k(3)] by (auto simp: updateUser_def Let_def split: if_splits)
    moreover have "up_username (spread old ?u) = Some k"
      using False k(2) u(2) by (auto simp: spread_username truthy_def split: option.splits if_splits)
    ultimately show ?thesis using h id uid k(3) by (intro exI [of _ h] exI [of _ old] exI [of _ k] exI [of _ "spread old ?u"]) simp
  qed
qed

lemma updateUser_wf:
  assumes "users_wf w" "updateUser db header user w = (r, w')"
  shows "users_wf w'"
proof (cases "users w' = users w")
  case False
  from updateUser_users [OF assms False] show ?thesis using users_wf_set [OF assms(1)] by blast
qed (use assms(1) users_wf_cong [of w' w] in blast)

lemma fetch_users [simp]:
  "users (snd (fetchUserFromDB db i w)) = users w" "users (snd (fetch_missing db xs w)) = users w"
proof -
  show f: "users (snd (fetchUserFromDB db i w)) = users w" for i and w :: "'a usvc_scheme"
    by (simp add: fetchUserFromDB_def split: option.split list.split)
  show "users (snd (fetch_missing db xs w)) = users w"
    by (induction xs arbitrary: w) (auto simp: f split_def Let_def split: option.split)
qed

lemma read_users:
  "users (snd (getProfile db uid actor w)) = users w" "users (snd (getUsers db ids actor w)) = users w"
  by (simp_all add: getProfile_def getUsers_def split_def Let_def split: option.split list.split)

theorem user_step_wf: "user_step w w' \<Longrightarrow> users_wf w \<Longrightarrow> users_wf w'"
proof (induction rule: user_step.induct)
  case (profile db uid actor w r w')
  then show ?case using read_users(1) [of db uid actor w] users_wf_cong [of w' w] by simp
next
  case (all db ids actor w r' w')
  then show ?case using read_users(2) [of db ids actor w] users_wf_cong [of w' w] by simp
next
  case (tick w t)
  then show ?case using users_wf_cong [of "w\<lparr>clock := t\<rparr>" w] by simp
qed (rule createUser_wf deleteUser_wf updateUser_wf; assumption)+

section \<open>What a user sees of the profiles of others\<close>

text \<open>A profile as the user \<open>a\<close> may see it, and the part of the state that is visible to \<open>a\<close>: everything but
  the e-mail addresses of other users.\<close>

definition masked :: "string option \<Rightarrow> user_profile \<Rightarrow> user_profile" where
  "masked a d = (if up_uid d \<noteq> a then d\<lparr>up_email := None\<rparr> else d)"

definition masked_value :: "string option \<Rightarrow> cache_value \<Rightarrow> cache_value" where
  "masked_value a v = (case v of CvUser d \<Rightarrow> CvUser (masked a d) | _ \<Rightarrow> v)"

definition visible :: "string option \<Rightarrow> 'a usvc_scheme \<Rightarrow> (string, cache_entry) obj \<times> user_profile collection \<times> int" where
  "visible a w = (map (apsnd (apfst (masked_value a))) (cache w), map (apsnd (masked a)) (users w), clock w)"

text \<open>Requests to the service, each by its own user, who is known by the header of the request, and the replies to \<open>a\<close>.\<close>

datatype user_request =
    Get_profile "err option" string "string option"
  | Get_users "err option" "string list" "string option"
  | Post_register "err option" "string option \<Rightarrow> nat result" "int option" "user_profile option" CreateUserDTO
  | Patch_update "err option" "user_profile option" user_profile
  | Delete_user "err option" "user_profile option"
  | Time_passes nat

datatype user_reply = Profiles "user_profile option list result" | Done "unit result"

fun requested_by :: "user_request \<Rightarrow> string option \<Rightarrow> bool" where
  "requested_by (Get_profile db uid actor) a = (actor = a)"
| "requested_by (Get_users db ids actor) a = (actor = a)"
| "requested_by (Post_register db getUser expiry header data) a = (map_option up_uid header = Some a)"
| "requested_by (Patch_update db header user) a = (map_option up_uid header = Some a)"
| "requested_by (Delete_user db header) a = (map_option up_uid header = Some a)"
| "requested_by (Time_passes d) a = False"

fun user_handle :: "user_request \<Rightarrow> 'a usvc_scheme \<Rightarrow> user_reply \<times> 'a usvc_scheme" where
  "user_handle (Get_profile db uid actor) w = apfst (\<lambda>r. Profiles (map_sum id (\<lambda>u. [u]) r)) (getProfile db uid actor w)"
| "user_handle (Get_users db ids actor) w = apfst (\<lambda>us. Profiles (Inr us)) (getUsers db ids actor w)"
| "user_handle (Post_register db getUser expiry header data) w = apfst Done (createUser db getUser expiry header data w)"
| "user_handle (Patch_update db header user) w = apfst Done (updateUser db header user w)"
| "user_handle (Delete_user db header) w = apfst Done (deleteUser db header w)"
| "user_handle (Time_passes d) w = (Done (Inr ()), w\<lparr>clock := clock w + int d\<rparr>)"

fun run_requests :: "string option \<Rightarrow> user_request list \<Rightarrow> 'a usvc_scheme \<Rightarrow> user_reply list" where
  "run_requests a [] w = []"
| "run_requests a (r # rs) w =
     (let (x, w1) = user_handle r w in (if requested_by r a then [x] else []) @ run_requests a rs w1)"

lemma hide_masked: "hideConfidentialFields data a = map_option (masked a) data"
  by (simp add: hideConfidentialFields_def masked_def [abs_def])

lemma masked_idem [simp]: "masked a (masked a d) = masked a d" "up_uid (masked a d) = up_uid d"
  by (simp_all add: masked_def)

lemma hide_issuer: "masked a (d\<lparr>up_issuer := None\<rparr>) = (masked a d)\<lparr>up_issuer := None\<rparr>"
  by (simp add: masked_def)

lemma visible_with_uid:
  fixes w w' :: "'a usvc_scheme"
  assumes "visible a w = visible a w'"
  shows "map (masked a) (with_uid u w) = map (masked a) (with_uid u w')"
proof -
  have m: "map (masked a) (with_uid u v) = filter (\<lambda>d. up_uid d = u) (map snd (map (apsnd (masked a)) (fs_docs (users v))))"
    for v :: "'a usvc_scheme"
    by (simp add: with_uid_def fs_where_def filter_map comp_def)
  have "map (apsnd (masked a)) (users w) = map (apsnd (masked a)) (users w')" using assms by (simp add: visible_def)
  from fs_docs_cong [OF this] show ?thesis unfolding m by simp
qed

lemma ob_get_map: "ob_get (map (apsnd f) xs) k = map_option f (ob_get xs k)"
  by (induction xs) auto

lemma visible_cache:
  fixes w w' :: "'a usvc_scheme"
  assumes "visible a w = visible a w'"
  shows "map_option (masked a) (get_user w k) = map_option (masked a) (get_user w' k)"
proof -
  let ?m = "apfst (masked_value a) :: cache_entry \<Rightarrow> cache_entry"
  have c: "map_option (masked_value a) (cache_get v k) =
      (case ob_get (map (apsnd ?m) (cache v)) k of None \<Rightarrow> None | Some e \<Rightarrow> if alive (clock v) e then Some (fst e) else None)"
    for v :: "'a usvc_scheme"
    by (simp add: ob_get_map cache_get_def alive_def split: option.split)
  have g: "map_option (masked a) (get_user v k) =
      (case map_option (masked_value a) (cache_get v k) of Some (CvUser d) \<Rightarrow> Some d | _ \<Rightarrow> None)" for v :: "'a usvc_scheme"
    by (simp add: get_user_def masked_value_def split: option.split cache_value.split)
  have "map (apsnd ?m) (cache w) = map (apsnd ?m) (cache w')" "clock w = clock w'" using assms by (simp_all add: visible_def)
  then show ?thesis unfolding g c by (simp only:)
qed

lemma map_ob_set: "map (apsnd f) (ob_set xs k v) = ob_set (map (apsnd f) xs) k (f v)"
  by (induction xs) auto

lemma visible_set:
  "visible a w = visible a w' \<Longrightarrow> masked_value a v = masked_value a v' \<Longrightarrow>
     visible a (cache_set w k v t) = visible a (cache_set w' k v' t)"
  by (simp add: visible_def cache_set_def map_ob_set)

lemma visible_set_user:
  "visible a w = visible a w' \<Longrightarrow> masked a d = masked a d' \<Longrightarrow>
     visible a (cache_set w k (CvUser d) t) = visible a (cache_set w' k (CvUser d') t)"
  by (erule visible_set) (simp add: masked_value_def)

lemma same_masked_list:
  "map f xs = map f ys \<Longrightarrow> (xs = [] \<longleftrightarrow> ys = []) \<and> (xs \<noteq> [] \<longrightarrow> f (hd xs) = f (hd ys))"
  by (cases xs; cases ys) auto

lemma getProfile_visible:
  fixes w w' :: "'a usvc_scheme"
  assumes "visible a w = visible a w'"
  shows "visible a (snd (getProfile db uid actor w)) = visible a (snd (getProfile db uid actor w'))"
    "actor = a \<Longrightarrow> fst (getProfile db uid actor w) = fst (getProfile db uid actor w')"
proof -
  note c = visible_cache [OF assms, of "CACHEKEY_USER_PROFILE uid"]
  have n: "get_user w (CACHEKEY_USER_PROFILE uid) = None \<longleftrightarrow> get_user w' (CACHEKEY_USER_PROFILE uid) = None"
    using c by (metis map_option_is_None)
  note l = same_masked_list [OF visible_with_uid [OF assms, of "Some uid"]]
  show "visible a (snd (getProfile db uid actor w)) = visible a (snd (getProfile db uid actor w'))"
    using n l assms by (auto simp: getProfile_def split: option.split list.split intro: visible_set_user [OF assms])
  show "actor = a \<Longrightarrow> fst (getProfile db uid actor w) = fst (getProfile db uid actor w')"
    using n l c by (auto simp: getProfile_def hide_masked split: option.split list.split)
qed

lemma fetchUserFromDB_visible:
  fixes w w' :: "'a usvc_scheme"
  assumes "visible a w = visible a w'"
  shows "visible a (snd (fetchUserFromDB db uid w)) = visible a (snd (fetchUserFromDB db uid w')) \<and>
    map_option (masked a) (fst (fetchUserFromDB db uid w)) = map_option (masked a) (fst (fetchUserFromDB db uid w'))"
proof -
  note l = same_masked_list [OF visible_with_uid [OF assms, of "Some uid"]]
  with assms show ?thesis by (auto simp: fetchUserFromDB_def split: option.split list.split intro: visible_set_user [OF assms])
qed

lemma fetch_missing_visible:
  fixes w w' :: "'a usvc_scheme"
  assumes "visible a w = visible a w'" "list_all2 (\<lambda>x y. fst x = fst y \<and> map_option (masked a) (snd x) = map_option (masked a) (snd y)) xs ys"
  shows "visible a (snd (fetch_missing db xs w)) = visible a (snd (fetch_missing db ys w')) \<and>
    map (map_option (masked a)) (fst (fetch_missing db xs w)) = map (map_option (masked a)) (fst (fetch_missing db ys w'))"
  using assms(2,1)
proof (induction arbitrary: w w' rule: list_all2_induct)
  case (Cons x xs y ys)
  obtain i c where x: "x = (i, c)" by fastforce
  with Cons.hyps(1) obtain c' where y: "y = (i, c')" "map_option (masked a) c = map_option (masked a) c'" by (cases y) auto
  then have n: "c = None \<longleftrightarrow> c' = None" by (metis map_option_is_None)
  have *: "visible a (snd (fetch_missing db xs v)) = visible a (snd (fetch_missing db ys v')) \<and>
    map (map_option (masked a)) (fst (fetch_missing db xs v)) = map (map_option (masked a)) (fst (fetch_missing db ys v'))"
    if "visible a v = visible a v'" for v v' :: "'a usvc_scheme" by (rule Cons.IH [OF that])
  note f = fetchUserFromDB_visible [OF Cons.prems, where db = db and uid = i]
  show ?case using * [OF Cons.prems] * [OF conjunct1 [OF f]] f n y(2)
    by (cases c; cases c') (simp_all add: x y(1) split_def Let_def)
qed simp

lemma getUsers_visible:
  fixes w w' :: "'a usvc_scheme"
  assumes "visible a w = visible a w'"
  shows "visible a (snd (getUsers db ids actor w)) = visible a (snd (getUsers db ids actor w'))"
    "actor = a \<Longrightarrow> fst (getUsers db ids actor w) = fst (getUsers db ids actor w')"
proof -
  let ?c = "\<lambda>v. map (\<lambda>i. (i, get_user v (''users:'' @ i))) ids"
  have "list_all2 (\<lambda>x y. fst x = fst y \<and> map_option (masked a) (snd x) = map_option (masked a) (snd y)) (?c w) (?c w')"
    using visible_cache [OF assms] by (simp add: list_all2_map1 list_all2_map2 list_all2_same)
  note m = fetch_missing_visible [OF assms this, of db]
  then show "visible a (snd (getUsers db ids actor w)) = visible a (snd (getUsers db ids actor w'))"
    by (simp add: getUsers_def split_def Let_def)
  have "fst (getUsers db ids a v) = map (map_option (\<lambda>d. d\<lparr>up_issuer := None\<rparr>))
      (map (map_option (masked a)) (fst (fetch_missing db (?c v) v)))" for v :: "'a usvc_scheme"
    by (simp add: getUsers_def split_def Let_def hide_masked hide_issuer option.map_comp comp_def)
  with m show "actor = a \<Longrightarrow> fst (getUsers db ids actor w) = fst (getUsers db ids actor w')" by (simp only: simp_thms)
qed

text \<open>The requests that write: the documents stay the same up to addresses of others, and so do the replies.\<close>

lemma visible_users:
  "visible a w = visible a w' \<Longrightarrow> map (apsnd (masked a)) us = map (apsnd (masked a)) us' \<Longrightarrow>
     visible a (w\<lparr>users := us\<rparr>) = visible a (w'\<lparr>users := us'\<rparr>)"
  by (simp add: visible_def)

lemma visible_doc: "visible a w = visible a w' \<Longrightarrow> map (apsnd (masked a)) (users w) = map (apsnd (masked a)) (users w')"
  by (simp add: visible_def)

lemma visible_clock: "visible a w = visible a w' \<Longrightarrow> clock w = clock w'"
  by (simp add: visible_def)

lemma map_ob_del: "map (apsnd f) (ob_del xs k) = ob_del (map (apsnd f) xs) k"
  by (induction xs) auto

lemma masked_username: "masked a d = masked a d' \<Longrightarrow> up_username d = up_username d'"
  by (metis (no_types, lifting) masked_def user_profile.select_convs(3) user_profile.surjective user_profile.update_convs(4))

lemma masked_spread:
  assumes "masked a d = masked a d'" "up_uid u = None"
  shows "masked a (spread d u) = masked a (spread d' u)"
proof -
  have "masked a (spread d u) = masked a (spread (masked a d) u)" for d
    using assms(2) by (simp add: masked_def spread_def split: option.split)
  with assms(1) show ?thesis by metis
qed

lemma createUser_visible:
  fixes w w' :: "'a usvc_scheme"
  assumes "visible a w = visible a w'"
  shows "visible a (snd (createUser db getUser expiry header data w)) = visible a (snd (createUser db getUser expiry header data w')) \<and>
    fst (createUser db getUser expiry header data w) = fst (createUser db getUser expiry header data w')"
proof (cases header)
  case (Some user)
  have n: "with_uid (up_uid user) w = [] \<longleftrightarrow> with_uid (up_uid user) w' = []"
    using same_masked_list [OF visible_with_uid [OF assms, of "up_uid user"]] by blast
  have "visible a (cache_set (w\<lparr>users := ob_set (users w) k d\<rparr>) c v t) = visible a (cache_set (w'\<lparr>users := ob_set (users w') k d\<rparr>) c v t)"
    for k d c v t
    by (rule visible_set [OF visible_users [OF assms]]) (simp_all add: map_ob_set visible_doc [OF assms])
  with n assms show ?thesis
    by (auto simp: createUser_def Some Let_def visible_clock [OF assms] split: option.split sum.split)
qed (use assms in \<open>simp add: createUser_def split: option.split\<close>)

lemma deleteUser_visible:
  fixes w w' :: "'a usvc_scheme"
  assumes "visible a w = visible a w'"
  shows "visible a (snd (deleteUser db header w)) = visible a (snd (deleteUser db header w')) \<and>
    fst (deleteUser db header w) = fst (deleteUser db header w')"
proof (cases header)
  case (Some user)
  note l = same_masked_list [OF visible_with_uid [OF assms, of "up_uid user"]]
  have v: "visible a (w\<lparr>users := ob_del (users w) k\<rparr>) = visible a (w'\<lparr>users := ob_del (users w') k\<rparr>)" for k
    by (rule visible_users [OF assms]) (simp add: map_ob_del visible_doc [OF assms])
  show ?thesis
  proof (cases "with_uid (up_uid user) w")
    case Nil
    with l assms show ?thesis by (simp add: deleteUser_def Some split: option.split)
  next
    case (Cons d ds)
    with l obtain d' ds' where "with_uid (up_uid user) w' = d' # ds'" "masked a d = masked a d'" by (cases "with_uid (up_uid user) w'") auto
    with Cons assms v show ?thesis by (simp add: deleteUser_def Some masked_username [of a d d'] split: option.split sum.split)
  qed
qed (use assms in \<open>simp add: deleteUser_def\<close>)

lemma updateUser_visible:
  fixes w w' :: "'a usvc_scheme"
  assumes "visible a w = visible a w'"
  shows "visible a (snd (updateUser db header user w)) = visible a (snd (updateUser db header user w')) \<and>
    fst (updateUser db header user w) = fst (updateUser db header user w')"
proof (cases header)
  case (Some h)
  let ?u = "updated_fields user"
  note l = same_masked_list [OF visible_with_uid [OF assms, of "up_uid h"]]
  have u: "up_uid ?u = None" by (simp add: updated_fields_def Let_def)
  have v: "visible a (w\<lparr>users := ob_set (users w) k (spread d ?u)\<rparr>) = visible a (w'\<lparr>users := ob_set (users w') k (spread d' ?u)\<rparr>)"
    if "masked a d = masked a d'" for k d d'
    by (rule visible_users [OF assms]) (simp add: map_ob_set visible_doc [OF assms] masked_spread [OF that u])
  have o: "map_option (masked a) (ob_get (users w) k) = map_option (masked a) (ob_get (users w') k)" for k
    using visible_doc [OF assms] by (metis ob_get_map)
  show ?thesis
  proof (cases "with_uid (up_uid h) w")
    case Nil
    with l assms show ?thesis by (simp add: updateUser_def Some Let_def split: option.split)
  next
    case (Cons d ds)
    with l obtain d' ds' where d': "with_uid (up_uid h) w' = d' # ds'" "masked a d = masked a d'" by (cases "with_uid (up_uid h) w'") auto
    note n = masked_username [OF d'(2)]
    define patch where "patch v k = (case ob_get (users v) k of None \<Rightarrow> (Inl (LibErr ''5 NOT_FOUND''), v)
      | Some d \<Rightarrow> (Inr (), v\<lparr>users := ob_set (users v) k (spread d ?u)\<rparr>))" for v :: "'a usvc_scheme" and k
    have p: "visible a (snd (patch w k)) = visible a (snd (patch w' k)) \<and> fst (patch w k) = fst (patch w' k)" for k
      using o [of k] assms v by (cases "ob_get (users w) k"; cases "ob_get (users w') k") (auto simp: patch_def)
    show ?thesis
      using Cons d'(1) n assms v [OF d'(2)] p
      by (simp add: updateUser_def Some Let_def patch_def [symmetric] split: option.split sum.split)
  qed
qed (use assms in \<open>simp add: updateUser_def\<close>)

lemma user_handle_visible:
  fixes w w' :: "'a usvc_scheme"
  assumes "visible a w = visible a w'"
  shows "visible a (snd (user_handle r w)) = visible a (snd (user_handle r w'))"
    "requested_by r a \<Longrightarrow> fst (user_handle r w) = fst (user_handle r w')"
  using getProfile_visible [OF assms] getUsers_visible [OF assms] createUser_visible [OF assms] updateUser_visible [OF assms]
    deleteUser_visible [OF assms] assms
  by (cases r; simp; simp add: visible_def)+

text \<open>C6. Confidentiality of e-mail addresses: whatever requests the service handles, reads, registrations, updates and
  deletions, by whom and in which order, the replies to a user do not depend on the addresses of the others. Two states
  that differ only in addresses of other users, in the database or in the cache, give the user the same replies.\<close>

theorem emails_confidential:
  fixes w w' :: "'a usvc_scheme"
  assumes "visible a w = visible a w'"
  shows "run_requests a rs w = run_requests a rs w'"
  using assms
proof (induction rs arbitrary: w w')
  case (Cons r rs)
  note h = user_handle_visible [OF Cons.prems, of r]
  show ?case using Cons.IH [OF h(1)] h(2) by (auto simp: split_def Let_def)
qed simp

definition ann_profile :: "string \<Rightarrow> user_profile" where
  "ann_profile mail = \<lparr>up_uid = Some ''ann'', up_name = Some ''Ann A.'', up_username = Some ''annie'', up_email = Some mail,
     up_picture = Some '''', up_issuer = Some ''i'', up_expireAt = None\<rparr>"

definition user_db :: "string \<Rightarrow> usvc" where
  "user_db mail = \<lparr>cache = [], out = [], uuids = (\<lambda>n. ''id''), uuidc = 0, clock = 0, perf = 0,
     users = [(''annie'', ann_profile mail)]\<rparr>"

theorem emails_confidential_witness:
  "run_requests (Some ''bob'') [Get_profile None ''ann'' (Some ''ann''), Patch_update None (Some (ann_profile ''m'')) (ann_profile ''m''),
     Time_passes 5, Get_profile None ''ann'' (Some ''bob'')] (user_db ''a@x.org'') =
   run_requests (Some ''bob'') [Get_profile None ''ann'' (Some ''ann''), Patch_update None (Some (ann_profile ''m'')) (ann_profile ''m''),
     Time_passes 5, Get_profile None ''ann'' (Some ''bob'')] (user_db ''a@y.org'')"
  by (rule emails_confidential) (simp add: visible_def user_db_def masked_def ann_profile_def)

end
