(* ===== verification/Gateway_Public.thy ===== *)
theory Gateway_Public
  imports Gateway_Socket Js_Regex
begin

text \<open>
  The public part of the gateway (\<^verbatim>\<open>gateway/src/public/public.service.ts\<close>, \<^verbatim>\<open>public.controller.ts\<close>) and its
  guard (\<^verbatim>\<open>gateway/src/common/guard/public.guard.ts\<close>): availability of user names, e-mail sign-in, templates,
  the webhook for new and deleted users, and the link of the mails on access requests.

  The filter for user names is a cuckoo filter of Redis, which is not part of the repository: its operations
  are a parameter (\<open>cuckoo\<close>). So are the replies of other services, the token library and the existence of
  a document in Firestore.
\<close>

section \<open>State and libraries\<close>

record 'f cuckoo =
  cf_key :: "'f \<Rightarrow> bool"                           \<comment> \<open>whether the key exists\<close>
  cf_reserve :: "'f \<Rightarrow> int \<Rightarrow> 'f result"
  cf_exists :: "'f \<Rightarrow> string \<Rightarrow> bool"
  cf_add :: "'f \<Rightarrow> string \<Rightarrow> 'f result"
  cf_del :: "'f \<Rightarrow> string \<Rightarrow> 'f result"

record 'f pub = gw +
  pb_usernames :: 'f

text \<open>A reply to a request: its status and the fields of its JSON body, if it has one.\<close>

record http_res =
  hr_status :: int
  hr_json :: "(string, string) obj result"

definition http_ok :: "http_res \<Rightarrow> bool" where
  "http_ok r \<longleftrightarrow> 200 \<le> hr_status r \<and> hr_status r \<le> 299"

section \<open>User names\<close>

definition cuckooCheck :: "'f cuckoo \<Rightarrow> string \<Rightarrow> ('f, 'a) pub_scheme \<Rightarrow> bool" where
  "cuckooCheck C v w = cf_exists C (pb_usernames w) v"

definition cuckooAdd :: "'f cuckoo \<Rightarrow> string \<Rightarrow> ('f, 'a) pub_scheme \<Rightarrow> unit result \<times> ('f, 'a) pub_scheme" where
  "cuckooAdd C v w = (case cf_add C (pb_usernames w) v of Inl e \<Rightarrow> (Inl e, w) | Inr f \<Rightarrow> (Inr (), w\<lparr>pb_usernames := f\<rparr>))"

definition cuckooRemove :: "'f cuckoo \<Rightarrow> string \<Rightarrow> ('f, 'a) pub_scheme \<Rightarrow> unit result \<times> ('f, 'a) pub_scheme" where
  "cuckooRemove C v w = (case cf_del C (pb_usernames w) v of Inl e \<Rightarrow> (Inl e, w) | Inr f \<Rightarrow> (Inr (), w\<lparr>pb_usernames := f\<rparr>))"

definition cuckooReserve :: "'f cuckoo \<Rightarrow> int \<Rightarrow> ('f, 'a) pub_scheme \<Rightarrow> unit result \<times> ('f, 'a) pub_scheme" where
  "cuckooReserve C n w = (case cf_reserve C (pb_usernames w) n of Inl e \<Rightarrow> (Inl e, w) | Inr f \<Rightarrow> (Inr (), w\<lparr>pb_usernames := f\<rparr>))"

definition validateUsername :: "string option \<Rightarrow> bool" where
  "validateUsername username \<longleftrightarrow> truthy username \<and> rx_test usernameRegex (js_str username)"

definition checkUsernameExistence ::
  "'f cuckoo \<Rightarrow> (string \<Rightarrow> bool result) \<Rightarrow> string option \<Rightarrow> ('f, 'a) pub_scheme \<Rightarrow> bool result" where
  "checkUsernameExistence C userDoc username w =
     (if \<not> validateUsername username then Inl (BadRequest ''INVALID_USER_USERNAME'')
      else if \<not> cuckooCheck C (js_lower (js_str username)) w then Inr True
      else (case userDoc (js_str username) of Inl e \<Rightarrow> Inl e | Inr exists \<Rightarrow> Inr (\<not> exists)))"

definition addUsername :: "'f cuckoo \<Rightarrow> string option \<Rightarrow> ('f, 'a) pub_scheme \<Rightarrow> unit result \<times> ('f, 'a) pub_scheme" where
  "addUsername C username w =
     (case username of None \<Rightarrow> (Inl TypeErr, w) | Some n \<Rightarrow> cuckooAdd C (js_lower n) w)"

definition removeUsername :: "'f cuckoo \<Rightarrow> string option \<Rightarrow> ('f, 'a) pub_scheme \<Rightarrow> unit result \<times> ('f, 'a) pub_scheme" where
  "removeUsername C username w =
     (case username of None \<Rightarrow> (Inl TypeErr, w) | Some n \<Rightarrow> cuckooRemove C (js_lower n) w)"

text \<open>The names are added all at once; one that fails does not keep the others from being added.\<close>

fun seed_all :: "'f cuckoo \<Rightarrow> string list \<Rightarrow> ('f, 'a) pub_scheme \<Rightarrow> bool \<times> ('f, 'a) pub_scheme" where
  "seed_all C [] w = (True, w)"
| "seed_all C (n # ns) w =
     (case cuckooAdd C n w of
        (Inl e, w1) \<Rightarrow> (False, snd (seed_all C ns w1))
      | (Inr _, w1) \<Rightarrow> seed_all C ns w1)"

definition seed ::
  "'f cuckoo \<Rightarrow> string list result \<Rightarrow> ('f, 'a) pub_scheme \<Rightarrow> unit result \<times> ('f, 'a) pub_scheme" where
  "seed C docRefs w =
     (case (if cf_key C (pb_usernames w) then (Inr (), w) else cuckooReserve C 100000 w) of
        (Inl e, w1) \<Rightarrow> (Inl e, w1)
      | (Inr _, w1) \<Rightarrow>
          (case docRefs of Inl e \<Rightarrow> (Inr (), w1)
           | Inr usernames \<Rightarrow>
               (case seed_all C usernames w1 of
                  (False, w2) \<Rightarrow> (Inr (), w2)
                | (True, w2) \<Rightarrow> (Inr (), releaseLock ''usernames_cuckoo_init'' w2))))"

definition public_onModuleInit ::
  "'f cuckoo \<Rightarrow> string list result \<Rightarrow> ('f, 'a) pub_scheme \<Rightarrow> ('f, 'a) pub_scheme" where
  "public_onModuleInit C docRefs w =
     (case acquireLock ''usernames_cuckoo_init'' 120000 w of
        (Inl e, w1) \<Rightarrow> w1
      | (Inr _, w1) \<Rightarrow> snd (seed C docRefs w1))"

section \<open>Users that come and go\<close>

definition refreshProfileCheckCache :: "user_profile \<Rightarrow> 'a net_scheme \<Rightarrow> 'a net_scheme" where
  "refreshProfileCheckCache data w =
     (let k = CACHEKEY_USER_PROFILE (js_str (up_uid data))
      in if get_user w k = None then cache_set w k (CvUser data) None else w)"

definition removeCaches :: "string \<Rightarrow> 'a net_scheme \<Rightarrow> 'a net_scheme" where
  "removeCaches uid w =
     (let w1 = cache_del (cache_del w (CACHEKEY_MEMBERSHIP uid)) (CACHEKEY_USER_PROFILE uid)
      in case get_presence w1 uid of None \<Rightarrow> w1
         | Some presence \<Rightarrow>
             cache_del (fold (\<lambda>sid w. cache_del w (CACHEKEY_PRESENCE_SESSION uid sid)) (ob_keys presence) w1)
               (CACHEKEY_PRESENCE uid))"

definition public_deleteOwnedWorkspaces :: "unit result \<Rightarrow> string \<Rightarrow> 'a net_scheme \<Rightarrow> unit result \<times> 'a net_scheme" where
  "public_deleteOwnedWorkspaces reply uid w = (reply, emit w [Rmq_delete_owned uid])"

datatype webhook = User_registered user_profile | User_deleted user_profile | Other_hook

definition handleWebhook ::
  "'f cuckoo \<Rightarrow> unit result \<Rightarrow> webhook \<Rightarrow> ('f, 'a) pub_scheme \<Rightarrow> unit result \<times> ('f, 'a) pub_scheme" where
  "handleWebhook C reply data w =
     (case data of
        User_registered p \<Rightarrow>
          (case addUsername C (up_username p) w of
             (Inl e, w1) \<Rightarrow> (Inl e, w1)
           | (Inr _, w1) \<Rightarrow> (Inr (), refreshProfileCheckCache p w1))
      | User_deleted p \<Rightarrow>
          (case removeUsername C (up_username p) w of
             (Inl e, w1) \<Rightarrow> (Inl e, w1)
           | (Inr _, w1) \<Rightarrow> public_deleteOwnedWorkspaces reply (js_str (up_uid p)) (removeCaches (js_str (up_uid p)) w1))
      | Other_hook \<Rightarrow> (Inr (), w))"

section \<open>E-mail sign-in, templates and access requests\<close>

definition auth_error :: "http_res \<Rightarrow> err" where
  "auth_error r = (case hr_json r of Inl e \<Rightarrow> e
     | Inr data \<Rightarrow> HttpError (case ob_get data ''message'' of None \<Rightarrow> ''UNKNOWN'' | Some m \<Rightarrow> m) (hr_status r))"

definition registerEmail :: "http_res result \<Rightarrow> 'a net_scheme \<Rightarrow> unit result \<times> 'a net_scheme" where
  "registerEmail response w =
     (let w1 = emit w [Http_call ''POST'' ''http://auth/api/register-email'']
      in case response of
           Inl e \<Rightarrow> (Inl (InternalServerError ''UNKNOWN''), w1)
         | Inr r \<Rightarrow> if \<not> http_ok r then (Inl (auth_error r), w1) else (Inr (), w1))"

definition verifyEmail :: "http_res result \<Rightarrow> 'a net_scheme \<Rightarrow> (string, string) obj result \<times> 'a net_scheme" where
  "verifyEmail response w =
     (let w1 = emit w [Http_call ''POST'' ''http://auth/api/verify-email'']
      in case response of
           Inl e \<Rightarrow> (Inl (InternalServerError ''UNKNOWN''), w1)
         | Inr r \<Rightarrow> if \<not> http_ok r then (Inl (auth_error r), w1) else (hr_json r, w1))"

definition getTemplates ::
  "(string \<times> string) list result \<Rightarrow> 'a net_scheme \<Rightarrow> (string \<times> string) list result \<times> 'a net_scheme" where
  "getTemplates templatesFile w =
     (case cache_get w ''templates'' of
        Some (CvTemplates ts) \<Rightarrow> (Inr ts, w)
      | _ \<Rightarrow>
          (case templatesFile of Inl e \<Rightarrow> (Inl e, w)
           | Inr ts \<Rightarrow> (Inr ts, cache_set w ''templates'' (CvTemplates ts) (Some 3600000))))"

text \<open>The reply: whether it succeeded, and the error otherwise (\<open>Some None\<close> for an error without a message).\<close>

definition public_fulfillAccessRequest ::
  "http_res result \<Rightarrow> 'a net_scheme \<Rightarrow> (bool \<times> string option option) result \<times> 'a net_scheme" where
  "public_fulfillAccessRequest response w =
     (let w1 = emit w [Http_call ''POST'' ''http://workspace/api/access-fulfill'']
      in case response of
           Inl e \<Rightarrow> (Inr (False, Some (Some ''UNKNOWN'')), w1)
         | Inr r \<Rightarrow>
             if \<not> http_ok r
             then (case hr_json r of Inl e \<Rightarrow> (Inl e, w1) | Inr err \<Rightarrow> (Inr (False, Some (ob_get err ''message'')), w1))
             else (Inr (True, None), w1))"

section \<open>The guard\<close>

definition allowedIss :: "string list" where
  "allowedIss = [''firebase-service'', ''workspace-api'']"

definition allowedaud :: "string list" where
  "allowedaud = [''gateway-api'', ''client'']"

text \<open>\<open>metadata\<close> is what the decorator \<^verbatim>\<open>GuardParam\<close> sets on the handler; without it there is none. The two
  verifiers answer the audience and the issuer of a token.\<close>

definition public_canActivate ::
  "(string \<Rightarrow> (string \<times> string) result) \<Rightarrow> (string \<Rightarrow> (string \<times> string) result) \<Rightarrow> string option \<Rightarrow> string option \<Rightarrow> string option \<Rightarrow>
   bool result" where
  "public_canActivate verifyWorkspaceToken verifyCommonToken metadata queryToken authHeader =
     (case metadata of None \<Rightarrow> Inl TypeErr
      | Some publicGuardType \<Rightarrow>
          (let token = (if publicGuardType = ''workspace'' then queryToken
                        else (case authHeader of None \<Rightarrow> None
                              | Some h \<Rightarrow> (case js_split (CHR '' '') h of _ # t # _ \<Rightarrow> Some t | _ \<Rightarrow> None)))
           in if \<not> truthy token then Inl (Unauthorized ''Authorization header or token param is missing'')
              else
                (case (if publicGuardType = ''workspace'' then verifyWorkspaceToken else verifyCommonToken) (js_str token) of
                   Inl e \<Rightarrow> Inl (Unauthorized ''Unauthorized access'')
                 | Inr (aud, iss) \<Rightarrow> Inr (aud \<in> set allowedaud \<and> iss \<in> set allowedIss))))"

text \<open>A handler behind a guard: when the guard answers false, the framework throws.\<close>

definition guarded :: "bool result \<Rightarrow> ('w \<Rightarrow> 'r result \<times> 'w) \<Rightarrow> 'w \<Rightarrow> 'r result \<times> 'w" where
  "guarded g h w = (case g of Inl e \<Rightarrow> (Inl e, w) | Inr ok \<Rightarrow> if ok then h w else (Inl (Forbidden ''Forbidden resource''), w))"

text \<open>The two guarded routes of \<^verbatim>\<open>public.controller.ts\<close>: only the second sets the metadata.\<close>

definition post_webhook ::
  "(string \<Rightarrow> (string \<times> string) result) \<Rightarrow> (string \<Rightarrow> (string \<times> string) result) \<Rightarrow> 'f cuckoo \<Rightarrow> unit result \<Rightarrow>
   string option \<Rightarrow> string option \<Rightarrow> webhook \<Rightarrow> ('f, 'a) pub_scheme \<Rightarrow> unit result \<times> ('f, 'a) pub_scheme" where
  "post_webhook vw vc C reply queryToken authHeader data =
     guarded (public_canActivate vw vc None queryToken authHeader) (handleWebhook C reply data)"

definition get_access_fulfill ::
  "(string \<Rightarrow> (string \<times> string) result) \<Rightarrow> (string \<Rightarrow> (string \<times> string) result) \<Rightarrow> http_res result \<Rightarrow>
   string option \<Rightarrow> string option \<Rightarrow> 'a net_scheme \<Rightarrow> (bool \<times> string option option) result \<times> 'a net_scheme" where
  "get_access_fulfill vw vc response queryToken authHeader =
     guarded (public_canActivate vw vc (Some ''workspace'') queryToken authHeader) (public_fulfillAccessRequest response)"

end
