(* ===== verification/Gateway_Proxy.thy ===== *)
theory Gateway_Proxy
  imports Gateway_Public
begin

text \<open>
  The proxy of the gateway: the guard for users (\<^verbatim>\<open>gateway/src/common/guard/auth.guard.ts\<close>), the table of routes
  (\<^verbatim>\<open>gateway/src/proxy/translations.ts\<close>), and the translation of a request into a request or a message to another
  service (\<^verbatim>\<open>proxy.controller.ts\<close>, \<^verbatim>\<open>proxy.service.ts\<close>).

  \<open>validate\<close> is the reply of the auth service (the user of a token), \<open>users\<close> the query of Firestore, \<open>minimatch\<close>
  the glob matcher, which is a package.
\<close>

section \<open>The guard\<close>

definition bearer :: "string \<Rightarrow> string" where
  "bearer token =
     (if prefix ''Bearer '' token then (case js_split (CHR '' '') token of _ # t # _ \<Rightarrow> t | _ \<Rightarrow> '''') else token)"

text \<open>The user of the request, with the answer of the guard. Every error after the check of the header,
  also the one for an invalid token, is answered as \<^verbatim>\<open>Authentication failed\<close>.\<close>

definition auth_canActivate ::
  "(string \<Rightarrow> user_profile result) \<Rightarrow> (string option \<Rightarrow> user_profile list result) \<Rightarrow> string option \<Rightarrow> string \<Rightarrow> 'a net_scheme \<Rightarrow>
   (user_profile \<times> bool) result \<times> 'a net_scheme" where
  "auth_canActivate validate users authorization path w =
     (if \<not> truthy authorization then (Inl (Unauthorized ''Authorization header missing''), w)
      else
        (let w1 = emit w [Http_call ''POST'' ''http://auth/api/validate'']
         in case validate (bearer (js_str authorization)) of
              Inl e \<Rightarrow> (Inl (Unauthorized ''Authentication failed''), w1)
            | Inr userData \<Rightarrow>
                if path = ''/api/user/register'' then (Inr (userData, True), w1)
                else
                  (case get_user w1 (CACHEKEY_USER_PROFILE (js_str (up_uid userData))) of
                     Some _ \<Rightarrow> (Inr (userData, True), w1)
                   | None \<Rightarrow>
                       (case users (up_uid userData) of
                          Inl e \<Rightarrow> (Inl (Unauthorized ''Authentication failed''), w1)
                        | Inr [] \<Rightarrow> (Inr (userData, False), w1)
                        | Inr (userProfile # _) \<Rightarrow>
                            (Inr (userData, True),
                             cache_set w1 (CACHEKEY_USER_PROFILE (js_str (up_uid userData))) (CvUser userProfile) None)))))"

section \<open>The table of routes\<close>

datatype transport = HTTP | REDIS | RMQ | NATS

record Translation =
  tr_sourceProtocol :: transport
  tr_targetProtocol :: transport
  tr_pattern :: "string option"
  tr_action :: "string option"

datatype Methods = GET | POST | PUT | DELETE | PATCH | OPTIONS

type_synonym Paths = "(string, (Methods, Translation) obj) obj"

record Rule =
  rl_service :: string
  rl_paths :: Paths

definition http_http :: Translation where
  "http_http = \<lparr>tr_sourceProtocol = HTTP, tr_targetProtocol = HTTP, tr_pattern = None, tr_action = None\<rparr>"

definition http_redis :: "string \<Rightarrow> Translation" where
  "http_redis pattern = \<lparr>tr_sourceProtocol = HTTP, tr_targetProtocol = REDIS, tr_pattern = Some pattern, tr_action = None\<rparr>"

definition http_nats :: "string \<Rightarrow> string \<Rightarrow> Translation" where
  "http_nats pattern action =
     \<lparr>tr_sourceProtocol = HTTP, tr_targetProtocol = NATS, tr_pattern = Some pattern, tr_action = Some action\<rparr>"

definition user_rule :: Rule where
  "user_rule = \<lparr>rl_service = ''user'', rl_paths = [
     (''register'', [(POST, http_http)]),
     (''update'', [(PATCH, http_http)]),
     (''search'', [(GET, http_http)]),
     (''delete'', [(DELETE, http_http)]),
     (''*'', [(GET, http_http)])]\<rparr>"

definition notification_rule :: Rule where
  "notification_rule = \<lparr>rl_service = ''notification'', rl_paths = [
     (''all'', [(GET, http_http)]),
     (''read'', [(POST, http_http)]),
     (''readall'', [(POST, http_http)])]\<rparr>"

definition workspaces_rule :: Rule where
  "workspaces_rule = \<lparr>rl_service = ''workspace-*'', rl_paths = [
     (''dir/open'', [(GET, http_redis ''fs:open'')]),
     (''dir/close'', [(POST, http_redis ''fs:close'')]),
     (''file/open'', [(POST, http_redis ''fs:open'')]),
     (''file/close'', [(POST, http_redis ''fs:close'')]),
     (''file/save'', [(POST, http_redis ''fs:save'')])]\<rparr>"

definition workspace_rule :: Rule where
  "workspace_rule = \<lparr>rl_service = ''workspace'', rl_paths = [
     (''all'', [(GET, http_http)]),
     (''update'', [(PATCH, http_http)]),
     (''ignore'', [(POST, http_http)]),
     (''accept'', [(POST, http_http)]),
     (''access-request'', [(POST, http_http)]),
     (''access-delete'', [(DELETE, http_http)]),
     (''*'', [(DELETE, http_http)])]\<rparr>"

definition provisioner_rule :: Rule where
  "provisioner_rule = \<lparr>rl_service = ''provisioner'', rl_paths = [
     (''provision'', [(POST, http_http)])]\<rparr>"

definition env_rule :: Rule where
  "env_rule = \<lparr>rl_service = ''env'', rl_paths = [
     (''open'', [(POST, http_nats ''env.msg'' ''open'')]),
     (''close'', [(POST, http_nats ''env.msg'' ''close'')])]\<rparr>"

definition rules :: "Rule list" where
  "rules = [user_rule, notification_rule, workspaces_rule, workspace_rule, provisioner_rule, env_rule]"

section \<open>Requests\<close>

text \<open>A request: the parts of its path, its query, its method and path as received, its body (as text for a
  request, as fields for a message), and its headers.\<close>

record request =
  rq_service :: string
  rq_segments :: "string list"
  rq_queries :: "(string, string) obj"
  rq_method :: Methods
  rq_path :: string
  rq_body :: "(string \<times> (string, string) obj) option"
  rq_authorization :: "string option"

definition method_name :: "Methods \<Rightarrow> string" where
  "method_name m = (case m of GET \<Rightarrow> ''GET'' | POST \<Rightarrow> ''POST'' | PUT \<Rightarrow> ''PUT'' | DELETE \<Rightarrow> ''DELETE'' | PATCH \<Rightarrow> ''PATCH''
     | OPTIONS \<Rightarrow> ''OPTIONS'')"

text \<open>\<^verbatim>\<open>new URLSearchParams(queries).toString()\<close>: form encoding of the UTF-8 bytes.\<close>

definition hex_digit :: "nat \<Rightarrow> char" where
  "hex_digit n = char_of (if n < 10 then n + 48 else n + 55)"

definition percent :: "nat \<Rightarrow> string" where
  "percent b = [CHR ''%'', hex_digit (b div 16), hex_digit (b mod 16)]"

definition form_char :: "char \<Rightarrow> string" where
  "form_char c =
     (let n = of_char c :: nat
      in if (48 \<le> n \<and> n \<le> 57) \<or> (65 \<le> n \<and> n \<le> 90) \<or> (97 \<le> n \<and> n \<le> 122) \<or> c \<in> set ''*-._'' then [c]
         else if n = 32 then ''+''
         else if n < 128 then percent n
         else percent (192 + n div 64) @ percent (128 + n mod 64))"

definition urlSearchParams :: "(string, string) obj \<Rightarrow> string" where
  "urlSearchParams qs = js_join (CHR ''&'') (map (\<lambda>(k, v). concat (map form_char k) @ ''='' @ concat (map form_char v)) qs)"

definition request_url :: "string \<Rightarrow> string \<Rightarrow> (string, string) obj \<Rightarrow> string" where
  "request_url serviceName path queries =
     ''http://'' @ serviceName @ ''/api/'' @ path @ (if queries \<noteq> [] then ''?'' @ urlSearchParams queries else '''')"

text \<open>The reply of a request: nothing for a status of 204 or a body that is not JSON. \<^verbatim>\<open>fetch\<close> refuses a body with the method
  \<^verbatim>\<open>GET\<close>, before anything is sent.\<close>

definition sendRequest ::
  "http_res result \<Rightarrow> string \<Rightarrow> string \<Rightarrow> request \<Rightarrow> user_profile \<Rightarrow> 'a net_scheme \<Rightarrow> (string, string) obj option result \<times> 'a net_scheme" where
  "sendRequest response serviceName path req user w =
     (if rq_method req = GET \<and> rq_body req \<noteq> None then (Inl TypeErr, w)
      else let w1 = emit w [Http_forward (method_name (rq_method req)) (request_url serviceName path (rq_queries req)) user
                         (map_option fst (rq_body req))]
      in case response of
           Inl e \<Rightarrow> (Inl e, w1)
         | Inr r \<Rightarrow>
             if \<not> http_ok r
             then (Inl (HttpError (case hr_json r of Inl _ \<Rightarrow> ''UNKNOWN''
                      | Inr d \<Rightarrow> (case ob_get d ''message'' of None \<Rightarrow> ''UNKNOWN'' | Some m \<Rightarrow> m)) (hr_status r)), w1)
             else if hr_status r = 204 then (Inr None, w1)
             else (Inr (case hr_json r of Inl _ \<Rightarrow> None | Inr d \<Rightarrow> Some d), w1))"

definition transport_name :: "transport \<Rightarrow> string" where
  "transport_name t = (case t of HTTP \<Rightarrow> ''http'' | REDIS \<Rightarrow> ''redis'' | RMQ \<Rightarrow> ''rmq'' | NATS \<Rightarrow> ''nats'')"

definition message_payload :: "Translation \<Rightarrow> request \<Rightarrow> (string, string) obj" where
  "message_payload translation req =
     (let base = (case tr_action translation of None \<Rightarrow> [] | Some a \<Rightarrow> [(''reqAction'', a)]);
          over = (\<lambda>fields payload. fold (\<lambda>(k, v) p. ob_set p k v) fields payload)
      in over (case rq_body req of None \<Rightarrow> [] | Some (_, b) \<Rightarrow> b) (over (rq_queries req) base))"

definition sendMessage ::
  "(string, string) obj option result \<Rightarrow> Translation \<Rightarrow> request \<Rightarrow> user_profile \<Rightarrow> 'a net_scheme \<Rightarrow>
   (string, string) obj option result \<times> 'a net_scheme" where
  "sendMessage reply translation req user w =
     (let payload = message_payload translation req;
          (meta, w1) = createMessage (js_str (up_uid user)) (rq_path req) w
      in if tr_targetProtocol translation = HTTP then (Inl (InternalServerError ''UNKNOWN''), w1)
         else
           (let w2 = emit w1 [Rpc_send (transport_name (tr_targetProtocol translation)) (js_str (tr_pattern translation)) meta payload]
            in case reply of
                 Inr d \<Rightarrow> (Inr d, w2)
               | Inl (RpcErr c m) \<Rightarrow> (Inl (HttpError m c), w2)
               | Inl _ \<Rightarrow> (Inl (InternalServerError ''UNKNOWN''), w2)))"

text \<open>The translation of a rule for a path and a method, or else the one of its path \<^verbatim>\<open>*\<close>.\<close>

definition rule_translation :: "Rule \<Rightarrow> string \<Rightarrow> Methods \<Rightarrow> Translation option" where
  "rule_translation rule servicePath m =
     (case (case ob_get (rl_paths rule) servicePath of None \<Rightarrow> None | Some ms \<Rightarrow> ob_get ms m) of
        Some t \<Rightarrow> Some t
      | None \<Rightarrow> (case ob_get (rl_paths rule) ''*'' of None \<Rightarrow> None | Some ms \<Rightarrow> ob_get ms m))"

definition find_translation :: "(string \<Rightarrow> string \<Rightarrow> bool) \<Rightarrow> string \<Rightarrow> string \<Rightarrow> Methods \<Rightarrow> Translation option" where
  "find_translation minimatch serviceName servicePath m =
     (case List.find (\<lambda>rule. minimatch serviceName (rl_service rule)) rules of
        None \<Rightarrow> None
      | Some rule \<Rightarrow> rule_translation rule servicePath m)"

definition proxyRequest ::
  "(string \<Rightarrow> string \<Rightarrow> bool) \<Rightarrow> http_res result \<Rightarrow> (string, string) obj option result \<Rightarrow> request \<Rightarrow> user_profile \<Rightarrow> 'a net_scheme \<Rightarrow>
   (string, string) obj option result \<times> 'a net_scheme" where
  "proxyRequest minimatch response reply req user w =
     (let servicePath = js_join (CHR ''/'') (rq_segments req)
      in case find_translation minimatch (rq_service req) servicePath (rq_method req) of
           None \<Rightarrow> (Inl (NotFound ''Not Found''), w)
         | Some translation \<Rightarrow>
             if tr_targetProtocol translation = HTTP
             then sendRequest response (rq_service req) servicePath req user w
             else sendMessage reply translation req user w)"

text \<open>A request to the catch-all route: the guard, then the proxy with the user the guard found.\<close>

definition api_request ::
  "(string \<Rightarrow> user_profile result) \<Rightarrow> (string option \<Rightarrow> user_profile list result) \<Rightarrow> (string \<Rightarrow> string \<Rightarrow> bool) \<Rightarrow>
   http_res result \<Rightarrow> (string, string) obj option result \<Rightarrow> request \<Rightarrow> 'a net_scheme \<Rightarrow>
   (string, string) obj option result \<times> 'a net_scheme" where
  "api_request validate users minimatch response reply req w =
     (case auth_canActivate validate users (rq_authorization req) (rq_path req) w of
        (Inl e, w1) \<Rightarrow> (Inl e, w1)
      | (Inr (user, False), w1) \<Rightarrow> (Inl (Forbidden ''Forbidden resource''), w1)
      | (Inr (user, True), w1) \<Rightarrow> proxyRequest minimatch response reply req user w1)"

section \<open>Which requests are passed on\<close>

text \<open>The routes that are passed on as requests, as a specification of the table.\<close>

definition http_route :: "string \<Rightarrow> string \<Rightarrow> Methods \<Rightarrow> bool" where
  "http_route service path m \<longleftrightarrow>
     service = ''user'' \<and> (m = GET \<or> (path, m) \<in> {(''register'', POST), (''update'', PATCH), (''delete'', DELETE)}) \<or>
     service = ''notification'' \<and> (path, m) \<in> {(''all'', GET), (''read'', POST), (''readall'', POST)} \<or>
     service = ''workspace'' \<and> (m = DELETE \<or>
       (path, m) \<in> {(''all'', GET), (''update'', PATCH), (''ignore'', POST), (''accept'', POST), (''access-request'', POST)}) \<or>
     service = ''provisioner'' \<and> (path, m) = (''provision'', POST)"

text \<open>What the code relies on of the matcher: a pattern of lower case letters matches only itself, and
  \<^verbatim>\<open>workspace-*\<close> matches what begins with \<^verbatim>\<open>workspace-\<close> and nothing else.\<close>

definition glob_ok :: "(string \<Rightarrow> string \<Rightarrow> bool) \<Rightarrow> bool" where
  "glob_ok minimatch \<longleftrightarrow>
     (\<forall>s p. list_all (\<lambda>c. c \<in> set ''abcdefghijklmnopqrstuvwxyz'') p \<longrightarrow> minimatch s p = (s = p)) \<and>
     (\<forall>s. minimatch s ''workspace-*'' \<longrightarrow> prefix ''workspace-'' s)"

lemma glob_literal:
  "glob_ok minimatch \<Longrightarrow> list_all (\<lambda>c. c \<in> set ''abcdefghijklmnopqrstuvwxyz'') p \<Longrightarrow> minimatch s p = (s = p)"
  unfolding glob_ok_def by blast

lemmas rule_names = user_rule_def notification_rule_def workspaces_rule_def workspace_rule_def provisioner_rule_def env_rule_def

lemma find_rule:
  assumes "glob_ok minimatch"
  shows "List.find (\<lambda>rule. minimatch service (rl_service rule)) rules =
    (if service = ''user'' then Some user_rule else if service = ''notification'' then Some notification_rule
     else if minimatch service ''workspace-*'' then Some workspaces_rule else if service = ''workspace'' then Some workspace_rule
     else if service = ''provisioner'' then Some provisioner_rule else if service = ''env'' then Some env_rule else None)"
proof -
  have "minimatch service ''user'' = (service = ''user'')" "minimatch service ''notification'' = (service = ''notification'')"
    "minimatch service ''workspace'' = (service = ''workspace'')" "minimatch service ''provisioner'' = (service = ''provisioner'')"
    "minimatch service ''env'' = (service = ''env'')"
    by (rule glob_literal [OF assms], simp)+
  then show ?thesis unfolding rules_def by (simp only: find.simps rule_names Rule.select_convs)
qed

text \<open>The routes that are passed on as messages: those of the workspaces, for a service \<^verbatim>\<open>workspace-*\<close>, and two of the
  environments.\<close>

definition message_route :: "bool \<Rightarrow> string \<Rightarrow> string \<Rightarrow> Methods \<Rightarrow> Translation option" where
  "message_route ws service path m =
     (if ws then
        (if (path, m) \<in> {(''dir/open'', GET), (''file/open'', POST)} then Some (http_redis ''fs:open'')
         else if (path, m) \<in> {(''dir/close'', POST), (''file/close'', POST)} then Some (http_redis ''fs:close'')
         else if (path, m) = (''file/save'', POST) then Some (http_redis ''fs:save'') else None)
      else if service = ''env'' \<and> path \<in> {''open'', ''close''} \<and> m = POST then Some (http_nats ''env.msg'' path)
      else None)"

definition route :: "bool \<Rightarrow> string \<Rightarrow> string \<Rightarrow> Methods \<Rightarrow> Translation option" where
  "route ws service path m = (if http_route service path m then Some http_http else message_route ws service path m)"

lemma rule_route:
  "rule_translation user_rule path m = route False ''user'' path m"
  "rule_translation notification_rule path m = route False ''notification'' path m"
  "rule_translation workspaces_rule path m = message_route True service path m"
  "rule_translation workspace_rule path m = route False ''workspace'' path m"
  "rule_translation provisioner_rule path m = route False ''provisioner'' path m"
  "rule_translation env_rule path m = route False ''env'' path m"
  by (cases m; simp add: rule_translation_def rule_names route_def message_route_def http_route_def)+

lemma route_exact:
  assumes "glob_ok minimatch"
  shows "find_translation minimatch service path m = route (minimatch service ''workspace-*'') service path m"
proof (cases "minimatch service ''workspace-*''")
  case True
  then have "prefix ''workspace-'' service" using assms unfolding glob_ok_def by blast
  then have "service \<notin> {''user'', ''notification'', ''workspace'', ''provisioner''}" by auto
  with True show ?thesis
    by (simp add: find_translation_def find_rule [OF assms] rule_route(3) [of path m service] route_def http_route_def)
next
  case False
  have "route False service path m = None" if "service \<notin> {''user'', ''notification'', ''workspace'', ''provisioner'', ''env''}"
    using that by (simp add: route_def http_route_def message_route_def)
  with False show ?thesis by (simp add: find_translation_def find_rule [OF assms] rule_route)
qed

text \<open>Whether the guard lets a user through: a profile in the cache or in the database, or the request to
  register one.\<close>

definition known :: "(string option \<Rightarrow> user_profile list result) \<Rightarrow> string \<Rightarrow> user_profile \<Rightarrow> 'a net_scheme \<Rightarrow> bool" where
  "known users path user w \<longleftrightarrow> path = ''/api/user/register'' \<or>
     get_user w (CACHEKEY_USER_PROFILE (js_str (up_uid user))) \<noteq> None \<or> (\<exists>p ps. users (up_uid user) = Inr (p # ps))"

definition authorised ::
  "(string \<Rightarrow> user_profile result) \<Rightarrow> (string option \<Rightarrow> user_profile list result) \<Rightarrow> request \<Rightarrow> 'a net_scheme \<Rightarrow> user_profile \<Rightarrow> bool" where
  "authorised validate users req w user \<longleftrightarrow> (\<exists>token. rq_authorization req = Some token \<and> token \<noteq> [] \<and>
     validate (bearer token) = Inr user \<and> known users (rq_path req) user w)"

lemma guard_exact:
  assumes "auth_canActivate validate users (rq_authorization req) (rq_path req) w = (r, w')"
  shows "r = Inr (user, True) \<longleftrightarrow> authorised validate users req w user"
    "\<exists>es. out w' = out w @ es \<and> set es \<subseteq> {Http_call ''POST'' ''http://auth/api/validate''}"
proof -
  have g: "get_user (emit w es) = get_user w" for es by (simp add: cache_simps)
  show "r = Inr (user, True) \<longleftrightarrow> authorised validate users req w user"
    using assms by (cases "rq_authorization req")
      (auto simp: authorised_def auth_canActivate_def Let_def g known_def split: if_splits sum.splits option.splits list.splits)
  show "\<exists>es. out w' = out w @ es \<and> set es \<subseteq> {Http_call ''POST'' ''http://auth/api/validate''}"
    using assms by (auto simp: auth_canActivate_def Let_def frame_simps split: if_splits sum.splits option.splits list.splits)
qed

text \<open>What becomes of a request of a user: one request, one message, or nothing for a route that is not in the table and for
  a \<^verbatim>\<open>GET\<close> request with a body.\<close>

definition passed_on :: "(string \<Rightarrow> string \<Rightarrow> bool) \<Rightarrow> request \<Rightarrow> user_profile \<Rightarrow> message_meta \<Rightarrow> emission list" where
  "passed_on minimatch req user meta =
     (let path = js_join (CHR ''/'') (rq_segments req); ws = minimatch (rq_service req) ''workspace-*'';
          m = rq_method req
      in if http_route (rq_service req) path m
         then (if m = GET \<and> rq_body req \<noteq> None then []
               else [Http_forward (method_name m) (request_url (rq_service req) path (rq_queries req)) user (map_option fst (rq_body req))])
         else (case message_route ws (rq_service req) path m of
                 None \<Rightarrow> []
               | Some t \<Rightarrow> [Rpc_send (transport_name (tr_targetProtocol t)) (js_str (tr_pattern t)) meta (message_payload t req)]))"

lemma sendMessage_out:
  "tr_targetProtocol t \<noteq> HTTP \<Longrightarrow> out (snd (sendMessage reply t req user w)) = out w @
     [Rpc_send (transport_name (tr_targetProtocol t)) (js_str (tr_pattern t)) (fst (createMessage (js_str (up_uid user)) (rq_path req) w))
        (message_payload t req)]"
  by (auto simp: sendMessage_def Let_def createMessage_def randomUUID_def emit_def split: sum.split err.split)

lemma sendRequest_out:
  "out (snd (sendRequest response service path req user w)) = out w @ (if rq_method req = GET \<and> rq_body req \<noteq> None then []
     else [Http_forward (method_name (rq_method req)) (request_url service path (rq_queries req)) user (map_option fst (rq_body req))])"
  by (auto simp: sendRequest_def Let_def emit_def split: sum.split)

lemma route_target: "message_route ws service path m = Some t \<Longrightarrow> tr_targetProtocol t \<noteq> HTTP"
  by (auto simp: message_route_def http_redis_def http_nats_def split: if_splits)

lemma proxy_passes_on:
  assumes "glob_ok minimatch" "proxyRequest minimatch response reply req user w = (r, w')"
  shows "out w' = out w @ passed_on minimatch req user (fst (createMessage (js_str (up_uid user)) (rq_path req) w))"
proof -
  have w': "w' = snd (proxyRequest minimatch response reply req user w)" using assms(2) by simp
  show ?thesis
    unfolding w' proxyRequest_def passed_on_def Let_def route_exact [OF assms(1)] route_def
    by (auto simp: sendRequest_out sendMessage_out http_http_def [symmetric] dest: route_target split: option.split)
      (simp_all add: http_http_def sendRequest_out)
qed

text \<open>C5. What the gateway passes on. For a request with a token that the auth service accepts for a user who has a profile, or
  who is about to register one, it sends on exactly what the table says for the route, in the name of that user: one request
  with the path, query, method and body of the client, or one message with its pattern, action and fields, or nothing for an unknown
  route. For every other request it sends nothing on. Apart from that only the auth service is asked.\<close>

theorem proxied_requests_authenticated:
  assumes "glob_ok minimatch" "api_request validate users minimatch response reply req w = (r, w')"
  shows "\<exists>es fs. out w' = out w @ es @ fs \<and> set es \<subseteq> {Http_call ''POST'' ''http://auth/api/validate''} \<and>
    (\<forall>user. authorised validate users req w user \<longrightarrow>
       (\<exists>meta. mm_uid meta = js_str (up_uid user) \<and> mm_route meta = rq_path req \<and> fs = passed_on minimatch req user meta)) \<and>
    ((\<forall>user. \<not> authorised validate users req w user) \<longrightarrow> fs = [])"
proof -
  obtain g w1 where g: "auth_canActivate validate users (rq_authorization req) (rq_path req) w = (g, w1)" by fastforce
  note ok = guard_exact(1) [OF g]
  obtain es where es: "out w1 = out w @ es" "set es \<subseteq> {Http_call ''POST'' ''http://auth/api/validate''}"
    using guard_exact(2) [OF g] by blast
  show ?thesis
  proof (cases "\<exists>user. g = Inr (user, True)")
    case True
    then obtain user where u: "g = Inr (user, True)" by blast
    let ?meta = "fst (createMessage (js_str (up_uid user)) (rq_path req) w1)"
    from u assms(2) g have "proxyRequest minimatch response reply req user w1 = (r, w')" by (simp add: api_request_def)
    from proxy_passes_on [OF assms(1) this] es(1) have "out w' = out w @ es @ passed_on minimatch req user ?meta" by simp
    moreover have "mm_uid ?meta = js_str (up_uid user)" "mm_route ?meta = rq_path req"
      by (simp_all add: createMessage_def randomUUID_def)
    moreover have "authorised validate users req w v \<longleftrightarrow> v = user" for v using ok [of v] u by auto
    ultimately show ?thesis using es(2)
      by (intro exI [of _ es] exI [of _ "passed_on minimatch req user ?meta"]) auto
  next
    case False
    then have "w' = w1" using assms(2) g by (auto simp: api_request_def split: sum.splits bool.splits)
    with False es ok show ?thesis by (intro exI [of _ es] exI [of _ "[]"]) auto
  qed
qed

definition glob :: "string \<Rightarrow> string \<Rightarrow> bool" where
  "glob s p = (if p = ''workspace-*'' then prefix ''workspace-'' s else s = p)"

definition open_req :: "string option \<Rightarrow> request" where
  "open_req token = \<lparr>rq_service = ''env'', rq_segments = [''open''], rq_queries = [], rq_method = POST,
     rq_path = ''/api/env/open'', rq_body = Some (''...'', [(''wsUuid'', ''W'')]), rq_authorization = token\<rparr>"

definition net0 :: net where
  "net0 = \<lparr>cache = [], out = [], uuids = (\<lambda>n. ''id''), uuidc = 0, clock = 0, perf = 0\<rparr>"

definition some_user :: user_profile where
  "some_user = \<lparr>up_uid = Some ''ann'', up_name = None, up_username = None, up_email = None, up_picture = None, up_issuer = None,
     up_expireAt = None\<rparr>"

theorem proxied_requests_authenticated_witness:
  "\<exists>es meta. out (snd (api_request (\<lambda>t. if t = ''T'' then Inr some_user else Inl TypeErr) (\<lambda>u. Inr [some_user]) glob (Inl TypeErr) (Inl TypeErr)
       (open_req (Some ''Bearer T'')) net0)) = es @ [Rpc_send ''nats'' ''env.msg'' meta [(''reqAction'', ''open''), (''wsUuid'', ''W'')]] \<and>
     set es \<subseteq> {Http_call ''POST'' ''http://auth/api/validate''} \<and> mm_uid meta = ''ann''"
proof -
  have g: "glob_ok glob" unfolding glob_ok_def glob_def by (auto simp: list_all_iff)
  have b: "bearer ''Bearer T'' = ''T''" by code_simp
  have e: "authorised (\<lambda>t. if t = ''T'' then Inr some_user else Inl TypeErr) (\<lambda>u. Inr [some_user]) (open_req (Some ''Bearer T'')) net0 some_user"
    by (simp add: authorised_def open_req_def known_def b)
  have p: "passed_on glob (open_req t) u meta = [Rpc_send ''nats'' ''env.msg'' meta [(''reqAction'', ''open''), (''wsUuid'', ''W'')]]" for t u meta
    by (simp add: passed_on_def open_req_def http_route_def message_route_def glob_def http_nats_def transport_name_def message_payload_def)
  show ?thesis
    using proxied_requests_authenticated [OF g surjective_pairing, of "\<lambda>t. if t = ''T'' then Inr some_user else Inl TypeErr"
        "\<lambda>u. Inr [some_user]" "Inl TypeErr" "Inl TypeErr" "open_req (Some ''Bearer T'')" net0] e
    by (auto simp: p net0_def some_user_def)
qed

end
