(* ===== verification/Cache_Types.thy ===== *)
theory Cache_Types
  imports Gateway_Sessions Workspace_Service Env_Service User_Service Gateway_Proxy
begin

text \<open>
  The types of the values in the cache. The services read it as \<^verbatim>\<open>cache.get<T>(key)\<close>, a cast that nothing
  checks at run time. This theory gives every key a type, by its prefix and the number of its colons, and shows that
  the operations of all services write only values of the type of their key.
\<close>

section \<open>Typing\<close>

definition of_type :: "string \<Rightarrow> cache_value \<Rightarrow> bool" where
  "of_type k v = (case v of
     CvPresence _ \<Rightarrow> prefix ''presence:'' k \<and> colons k = 1
   | CvNum _ \<Rightarrow> prefix ''presence:'' k \<and> 2 \<le> colons k
   | CvWorkspace _ \<Rightarrow> prefix ''workspace:'' k
   | CvMembership _ \<Rightarrow> prefix ''membership:'' k
   | CvUser _ \<Rightarrow> prefix ''profile:'' k \<or> prefix ''users:'' k
   | CvTemplates _ \<Rightarrow> k = ''templates'')"

definition typed :: "'a net_scheme \<Rightarrow> bool" where
  "typed w \<longleftrightarrow> (\<forall>k e. ob_get (cache w) k = Some e \<longrightarrow> of_type k (fst e))"

named_theorems typeds \<open>operations that keep the types of the cache\<close>

lemma typed_cong: "cache w' = cache w \<Longrightarrow> typed w \<Longrightarrow> typed w'"
  by (simp add: typed_def)

lemma typed_emit [simp]: "typed (emit w es) = typed w"
  by (simp add: typed_def emit_def)

lemma typed_set: "typed w \<Longrightarrow> of_type k v \<Longrightarrow> typed (cache_set w k v t)"
  by (simp add: typed_def cache_set_def)

lemma typed_del [typeds]: "typed w \<Longrightarrow> typed (cache_del w k)"
  by (simp add: typed_def cache_del_def)

lemma typed_docs [typeds]:
  "typed w \<Longrightarrow> typed (set_workspace w x d)" "typed w \<Longrightarrow> typed (set_membership w u m)"
  "typed w \<Longrightarrow> colon_free u \<Longrightarrow> typed (set_presence w u p)"
  "typed w \<Longrightarrow> typed (cache_set w (CACHEKEY_PRESENCE_SESSION u s) (CvNum n) t)"
  "typed w \<Longrightarrow> typed (cache_set w (CACHEKEY_PRESENCE_WORKSPACE u s x) (CvNum n) t)"
  "typed w \<Longrightarrow> typed (cache_set w (CACHEKEY_USER_PROFILE u) (CvUser prof) t)"
  "typed w \<Longrightarrow> typed (cache_set w (''users:'' @ u) (CvUser prof) t)"
  "typed w \<Longrightarrow> typed (cache_set w ''templates'' (CvTemplates ts) t)"
  unfolding set_workspace_def set_membership_def set_presence_def
  by (erule typed_set; simp add: of_type_def colons_presence colon_free_colons; simp add: cachekey_defs)+

lemma cache_get_entry: "cache_get w k = Some v \<Longrightarrow> \<exists>t. ob_get (cache w) k = Some (v, t)"
  by (cases "ob_get (cache w) k") (auto simp: cache_get_def split: if_splits)

lemma typed_get: "typed w \<Longrightarrow> cache_get w k = Some v \<Longrightarrow> of_type k v"
  using cache_get_entry [of w k v] by (auto simp: typed_def)

lemma typed_presence:
  assumes "typed w" "get_presence w u = Some p"
  shows "colon_free u"
proof -
  have "cache_get w (CACHEKEY_PRESENCE u) = Some (CvPresence p)"
    using assms(2) by (simp add: get_presence_def split: option.splits cache_value.splits)
  from typed_get [OF assms(1) this] show ?thesis by (simp add: of_type_def colons_presence colon_free_colons)
qed

lemma typed_fold: "typed w \<Longrightarrow> (\<And>x w. x \<in> set xs \<Longrightarrow> typed w \<Longrightarrow> typed (f x w)) \<Longrightarrow> typed (fold f xs w)"
  by (induction xs arbitrary: w) auto

lemma typed_fold_del [typeds]: "typed w \<Longrightarrow> typed (fold (\<lambda>(u, s) w. cache_del w (key u s)) xs w)"
  by (rule typed_fold) (auto simp: typed_del)

section \<open>Gateway\<close>

lemma typed_membership [typeds]:
  "typed w \<Longrightarrow> typed (snd (checkMembership reply u x w))"
  "typed w \<Longrightarrow> typed (invalidateRemovedMembers us x w)" "typed w \<Longrightarrow> typed (updateAddedMembers us x w)"
proof -
  assume w: "typed w"
  show "typed (snd (checkMembership reply u x w))"
    using w by (auto simp: checkMembership_def fetchMembership_def cacheMembership_def Let_def typeds split: option.split sum.split)
  show "typed (invalidateRemovedMembers us x w)" "typed (updateAddedMembers us x w)"
    unfolding invalidateRemovedMembers_def updateAddedMembers_def
    by (rule typed_fold [OF w]; auto simp: typeds split: option.split)+
qed

lemma typed_events [typeds]:
  "typed w \<Longrightarrow> typed (handleMembersModified x added removed w)" "typed w \<Longrightarrow> typed (handleWorkspaceDeleted x us w)"
  by (simp_all add: handleMembersModified_def handleWorkspaceDeleted_def typeds)

lemma typed_states [typeds]:
  "typed w \<Longrightarrow> colon_free u \<Longrightarrow> typed (snd (setSessionState cfg p u s st w))"
  "typed w \<Longrightarrow> typed (setWorkspaceState cfg ws u s x st w)"
  by (auto simp: setSessionState_def setWorkspaceState_def Let_def typeds split: option.split)

lemma typed_expiry [typeds]:
  "typed w \<Longrightarrow> typed (snd (handleWorkspaceExpiry dispose x w))"
  "typed w \<Longrightarrow> colon_free u \<Longrightarrow> typed (snd (handleSessionExpiry dispose p u s w))"
proof -
  show e: "typed (snd (handleWorkspaceExpiry dispose x w))" if "typed w" for x and w :: "'a net_scheme"
    using that by (auto simp: handleWorkspaceExpiry_def Let_def typeds split: option.split)
  show "typed w \<Longrightarrow> colon_free u \<Longrightarrow> typed (snd (handleSessionExpiry dispose p u s w))"
    using e [of "emit w _"] by (auto simp: handleSessionExpiry_def Let_def split_def typeds split: option.split sum.split)
qed

lemma typed_stale_session: "typed w \<Longrightarrow> typed (snd (handleStaleSession cfg dispose u s w))"
proof (cases "get_presence w u")
  case (Some p)
  assume w: "typed w"
  note c = typed_presence [OF w Some]
  show ?thesis using w c Some by (simp add: handleStaleSession_def Let_def split_def typeds split: option.split)
qed (simp add: handleStaleSession_def)

lemma typed_stale [typeds]: "typed w \<Longrightarrow> typed (snd (handleStalePresence cfg dispose parts w))"
  by (simp add: handleStalePresence_def typed_stale_session handleStaleWorkspace_def typeds split: option.split)

lemma typed_locks [simp]: "typed (snd (acquireLock k n w)) = typed w" "typed (releaseLock k w) = typed w"
  by (simp_all add: acquireLock_def releaseLock_def Let_def typed_def)

lemma acquire_typed: "acquireLock k n w = (r, w1) \<Longrightarrow> typed w1 = typed w"
  using typed_locks(1) [of k n w] by simp

lemma typed_delivery [typeds]:
  "typed w \<Longrightarrow> typed (send pat u s m w)" "typed w \<Longrightarrow> typed (snd (broadcast us ss pat m w))"
  "typed w \<Longrightarrow> typed (instance_message chan ev w)" "typed w \<Longrightarrow> typed (reply_error sid c code w)"
  by (simp_all add: send_def broadcast_def Let_def instance_message_def reply_error_def split: option.split)

lemma typed_expired [typeds]: "typed w \<Longrightarrow> typed (snd (handleCacheExpiry cfg dispose key w))"
  using typed_stale [of "snd (acquireLock key 10000 w)" cfg dispose "tl (js_split CHR '':'' key)"]
  by (simp add: handleCacheExpiry_def Let_def split_def split: sum.split)

lemma typed_auth [typeds]: "typed w \<Longrightarrow> typed (snd (handleAuthentication validate db token w))"
  by (simp add: handleAuthentication_def Let_def typeds split: sum.split option.split list.split)

lemma typed_open_session [typeds]:
  "typed w \<Longrightarrow> colon_free u \<Longrightarrow> typed (snd (open_session_of cfg sid u s w))"
  by (simp add: open_session_of_def Let_def split_def typeds split: sum.split option.split)

lemma typed_connect:
  assumes "typed w" "\<And>t u. validate t = Inr u \<Longrightarrow> colon_free u"
  shows "typed (snd (handleConnection cfg validate db sid token s w))"
proof -
  obtain r w1 where a: "handleAuthentication validate db (js_str token) w = (r, w1)" by fastforce
  have w1: "typed w1" using typed_auth [OF assms(1), of validate db "js_str token"] a by simp
  have c: "colon_free u" if "r = Some u" for u
    using a that assms(2) [of "js_str token" u] by (auto simp: handleAuthentication_def Let_def split: sum.splits option.splits list.splits)
  show ?thesis
  proof (cases r)
    case (Some u)
    obtain q w2 where l: "acquireLock (u @ '':'' @ s) 10000 w1 = (q, w2)" by fastforce
    have "typed w2" using acquire_typed [OF l] w1 by simp
    then have "typed (w2\<lparr>socket_data := d\<rparr>)" for d by (simp add: typed_def)
    from typed_open_session [OF this c [OF Some]] show ?thesis
      using assms(1) a l Some \<open>typed w2\<close> by (simp add: handleConnection_def Let_def split_def split: sum.split)
  qed (use assms(1) a w1 in \<open>simp add: handleConnection_def\<close>)
qed

lemma typed_disconnect: "typed w \<Longrightarrow> typed (snd (handleDisconnect cfg sid w))"
proof (cases "ob_get (socket_data w) sid")
  case (Some us)
  assume w: "typed w"
  obtain u s where us: "us = (u, s)" by fastforce
  obtain q w1 where l: "acquireLock (u @ '':'' @ s) 10000 w = (q, w1)" by fastforce
  have w1: "typed w1" using acquire_typed [OF l] w by simp
  show ?thesis
  proof (cases "get_presence w1 u")
    case None
    with Some us l w1 show ?thesis by (cases q) (simp_all add: handleDisconnect_def)
  next
    case p: (Some p)
    note c = typed_presence [OF w1 p]
    from Some us l w1 p c show ?thesis
      by (cases q) (simp_all add: handleDisconnect_def Let_def split_def typeds split: option.split sum.split)
  qed
qed (simp add: handleDisconnect_def)

lemma typed_lost: "typed w \<Longrightarrow> typed (env_lost sid ws s m w)"
  by (simp add: env_lost_def handleFSLoss_def handleSSHSLoss_def typeds split: in_payload.split)

lemma typed_env_message: "typed w \<Longrightarrow> typed (snd (handleEnvMessage reply health sid u s m w))"
  using typed_membership(1) [of w reply u "in_uuid (im_payload m)"]
  by (simp add: handleEnvMessage_def Let_def split_def typeds typed_lost split: option.split sum.split)

lemma typed_ping: "typed w \<Longrightarrow> colon_free u \<Longrightarrow> typed (snd (handlePresenceMessage cfg reply u s p msg w))"
  by (simp add: handlePresenceMessage_def Let_def split_def typeds split: option.split sum.split)

lemma typed_message: "typed w \<Longrightarrow> typed (snd (handleSocketMessage cfg reply health sid msg w))"
proof (cases "ob_get (socket_data w) sid")
  case (Some us)
  assume w: "typed w"
  obtain u s where us: "us = (u, s)" by fastforce
  show ?thesis
  proof (cases "get_presence w u")
    case None
    with Some us w show ?thesis by (simp add: handleSocketMessage_def typeds)
  next
    case p: (Some p)
    note c = typed_presence [OF w p]
    from Some us w p typed_ping [OF w c] show ?thesis
      by (simp add: handleSocketMessage_def split_def typeds typed_env_message split: option.split sum.split socket_msg.split)
  qed
qed (simp add: handleSocketMessage_def)

lemma typed_expire_key: "typed w \<Longrightarrow> expire_key cfg dispose key w = (r, w') \<Longrightarrow> typed w'"
  using typed_expired [OF typed_del [of w key], of cfg dispose key] by (simp add: expire_key_def)

lemma gw_step_typed: "gw_step cfg F w w' \<Longrightarrow> typed w \<Longrightarrow> typed w'"
proof (induction rule: gw_step.induct)
  case (connect validate db sid token sess w r w')
  then show ?case using typed_connect [of w validate cfg db sid token sess] by simp
next
  case (disconnect sid w r w')
  then show ?case using typed_disconnect [of w cfg sid] by simp
next
  case (message reply health sid msg w r w')
  then show ?case using typed_message [of w cfg reply health sid msg] by simp
next
  case (session_expiry w u s dispose r w')
  then show ?case using typed_expire_key by blast
next
  case (workspace_expiry w u s y dispose r w')
  then show ?case using typed_expire_key by blast
next
  case (deliver_all us ss pat m w r w')
  then show ?case using typed_delivery(2) [of w us ss pat m] by simp
next
  case (tick w t w')
  then show ?case by (simp add: typed_def)
qed (simp_all add: typeds)

end
