(* ===== verification/Kube.thy ===== *)
theory Kube
  imports Net_State
begin

text \<open>
  What the provisioner sends to Kubernetes and Docker: the manifests of \<^verbatim>\<open>provisioner/util\<close>, and the interfaces of the
  two servers. The servers are outside the repository, so they are arguments: a record of functions on an abstract
  state, in which every call may fail. Shell scripts in manifests are lists of lines, without their indentation.
\<close>

section \<open>Language\<close>

datatype goerr =
    GoErr string
  | Api_not_found
  | Api_err string
  | Go_panic string

text \<open>A call that may fail, followed by the rest of the function when it does not.\<close>

definition and_then :: "('e + 'a) \<times> 'w \<Rightarrow> ('a \<Rightarrow> 'w \<Rightarrow> ('e + 'b) \<times> 'w) \<Rightarrow> ('e + 'b) \<times> 'w" where
  "and_then m f = (case m of (Inl e, w) \<Rightarrow> (Inl e, w) | (Inr x, w) \<Rightarrow> f x w)"

lemma and_then_simps [simp]: "and_then (Inl e, w) f = (Inl e, w)" "and_then (Inr x, w) f = f x w"
  by (simp_all add: and_then_def)

lemma and_then_Inr: "and_then m f = (Inr y, w') \<longleftrightarrow> (\<exists>x w. m = (Inr x, w) \<and> f x w = (Inr y, w'))"
  by (cases m; cases "fst m") auto

text \<open>\<^verbatim>\<open>strconv.ParseInt(s, 10, bits)\<close>, and \<^verbatim>\<open>strings.TrimPrefix\<close> and \<^verbatim>\<open>strings.TrimSuffix\<close>.\<close>

definition parseInt :: "nat \<Rightarrow> string \<Rightarrow> int option" where
  "parseInt bits s =
     (let neg = (s \<noteq> [] \<and> hd s = CHR ''-'');
          ds = (if s \<noteq> [] \<and> hd s \<in> {CHR ''-'', CHR ''+''} then tl s else s)
      in if ds = [] \<or> \<not> list_all (\<lambda>c. digit_of 10 c \<noteq> None) ds then None
         else case parse_digits 10 ds None of None \<Rightarrow> None
              | Some n \<Rightarrow>
                  (let v = (if neg then - int n else int n)
                   in if - (2 ^ (bits - 1)) \<le> v \<and> v < 2 ^ (bits - 1) then Some v else None))"

text \<open>The value of a sum or product of type \<^verbatim>\<open>int64\<close>, and so of a \<^verbatim>\<open>time.Duration\<close> in nanoseconds.\<close>

definition int64 :: "int \<Rightarrow> int" where
  "int64 x = (x + 2 ^ 63) mod 2 ^ 64 - 2 ^ 63"

lemma int64_id: "- (2 ^ 63) \<le> x \<Longrightarrow> x < 2 ^ 63 \<Longrightarrow> int64 x = x"
  by (simp add: int64_def)

definition trimPrefix :: "string \<Rightarrow> string \<Rightarrow> string" where
  "trimPrefix p s = (if prefix p s then drop (length p) s else s)"

definition trimSuffix :: "string \<Rightarrow> string \<Rightarrow> string" where
  "trimSuffix p s = (if suffix p s then take (length s - length p) s else s)"

lemma trimPrefix_append [simp]: "trimPrefix p (p @ s) = s"
  by (simp add: trimPrefix_def)

section \<open>Kubernetes\<close>

datatype yaml = YStr string | YNum int | YBool bool | YSeq "yaml list" | YMap "(string \<times> yaml) list"

datatype resource = Pods | Services | PersistentVolumes | PersistentVolumeClaims | Jobs | WorkspaceCRDs

text \<open>A pod as it is listed, with the cpu requests of its containers in thousandths, and the resource of the lease
  controller.\<close>

record kpod =
  kp_name :: string
  kp_phase :: string
  kp_created :: int
  kp_cpu :: "int option list"

record WorkspaceSpec =
  ls_leaseExpiry :: int
  ls_podName :: string
  ls_uid :: string

text \<open>What a watch reports: of a job the number of pods that have succeeded and failed, of a pod its node and phase.\<close>

datatype job_event = Job_status int int | Not_a_job | Deadline
datatype pod_event = Pod_status string string | Not_a_pod

text \<open>The options of a deletion: \<^verbatim>\<open>GracePeriodSeconds\<close> and \<^verbatim>\<open>PropagationPolicy\<close>.\<close>

record DeleteOptions =
  do_grace :: "int option"
  do_propagation :: "string option"

definition default_options :: DeleteOptions where
  "default_options = \<lparr>do_grace = None, do_propagation = None\<rparr>"

record 'k kube =
  kb_client :: "'k \<Rightarrow> goerr option"
  kb_get :: "resource \<Rightarrow> string \<Rightarrow> 'k \<Rightarrow> goerr option"
  kb_create :: "resource \<Rightarrow> string \<Rightarrow> yaml \<Rightarrow> 'k \<Rightarrow> goerr option \<times> 'k"
  kb_delete :: "resource \<Rightarrow> string \<Rightarrow> DeleteOptions \<Rightarrow> 'k \<Rightarrow> goerr option \<times> 'k"
  kb_nodes :: "'k \<Rightarrow> goerr + int list"
  kb_pods :: "(string \<times> string) option \<Rightarrow> 'k \<Rightarrow> goerr + kpod list"
  kb_watchJob :: "string \<Rightarrow> 'k \<Rightarrow> (goerr + job_event list) \<times> 'k"
  kb_watchPod :: "string \<Rightarrow> 'k \<Rightarrow> (goerr + pod_event list) \<times> 'k"
  kb_lease :: "string \<Rightarrow> 'k \<Rightarrow> goerr + WorkspaceSpec"
  kb_labels :: "string \<Rightarrow> 'k \<Rightarrow> goerr + (string, string) obj"
  kb_patch :: "string \<Rightarrow> (string, string) obj \<Rightarrow> 'k \<Rightarrow> goerr option \<times> 'k"

text \<open>Docker, for development: containers with their names, and volumes.\<close>

record 'd docker =
  dk_client :: "'d \<Rightarrow> goerr option"
  dk_containers :: "'d \<Rightarrow> goerr + string list list"
  dk_create :: "string \<Rightarrow> yaml \<Rightarrow> 'd \<Rightarrow> (goerr + string) \<times> 'd"
  dk_start :: "string \<Rightarrow> 'd \<Rightarrow> goerr option \<times> 'd"
  dk_remove :: "string \<Rightarrow> 'd \<Rightarrow> goerr option \<times> 'd"
  dk_volumes :: "string \<Rightarrow> 'd \<Rightarrow> goerr + nat"
  dk_inspect :: "string \<Rightarrow> 'd \<Rightarrow> goerr option"
  dk_volumeCreate :: "string \<Rightarrow> 'd \<Rightarrow> goerr option \<times> 'd"
  dk_volumeRemove :: "string \<Rightarrow> 'd \<Rightarrow> goerr option \<times> 'd"

section \<open>Manifests\<close>

definition pod_name :: "string \<Rightarrow> string" where
  "pod_name wsUuid = ''workspace-'' @ wsUuid"

definition data_volume :: "string \<Rightarrow> string" where
  "data_volume wsUuid = ''workspace-data-'' @ wsUuid"

definition config_volume :: "string \<Rightarrow> string" where
  "config_volume wsUuid = ''workspace-config-'' @ wsUuid"

definition named :: "string \<Rightarrow> yaml" where
  "named n = YMap [(''name'', YStr n)]"

definition env_var :: "string \<Rightarrow> string \<Rightarrow> yaml" where
  "env_var n v = YMap [(''name'', YStr n), (''value'', YStr v)]"

definition volume_mount :: "string \<Rightarrow> string \<Rightarrow> yaml" where
  "volume_mount n path = YMap [(''name'', YStr n), (''mountPath'', YStr path)]"

definition host_volume :: "string \<Rightarrow> string \<Rightarrow> yaml" where
  "host_volume n path = YMap [(''name'', YStr n),
     (''hostPath'', YMap [(''path'', YStr path), (''type'', YStr ''DirectoryOrCreate'')])]"

definition claim_volume :: "string \<Rightarrow> yaml" where
  "claim_volume n = YMap [(''name'', YStr n), (''persistentVolumeClaim'', YMap [(''claimName'', YStr n)])]"

definition script :: "string list \<Rightarrow> yaml" where
  "script ls = YStr (concat (map (\<lambda>l. l @ [CHR 0x0A]) ls))"

definition quoted :: "string \<Rightarrow> string" where
  "quoted s = [CHR 0x27] @ s @ [CHR 0x27]"

definition GetPodSpec :: "string \<Rightarrow> string \<Rightarrow> string \<Rightarrow> string \<Rightarrow> yaml" where
  "GetPodSpec wsUuid img publicKey wsType =
     (let envs = [env_var ''SERVICE_PORT'' ''80'', env_var ''REDIS_PORT'' ''6379''] @
            (if publicKey \<noteq> [] then [env_var ''SSH_PUBLIC_KEY'' publicKey] else []) @
            [env_var ''RMQ_URL'' ''amqp://rabbitmq:5672'', env_var ''REDIS_HOST'' ''redis''];
          resources = YMap [(''cpu'', YStr ''400m''), (''memory'', YStr ''800Mi'')]
      in YMap [
        (''metadata'', YMap [(''name'', YStr (pod_name wsUuid)),
           (''labels'', YMap [(''wstype'', YStr wsType), (''app'', YStr (pod_name wsUuid))])]),
        (''spec'', YMap [
           (''restartPolicy'', YStr ''Always''),
           (''containers'', YSeq [YMap [
              (''name'', YStr ''dev''),
              (''image'', YStr (''hideregistry.azurecr.io/'' @ img @ '':latest'')),
              (''imagePullPolicy'', YStr ''Always''),
              (''ports'', YSeq [YMap [(''containerPort'', YNum 22)], YMap [(''containerPort'', YNum 80)]]),
              (''env'', YSeq envs),
              (''volumeMounts'', YSeq [volume_mount (data_volume wsUuid) ''/workspace'', volume_mount (config_volume wsUuid) ''/config'']),
              (''readinessProbe'', YMap [(''httpGet'', YMap [(''path'', YStr ''/ready''), (''port'', YNum 80)]),
                 (''initialDelaySeconds'', YNum 5), (''periodSeconds'', YNum 5), (''timeoutSeconds'', YNum 5),
                 (''failureThreshold'', YNum 3)]),
              (''resources'', YMap [(''requests'', resources), (''limits'', resources)])]]),
           (''volumes'', YSeq [claim_volume (data_volume wsUuid), claim_volume (config_volume wsUuid)]),
           (''imagePullSecrets'', YSeq [named ''acr-secret'']),
           (''initContainers'', YSeq [YMap [
              (''name'', YStr ''volume-check''), (''image'', YStr ''busybox''),
              (''volumeMounts'', YSeq [volume_mount (data_volume wsUuid) ''/workspace'']),
              (''command'', YSeq [YStr ''sh'', YStr ''-c'', script [
                 '''',
                 ''echo \"Waiting for /workspace to be mounted...\"'',
                 ''until mountpoint -q /workspace; do'',
                 ''echo \"Not mounted yet...\"'',
                 ''sleep 2'',
                 ''done'',
                 ''echo \"/workspace is mounted!\"'']])]])])])"

definition GetServiceSpec :: "string \<Rightarrow> yaml" where
  "GetServiceSpec wsUuid =
     (let port = (\<lambda>n p. YMap [(''protocol'', YStr ''TCP''), (''port'', YNum p), (''targetPort'', YNum p), (''name'', YStr n)])
      in YMap [
        (''metadata'', YMap [(''name'', YStr (pod_name wsUuid)), (''namespace'', YStr ''default'')]),
        (''spec'', YMap [(''selector'', YMap [(''app'', YStr (pod_name wsUuid))]),
           (''ports'', YSeq [port ''ssh'' 22, port ''api'' 80]), (''type'', YStr ''ClusterIP'')])])"

definition GetPersistentVolumeSpec :: "string \<Rightarrow> string \<Rightarrow> string \<Rightarrow> string \<Rightarrow> yaml" where
  "GetPersistentVolumeSpec wsUuid volumeName directoryName storageQty =
     YMap [
       (''metadata'', YMap [(''name'', YStr volumeName), (''namespace'', YStr ''default'')]),
       (''spec'', YMap [(''storageClassName'', YStr ''local-path''), (''capacity'', YMap [(''storage'', YStr storageQty)]),
          (''accessModes'', YSeq [YStr ''ReadWriteOnce'']),
          (''hostPath'', YMap [(''path'', YStr (''/data/workspace-volumes/workspaces/'' @ wsUuid @ ''/'' @ directoryName)),
             (''type'', YStr ''DirectoryOrCreate'')]),
          (''persistentVolumeReclaimPolicy'', YStr ''Retain'')])]"

definition GetPersistentVolumeClaimSpec :: "string \<Rightarrow> string \<Rightarrow> yaml" where
  "GetPersistentVolumeClaimSpec volumeName storageQty =
     YMap [
       (''metadata'', YMap [(''name'', YStr volumeName), (''namespace'', YStr ''default'')]),
       (''spec'', YMap [(''volumeName'', YStr volumeName), (''accessModes'', YSeq [YStr ''ReadWriteOnce'']),
          (''resources'', YMap [(''requests'', YMap [(''storage'', YStr storageQty)])])])]"

definition volume_job :: "string \<Rightarrow> (string \<times> yaml) list \<Rightarrow> string \<Rightarrow> yaml list \<Rightarrow> yaml list \<Rightarrow> string list \<Rightarrow> yaml list \<Rightarrow> yaml" where
  "volume_job job host container mounts envs lines volumes =
     YMap [
       (''metadata'', YMap [(''name'', YStr job), (''namespace'', YStr ''default'')]),
       (''spec'', YMap [(''template'', YMap [(''spec'', YMap (host @ [
          (''restartPolicy'', YStr ''Never''),
          (''containers'', YSeq [YMap [
             (''name'', YStr container), (''image'', YStr ''hideregistry.azurecr.io/hide-server-util-lvm:latest''),
             (''securityContext'', YMap [(''privileged'', YBool True)]),
             (''volumeMounts'', YSeq (YMap [(''name'', YStr ''host-volumes''), (''mountPath'', YStr ''/host-volumes''),
                (''mountPropagation'', YStr ''Bidirectional'')] # mounts)),
             (''env'', YSeq envs),
             (''command'', YSeq [YStr ''/bin/bash'', YStr ''-c'']),
             (''args'', YSeq [script lines])]]),
          (''volumes'', YSeq (host_volume ''host-volumes'' ''/data/workspace-volumes'' # volumes)),
          (''imagePullSecrets'', YSeq [named ''acr-secret''])]))])])]"

definition prepare_script :: "string list" where
  "prepare_script = [
     '''',
     ''set -eux'',
     '''',
     ''WORKSPACE_DIR=/host-volumes/workspaces/$WORKSPACE_UUID'',
     '''',
     ''rm -f /host-volumes/.delete-$WORKSPACE_UUID || true'',
     ''mkdir -p \"$WORKSPACE_DIR/data\" \"$WORKSPACE_DIR/config\"'',
     '''',
     ''vgs workspace-vg || { echo \"workspace-vg not found\"; exit 1; }'',
     '''',
     ''lvcreate --wipesignatures y -y -L $DATA_VOLUME_SIZE -n ${WORKSPACE_UUID}-data workspace-vg'',
     ''sleep 1'',
     ''lvchange -ay /dev/workspace-vg/${WORKSPACE_UUID}-data'',
     ''sleep 1'',
     ''mkfs.ext4 /dev/workspace-vg/${WORKSPACE_UUID}-data'',
     ''sleep 3'',
     '''',
     ''lvcreate --wipesignatures y -y -L $CONFIG_VOLUME_SIZE -n ${WORKSPACE_UUID}-config workspace-vg'',
     ''sleep 1'',
     ''lvchange -ay /dev/workspace-vg/${WORKSPACE_UUID}-config'',
     ''sleep 1'',
     ''mkfs.ext4 /dev/workspace-vg/${WORKSPACE_UUID}-config'',
     ''sleep 3'',
     '''',
     ''echo '' @ quoted ''LVs created and formatted successfully'',
     '''',
     ''if ! mountpoint -q \"$WORKSPACE_DIR/data\"; then'',
     ''echo '' @ quoted ''data: Mounting...'',
     ''mount /dev/workspace-vg/${WORKSPACE_UUID}-data \"$WORKSPACE_DIR/data\"'',
     ''fi'',
     ''if ! mountpoint -q \"$WORKSPACE_DIR/data\"; then'',
     ''echo \"data: Not mounted !\"'',
     ''else'',
     ''echo \"data: Mounted successfully\"'',
     ''fi'',
     '''',
     ''if ! mountpoint -q \"$WORKSPACE_DIR/config\"; then'',
     ''echo '' @ quoted ''config: Mounting...'',
     ''mount /dev/workspace-vg/${WORKSPACE_UUID}-config \"$WORKSPACE_DIR/config\"'',
     ''fi'',
     ''if ! mountpoint -q \"$WORKSPACE_DIR/config\"; then'',
     ''echo \"config: Not mounted !\"'',
     ''else'',
     ''echo \"config: Mounted successfully\"'',
     ''fi'']"

definition GetPrepareVolumeJobSpec :: "string \<Rightarrow> string \<Rightarrow> string \<Rightarrow> yaml" where
  "GetPrepareVolumeJobSpec wsUuid dataStorageQty configStorageQty =
     (let dirs = [''dev'', ''run'', ''etc'', ''sys'', ''proc'']
      in volume_job (''prepare-volume-'' @ wsUuid)
           [(''hostPID'', YBool True), (''hostNetwork'', YBool True), (''hostIPC'', YBool True),
            (''nodeSelector'', YMap [(''workspace-storage'', YStr ''local'')])]
           ''prepare-volume''
           (map (\<lambda>d. volume_mount d (''/'' @ d)) dirs)
           [env_var ''WORKSPACE_UUID'' wsUuid, env_var ''DATA_VOLUME_SIZE'' ''1G'', env_var ''CONFIG_VOLUME_SIZE'' ''32M'']
           prepare_script
           (map (\<lambda>d. host_volume d (''/'' @ d)) dirs))"

definition cleanup_script :: "string list" where
  "cleanup_script = [
     '''',
     ''set -eux'',
     '''',
     ''WORKSPACE_DIR=/host-volumes/workspaces/$WORKSPACE_UUID'',
     '''',
     ''touch /host-volumes/.delete-$WORKSPACE_UUID'',
     '''',
     ''umount \"$WORKSPACE_DIR/data\" 2>/dev/null || umount -l \"$WORKSPACE_DIR/data\" || true'',
     ''umount \"$WORKSPACE_DIR/config\" 2>/dev/null || umount -l \"$WORKSPACE_DIR/config\" || true'',
     '''',
     ''sleep 1'',
     '''',
     ''lvchange -an /dev/workspace-vg/$WORKSPACE_UUID-data || true'',
     ''lvchange -an /dev/workspace-vg/$WORKSPACE_UUID-config || true'',
     '''',
     ''udevadm settle || true'',
     ''sync'',
     ''sleep 1'',
     '''',
     ''lvremove -f /dev/workspace-vg/$WORKSPACE_UUID-data || true'',
     ''lvremove -f /dev/workspace-vg/$WORKSPACE_UUID-config || true'',
     '''',
     ''udevadm settle || true'',
     ''sleep 1'',
     '''',
     ''rm -rf $WORKSPACE_DIR'',
     ''rm -f /host-volumes/.delete-$WORKSPACE_UUID'']"

definition GetCleanupJobSpec :: "string \<Rightarrow> yaml" where
  "GetCleanupJobSpec wsUuid =
     volume_job (''cleanup-volume-'' @ wsUuid) [] ''cleaner'' [] [env_var ''WORKSPACE_UUID'' wsUuid] cleanup_script []"

text \<open>The resource of a lease. \<^verbatim>\<open>time.RFC3339\<close> drops fractions of a second; the argument is in nanoseconds, the time
  read back in milliseconds.\<close>

definition rfc3339 :: "int \<Rightarrow> int" where
  "rfc3339 ns = ns div 1000000000 * 1000"

definition GetWorkspaceCRDSpec :: "string \<Rightarrow> int \<Rightarrow> string \<Rightarrow> string \<Rightarrow> goerr + WorkspaceSpec" where
  "GetWorkspaceCRDSpec leaseDays now wsUuid uid =
     (case parseInt 32 (if leaseDays = [] then ''2'' else leaseDays) of
        None \<Rightarrow> Inl (GoErr ''Bad config for workspace requested cpu'')
      | Some days \<Rightarrow> Inr \<lparr>ls_leaseExpiry = rfc3339 (now * 1000000 + int64 (days * 24 * 3600000000000)), ls_podName = pod_name wsUuid, ls_uid = uid\<rparr>)"

definition crd_manifest :: "string \<Rightarrow> WorkspaceSpec \<Rightarrow> yaml" where
  "crd_manifest wsUuid spec =
     YMap [(''apiVersion'', YStr ''workspace.hideserver/v1alpha1''), (''kind'', YStr ''Workspace''),
       (''metadata'', YMap [(''name'', YStr (pod_name wsUuid))]),
       (''spec'', YMap [(''leaseExpiry'', YNum (ls_leaseExpiry spec)), (''podName'', YStr (ls_podName spec)),
          (''uid'', YStr (ls_uid spec))])]"

definition GetContainerSpec :: "string \<Rightarrow> string \<Rightarrow> string \<Rightarrow> yaml" where
  "GetContainerSpec workspaceUUID img publicKey =
     YMap [(''image'', YStr img),
       (''env'', YSeq (map YStr ([''SERVICE_PORT=80'', ''REDIS_HOST=redis'', ''REDIS_PORT=6379'', ''WS_UUID='' @ workspaceUUID] @
          (if publicKey \<noteq> [] then [''SSH_PUBLIC_KEY='' @ publicKey] else [])))),
       (''labels'', YMap [(''com.docker.compose.project'', YStr ''hide-server''),
          (''com.docker.compose.service'', YStr (pod_name workspaceUUID))])]"

definition GetHostConfig :: "string option \<Rightarrow> string \<Rightarrow> yaml" where
  "GetHostConfig fsSource wsUuid =
     (let mount = (\<lambda>kind source target. YMap ([(''type'', YStr kind)] @ source @ [(''target'', YStr target)]));
          from = (\<lambda>s. [(''source'', YStr s)])
      in YMap [(''mounts'', YSeq (
           [mount ''volume'' (from (data_volume wsUuid)) ''/workspace'', mount ''volume'' (from (config_volume wsUuid)) ''/config''] @
           (case fsSource of None \<Rightarrow> []
            | Some p \<Rightarrow> [mount ''bind'' (from (p @ [CHR 0x5C] @ ''filesystem'')) ''/app/filesystem'',
                mount ''volume'' [] ''/app/filesystem/.build''])))])"

section \<open>Laws of Kubernetes\<close>

text \<open>
  What the provisioner relies on, for the set \<open>objs k\<close> of the objects that exist: an object is found exactly when it exists; a
  creation adds a new object or changes nothing, and fails for an existing one; a deletion removes an existing object, at
  once unless it is a pod that is given time to end; watching changes nothing. Creations may fail for other reasons. Volumes and
  claims are protected by finalizers: their deletion may be refused, or accepted and carried out later.
\<close>

definition protected :: "resource \<Rightarrow> bool" where
  "protected r \<longleftrightarrow> r \<in> {PersistentVolumes, PersistentVolumeClaims}"

definition at_once :: "resource \<Rightarrow> DeleteOptions \<Rightarrow> bool" where
  "at_once r opts \<longleftrightarrow> \<not> protected r \<and> (r \<noteq> Pods \<or> do_grace opts = Some 0)"

definition is_panic :: "goerr \<Rightarrow> bool" where
  "is_panic e \<longleftrightarrow> (case e of Go_panic _ \<Rightarrow> True | _ \<Rightarrow> False)"

definition kube_laws :: "'k kube \<Rightarrow> ('k \<Rightarrow> (resource \<times> string) set) \<Rightarrow> bool" where
  "kube_laws K objs \<longleftrightarrow>
     (\<forall>k. kb_client K k = None) \<and>
     (\<forall>r n k. kb_get K r n k = (if (r, n) \<in> objs k then None else Some Api_not_found)) \<and>
     (\<forall>r n y k. case kb_create K r n y k of
        (None, k') \<Rightarrow> (r, n) \<notin> objs k \<and> objs k' = insert (r, n) (objs k)
      | (Some e, k') \<Rightarrow> \<not> is_panic e \<and> objs k' = objs k) \<and>
     (\<forall>r n opts k. case kb_delete K r n opts k of
        (None, k') \<Rightarrow> (r, n) \<in> objs k \<and> (objs k' = objs k - {(r, n)} \<or> \<not> at_once r opts \<and> objs k' = objs k)
      | (Some e, k') \<Rightarrow> ((r, n) \<in> objs k \<longrightarrow> protected r) \<and> \<not> is_panic e \<and> objs k' = objs k) \<and>
     (\<forall>n k. objs (snd (kb_watchJob K n k)) = objs k) \<and>
     (\<forall>n k. objs (snd (kb_watchPod K n k)) = objs k)"

text \<open>A cluster with room: a creation fails only for an existing object.\<close>

definition kube_accepts :: "'k kube \<Rightarrow> ('k \<Rightarrow> (resource \<times> string) set) \<Rightarrow> bool" where
  "kube_accepts K objs \<longleftrightarrow> (\<forall>r n y k. (r, n) \<notin> objs k \<longrightarrow> fst (kb_create K r n y k) = None)"

text \<open>The audit log of the cluster, of which \<open>dels\<close> are the objects whose deletion has been requested, with or without
  success.\<close>

definition audited :: "'k kube \<Rightarrow> ('k \<Rightarrow> (resource \<times> string) set) \<Rightarrow> bool" where
  "audited K dels \<longleftrightarrow>
     (\<forall>r n y k. dels (snd (kb_create K r n y k)) = dels k) \<and>
     (\<forall>r n opts k. dels (snd (kb_delete K r n opts k)) = insert (r, n) (dels k))"

end
