(* ===== verification/Provision_Service.thy ===== *)
theory Provision_Service
  imports Kube
begin

text \<open>
  \<^verbatim>\<open>provisioner/services\<close>: creating, disposing and deleting the pod of a workspace with its volumes, and the requests to
  the workspace service. \<open>K\<close> and \<open>D\<close> are Kubernetes and Docker, \<open>A\<close> the replies of the workspace service: an error when
  the request itself fails, otherwise the status. Messages sent in a goroutine are sent at once.
\<close>

section \<open>State and interfaces\<close>

record ('k, 'd) pv = net +
  pv_kube :: 'k
  pv_docker :: 'd

text \<open>The environment of the process; an unset variable is the empty string.\<close>

record prov_env =
  pe_DEV_PLATFORM :: string
  pe_IDLE_THRESHOLD_CPU :: string
  pe_WORKSPACE_CPU_REQUEST :: string
  pe_PREEMPT_SPOT_OLDER_THAN_HOURS :: string
  pe_DEDICATED_LEASE_EXPIRY_DAYS :: string
  pe_NO_JOB_DELETE :: bool
  pe_DEV_FS_SOURCE :: "string option"

record ProvisionRequest =
  rq_uid :: string
  rq_sessionId :: string
  rq_image :: string
  rq_name :: string
  rq_description :: string
  rq_uuid :: string
  rq_dedicated :: bool
  rq_accessCode :: string

text \<open>The body of the reply to the creation of a workspace: the workspace, the object of an error, whose fields the
  decoder does not know, or no JSON.\<close>

datatype create_body = Body_workspace ProvWorkspaceDTO | Body_error string | Body_other

record ws_api =
  wa_eligibility :: "string \<Rightarrow> goerr + int"
  wa_membership :: "string \<Rightarrow> string \<Rightarrow> goerr + int"
  wa_consume :: "string \<Rightarrow> string \<Rightarrow> goerr + int \<times> string option"
  wa_reset :: "string \<Rightarrow> string \<Rightarrow> goerr + int \<times> string option"
  wa_delete :: "string \<Rightarrow> string \<Rightarrow> goerr + int \<times> string option"
  wa_create :: "string \<Rightarrow> ProvisionRequest \<Rightarrow> string \<Rightarrow> goerr + int \<times> create_body"
  wa_status :: "string \<Rightarrow> string \<Rightarrow> goerr + int"

definition k_create :: "'k kube \<Rightarrow> resource \<Rightarrow> string \<Rightarrow> yaml \<Rightarrow> ('k, 'd, 'a) pv_scheme \<Rightarrow> (goerr + unit) \<times> ('k, 'd, 'a) pv_scheme" where
  "k_create K r n y w = (case kb_create K r n y (pv_kube w) of
     (None, k) \<Rightarrow> (Inr (), w\<lparr>pv_kube := k\<rparr>) | (Some e, k) \<Rightarrow> (Inl e, w\<lparr>pv_kube := k\<rparr>))"

definition k_delete :: "'k kube \<Rightarrow> resource \<Rightarrow> string \<Rightarrow> DeleteOptions \<Rightarrow> ('k, 'd, 'a) pv_scheme \<Rightarrow> (goerr + unit) \<times> ('k, 'd, 'a) pv_scheme" where
  "k_delete K r n opts w = (case kb_delete K r n opts (pv_kube w) of
     (None, k) \<Rightarrow> (Inr (), w\<lparr>pv_kube := k\<rparr>) | (Some e, k) \<Rightarrow> (Inl e, w\<lparr>pv_kube := k\<rparr>))"

definition k_client :: "'k kube \<Rightarrow> ('k, 'd, 'a) pv_scheme \<Rightarrow> (goerr + unit) \<times> ('k, 'd, 'a) pv_scheme" where
  "k_client K w = (case kb_client K (pv_kube w) of None \<Rightarrow> (Inr (), w) | Some e \<Rightarrow> (Inl e, w))"

definition k_exists :: "'k kube \<Rightarrow> resource \<Rightarrow> string \<Rightarrow> ('k, 'd, 'a) pv_scheme \<Rightarrow> goerr + bool" where
  "k_exists K r n w = (case kb_get K r n (pv_kube w) of
     None \<Rightarrow> Inr True | Some Api_not_found \<Rightarrow> Inr False | Some e \<Rightarrow> Inl e)"

definition d_client :: "'d docker \<Rightarrow> ('k, 'd, 'a) pv_scheme \<Rightarrow> (goerr + unit) \<times> ('k, 'd, 'a) pv_scheme" where
  "d_client D w = (case dk_client D (pv_docker w) of None \<Rightarrow> (Inr (), w) | Some e \<Rightarrow> (Inl e, w))"

definition d_do :: "('d \<Rightarrow> goerr option \<times> 'd) \<Rightarrow> ('k, 'd, 'a) pv_scheme \<Rightarrow> (goerr + unit) \<times> ('k, 'd, 'a) pv_scheme" where
  "d_do f w = (case f (pv_docker w) of
     (None, d) \<Rightarrow> (Inr (), w\<lparr>pv_docker := d\<rparr>) | (Some e, d) \<Rightarrow> (Inl e, w\<lparr>pv_docker := d\<rparr>))"

section \<open>Workspace service and browser\<close>

definition UpdateWorkspaceStatus :: "ws_api \<Rightarrow> string \<Rightarrow> string \<Rightarrow> 'a net_scheme \<Rightarrow> (goerr + unit) \<times> 'a net_scheme" where
  "UpdateWorkspaceStatus A uuid status w =
     (let w1 = emit w [Ws_call (Call_status uuid status)]
      in case wa_status A uuid status of
           Inl _ \<Rightarrow> (Inl (GoErr ''Workspace status update request failed''), w1)
         | Inr _ \<Rightarrow> (Inr (), w1))"

text \<open>The images of the templates, each of which is stored as image and name.\<close>

definition GetTemplates :: "'a net_scheme \<Rightarrow> goerr + string set" where
  "GetTemplates w = (case cache_get w ''templates'' of
     None \<Rightarrow> Inl (GoErr ''No templates'')
   | Some (CvTemplates ts) \<Rightarrow> Inr (fst ` set ts)
   | Some _ \<Rightarrow> Inl (GoErr ''Failed to read templates''))"

definition SendStatus :: "string \<Rightarrow> string \<Rightarrow> string \<Rightarrow> 'a net_scheme \<Rightarrow> 'a net_scheme" where
  "SendStatus uid sessionId message w =
     emit w [Socket_send None uid sessionId ''provision'' (Provision_status message)]"

definition SendError :: "string \<Rightarrow> string \<Rightarrow> string \<Rightarrow> 'a net_scheme \<Rightarrow> 'a net_scheme" where
  "SendError uid sessionId message w =
     emit w [Socket_send None uid sessionId ''provision'' (Provision_error message)]"

definition SendSuccess :: "string \<Rightarrow> string \<Rightarrow> string \<Rightarrow> ProvWorkspaceDTO \<Rightarrow> 'a net_scheme \<Rightarrow> 'a net_scheme" where
  "SendSuccess uid sessionId privateKey workspace w =
     emit w [Socket_send None uid sessionId ''provision'' (Provision_success ''Pod created successfully'' privateKey workspace)]"

definition CheckEligibility :: "ws_api \<Rightarrow> string \<Rightarrow> 'a net_scheme \<Rightarrow> (goerr + bool) \<times> 'a net_scheme" where
  "CheckEligibility A userHeader w =
     (let w1 = emit w [Ws_call (Call_eligibility userHeader)]
      in case wa_eligibility A userHeader of
           Inl _ \<Rightarrow> (Inl (GoErr ''Workspace creation eligibility check failed''), w1)
         | Inr status \<Rightarrow> (Inr (status = 200), w1))"

text \<open>\<^verbatim>\<open>json.Unmarshal\<close> into the zero value of the structure.\<close>

definition zero_workspace :: ProvWorkspaceDTO where
  "zero_workspace = \<lparr>pw_id = 0, pw_uuid = '''', pw_image = '''', pw_name = '''', pw_description = '''', pw_createdAt = '''',
     pw_memberships = [], pw_status = ''''\<rparr>"

fun unmarshal :: "create_body \<Rightarrow> goerr option \<times> ProvWorkspaceDTO" where
  "unmarshal (Body_workspace d) = (None, d)"
| "unmarshal (Body_error m) = (None, zero_workspace)"
| "unmarshal Body_other = (Some (GoErr ''invalid character''), zero_workspace)"

text \<open>The error, if any, and what is then in the variable for the workspace.\<close>

definition CreateWorkspace ::
  "ws_api \<Rightarrow> ProvisionRequest \<Rightarrow> string \<Rightarrow> string \<Rightarrow> 'a net_scheme \<Rightarrow> (goerr option \<times> ProvWorkspaceDTO) \<times> 'a net_scheme" where
  "CreateWorkspace A req userHeader workspaceUUID w =
     (let w1 = emit w [Ws_call (Call_create userHeader (rq_name req) (rq_description req) workspaceUUID (rq_image req) (rq_dedicated req))]
      in case wa_create A userHeader req workspaceUUID of
           Inl _ \<Rightarrow> ((Some (GoErr ''Workspace creation request failed''), zero_workspace), w1)
         | Inr (status, body) \<Rightarrow> (unmarshal body, w1))"

section \<open>Watches\<close>

fun WaitForJobCompletion :: "job_event list \<Rightarrow> goerr option" where
  "WaitForJobCompletion [] = Some (GoErr ''Watch channel closed unexpectedly'')"
| "WaitForJobCompletion (Deadline # _) = Some (GoErr ''Job watch timed out'')"
| "WaitForJobCompletion (Not_a_job # es) = WaitForJobCompletion es"
| "WaitForJobCompletion (Job_status succeeded failed # es) =
     (if 0 < succeeded then None else if 0 < failed then Some (GoErr ''Job failed'') else WaitForJobCompletion es)"

fun scheduled :: "pod_event list \<Rightarrow> goerr option" where
  "scheduled [] = Some (GoErr ''watch closed before scheduling'')"
| "scheduled (Not_a_pod # _) = Some (Go_panic ''interface conversion'')"
| "scheduled (Pod_status node phase # es) =
     (if node \<noteq> [] then None
      else if phase = ''Failed'' \<or> phase = ''Succeeded'' then Some (GoErr (''Pod ended before scheduling: '' @ phase))
      else scheduled es)"

definition job_done :: "'k kube \<Rightarrow> string \<Rightarrow> ('k, 'd, 'a) pv_scheme \<Rightarrow> goerr option \<times> ('k, 'd, 'a) pv_scheme" where
  "job_done K job w = (case kb_watchJob K job (pv_kube w) of
     (Inl _, k) \<Rightarrow> (Some (GoErr ''Failed to watch job''), w\<lparr>pv_kube := k\<rparr>)
   | (Inr es, k) \<Rightarrow> (WaitForJobCompletion es, w\<lparr>pv_kube := k\<rparr>))"

definition WaitOnDevContainerScheduled :: "'k kube \<Rightarrow> string \<Rightarrow> ('k, 'd, 'a) pv_scheme \<Rightarrow> (goerr + unit) \<times> ('k, 'd, 'a) pv_scheme" where
  "WaitOnDevContainerScheduled K uuid w =
     and_then (k_client K w) (\<lambda>_ w. case kb_watchPod K (pod_name uuid) (pv_kube w) of
       (Inl e, k) \<Rightarrow> (Inl e, w\<lparr>pv_kube := k\<rparr>)
     | (Inr es, k) \<Rightarrow> ((case scheduled es of None \<Rightarrow> Inr () | Some e \<Rightarrow> Inl e), w\<lparr>pv_kube := k\<rparr>))"

section \<open>Volumes\<close>

definition PerpareK8sVolume :: "'k kube \<Rightarrow> string \<Rightarrow> ('k, 'd, 'a) pv_scheme \<Rightarrow> (goerr + unit) \<times> ('k, 'd, 'a) pv_scheme" where
  "PerpareK8sVolume K wsUuid w =
     (let job = ''prepare-volume-'' @ wsUuid
      in case k_create K Jobs job (GetPrepareVolumeJobSpec wsUuid ''1G'' ''32M'') w of
           (Inl _, w1) \<Rightarrow> (Inl (GoErr ''Could not create job to prepare volumes''), w1)
         | (Inr _, w1) \<Rightarrow> (Inr (), snd (job_done K job w1)))"

definition deletes :: "'k kube \<Rightarrow> (resource \<times> string) list \<Rightarrow> ('k, 'd, 'a) pv_scheme \<Rightarrow> ('k, 'd, 'a) pv_scheme" where
  "deletes K rs w = fold (\<lambda>(r, n) w. snd (k_delete K r n default_options w)) rs w"

definition CreateK8sVolume :: "'k kube \<Rightarrow> string \<Rightarrow> ('k, 'd, 'a) pv_scheme \<Rightarrow> (goerr + unit) \<times> ('k, 'd, 'a) pv_scheme" where
  "CreateK8sVolume K wsUuid w =
     (let data = data_volume wsUuid; config = config_volume wsUuid
      in case k_create K PersistentVolumes data (GetPersistentVolumeSpec wsUuid data ''data'' ''1Gi'') w of
           (Inl _, w1) \<Rightarrow> (Inl (GoErr (''Could not create '' @ quoted ''data'' @ '' PV'')), w1)
         | (Inr _, w1) \<Rightarrow>
       (case k_create K PersistentVolumes config (GetPersistentVolumeSpec wsUuid config ''config'' ''32Mi'') w1 of
           (Inl _, w2) \<Rightarrow> (Inl (GoErr (''Could not create '' @ quoted ''config'' @ '' PV, cleaning up'')),
              deletes K [(PersistentVolumes, data)] w2)
         | (Inr _, w2) \<Rightarrow>
       (case k_create K PersistentVolumeClaims data (GetPersistentVolumeClaimSpec data ''1Gi'') w2 of
           (Inl _, w3) \<Rightarrow> (Inl (GoErr (''Could not create '' @ quoted ''data'' @ '' PVC, cleaning up'')),
              deletes K [(PersistentVolumes, data), (PersistentVolumes, config)] w3)
         | (Inr _, w3) \<Rightarrow>
       (case k_create K PersistentVolumeClaims config (GetPersistentVolumeClaimSpec config ''32Mi'') w3 of
           (Inl _, w4) \<Rightarrow> (Inl (GoErr (''Could not create '' @ quoted ''config'' @ '' PVC, cleaning up'')),
              deletes K [(PersistentVolumes, data), (PersistentVolumes, config), (PersistentVolumeClaims, data)] w4)
         | (Inr _, w4) \<Rightarrow> (Inr (), w4)))))"

definition all_exist :: "'k kube \<Rightarrow> (resource \<times> string) list \<Rightarrow> ('k, 'd, 'a) pv_scheme \<Rightarrow> goerr + bool" where
  "all_exist K rs w =
     fold (\<lambda>(r, n) acc. case acc of Inr True \<Rightarrow> k_exists K r n w | _ \<Rightarrow> acc) rs (Inr True)"

definition K8sVolumeExists :: "'k kube \<Rightarrow> string \<Rightarrow> ('k, 'd, 'a) pv_scheme \<Rightarrow> (goerr + bool) \<times> ('k, 'd, 'a) pv_scheme" where
  "K8sVolumeExists K uuid w =
     and_then (k_client K w) (\<lambda>_ w.
       (all_exist K [(PersistentVolumes, data_volume uuid), (PersistentVolumeClaims, data_volume uuid),
          (PersistentVolumes, config_volume uuid), (PersistentVolumeClaims, config_volume uuid)] w, w))"

definition DockerVolumeExists :: "'d docker \<Rightarrow> string \<Rightarrow> ('k, 'd, 'a) pv_scheme \<Rightarrow> (goerr + bool) \<times> ('k, 'd, 'a) pv_scheme" where
  "DockerVolumeExists D uuid w =
     and_then (d_client D w) (\<lambda>_ w. (case dk_inspect D (data_volume uuid) (pv_docker w) of
       None \<Rightarrow> Inr True | Some Api_not_found \<Rightarrow> Inr False | Some e \<Rightarrow> Inl e, w))"

definition VolumeExists ::
  "'k kube \<Rightarrow> 'd docker \<Rightarrow> string \<Rightarrow> string \<Rightarrow> ('k, 'd, 'a) pv_scheme \<Rightarrow> (goerr + bool) \<times> ('k, 'd, 'a) pv_scheme" where
  "VolumeExists K D uuid devEnv w =
     (if devEnv = ''docker'' then DockerVolumeExists D uuid w
      else if devEnv = [] then K8sVolumeExists K uuid w
      else (Inl (GoErr ''Unsupported dev env''), w))"

definition CreateDockerVolume :: "'d docker \<Rightarrow> string \<Rightarrow> ('k, 'd, 'a) pv_scheme \<Rightarrow> (goerr + unit) \<times> ('k, 'd, 'a) pv_scheme" where
  "CreateDockerVolume D volumeName w =
     (case dk_volumes D volumeName (pv_docker w) of
        Inl e \<Rightarrow> (Inl e, w)
      | Inr n \<Rightarrow> if 0 < n then (Inr (), w) else d_do (dk_volumeCreate D volumeName) w)"

section \<open>Pods\<close>

definition names_any :: "string \<Rightarrow> string list list \<Rightarrow> bool" where
  "names_any name conts \<longleftrightarrow> (\<exists>names \<in> set conts. \<exists>n \<in> set names. trimPrefix ''/'' n = name)"

definition DockerContainerExists :: "'d docker \<Rightarrow> string \<Rightarrow> ('k, 'd, 'a) pv_scheme \<Rightarrow> (goerr + bool) \<times> ('k, 'd, 'a) pv_scheme" where
  "DockerContainerExists D containerName w =
     and_then (d_client D w) (\<lambda>_ w. (case dk_containers D (pv_docker w) of
       Inl e \<Rightarrow> Inl e | Inr conts \<Rightarrow> Inr (names_any containerName conts), w))"

definition K8sPodExists :: "'k kube \<Rightarrow> string \<Rightarrow> ('k, 'd, 'a) pv_scheme \<Rightarrow> (goerr + bool) \<times> ('k, 'd, 'a) pv_scheme" where
  "K8sPodExists K containerName w = and_then (k_client K w) (\<lambda>_ w. (k_exists K Pods containerName w, w))"

definition DevContainerExists ::
  "'k kube \<Rightarrow> 'd docker \<Rightarrow> string \<Rightarrow> string \<Rightarrow> ('k, 'd, 'a) pv_scheme \<Rightarrow> (goerr + bool) \<times> ('k, 'd, 'a) pv_scheme" where
  "DevContainerExists K D wsUuid devEnv w =
     (if devEnv = ''docker'' then DockerContainerExists D (pod_name wsUuid) w
      else if devEnv = [] then K8sPodExists K (pod_name wsUuid) w
      else (Inl (GoErr ''Unsupported dev env''), w))"

text \<open>The error of the configuration is overwritten; the creation is then called with no resource.\<close>

definition CreateWorkspaceCRD ::
  "prov_env \<Rightarrow> 'k kube \<Rightarrow> string \<Rightarrow> string \<Rightarrow> ('k, 'd, 'a) pv_scheme \<Rightarrow> (goerr + unit) \<times> ('k, 'd, 'a) pv_scheme" where
  "CreateWorkspaceCRD E K wsUuid uid w =
     and_then (k_client K w) (\<lambda>_ w.
       case GetWorkspaceCRDSpec (pe_DEDICATED_LEASE_EXPIRY_DAYS E) (clock w) wsUuid uid of
         Inl _ \<Rightarrow> (Inl (Go_panic ''nil resource''), w)
       | Inr spec \<Rightarrow> k_create K WorkspaceCRDs (pod_name wsUuid) (crd_manifest wsUuid spec) w)"

definition DeleteWorkspaceCRD :: "'k kube \<Rightarrow> string \<Rightarrow> ('k, 'd, 'a) pv_scheme \<Rightarrow> (goerr + unit) \<times> ('k, 'd, 'a) pv_scheme" where
  "DeleteWorkspaceCRD K wsUuid w = and_then (k_client K w) (\<lambda>_ w. k_delete K WorkspaceCRDs (pod_name wsUuid) default_options w)"

definition KillK8sPod :: "'k kube \<Rightarrow> string \<Rightarrow> string \<Rightarrow> ('k, 'd, 'a) pv_scheme \<Rightarrow> (goerr + unit) \<times> ('k, 'd, 'a) pv_scheme" where
  "KillK8sPod K devEnv podName w =
     (if devEnv = ''docker'' then (Inr (), w) else and_then (k_client K w) (\<lambda>_ w. k_delete K Pods podName (default_options\<lparr>do_grace := Some 0\<rparr>) w))"

text \<open>The storage of a new workspace.\<close>

definition new_storage ::
  "prov_env \<Rightarrow> 'k kube \<Rightarrow> ProvisionRequest \<Rightarrow> string \<Rightarrow> ('k, 'd, 'a) pv_scheme \<Rightarrow> (goerr + unit) \<times> ('k, 'd, 'a) pv_scheme" where
  "new_storage E K req wsUuid w =
     and_then (PerpareK8sVolume K wsUuid (SendStatus (rq_uid req) (rq_sessionId req) ''2/6:Preparing storage'' w)) (\<lambda>_ w.
       (let w1 = (if pe_NO_JOB_DELETE E then w
                  else snd (k_delete K Jobs (''prepare-volume-'' @ wsUuid) (default_options\<lparr>do_propagation := Some ''Background''\<rparr>) w));
            w2 = SendStatus (rq_uid req) (rq_sessionId req) ''3/6:Allocating storage'' w1
        in CreateK8sVolume K wsUuid w2))"

text \<open>The pod and its service; without the service the pod is removed again.\<close>

definition deploy ::
  "prov_env \<Rightarrow> 'k kube \<Rightarrow> ProvisionRequest \<Rightarrow> string \<Rightarrow> string \<Rightarrow> ('k, 'd, 'a) pv_scheme \<Rightarrow> (goerr + unit) \<times> ('k, 'd, 'a) pv_scheme" where
  "deploy E K req wsUuid publicKey w =
     (let wsType = (if rq_dedicated req then ''dedicated'' else ''spot'');
          w1 = SendStatus (rq_uid req) (rq_sessionId req) ''4/6:Setting up your environment'' w
      in and_then (k_create K Pods (pod_name wsUuid) (GetPodSpec wsUuid (rq_image req) publicKey wsType) w1) (\<lambda>_ w2.
           case k_create K Services (pod_name wsUuid) (GetServiceSpec wsUuid) w2 of
             (Inl e, w3) \<Rightarrow> (Inl e, snd (k_delete K Pods (pod_name wsUuid) (default_options\<lparr>do_grace := Some 0\<rparr>) w3))
           | (Inr _, w3) \<Rightarrow>
               if \<not> rq_dedicated req then (Inr (), w3)
               else (case CreateWorkspaceCRD E K wsUuid (rq_uid req) w3 of
                       (Inl (Go_panic m), w4) \<Rightarrow> (Inl (Go_panic m), w4)
                     | (_, w4) \<Rightarrow> (Inr (), w4))))"

text \<open>The private key, empty for an existing workspace, and the uuid. \<open>keygen\<close> is the outcome of \<^verbatim>\<open>GenSSHKeyPair\<close>.\<close>

definition CreateK8sPod ::
  "prov_env \<Rightarrow> 'k kube \<Rightarrow> (goerr + string \<times> string) \<Rightarrow> ProvisionRequest \<Rightarrow> bool \<Rightarrow> ('k, 'd, 'a) pv_scheme \<Rightarrow>
   (goerr + string \<times> string) \<times> ('k, 'd, 'a) pv_scheme" where
  "CreateK8sPod E K keygen req isNew w =
     and_then (k_client K w) (\<lambda>_ w.
       (let (wsUuid, w) = (if isNew then randomUUID w else (rq_uuid req, w))
        in if wsUuid = [] then (Inl (GoErr ''No UUID specified''), w)
           else and_then (if isNew then keygen else Inr ('''', ''''), w) (\<lambda>(privateKey, publicKey) w.
                and_then (if isNew then new_storage E K req wsUuid w else (Inr (), w)) (\<lambda>_ w.
                and_then (deploy E K req wsUuid publicKey w) (\<lambda>_ w. (Inr (privateKey, wsUuid), w))))))"

definition CreateDockerContainer ::
  "prov_env \<Rightarrow> 'd docker \<Rightarrow> (goerr + string \<times> string) \<Rightarrow> ProvisionRequest \<Rightarrow> bool \<Rightarrow> ('k, 'd, 'a) pv_scheme \<Rightarrow>
   (goerr + string \<times> string) \<times> ('k, 'd, 'a) pv_scheme" where
  "CreateDockerContainer E D keygen req isNew w =
     and_then (d_client D w) (\<lambda>_ w.
       (let (wsUuid, w) = (if isNew then randomUUID w else (rq_uuid req, w));
            status = SendStatus (rq_uid req) (rq_sessionId req)
        in if wsUuid = [] then (Inl (GoErr ''Cannot generate UUID''), w)
           else and_then (if isNew then keygen else Inr ('''', ''''), w) (\<lambda>(privateKey, publicKey) w.
                and_then (if isNew
                          then and_then (CreateDockerVolume D (data_volume wsUuid) (status ''2/6:Preparing storage'' w))
                                 (\<lambda>_ w. CreateDockerVolume D (config_volume wsUuid) w)
                          else (Inr (), w)) (\<lambda>_ w.
                  (let w1 = status ''3/6:Allocating storage'' w
                   in case dk_create D (pod_name wsUuid)
                             (YMap [(''config'', GetContainerSpec wsUuid (rq_image req) publicKey),
                                (''hostConfig'', GetHostConfig (pe_DEV_FS_SOURCE E) wsUuid),
                                (''network'', YStr ''hide-server_hide-network'')]) (pv_docker w1) of
                        (Inl e, d) \<Rightarrow> (Inl e, w1\<lparr>pv_docker := d\<rparr>)
                      | (Inr cid, d) \<Rightarrow>
                          and_then (d_do (dk_start D cid) (status ''4/6:Setting up your environment'' (w1\<lparr>pv_docker := d\<rparr>)))
                            (\<lambda>_ w. (Inr (privateKey, wsUuid), w)))))))"

definition CreateDevContainer ::
  "prov_env \<Rightarrow> 'k kube \<Rightarrow> 'd docker \<Rightarrow> (goerr + string \<times> string) \<Rightarrow> ProvisionRequest \<Rightarrow> bool \<Rightarrow> ('k, 'd, 'a) pv_scheme \<Rightarrow>
   (goerr + string \<times> string) \<times> ('k, 'd, 'a) pv_scheme" where
  "CreateDevContainer E K D keygen req isNew w =
     (let devEnv = pe_DEV_PLATFORM E
      in and_then (if isNew then (Inr (), w)
                   else and_then (VolumeExists K D (rq_uuid req) devEnv
                          (SendStatus (rq_uid req) (rq_sessionId req) ''1/6:Restoring your data'' w)) (\<lambda>volumeExists w.
                     if \<not> volumeExists then (Inl (GoErr ''Volume not found for existing workspace''), w) else (Inr (), w)))
           (\<lambda>_ w. if devEnv = ''docker'' then CreateDockerContainer E D keygen req isNew w
                   else if devEnv = [] then CreateK8sPod E K keygen req isNew w
                   else (Inl (GoErr ''Unsupported dev env''), w)))"

section \<open>Disposing and deleting\<close>

definition DisposeDockerContainer :: "'d docker \<Rightarrow> string \<Rightarrow> ('k, 'd, 'a) pv_scheme \<Rightarrow> (goerr + unit) \<times> ('k, 'd, 'a) pv_scheme" where
  "DisposeDockerContainer D uuid w =
     and_then (d_client D w) (\<lambda>_ w. case dk_containers D (pv_docker w) of
       Inl e \<Rightarrow> (Inl e, w)
     | Inr conts \<Rightarrow> if \<not> names_any (pod_name uuid) conts then (Inr (), w) else d_do (dk_remove D (pod_name uuid)) w)"

definition DisposeK8sPod :: "'k kube \<Rightarrow> string \<Rightarrow> ('k, 'd, 'a) pv_scheme \<Rightarrow> (goerr + unit) \<times> ('k, 'd, 'a) pv_scheme" where
  "DisposeK8sPod K uuid w =
     and_then (k_client K w) (\<lambda>_ w. case k_exists K Pods (pod_name uuid) w of
       Inl e \<Rightarrow> (Inl e, w)
     | Inr False \<Rightarrow> (Inr (), w)
     | Inr True \<Rightarrow>
         and_then (k_delete K Pods (pod_name uuid) \<lparr>do_grace = Some 20, do_propagation = Some ''Foreground''\<rparr> w) (\<lambda>_ w.
           (Inr (), snd (k_delete K Services (pod_name uuid) default_options w))))"

definition DisposeDevContainer ::
  "ws_api \<Rightarrow> 'k kube \<Rightarrow> 'd docker \<Rightarrow> string \<Rightarrow> string \<Rightarrow> ('k, 'd, 'a) pv_scheme \<Rightarrow> (goerr + unit) \<times> ('k, 'd, 'a) pv_scheme" where
  "DisposeDevContainer A K D uuid devEnv w =
     (case UpdateWorkspaceStatus A uuid ''DEPROVISIONING'' w of
        (Inl _, w1) \<Rightarrow> (Inl (GoErr ''Could not update workspace status''), w1)
      | (Inr _, w1) \<Rightarrow>
          (case (if devEnv = ''docker'' then DisposeDockerContainer D uuid w1
                 else if devEnv = [] then DisposeK8sPod K uuid w1
                 else (Inl (GoErr ''Unsupported dev env''), w1)) of
             (Inl e, w2) \<Rightarrow> (Inl e, snd (UpdateWorkspaceStatus A uuid ''ERROR'' w2))
           | (Inr _, w2) \<Rightarrow> (Inr (), snd (UpdateWorkspaceStatus A uuid ''COLD'' w2))))"

text \<open>The error is that of the second removal; the first is only logged.\<close>

definition DeleteDockerContainer :: "'d docker \<Rightarrow> string \<Rightarrow> ('k, 'd, 'a) pv_scheme \<Rightarrow> (goerr + unit) \<times> ('k, 'd, 'a) pv_scheme" where
  "DeleteDockerContainer D uuid w =
     and_then (d_client D w) (\<lambda>_ w.
       d_do (dk_volumeRemove D (config_volume uuid)) (snd (d_do (dk_volumeRemove D (data_volume uuid)) w)))"

definition DeleteK8sPod :: "prov_env \<Rightarrow> 'k kube \<Rightarrow> string \<Rightarrow> ('k, 'd, 'a) pv_scheme \<Rightarrow> (goerr + unit) \<times> ('k, 'd, 'a) pv_scheme" where
  "DeleteK8sPod E K wsUuid w =
     and_then (k_client K w) (\<lambda>_ w.
       (let w1 = deletes K [(PersistentVolumeClaims, data_volume wsUuid), (PersistentVolumeClaims, config_volume wsUuid),
                   (PersistentVolumes, data_volume wsUuid), (PersistentVolumes, config_volume wsUuid)] w;
            job = ''cleanup-volume-'' @ wsUuid
        in and_then (DisposeK8sPod K wsUuid w1) (\<lambda>_ w2.
           and_then (k_create K Jobs job (GetCleanupJobSpec wsUuid) w2) (\<lambda>_ w3.
             (let w4 = snd (job_done K job w3);
                  w5 = (if pe_NO_JOB_DELETE E then w4
                        else snd (k_delete K Jobs job (default_options\<lparr>do_propagation := Some ''Background''\<rparr>) w4))
              in DeleteWorkspaceCRD K wsUuid w5)))))"

definition DeleteDevContainer ::
  "prov_env \<Rightarrow> ws_api \<Rightarrow> 'k kube \<Rightarrow> 'd docker \<Rightarrow> string \<Rightarrow> string \<Rightarrow> ('k, 'd, 'a) pv_scheme \<Rightarrow>
   (goerr + unit) \<times> ('k, 'd, 'a) pv_scheme" where
  "DeleteDevContainer E A K D uuid devEnv w =
     (case UpdateWorkspaceStatus A uuid ''DELETING'' w of
        (Inl _, w1) \<Rightarrow> (Inl (GoErr ''Could not update workspace status''), w1)
      | (Inr _, w1) \<Rightarrow>
          (let w2 = snd (DisposeDevContainer A K D uuid devEnv w1);
               w3 = snd (if devEnv = ''docker'' then DeleteDockerContainer D uuid w2
                         else if devEnv = [] then DeleteK8sPod E K uuid w2
                         else (Inl (GoErr ''Unsupported dev env''), w2))
           in (Inr (), snd (UpdateWorkspaceStatus A uuid ''DELETED'' w3))))"

section \<open>Laws\<close>

text \<open>The calls under the laws of Kubernetes.\<close>

lemma kube_laws_client: "kube_laws K objs \<Longrightarrow> k_client K w = (Inr (), w)"
  by (simp add: kube_laws_def k_client_def)

lemma kube_laws_exists: "kube_laws K objs \<Longrightarrow> k_exists K r n w = Inr ((r, n) \<in> objs (pv_kube w))"
  by (simp add: kube_laws_def k_exists_def)

lemma kube_laws_create:
  assumes "kube_laws K objs" "k_create K r n y w = (x, w')"
  shows "(case x of Inr _ \<Rightarrow> (r, n) \<notin> objs (pv_kube w) \<and> objs (pv_kube w') = insert (r, n) (objs (pv_kube w))
         | Inl e \<Rightarrow> \<not> is_panic e \<and> objs (pv_kube w') = objs (pv_kube w)) \<and> w' = w\<lparr>pv_kube := pv_kube w'\<rparr>"
proof -
  have "case kb_create K r n y (pv_kube w) of
      (None, k') \<Rightarrow> (r, n) \<notin> objs (pv_kube w) \<and> objs k' = insert (r, n) (objs (pv_kube w))
    | (Some e, k') \<Rightarrow> \<not> is_panic e \<and> objs k' = objs (pv_kube w)"
    using assms(1) by (simp only: kube_laws_def)
  with assms(2) show ?thesis by (auto simp: k_create_def split: prod.splits option.splits)
qed

lemma kube_laws_delete:
  assumes "kube_laws K objs" "at_once r opts"
  shows "objs (pv_kube (snd (k_delete K r n opts w))) = objs (pv_kube w) - {(r, n)}"
proof -
  have "case kb_delete K r n opts (pv_kube w) of
      (None, k') \<Rightarrow> (r, n) \<in> objs (pv_kube w) \<and>
        (objs k' = objs (pv_kube w) - {(r, n)} \<or> \<not> at_once r opts \<and> objs k' = objs (pv_kube w))
    | (Some e, k') \<Rightarrow> ((r, n) \<in> objs (pv_kube w) \<longrightarrow> protected r) \<and> \<not> is_panic e \<and> objs k' = objs (pv_kube w)"
    using assms(1) by (simp only: kube_laws_def)
  with assms(2) show ?thesis by (auto simp: k_delete_def at_once_def split: prod.splits option.splits)
qed

lemma kube_laws_delete_sub:
  assumes "kube_laws K objs"
  shows "objs (pv_kube w) - {(r, n)} \<subseteq> objs (pv_kube (snd (k_delete K r n opts w)))"
    and "objs (pv_kube (snd (k_delete K r n opts w))) \<subseteq> objs (pv_kube w)"
    and "\<not> protected r \<Longrightarrow> fst (k_delete K r n opts w) = Inr () \<longleftrightarrow> (r, n) \<in> objs (pv_kube w)"
proof -
  have "case kb_delete K r n opts (pv_kube w) of
      (None, k') \<Rightarrow> (r, n) \<in> objs (pv_kube w) \<and>
        (objs k' = objs (pv_kube w) - {(r, n)} \<or> \<not> at_once r opts \<and> objs k' = objs (pv_kube w))
    | (Some e, k') \<Rightarrow> ((r, n) \<in> objs (pv_kube w) \<longrightarrow> protected r) \<and> \<not> is_panic e \<and> objs k' = objs (pv_kube w)"
    using assms by (simp only: kube_laws_def)
  then show "objs (pv_kube w) - {(r, n)} \<subseteq> objs (pv_kube (snd (k_delete K r n opts w)))"
    and "objs (pv_kube (snd (k_delete K r n opts w))) \<subseteq> objs (pv_kube w)"
    and "\<not> protected r \<Longrightarrow> fst (k_delete K r n opts w) = Inr () \<longleftrightarrow> (r, n) \<in> objs (pv_kube w)"
    by (auto simp: k_delete_def split: prod.splits option.splits)
qed

lemma kube_delete: "pv_kube (snd (k_delete K r n opts w)) = snd (kb_delete K r n opts (pv_kube w))"
  by (simp add: k_delete_def split: prod.split option.split)

lemma at_once_simps [simp]:
  "at_once Services opts" "at_once Jobs opts" "at_once WorkspaceCRDs opts" "at_once Pods (opts\<lparr>do_grace := Some 0\<rparr>)"
  by (simp_all add: at_once_def protected_def)

text \<open>A sequence of deletions removes at most what it names, and all of it is requested.\<close>

lemma kube_laws_deletes:
  assumes "kube_laws K objs"
  shows "objs (pv_kube w) - set rs \<subseteq> objs (pv_kube (deletes K rs w)) \<and> objs (pv_kube (deletes K rs w)) \<subseteq> objs (pv_kube w)"
proof (induction rs arbitrary: w)
  case (Cons x rs)
  obtain r n where x: "x = (r, n)" by fastforce
  show ?case
    using kube_laws_delete_sub(1,2) [OF assms, where w = w and r = r and n = n and opts = default_options] Cons.IH [of "snd (k_delete K r n default_options w)"]
    by (auto simp: deletes_def x)
qed (simp add: deletes_def)

lemma audited_create: "audited K dels \<Longrightarrow> k_create K r n y w = (x, w') \<Longrightarrow> dels (pv_kube w') = dels (pv_kube w)"
proof -
  assume A: "audited K dels" and "k_create K r n y w = (x, w')"
  then have "pv_kube w' = snd (kb_create K r n y (pv_kube w))" by (auto simp: k_create_def split: prod.splits option.splits)
  moreover have "dels (snd (kb_create K r n y (pv_kube w))) = dels (pv_kube w)" using A by (simp only: audited_def)
  ultimately show ?thesis by simp
qed

lemma audited_deletes: "audited K dels \<Longrightarrow> dels (pv_kube (deletes K rs w)) = dels (pv_kube w) \<union> set rs"
proof (induction rs arbitrary: w)
  case (Cons x rs)
  obtain r n where x: "x = (r, n)" by fastforce
  have "dels (snd (kb_delete K r n default_options (pv_kube w))) = insert (r, n) (dels (pv_kube w))"
    using Cons.prems by (simp only: audited_def)
  with Cons.IH [OF Cons.prems, of "snd (k_delete K r n default_options w)"] show ?case
    by (simp add: deletes_def x kube_delete)
qed (simp add: deletes_def)

lemma frame_kube [simp]:
  "pv_kube (SendStatus u s m w) = pv_kube w" "pv_kube (SendError u s m w) = pv_kube w"
  "pv_kube (SendSuccess u s p d w) = pv_kube w" "pv_kube (emit w es) = pv_kube w"
  "clock (SendStatus u s m w) = clock w"
  by (simp_all add: SendStatus_def SendError_def SendSuccess_def emit_def)

definition volume_objs :: "string \<Rightarrow> (resource \<times> string) set" where
  "volume_objs uuid = {PersistentVolumes, PersistentVolumeClaims} \<times> {data_volume uuid, config_volume uuid}"

lemma volume_names [simp]:
  "data_volume u \<noteq> config_volume v" "config_volume v \<noteq> data_volume u" "pod_name u = pod_name v \<longleftrightarrow> u = v"
  by (simp_all add: data_volume_def config_volume_def pod_name_def)

lemma create_pair:
  assumes "kube_laws K objs" "audited K dels" "k_create K r n y w = (x, w')"
  shows "dels (pv_kube w') = dels (pv_kube w) \<and> (case x of
      Inr _ \<Rightarrow> (r, n) \<notin> objs (pv_kube w) \<and> objs (pv_kube w') = insert (r, n) (objs (pv_kube w))
    | Inl _ \<Rightarrow> objs (pv_kube w') = objs (pv_kube w))"
  using kube_laws_create [OF assms(1,3)] audited_create [OF assms(2,3)] by (auto split: sum.splits)

text \<open>An attempt creates some of the four objects, all of them when it succeeds, and otherwise cleans up exactly those.\<close>

lemma volume_attempt:
  assumes L: "kube_laws K objs" and A: "audited K dels" and "CreateK8sVolume K uuid w = (x, w')"
  shows "\<exists>rs v. objs (pv_kube v) = objs (pv_kube w) \<union> set rs \<and> set rs \<inter> objs (pv_kube w) = {} \<and>
    dels (pv_kube v) = dels (pv_kube w) \<and> set rs \<subseteq> volume_objs uuid \<and>
    (case x of Inr _ \<Rightarrow> w' = v \<and> set rs = volume_objs uuid | Inl _ \<Rightarrow> w' = deletes K rs v)"
proof -
  note c = create_pair [OF L A]
  let ?d = "data_volume uuid" and ?c = "config_volume uuid"
  obtain x1 w1 where e1: "k_create K PersistentVolumes ?d (GetPersistentVolumeSpec uuid ?d ''data'' ''1Gi'') w = (x1, w1)" by fastforce
  obtain x2 w2 where e2: "k_create K PersistentVolumes ?c (GetPersistentVolumeSpec uuid ?c ''config'' ''32Mi'') w1 = (x2, w2)" by fastforce
  obtain x3 w3 where e3: "k_create K PersistentVolumeClaims ?d (GetPersistentVolumeClaimSpec ?d ''1Gi'') w2 = (x3, w3)" by fastforce
  obtain x4 w4 where e4: "k_create K PersistentVolumeClaims ?c (GetPersistentVolumeClaimSpec ?c ''32Mi'') w3 = (x4, w4)" by fastforce
  note defs = CreateK8sVolume_def Let_def e1 e2 e3 e4 volume_objs_def deletes_def
  consider (1) "isl x1" | (2) "\<not> isl x1" "isl x2" | (3) "\<not> isl x1" "\<not> isl x2" "isl x3"
    | (4) "\<not> isl x1" "\<not> isl x2" "\<not> isl x3" "isl x4" | (5) "\<not> isl x1" "\<not> isl x2" "\<not> isl x3" "\<not> isl x4" by blast
  then show ?thesis
  proof cases
    case 1
    with assms(3) c [OF e1] show ?thesis
      by (intro exI [of _ "[]"] exI [of _ w1]) (auto simp: defs split: sum.splits)
  next
    case 2
    with assms(3) c [OF e1] c [OF e2] show ?thesis
      by (intro exI [of _ "[(PersistentVolumes, ?d)]"] exI [of _ w2]) (auto simp: defs split: sum.splits)
  next
    case 3
    with assms(3) c [OF e1] c [OF e2] c [OF e3] show ?thesis
      by (intro exI [of _ "[(PersistentVolumes, ?d), (PersistentVolumes, ?c)]"] exI [of _ w3]) (auto simp: defs split: sum.splits)
  next
    case 4
    with assms(3) c [OF e1] c [OF e2] c [OF e3] c [OF e4] show ?thesis
      by (intro exI [of _ "[(PersistentVolumes, ?d), (PersistentVolumes, ?c), (PersistentVolumeClaims, ?d)]"] exI [of _ w4])
        (auto simp: defs split: sum.splits)
  next
    case 5
    with assms(3) c [OF e1] c [OF e2] c [OF e3] c [OF e4] show ?thesis
      by (intro exI [of _ "[(PersistentVolumes, ?d), (PersistentVolumes, ?c), (PersistentVolumeClaims, ?d), (PersistentVolumeClaims, ?c)]"]
          exI [of _ w4]) (auto simp: defs split: sum.splits)
  qed
qed

text \<open>C13. The storage of a workspace is created as a whole: a successful \<^verbatim>\<open>CreateK8sVolume\<close> has added exactly the two volumes and
  the two claims, none of which existed, and has requested no deletion. A failed one, whichever creation failed, touches no object
  that existed before, and of whatever it leaves of its own it has requested the deletion, and of nothing else. Deletions of volumes
  and claims may fail, or take effect later.\<close>

theorem volumes_all_or_nothing:
  assumes L: "kube_laws K objs" and A: "audited K dels" and "CreateK8sVolume K uuid w = (x, w')"
  shows "case x of
      Inr _ \<Rightarrow> volume_objs uuid \<inter> objs (pv_kube w) = {} \<and> objs (pv_kube w') = objs (pv_kube w) \<union> volume_objs uuid \<and>
        dels (pv_kube w') = dels (pv_kube w)
    | Inl _ \<Rightarrow> \<exists>D \<subseteq> volume_objs uuid. D \<inter> objs (pv_kube w) = {} \<and> dels (pv_kube w') = dels (pv_kube w) \<union> D \<and>
        objs (pv_kube w) \<subseteq> objs (pv_kube w') \<and> objs (pv_kube w') \<subseteq> objs (pv_kube w) \<union> D"
proof -
  from volume_attempt [OF assms] obtain rs v where v: "objs (pv_kube v) = objs (pv_kube w) \<union> set rs"
      "set rs \<inter> objs (pv_kube w) = {}" "dels (pv_kube v) = dels (pv_kube w)" "set rs \<subseteq> volume_objs uuid"
      "case x of Inr _ \<Rightarrow> w' = v \<and> set rs = volume_objs uuid | Inl _ \<Rightarrow> w' = deletes K rs v" by blast
  show ?thesis
  proof (cases x)
    case (Inl e)
    then have w': "w' = deletes K rs v" using v(5) by simp
    show ?thesis using Inl v(1-4) kube_laws_deletes [OF L, of v rs] audited_deletes [OF A, of rs v]
      unfolding w' by (simp, intro exI [of _ "set rs"]) blast
  next
    case (Inr y)
    with v show ?thesis by auto
  qed
qed

text \<open>A concrete cluster with room for \<open>q\<close> objects, for examples; pods are given their time to end, and volumes and claims stay
  until their finalizers are done.\<close>

definition store_kube :: "nat \<Rightarrow> (resource \<times> string) list kube" where
  "store_kube q = \<lparr>kb_client = \<lambda>k. None,
     kb_get = \<lambda>r n k. if (r, n) \<in> set k then None else Some Api_not_found,
     kb_create = \<lambda>r n y k. if (r, n) \<in> set k then (Some (Api_err ''AlreadyExists''), k)
       else if q \<le> length k then (Some (Api_err ''Forbidden''), k) else (None, (r, n) # k),
     kb_delete = \<lambda>r n opts k. if (r, n) \<notin> set k then (Some Api_not_found, k)
       else (None, if at_once r opts then removeAll (r, n) k else k),
     kb_nodes = \<lambda>k. Inr [4000], kb_pods = \<lambda>sel k. Inr [],
     kb_watchJob = \<lambda>n k. (Inr [Job_status 1 0], k), kb_watchPod = \<lambda>n k. (Inr [Pod_status ''node'' ''Pending''], k),
     kb_lease = \<lambda>n k. Inl Api_not_found, kb_labels = \<lambda>n k. Inl Api_not_found, kb_patch = \<lambda>n l k. (Some Api_not_found, k)\<rparr>"

lemma store_kube_laws: "kube_laws (store_kube q) set"
  by (auto simp: kube_laws_def store_kube_def is_panic_def)

definition pv_example :: "'k \<Rightarrow> ('k, unit) pv" where
  "pv_example k = \<lparr>cache = [(''templates'', (CvTemplates [(''node-dev'', ''Node'')], None))], out = [],
     uuids = (\<lambda>_. ''u1''), uuidc = 0, clock = 0, perf = 0, pv_kube = k, pv_docker = ()\<rparr>"

text \<open>Any cluster with an audit log.\<close>

definition logged :: "'k kube \<Rightarrow> ('k \<times> (resource \<times> string) list) kube" where
  "logged K = \<lparr>kb_client = kb_client K \<circ> fst, kb_get = \<lambda>r n k. kb_get K r n (fst k),
     kb_create = \<lambda>r n y (k, l). (case kb_create K r n y k of (e, k') \<Rightarrow> (e, (k', l))),
     kb_delete = \<lambda>r n opts (k, l). (case kb_delete K r n opts k of (e, k') \<Rightarrow> (e, (k', (r, n) # l))),
     kb_nodes = kb_nodes K \<circ> fst, kb_pods = \<lambda>sel k. kb_pods K sel (fst k),
     kb_watchJob = \<lambda>n (k, l). (case kb_watchJob K n k of (e, k') \<Rightarrow> (e, (k', l))),
     kb_watchPod = \<lambda>n (k, l). (case kb_watchPod K n k of (e, k') \<Rightarrow> (e, (k', l))),
     kb_lease = \<lambda>n k. kb_lease K n (fst k), kb_labels = \<lambda>n k. kb_labels K n (fst k),
     kb_patch = \<lambda>n y (k, l). (case kb_patch K n y k of (e, k') \<Rightarrow> (e, (k', l)))\<rparr>"

lemma logged_laws:
  "kube_laws (logged (store_kube q)) (set \<circ> fst)" "audited (logged K) (set \<circ> snd)"
  by (auto simp: kube_laws_def audited_def logged_def store_kube_def is_panic_def at_once_def split: prod.splits)

theorem volumes_all_or_nothing_witness:
  "fst (CreateK8sVolume (logged (store_kube 3)) ''u1'' (pv_example ([], []))) \<noteq> Inr () \<and>
   (\<exists>D \<subseteq> volume_objs ''u1''. set (snd (pv_kube (snd (CreateK8sVolume (logged (store_kube 3)) ''u1'' (pv_example ([], [])))))) = D \<and>
     set (fst (pv_kube (snd (CreateK8sVolume (logged (store_kube 3)) ''u1'' (pv_example ([], [])))))) \<subseteq> D)"
proof -
  let ?r = "CreateK8sVolume (logged (store_kube 3)) ''u1'' (pv_example ([], []))"
  have "fst ?r \<noteq> Inr ()" by code_simp
  then obtain e where "fst ?r = Inl e" by (cases "fst ?r") auto
  with volumes_all_or_nothing [OF logged_laws, of 3 "''u1''" "pv_example ([], [])" "fst ?r" "snd ?r"] show ?thesis
    by (auto simp: pv_example_def)
qed

section \<open>Preempted workspaces\<close>

text \<open>The service of a workspace without its pod, which is what preemption leaves.\<close>

definition stranded :: "('k \<Rightarrow> (resource \<times> string) set) \<Rightarrow> string \<Rightarrow> ('k, 'd, 'a) pv_scheme \<Rightarrow> bool" where
  "stranded objs u w \<longleftrightarrow> (Services, pod_name u) \<in> objs (pv_kube w) \<and> (Pods, pod_name u) \<notin> objs (pv_kube w)"

lemma stranded_frame [simp]:
  "stranded objs u (SendStatus a s m w) = stranded objs u w" "stranded objs u (SendError a s m w) = stranded objs u w"
  "stranded objs u (SendSuccess a s p d w) = stranded objs u w" "stranded objs u (emit w es) = stranded objs u w"
  "stranded objs u (w\<lparr>clock := c\<rparr>) = stranded objs u w"
  by (simp_all add: stranded_def)

lemma stranded_and_then:
  assumes "stranded objs u (snd m)" "\<And>x w. m = (Inr x, w) \<Longrightarrow> stranded objs u w \<Longrightarrow> stranded objs u (snd (f x w))"
  shows "stranded objs u (snd (and_then m f))"
  using assms by (auto simp: and_then_def split: prod.splits sum.splits)

lemma stranded_create:
  assumes "kube_laws K objs" "stranded objs u w" "(r, n) \<noteq> (Pods, pod_name u)"
  shows "stranded objs u (snd (k_create K r n y w))"
proof (cases "k_create K r n y w")
  case (Pair x w')
  from kube_laws_create [OF assms(1) Pair] assms(2,3) Pair show ?thesis
    by (auto simp: stranded_def split: sum.splits)
qed

lemma stranded_delete:
  assumes "kube_laws K objs" "stranded objs u w" "(r, n) \<noteq> (Services, pod_name u)"
  shows "stranded objs u (snd (k_delete K r n opts w))"
  using kube_laws_delete_sub(1,2) [OF assms(1), where w = w and r = r and n = n and opts = opts] assms(2,3) by (auto simp: stranded_def)

lemma stranded_deletes:
  "kube_laws K objs \<Longrightarrow> stranded objs u w \<Longrightarrow> \<forall>(r, n) \<in> set rs. r \<noteq> Services \<Longrightarrow> stranded objs u (deletes K rs w)"
proof (induction rs arbitrary: w)
  case (Cons x rs)
  then show ?case by (cases x) (auto simp: deletes_def stranded_delete)
qed (simp add: deletes_def)

lemma stranded_job:
  assumes "kube_laws K objs" "stranded objs u w"
  shows "stranded objs u (snd (job_done K job w))"
proof -
  obtain x k where p: "kb_watchJob K job (pv_kube w) = (x, k)" by fastforce
  have "objs (snd (kb_watchJob K job (pv_kube w))) = objs (pv_kube w)"
    using assms(1) by (simp only: kube_laws_def)
  with p assms(2) have "stranded objs u (w\<lparr>pv_kube := k\<rparr>)" by (simp add: stranded_def)
  with p show ?thesis by (cases x) (simp_all add: job_done_def)
qed

lemma stranded_scheduled:
  assumes "kube_laws K objs" "stranded objs u w"
  shows "stranded objs u (snd (WaitOnDevContainerScheduled K v w))"
proof -
  obtain x k where p: "kb_watchPod K (pod_name v) (pv_kube w) = (x, k)" by fastforce
  have "objs (snd (kb_watchPod K (pod_name v) (pv_kube w))) = objs (pv_kube w)"
    using assms(1) by (simp only: kube_laws_def)
  with p assms(2) have "stranded objs u (w\<lparr>pv_kube := k\<rparr>)" by (simp add: stranded_def)
  with p show ?thesis by (cases x) (simp_all add: WaitOnDevContainerScheduled_def kube_laws_client [OF assms(1)])
qed

lemma stranded_dispose:
  assumes L: "kube_laws K objs" and s: "stranded objs u w"
  shows "stranded objs u (snd (DisposeK8sPod K v w))"
proof (cases "v = u")
  case True
  with s show ?thesis by (simp add: DisposeK8sPod_def kube_laws_client [OF L] kube_laws_exists [OF L] stranded_def)
next
  case False
  have "stranded objs u (snd (and_then (k_delete K Pods (pod_name v) opts w)
      (\<lambda>_ w. (Inr (), snd (k_delete K Services (pod_name v) default_options w)))))" for opts
    by (rule stranded_and_then) (use False s in \<open>simp_all add: stranded_delete [OF L]\<close>)
  with s show ?thesis
    by (simp add: DisposeK8sPod_def kube_laws_client [OF L] kube_laws_exists [OF L] split: bool.split)
qed

lemma stranded_crd:
  assumes "kube_laws K objs" "stranded objs u w"
  shows "stranded objs u (snd (CreateWorkspaceCRD E K v uid w))"
  using assms(2)
  by (cases "GetWorkspaceCRDSpec (pe_DEDICATED_LEASE_EXPIRY_DAYS E) (clock w) v uid")
    (simp_all add: CreateWorkspaceCRD_def kube_laws_client [OF assms(1)] stranded_create [OF assms(1)])

text \<open>Another workspace is deployed without touching the stranded one; the stranded one cannot be deployed.\<close>

lemma snd_logged: "snd (case m of (Inl (Go_panic m), w) \<Rightarrow> (Inl (Go_panic m), w) | (_, w) \<Rightarrow> (Inr (), w)) = snd m"
  by (cases m; cases "fst m") (simp_all split: goerr.split)

lemma stranded_deploy_other:
  assumes L: "kube_laws K objs" and s: "stranded objs u w" and "v \<noteq> u"
  shows "stranded objs u (snd (deploy E K req v key w))"
proof -
  show ?thesis
    unfolding deploy_def Let_def
  proof (rule stranded_and_then)
    fix x w2 assume w2: "stranded objs u w2"
    let ?s = "k_create K Services (pod_name v) (GetServiceSpec v) w2"
    have s3: "stranded objs u (snd ?s)" using w2 by (simp add: stranded_create [OF L])
    show "stranded objs u (snd (case ?s of
        (Inl e, w3) \<Rightarrow> (Inl e, snd (k_delete K Pods (pod_name v) (default_options\<lparr>do_grace := Some 0\<rparr>) w3))
      | (Inr _, w3) \<Rightarrow> if \<not> rq_dedicated req then (Inr (), w3)
          else case CreateWorkspaceCRD E K v (rq_uid req) w3 of
              (Inl (Go_panic m), w4) \<Rightarrow> (Inl (Go_panic m), w4) | (_, w4) \<Rightarrow> (Inr (), w4)))"
      using s3 by (cases ?s; cases "fst ?s") (simp_all add: stranded_delete [OF L] snd_logged stranded_crd [OF L])
  qed (use s \<open>v \<noteq> u\<close> in \<open>simp add: stranded_create [OF L]\<close>)
qed

lemma stranded_deploy_same:
  assumes L: "kube_laws K objs" and s: "stranded objs u w"
  shows "\<exists>e. fst (deploy E K req u key w) = Inl e \<and> stranded objs u (snd (deploy E K req u key w))"
proof -
  let ?c = "\<lambda>w. k_create K Pods (pod_name u) (GetPodSpec u (rq_image req) key (if rq_dedicated req then ''dedicated'' else ''spot'')) w"
  obtain x w1 where c: "?c (SendStatus (rq_uid req) (rq_sessionId req) ''4/6:Setting up your environment'' w) = (x, w1)"
    by fastforce
  obtain y w2 where d: "k_create K Services (pod_name u) (GetServiceSpec u) w1 = (y, w2)" by fastforce
  from s kube_laws_create [OF L c] kube_laws_create [OF L d] show ?thesis
    by (auto simp: deploy_def Let_def c d stranded_def kube_laws_delete [OF L] split: sum.splits)
qed

end
