(* ===== verification/Provisioner.thy ===== *)
theory Provisioner
  imports Provision_Service
begin

text \<open>
  \<^verbatim>\<open>provisioner/handlers\<close>: the requests to provision, dispose and delete a workspace. A handler answers at once and leaves
  the work to a goroutine, which here is the job it returns and \<open>run_job\<close> runs. The lock \<^verbatim>\<open>queueLock\<close> keeps two provisionings
  apart up to the scheduling of the pod. Times are milliseconds.
\<close>

section \<open>Capacity\<close>

definition or_default :: "string \<Rightarrow> string \<Rightarrow> string" where
  "or_default s d = (if s = [] then d else s)"

definition requested_cpu :: "kpod list \<Rightarrow> int" where
  "requested_cpu pods =
     sum_list (map (\<lambda>p. if kp_phase p \<noteq> ''Running'' then 0
                        else sum_list (map (\<lambda>c. case c of None \<Rightarrow> 0 | Some m \<Rightarrow> m) (kp_cpu p))) pods)"

text \<open>The loop over the pods that can be preempted: the first of the oldest that are running.\<close>

definition oldest :: "kpod list \<Rightarrow> kpod option" where
  "oldest pods = fold (\<lambda>p o'. if kp_phase p \<noteq> ''Running'' then o'
     else case o' of None \<Rightarrow> Some p | Some q \<Rightarrow> if kp_created p < kp_created q then Some p else Some q) pods None"

text \<open>Whether there is room, and otherwise the name of a pod to preempt, or the empty string.\<close>

definition hasCapacity :: "prov_env \<Rightarrow> 'k kube \<Rightarrow> bool \<Rightarrow> ('k, 'd, 'a) pv_scheme \<Rightarrow> goerr + bool \<times> string" where
  "hasCapacity E K dedicated w =
     (let k = pv_kube w; bad = (\<lambda>s. GoErr (''strconv.ParseInt: parsing '' @ s))
      in if pe_DEV_PLATFORM E = ''docker'' then Inr (True, '''')
         else case kb_client K k of Some e \<Rightarrow> Inl e | None \<Rightarrow>
           (case kb_nodes K k of Inl e \<Rightarrow> Inl e | Inr [] \<Rightarrow> Inl (Go_panic ''index out of range'') | Inr (allocatableCpu # _) \<Rightarrow>
           (case parseInt 64 (or_default (pe_IDLE_THRESHOLD_CPU E) ''350'') of
              None \<Rightarrow> Inl (bad (pe_IDLE_THRESHOLD_CPU E)) | Some idleThresholdCpu \<Rightarrow>
           (case kb_pods K None k of Inl e \<Rightarrow> Inl e | Inr pods \<Rightarrow>
           (case parseInt 64 (or_default (pe_WORKSPACE_CPU_REQUEST E) ''350'') of
              None \<Rightarrow> Inl (GoErr ''Bad config for workspace requested cpu'') | Some wsCpu \<Rightarrow>
           if int64 (requested_cpu pods + wsCpu) < int64 (allocatableCpu - idleThresholdCpu) then Inr (True, '''')
           else
             (case kb_pods K (Some (''wstype'', ''spot'')) k of Inl e \<Rightarrow> Inl e | Inr spotPods \<Rightarrow>
             (case parseInt 64 (or_default (pe_PREEMPT_SPOT_OLDER_THAN_HOURS E) ''12'') of
                None \<Rightarrow> Inl (bad (pe_PREEMPT_SPOT_OLDER_THAN_HOURS E)) | Some spotHours \<Rightarrow>
             (case oldest spotPods of None \<Rightarrow> Inr (False, '''')
              | Some p \<Rightarrow>
                  if dedicated then Inr (False, kp_name p)
                  else if kp_created p * 1000000 < clock w * 1000000 + int64 (- spotHours * 3600000000000) then Inr (False, kp_name p)
                  else Inr (False, '''')))))))))"

section \<open>Waiting for a workspace\<close>

text \<open>\<open>ready\<close> answers, for the time of a request, whether the reply is 200 and how long it takes. The loop returns whether
  the workspace became ready, and when.\<close>

function ready_loop :: "(int \<Rightarrow> bool \<times> int) \<Rightarrow> int \<Rightarrow> int \<Rightarrow> bool \<times> int" where
  "ready_loop ready deadline now =
     (if now < deadline then
        (let (ok, d) = ready now; now' = now + max 0 d
         in if ok then (True, now') else ready_loop ready deadline (now' + 500))
      else (False, now))"
  by pat_completeness auto

termination
  by (relation "measure (\<lambda>(r, deadline, now). nat (deadline - now))") (auto split: prod.splits)

declare ready_loop.simps [simp del]

definition waitOnDevContainerReady ::
  "(string \<Rightarrow> int \<Rightarrow> bool \<times> int) \<Rightarrow> ProvisionRequest \<Rightarrow> string \<Rightarrow> int \<Rightarrow> 'a net_scheme \<Rightarrow> (goerr + unit) \<times> 'a net_scheme" where
  "waitOnDevContainerReady ready req uuid timeout w =
     (let w1 = SendStatus (rq_uid req) (rq_sessionId req) ''5/6:Almost there... starting services'' w;
          (ok, t) = ready_loop (ready uuid) (clock w1 + timeout) (clock w1); w2 = w1\<lparr>clock := t\<rparr>
      in if ok then (Inr (), SendStatus (rq_uid req) (rq_sessionId req) ''6/6:Workspace ready !'' w2)
         else (Inl (GoErr ''Workspace timed-out during boot''), w2))"

section \<open>Provisioning\<close>

text \<open>What happens outside while a workspace is provisioned: the generated key pair, and when the workspace answers.\<close>

record outcome =
  oc_keygen :: "goerr + string \<times> string"
  oc_ready :: "string \<Rightarrow> int \<Rightarrow> bool \<times> int"

text \<open>The part under the lock: room is made, the pod is created and scheduled.\<close>

definition create_pod ::
  "prov_env \<Rightarrow> 'k kube \<Rightarrow> 'd docker \<Rightarrow> outcome \<Rightarrow> ProvisionRequest \<Rightarrow> bool \<Rightarrow> ('k, 'd, 'a) pv_scheme \<Rightarrow>
   (goerr + string \<times> string) \<times> ('k, 'd, 'a) pv_scheme" where
  "create_pod E K D oc req isNew w =
     (let fail = SendError (rq_uid req) (rq_sessionId req);
          message = (if isNew then ''WORKSPACE_PROVISION_FAILED'' else ''WORKSPACE_RESTORE_FAILED'')
      in case CreateDevContainer E K D (oc_keygen oc) req isNew w of
           (Inl (Go_panic m), w1) \<Rightarrow> (Inl (Go_panic m), w1)
         | (Inl e, w1) \<Rightarrow> (Inl e, fail message w1)
         | (Inr (privateKey, workspaceUuid), w1) \<Rightarrow>
             (case (if pe_DEV_PLATFORM E = [] then WaitOnDevContainerScheduled K workspaceUuid w1 else (Inr (), w1)) of
                (Inl (Go_panic m), w2) \<Rightarrow> (Inl (Go_panic m), w2)
              | (Inl e, w2) \<Rightarrow> (Inl e, fail message w2)
              | (Inr _, w2) \<Rightarrow> (Inr (privateKey, workspaceUuid), w2)))"

definition provision_pod ::
  "prov_env \<Rightarrow> 'k kube \<Rightarrow> 'd docker \<Rightarrow> outcome \<Rightarrow> ProvisionRequest \<Rightarrow> bool \<Rightarrow> ('k, 'd, 'a) pv_scheme \<Rightarrow>
   (goerr + string \<times> string) \<times> ('k, 'd, 'a) pv_scheme" where
  "provision_pod E K D oc req isNew w =
     (let fail = SendError (rq_uid req) (rq_sessionId req)
      in case hasCapacity E K (rq_dedicated req) w of
           Inl (Go_panic m) \<Rightarrow> (Inl (Go_panic m), w)
         | Inl e \<Rightarrow> (Inl (GoErr ''UNKNOWN''), fail ''UNKNOWN'' w)
         | Inr (hasCpuCapacity, preemptPodName) \<Rightarrow>
             if \<not> hasCpuCapacity \<and> preemptPodName = [] then (Inl (GoErr ''NO_CAPACITY''), fail ''NO_CAPACITY'' w)
             else if preemptPodName = [] then create_pod E K D oc req isNew w
             else (case KillK8sPod K (pe_DEV_PLATFORM E) preemptPodName w of
                     (Inl e, w1) \<Rightarrow> (Inl (GoErr ''UNKNOWN''), fail ''UNKNOWN'' w1)
                   | (Inr _, w1) \<Rightarrow> create_pod E K D oc req isNew w1))"

text \<open>The success is sent whatever the creation of the workspace returned, with what is in the variable then.\<close>

definition provision ::
  "prov_env \<Rightarrow> ws_api \<Rightarrow> 'k kube \<Rightarrow> 'd docker \<Rightarrow> outcome \<Rightarrow> ProvisionRequest \<Rightarrow> string \<Rightarrow> bool \<Rightarrow> ('k, 'd, 'a) pv_scheme \<Rightarrow>
   (goerr + unit) \<times> ('k, 'd, 'a) pv_scheme" where
  "provision E A K D oc req userHeader isNew w =
     and_then (provision_pod E K D oc req isNew w) (\<lambda>(privateKey, workspaceUuid) w1.
       case waitOnDevContainerReady (oc_ready oc) req workspaceUuid 90000 w1 of
         (Inl e, w2) \<Rightarrow> (Inl e, SendError (rq_uid req) (rq_sessionId req) ''WORKSPACE_BOOT_FAILED'' w2)
       | (Inr _, w2) \<Rightarrow>
           if isNew then
             (let ((err, workspace), w3) = CreateWorkspace A req userHeader workspaceUuid w2;
                  w4 = SendSuccess (rq_uid req) (rq_sessionId req) privateKey workspace w3
              in (case err of None \<Rightarrow> Inr () | Some e \<Rightarrow> Inl e, w4))
           else (Inr (), emit w2 [Nats_affinity (rq_uid req) (rq_sessionId req) (rq_uuid req)]))"

section \<open>Handlers\<close>

definition CheckWorkspaceMembership :: "ws_api \<Rightarrow> string \<Rightarrow> string \<Rightarrow> 'a net_scheme \<Rightarrow> (goerr + unit) \<times> 'a net_scheme" where
  "CheckWorkspaceMembership A userHeader workspaceUUID w =
     (let w1 = emit w [Ws_call (Call_membership userHeader workspaceUUID)]
      in case wa_membership A userHeader workspaceUUID of
           Inl _ \<Rightarrow> (Inl (GoErr ''Not a member of workspace''), w1)
         | Inr status \<Rightarrow> (Inr (), w1))"

text \<open>The reply to a request about an access code: its status and the message in it, if it can be read.\<close>

definition code_reply :: "goerr + int \<times> string option \<Rightarrow> goerr + unit" where
  "code_reply reply = (case reply of
     Inl _ \<Rightarrow> Inl (GoErr ''UNKNOWN'')
   | Inr (status, message) \<Rightarrow>
       if status < 200 \<and> 299 < status
       then Inl (GoErr (case message of None \<Rightarrow> ''UNKNOWN'' | Some m \<Rightarrow> m)) else Inr ())"

definition ConsumeAccessCode :: "ws_api \<Rightarrow> string \<Rightarrow> string \<Rightarrow> 'a net_scheme \<Rightarrow> (goerr + unit) \<times> 'a net_scheme" where
  "ConsumeAccessCode A code userHeader w =
     (code_reply (wa_consume A userHeader code), emit w [Ws_call (Call_consume userHeader code)])"

definition ResetAccessCode :: "ws_api \<Rightarrow> string \<Rightarrow> string \<Rightarrow> 'a net_scheme \<Rightarrow> (goerr + unit) \<times> 'a net_scheme" where
  "ResetAccessCode A code userHeader w =
     (code_reply (wa_reset A userHeader code), emit w [Ws_call (Call_reset userHeader code)])"

definition DeleteAccessCode :: "ws_api \<Rightarrow> string \<Rightarrow> string \<Rightarrow> 'a net_scheme \<Rightarrow> (goerr + unit) \<times> 'a net_scheme" where
  "DeleteAccessCode A code userHeader w =
     (code_reply (wa_delete A userHeader code), emit w [Ws_call (Call_delete_code userHeader code)])"

datatype prov_reply = Api_error int string | Wait_reply int bool | Status_reply int

datatype prov_job =
    Job_provision ProvisionRequest string bool    \<comment> \<open>request, header, isNew\<close>
  | Job_dispose string
  | Job_delete string

definition ProvisionHandler ::
  "prov_env \<Rightarrow> ws_api \<Rightarrow> 'k kube \<Rightarrow> 'd docker \<Rightarrow> string \<Rightarrow> ProvisionRequest option \<Rightarrow> string \<Rightarrow> ('k, 'd, 'a) pv_scheme \<Rightarrow>
   (prov_reply \<times> prov_job option) \<times> ('k, 'd, 'a) pv_scheme" where
  "ProvisionHandler E A K D meth body userHeader w =
     (let invalid = ''WORKSPACE_PROVISION_INVALID_REQUEST'';
          refuse = (\<lambda>status m w. ((Api_error status m, None), w))
      in if meth \<noteq> ''POST'' then refuse 405 invalid w
         else case body of None \<Rightarrow> refuse 400 invalid w
         | Some req \<Rightarrow>
             (let status = SendStatus (rq_uid req) (rq_sessionId req);
                  w1 = (if rq_uuid req = [] then status ''1/6:Validating request'' w else w)
              in if rq_image req = [] then refuse 400 invalid w1
                 else case GetTemplates w1 of Inl e \<Rightarrow> refuse 500 ''UNKNOWN'' w1
                 | Inr templates \<Rightarrow>
                 if trimSuffix '':dev'' (rq_image req) \<notin> templates then refuse 400 invalid w1
                 else if userHeader = [] then refuse 400 invalid w1
                 else if rq_uuid req \<noteq> [] then
                   (case CheckWorkspaceMembership A userHeader (rq_uuid req) w1 of
                      (Inl e, w2) \<Rightarrow> refuse 403 ''NO_WORKSPACE_MEMBERSHIP'' w2
                    | (Inr _, w2) \<Rightarrow>
                        (case DevContainerExists K D (rq_uuid req) (pe_DEV_PLATFORM E) w2 of
                           (Inl e, w3) \<Rightarrow> refuse 400 ''UNKNOWN'' w3
                         | (Inr True, w3) \<Rightarrow> ((Wait_reply 200 False, None), w3)
                         | (Inr False, w3) \<Rightarrow>
                             ((Wait_reply 202 True, Some (Job_provision req userHeader False)), status ''Restoring your workspace'' w3)))
                 else
                   (case CheckEligibility A userHeader w1 of
                      (Inl e, w2) \<Rightarrow> refuse 400 ''UNKNOWN'' w2
                    | (Inr False, w2) \<Rightarrow> refuse 400 ''WORKSPACE_PROVISION_QUOTA_REACHED'' w2
                    | (Inr True, w2) \<Rightarrow>
                        (case (if rq_dedicated req then ConsumeAccessCode A (rq_accessCode req) userHeader w2 else (Inr (), w2)) of
                           (Inl e, w3) \<Rightarrow> refuse 400 ''ACCESS_CODE_USE_FAILED'' w3
                         | (Inr _, w3) \<Rightarrow> ((Wait_reply 202 True, Some (Job_provision req userHeader True)), w3)))))"

definition simple_handler :: "string \<Rightarrow> string \<Rightarrow> int \<Rightarrow> (string \<Rightarrow> prov_job) \<Rightarrow> string \<Rightarrow> string \<Rightarrow> prov_reply \<times> prov_job option" where
  "simple_handler allowed invalid ok job meth uuid =
     (if meth \<noteq> allowed then (Api_error 405 invalid, None)
      else if uuid = [] then (Api_error 400 invalid, None)
      else (Status_reply ok, Some (job uuid)))"

definition DisposeHandler :: "string \<Rightarrow> string \<Rightarrow> prov_reply \<times> prov_job option" where
  "DisposeHandler = simple_handler ''POST'' ''WORKSPACE_DISPOSE_INVALID_REQUEST'' 200 Job_dispose"

definition DeleteHandler :: "string \<Rightarrow> string \<Rightarrow> prov_reply \<times> prov_job option" where
  "DeleteHandler = simple_handler ''DELETE'' ''WORKSPACE_DELETE_INVALID_REQUEST'' 202 Job_delete"

text \<open>The goroutines of the handlers. The error of a job is only logged.\<close>

definition run_job ::
  "prov_env \<Rightarrow> ws_api \<Rightarrow> 'k kube \<Rightarrow> 'd docker \<Rightarrow> outcome \<Rightarrow> prov_job \<Rightarrow> ('k, 'd, 'a) pv_scheme \<Rightarrow> ('k, 'd, 'a) pv_scheme" where
  "run_job E A K D oc job w =
     (case job of
        Job_provision req userHeader isNew \<Rightarrow>
          (case provision E A K D oc req userHeader isNew w of
             (Inl (Go_panic _), w1) \<Rightarrow> w1
           | (Inl e, w1) \<Rightarrow> if isNew \<and> rq_dedicated req then snd (ResetAccessCode A (rq_accessCode req) userHeader w1) else w1
           | (Inr _, w1) \<Rightarrow> if isNew \<and> rq_dedicated req then snd (DeleteAccessCode A (rq_accessCode req) userHeader w1) else w1)
      | Job_dispose uuid \<Rightarrow> snd (DisposeDevContainer A K D uuid (pe_DEV_PLATFORM E) w)
      | Job_delete uuid \<Rightarrow> snd (DeleteDevContainer E A K D uuid (pe_DEV_PLATFORM E) w))"

section \<open>Examples\<close>

text \<open>A configuration without variables, a workspace service that answers every request but the first with one status, a Docker
  that is not used, and a request.\<close>

definition env_example :: prov_env where
  "env_example = \<lparr>pe_DEV_PLATFORM = [], pe_IDLE_THRESHOLD_CPU = [], pe_WORKSPACE_CPU_REQUEST = [],
     pe_PREEMPT_SPOT_OLDER_THAN_HOURS = [], pe_DEDICATED_LEASE_EXPIRY_DAYS = [], pe_NO_JOB_DELETE = False, pe_DEV_FS_SOURCE = None\<rparr>"

definition api_example :: "int \<Rightarrow> ws_api" where
  "api_example status = \<lparr>wa_eligibility = \<lambda>h. Inr 200, wa_membership = \<lambda>h u. Inr status,
     wa_consume = \<lambda>h c. Inr (status, Some ''ACCESS_CODE_INVALID''), wa_reset = \<lambda>h c. Inr (status, None),
     wa_delete = \<lambda>h c. Inr (status, None), wa_create = \<lambda>h r u. Inr (status, Body_error ''UNKNOWN''),
     wa_status = \<lambda>u s. Inr 200\<rparr>"

definition docker_example :: "unit docker" where
  "docker_example = \<lparr>dk_client = \<lambda>d. None, dk_containers = \<lambda>d. Inr [], dk_create = \<lambda>n y d. (Inl Api_not_found, d),
     dk_start = \<lambda>n d. (None, d), dk_remove = \<lambda>n d. (None, d), dk_volumes = \<lambda>n d. Inr 0,
     dk_inspect = \<lambda>n d. Some Api_not_found, dk_volumeCreate = \<lambda>n d. (None, d), dk_volumeRemove = \<lambda>n d. (None, d)\<rparr>"

definition req_example :: "string \<Rightarrow> bool \<Rightarrow> ProvisionRequest" where
  "req_example uuid dedicated = \<lparr>rq_uid = ''ann'', rq_sessionId = ''s1'', rq_image = ''node-dev'', rq_name = ''app'',
     rq_description = [], rq_uuid = uuid, rq_dedicated = dedicated, rq_accessCode = ''none''\<rparr>"

definition outcome_example :: outcome where
  "outcome_example = \<lparr>oc_keygen = Inr (''private'', ''public''), oc_ready = \<lambda>u t. (True, 10)\<rparr>"

section \<open>Preempted workspaces\<close>

text \<open>A workspace whose pod was preempted keeps its service; what the provisioner does with the workspace afterwards.\<close>

lemma stranded_kill:
  assumes L: "kube_laws K objs" and s: "stranded objs u w"
  shows "stranded objs u (snd (KillK8sPod K d n w))"
  using s by (simp add: KillK8sPod_def kube_laws_client [OF L] stranded_delete [OF L])

lemma stranded_ready [simp]: "stranded objs u (snd (waitOnDevContainerReady ready req v t w)) = stranded objs u w"
  by (simp add: waitOnDevContainerReady_def Let_def split: prod.split)

lemma stranded_status [simp]: "stranded objs u (snd (UpdateWorkspaceStatus A v st w)) = stranded objs u w"
  by (simp add: UpdateWorkspaceStatus_def Let_def split: sum.split)

lemma stranded_codes [simp]:
  "stranded objs u (snd (ResetAccessCode A c h w)) = stranded objs u w"
  "stranded objs u (snd (DeleteAccessCode A c h w)) = stranded objs u w"
  by (simp_all add: ResetAccessCode_def DeleteAccessCode_def)

lemma stranded_volumes:
  assumes L: "kube_laws K objs"
  shows "stranded objs u (snd (VolumeExists K D v [] w)) = stranded objs u w"
  by (simp add: VolumeExists_def K8sVolumeExists_def kube_laws_client [OF L])

lemma stranded_pod:
  assumes L: "kube_laws K objs" and s: "stranded objs u w"
  shows "stranded objs u (snd (CreateK8sPod E K keygen req False w))"
    and "rq_uuid req = u \<Longrightarrow> \<exists>e. fst (CreateK8sPod E K keygen req False w) = Inl e"
proof -
  obtain x w' where d: "deploy E K req (rq_uuid req) [] w = (x, w')" by fastforce
  have "stranded objs u w' \<and> (rq_uuid req = u \<longrightarrow> (\<exists>e. x = Inl e))"
    using stranded_deploy_same [OF L s, of E req "[]"] stranded_deploy_other [OF L s, of "rq_uuid req" E req "[]"] d
    by (cases "rq_uuid req = u") auto
  with s d show "stranded objs u (snd (CreateK8sPod E K keygen req False w))"
    and "rq_uuid req = u \<Longrightarrow> \<exists>e. fst (CreateK8sPod E K keygen req False w) = Inl e"
    by (cases x; auto simp: CreateK8sPod_def kube_laws_client [OF L])+
qed

lemma stranded_dev:
  assumes L: "kube_laws K objs" and s: "stranded objs u w" and "pe_DEV_PLATFORM E = []"
  shows "stranded objs u (snd (CreateDevContainer E K D keygen req False w))"
    and "rq_uuid req = u \<Longrightarrow> \<exists>e. fst (CreateDevContainer E K D keygen req False w) = Inl e"
proof -
  obtain x w' where v: "VolumeExists K D (rq_uuid req) []
      (SendStatus (rq_uid req) (rq_sessionId req) ''1/6:Restoring your data'' w) = (x, w')" by fastforce
  then have s': "stranded objs u w'" using s stranded_volumes [OF L, of u D "rq_uuid req"] by (metis snd_conv stranded_frame(1))
  note p = stranded_pod [OF L s', where E = E and keygen = keygen and req = req]
  show "stranded objs u (snd (CreateDevContainer E K D keygen req False w))"
    and "rq_uuid req = u \<Longrightarrow> \<exists>e. fst (CreateDevContainer E K D keygen req False w) = Inl e"
    using v p s' assms(3) by (cases x; simp add: CreateDevContainer_def Let_def)+
qed

lemma stranded_create_pod:
  assumes L: "kube_laws K objs" and s: "stranded objs u w" and e: "pe_DEV_PLATFORM E = []"
  shows "stranded objs u (snd (create_pod E K D oc req False w))"
    and "rq_uuid req = u \<Longrightarrow> \<exists>e. fst (create_pod E K D oc req False w) = Inl e"
proof -
  obtain x w1 where d: "CreateDevContainer E K D (oc_keygen oc) req False w = (x, w1)" by fastforce
  note s1 = stranded_dev [OF L s e, where D = D and keygen = "oc_keygen oc" and req = req, unfolded d, simplified]
  show "rq_uuid req = u \<Longrightarrow> \<exists>e. fst (create_pod E K D oc req False w) = Inl e"
    using d s1(2) by (cases x) (auto simp: create_pod_def Let_def split: goerr.split)
  show "stranded objs u (snd (create_pod E K D oc req False w))"
  proof (cases x)
    case (Inl y)
    with d s1(1) show ?thesis by (cases y) (simp_all add: create_pod_def Let_def)
  next
    case (Inr r)
    obtain y w2 where wt: "WaitOnDevContainerScheduled K (snd r) w1 = (y, w2)" by fastforce
    then have "stranded objs u w2" using stranded_scheduled [OF L s1(1), of "snd r"] by simp
    with wt d Inr e show ?thesis by (cases r; cases y) (simp_all add: create_pod_def Let_def split: goerr.split)
  qed
qed

lemma stranded_provision_pod:
  assumes L: "kube_laws K objs" and s: "stranded objs u w" and e: "pe_DEV_PLATFORM E = []"
  shows "stranded objs u (snd (provision_pod E K D oc req False w))"
    and "rq_uuid req = u \<Longrightarrow> \<exists>e. fst (provision_pod E K D oc req False w) = Inl e"
proof -
  have "stranded objs u (snd (provision_pod E K D oc req False w)) \<and>
    (rq_uuid req = u \<longrightarrow> (\<exists>e. fst (provision_pod E K D oc req False w) = Inl e))"
  proof (cases "hasCapacity E K (rq_dedicated req) w")
    case (Inl x)
    with s show ?thesis by (cases x) (simp_all add: provision_pod_def Let_def)
  next
    case (Inr r)
    obtain x w1 where k: "KillK8sPod K [] (snd r) w = (x, w1)" by fastforce
    then have s1: "stranded objs u w1" using stranded_kill [OF L s, of "[]" "snd r"] by simp
    show ?thesis
      using Inr k s s1 e stranded_create_pod [OF L s e, where D = D and oc = oc and req = req]
        stranded_create_pod [OF L s1 e, where D = D and oc = oc and req = req]
      by (cases r; cases x) (simp_all add: provision_pod_def Let_def)
  qed
  then show "stranded objs u (snd (provision_pod E K D oc req False w))"
    and "rq_uuid req = u \<Longrightarrow> \<exists>e. fst (provision_pod E K D oc req False w) = Inl e" by auto
qed

lemma stranded_provision:
  assumes L: "kube_laws K objs" and s: "stranded objs u w" and e: "pe_DEV_PLATFORM E = []"
  shows "stranded objs u (snd (provision E A K D oc req h False w))"
    and "rq_uuid req = u \<Longrightarrow> \<exists>e. fst (provision E A K D oc req h False w) = Inl e"
proof -
  obtain x w1 where p: "provision_pod E K D oc req False w = (x, w1)" by fastforce
  note q = stranded_provision_pod [OF L s e, where D = D and oc = oc and req = req, unfolded p, simplified]
  show "rq_uuid req = u \<Longrightarrow> \<exists>e. fst (provision E A K D oc req h False w) = Inl e"
    using p q(2) by (auto simp: provision_def)
  show "stranded objs u (snd (provision E A K D oc req h False w))"
  proof (cases x)
    case (Inr r)
    obtain y w2 where w2: "waitOnDevContainerReady (oc_ready oc) req (snd r) 90000 w1 = (y, w2)" by fastforce
    then have "stranded objs u w2" using q(1) stranded_ready by (metis snd_conv)
    with w2 Inr p show ?thesis by (cases y) (simp_all add: provision_def split_beta)
  qed (use p q(1) in \<open>simp add: provision_def\<close>)
qed

lemma stranded_dispose_dev:
  assumes L: "kube_laws K objs" and s: "stranded objs u w"
  shows "stranded objs u (snd (DisposeDevContainer A K D v [] w))"
proof -
  obtain x w1 where a: "UpdateWorkspaceStatus A v ''DEPROVISIONING'' w = (x, w1)" by fastforce
  then have s1: "stranded objs u w1" using s stranded_status by (metis snd_conv)
  obtain y w2 where d: "DisposeK8sPod K v w1 = (y, w2)" by fastforce
  then have s2: "stranded objs u w2" using stranded_dispose [OF L s1, of v] by simp
  show ?thesis using a d s1 s2 by (cases x; cases y) (simp_all add: DisposeDevContainer_def)
qed

lemma stranded_delete_pod:
  assumes L: "kube_laws K objs" and s: "stranded objs u w"
  shows "stranded objs u (snd (DeleteK8sPod E K v w))"
  using s
  by (simp add: DeleteK8sPod_def kube_laws_client [OF L] Let_def DeleteWorkspaceCRD_def stranded_and_then stranded_dispose [OF L]
      stranded_deletes [OF L] stranded_create [OF L] stranded_job [OF L] stranded_delete [OF L])

lemma stranded_delete_dev:
  assumes L: "kube_laws K objs" and s: "stranded objs u w"
  shows "stranded objs u (snd (DeleteDevContainer E A K D v [] w))"
proof -
  obtain x w1 where a: "UpdateWorkspaceStatus A v ''DELETING'' w = (x, w1)" by fastforce
  then have s1: "stranded objs u w1" using s stranded_status by (metis snd_conv)
  then show ?thesis
    using a by (cases x) (simp_all add: DeleteDevContainer_def Let_def stranded_delete_pod [OF L] stranded_dispose_dev [OF L])
qed

text \<open>The jobs that are not about a new workspace.\<close>

fun old_job :: "prov_job \<Rightarrow> bool" where
  "old_job (Job_provision req h isNew) = (\<not> isNew)"
| "old_job (Job_dispose u) = True"
| "old_job (Job_delete u) = True"

lemma stranded_run_job:
  assumes L: "kube_laws K objs" and s: "stranded objs u w" and e: "pe_DEV_PLATFORM E = []" and "old_job job"
  shows "stranded objs u (run_job E A K D oc job w)"
proof (cases job)
  case (Job_provision req h isNew)
  obtain x w' where p: "provision E A K D oc req h False w = (x, w')" by fastforce
  then have "stranded objs u w'" using stranded_provision(1) [OF L s e, of A D oc req h] by simp
  with p Job_provision \<open>old_job job\<close> show ?thesis by (cases x) (simp_all add: run_job_def split: goerr.split)
qed (simp_all add: run_job_def e stranded_dispose_dev [OF L s] stranded_delete_dev [OF L s])

lemma stranded_run_jobs:
  assumes L: "kube_laws K objs" and e: "pe_DEV_PLATFORM E = []"
  shows "stranded objs u w \<Longrightarrow> list_all (old_job \<circ> snd) jobs \<Longrightarrow>
    stranded objs u (fold (\<lambda>(oc, job). run_job E A K D oc job) jobs w)"
  by (induction jobs arbitrary: w) (auto simp: stranded_run_job [OF L _ e])

text \<open>C34. Preemption loses a workspace: \<^verbatim>\<open>KillK8sPod\<close> leaves the service of the pod behind, and disposing and deleting look at the
  pod first. So once the pod of a workspace is preempted, whatever existing workspaces are restored, disposed and deleted
  afterwards, this one included, its pod never comes back and every attempt to restore it fails.\<close>

theorem preempted_workspace_stuck:
  assumes "kube_laws K objs" "pe_DEV_PLATFORM E = []" "(Services, pod_name u) \<in> objs (pv_kube w)"
    and "list_all (old_job \<circ> snd) jobs" "rq_uuid req = u"
    and "w' = fold (\<lambda>(oc, job). run_job E A K D oc job) jobs (snd (KillK8sPod K [] (pod_name u) w))"
  shows "(Pods, pod_name u) \<notin> objs (pv_kube w') \<and> (\<exists>e. fst (provision E A K D oc req h False w') = Inl e)"
proof -
  have "stranded objs u (snd (KillK8sPod K [] (pod_name u) w))"
    using assms(3) by (simp add: KillK8sPod_def kube_laws_client [OF assms(1)] kube_laws_delete [OF assms(1)] stranded_def)
  then have "stranded objs u w'" using stranded_run_jobs [OF assms(1,2)] assms(4,6) by blast
  with stranded_provision(2) [OF assms(1) this assms(2,5)] show ?thesis by (auto simp: stranded_def)
qed

theorem preempted_workspace_stuck_witness:
  "\<exists>e. fst (provision env_example (api_example 200) (store_kube 50) docker_example outcome_example (req_example ''u1'' False) ''h'' False
     (fold (\<lambda>(oc, job). run_job env_example (api_example 200) (store_kube 50) docker_example oc job)
       [(outcome_example, Job_dispose ''u1''), (outcome_example, Job_provision (req_example ''u1'' False) ''h'' False)]
       (snd (KillK8sPod (store_kube 50) [] (pod_name ''u1'') (pv_example [(Pods, pod_name ''u1''), (Services, pod_name ''u1'')]))))) = Inl e"
  using preempted_workspace_stuck [where K = "store_kube 50" and objs = set and E = env_example and u = "''u1''"
      and w = "pv_example [(Pods, pod_name ''u1''), (Services, pod_name ''u1'')]" and A = "api_example 200" and D = docker_example
      and oc = outcome_example and req = "req_example ''u1'' False" and h = "''h''"
      and jobs = "[(outcome_example, Job_dispose ''u1''), (outcome_example, Job_provision (req_example ''u1'' False) ''h'' False)]",
      OF store_kube_laws _ _ _ _ refl]
  by (simp add: env_example_def pv_example_def req_example_def)

section \<open>The capacity decision\<close>

lemma oldest_spec:
  "case oldest pods of
     None \<Rightarrow> \<forall>q \<in> set pods. kp_phase q \<noteq> ''Running''
   | Some p \<Rightarrow> p \<in> set pods \<and> kp_phase p = ''Running'' \<and>
       (\<forall>q \<in> set pods. kp_phase q = ''Running'' \<longrightarrow> kp_created p \<le> kp_created q)"
  by (induction pods rule: rev_induct) (auto simp: oldest_def split: option.splits)

text \<open>The configuration of the capacity check and what the cluster answers.\<close>

record capacity_view =
  cv_allocatable :: int
  cv_idle :: int
  cv_cpu :: int
  cv_hours :: int
  cv_pods :: "kpod list"
  cv_spots :: "kpod list"

definition views :: "prov_env \<Rightarrow> 'k kube \<Rightarrow> 'k \<Rightarrow> capacity_view \<Rightarrow> bool" where
  "views E K k v \<longleftrightarrow> pe_DEV_PLATFORM E \<noteq> ''docker'' \<and> kb_client K k = None \<and>
     (\<exists>ns. kb_nodes K k = Inr (cv_allocatable v # ns)) \<and>
     parseInt 64 (or_default (pe_IDLE_THRESHOLD_CPU E) ''350'') = Some (cv_idle v) \<and>
     parseInt 64 (or_default (pe_WORKSPACE_CPU_REQUEST E) ''350'') = Some (cv_cpu v) \<and>
     parseInt 64 (or_default (pe_PREEMPT_SPOT_OLDER_THAN_HOURS E) ''12'') = Some (cv_hours v) \<and>
     kb_pods K None k = Inr (cv_pods v) \<and> kb_pods K (Some (''wstype'', ''spot'')) k = Inr (cv_spots v) \<and>
     (\<forall>p \<in> set (cv_spots v). kp_name p \<noteq> [])"

text \<open>No overflow: the cpu values and the hours are those of a real cluster.\<close>

definition moderate :: "capacity_view \<Rightarrow> bool" where
  "moderate v \<longleftrightarrow> \<bar>requested_cpu (cv_pods v) + cv_cpu v\<bar> < 2 ^ 63 \<and> \<bar>cv_allocatable v - cv_idle v\<bar> < 2 ^ 63 \<and>
     \<bar>cv_hours v\<bar> \<le> 2562047"

lemma hasCapacity_value:
  assumes "views E K (pv_kube w) v" "moderate v"
  shows "hasCapacity E K dedicated w =
    (let fits = requested_cpu (cv_pods v) + cv_cpu v < cv_allocatable v - cv_idle v
     in Inr (fits, if fits then [] else case oldest (cv_spots v) of None \<Rightarrow> []
          | Some p \<Rightarrow> if dedicated \<or> kp_created p < clock w - cv_hours v * 3600000 then kp_name p else []))"
proof -
  have i: "int64 (requested_cpu (cv_pods v) + cv_cpu v) = requested_cpu (cv_pods v) + cv_cpu v"
    "int64 (cv_allocatable v - cv_idle v) = cv_allocatable v - cv_idle v"
    "int64 (- cv_hours v * 3600000000000) = - cv_hours v * 3600000000000"
    using assms(2) by (auto simp: moderate_def abs_less_iff intro!: int64_id)
  have o: "kp_created p * 1000000 < clock w * 1000000 + - cv_hours v * 3600000000000 \<longleftrightarrow>
      kp_created p < clock w - cv_hours v * 3600000" for p by linarith
  show ?thesis
    using assms(1)
    by (auto simp only: views_def hasCapacity_def Let_def i o list.case option.case sum.case split: option.split; simp)
qed

text \<open>C14. The capacity decision: there is room exactly when the requests of the running pods and the new one stay below what is
  allocatable minus the reserve. Otherwise the pod to preempt is a running spot pod that is older than, or as old as, any other, and
  for a spot request older than the configured hours; and none is named only if there is no such pod.\<close>

theorem capacity_decision:
  assumes "views E K (pv_kube w) v" "moderate v"
  shows "\<exists>room n. hasCapacity E K dedicated w = Inr (room, n) \<and>
    (room \<longleftrightarrow> requested_cpu (cv_pods v) + cv_cpu v < cv_allocatable v - cv_idle v) \<and> (room \<longrightarrow> n = []) \<and>
    (let preemptible = (\<lambda>p. p \<in> set (cv_spots v) \<and> kp_phase p = ''Running'' \<and>
           (dedicated \<or> kp_created p < clock w - cv_hours v * 3600000))
     in (n \<noteq> [] \<longrightarrow> (\<exists>p. preemptible p \<and> kp_name p = n \<and> (\<forall>q. preemptible q \<longrightarrow> kp_created p \<le> kp_created q))) \<and>
        (\<not> room \<and> n = [] \<longrightarrow> (\<forall>p. \<not> preemptible p)))"
proof -
  let ?fits = "requested_cpu (cv_pods v) + cv_cpu v < cv_allocatable v - cv_idle v"
  let ?old = "\<lambda>p. dedicated \<or> kp_created p < clock w - cv_hours v * 3600000"
  note h = hasCapacity_value [OF assms, of dedicated, unfolded Let_def]
  from assms(1) have n: "\<forall>p \<in> set (cv_spots v). kp_name p \<noteq> []" by (simp add: views_def)
  show ?thesis
  proof (cases "oldest (cv_spots v)")
    case None
    with h oldest_spec [of "cv_spots v"] show ?thesis by auto
  next
    case (Some p)
    have p: "p \<in> set (cv_spots v)" "kp_phase p = ''Running''"
      "\<And>q. q \<in> set (cv_spots v) \<Longrightarrow> kp_phase q = ''Running'' \<Longrightarrow> kp_created p \<le> kp_created q"
      using oldest_spec [of "cv_spots v"] Some by auto
    from p(1) n have m: "kp_name p \<noteq> []" by blast
    consider ?fits | "\<not> ?fits" "?old p" | "\<not> ?fits" "\<not> ?old p" by blast
    then show ?thesis
    proof cases
      case 2
      with h Some have "hasCapacity E K dedicated w = Inr (False, kp_name p)" by simp
      moreover have "\<exists>p'. (p' \<in> set (cv_spots v) \<and> kp_phase p' = ''Running'' \<and> ?old p') \<and> kp_name p' = kp_name p \<and>
          (\<forall>q. q \<in> set (cv_spots v) \<and> kp_phase q = ''Running'' \<and> ?old q \<longrightarrow> kp_created p' \<le> kp_created q)"
        using p 2(2) by blast
      ultimately show ?thesis
        using 2(1) m by (intro exI [of _ False] exI [of _ "kp_name p"]) (simp add: Let_def)
    next
      case 3
      with h Some have "hasCapacity E K dedicated w = Inr (False, [])" by simp
      moreover have "\<not> (q \<in> set (cv_spots v) \<and> kp_phase q = ''Running'' \<and> ?old q)" for q
        using p(3) [of q] 3(2) by auto
      ultimately show ?thesis
        using 3(1) by (intro exI [of _ False] exI [of _ "[]"]) (simp add: Let_def)
    qed (use h in auto)
  qed
qed

text \<open>A cluster without room, in which the second of two spot pods is the older one.\<close>

definition full_kube :: "unit kube" where
  "full_kube =
     (let pod = (\<lambda>n t. \<lparr>kp_name = n, kp_phase = ''Running'', kp_created = t, kp_cpu = [Some 400]\<rparr>);
          pods = [pod ''workspace-b'' 7200000, pod ''workspace-a'' 3600000]
      in \<lparr>kb_client = \<lambda>k. None, kb_get = \<lambda>r n k. None, kb_create = \<lambda>r n y k. (None, k), kb_delete = \<lambda>r n opts k. (None, k),
          kb_nodes = \<lambda>k. Inr [1000], kb_pods = \<lambda>sel k. Inr pods,
          kb_watchJob = \<lambda>n k. (Inr [], k), kb_watchPod = \<lambda>n k. (Inr [], k), kb_lease = \<lambda>n k. Inl Api_not_found,
          kb_labels = \<lambda>n k. Inl Api_not_found, kb_patch = \<lambda>n l k. (None, k)\<rparr>)"

definition full_view :: capacity_view where
  "full_view = (case kb_pods full_kube None () of
     Inl e \<Rightarrow> \<lparr>cv_allocatable = 0, cv_idle = 0, cv_cpu = 0, cv_hours = 0, cv_pods = [], cv_spots = []\<rparr>
   | Inr pods \<Rightarrow> \<lparr>cv_allocatable = 1000, cv_idle = 350, cv_cpu = 350, cv_hours = 12, cv_pods = pods, cv_spots = pods\<rparr>)"

lemma full_view_ok: "views env_example full_kube () full_view" "moderate full_view"
proof -
  have "parseInt 64 (or_default [] ''350'') = Some 350" "parseInt 64 (or_default [] ''12'') = Some 12" by code_simp+
  then show "views env_example full_kube () full_view"
    by (simp add: views_def env_example_def full_kube_def full_view_def Let_def)
  show "moderate full_view" by (simp add: moderate_def full_view_def full_kube_def Let_def requested_cpu_def)
qed

theorem capacity_decision_witness:
  "\<exists>n. hasCapacity env_example full_kube True (pv_example ()) = Inr (False, n) \<and> n \<noteq> []"
proof -
  have "kp_phase p = ''Running''" if "p \<in> set (cv_spots full_view)" for p
    using that by (auto simp: full_view_def full_kube_def Let_def)
  moreover have "set (cv_spots full_view) \<noteq> {}" by (simp add: full_view_def full_kube_def Let_def)
  moreover have "\<not> requested_cpu (cv_pods full_view) + cv_cpu full_view < cv_allocatable full_view - cv_idle full_view"
    by (simp add: full_view_def full_kube_def Let_def requested_cpu_def)
  moreover have "views env_example full_kube (pv_kube (pv_example ())) full_view" using full_view_ok(1) by (simp add: pv_example_def)
  ultimately show ?thesis
    using capacity_decision [of env_example full_kube "pv_example ()" full_view True] full_view_ok(2) by (auto simp: Let_def)
qed

section \<open>Requests\<close>

text \<open>A request that is complete: an image of the templates, and a user.\<close>

definition well_formed :: "ProvisionRequest \<Rightarrow> string \<Rightarrow> 'a net_scheme \<Rightarrow> bool" where
  "well_formed req userHeader w \<longleftrightarrow> rq_image req \<noteq> [] \<and> userHeader \<noteq> [] \<and>
     (\<exists>ts. GetTemplates w = Inr ts \<and> trimSuffix '':dev'' (rq_image req) \<in> ts)"

lemma GetTemplates_status [simp]: "GetTemplates (SendStatus u s m w) = GetTemplates w"
  by (simp add: GetTemplates_def SendStatus_def cache_simps)

lemma GetTemplates_emit [simp]: "GetTemplates (emit w es) = GetTemplates w"
  by (simp add: GetTemplates_def cache_simps)

lemma cache_get_kube [simp]: "cache_get (w\<lparr>pv_kube := k\<rparr>) = cache_get w"
  by (rule cache_get_cong) simp_all

lemma GetTemplates_kube [simp]: "GetTemplates (w\<lparr>pv_kube := k\<rparr>) = GetTemplates w"
  by (simp add: GetTemplates_def)

lemma GetTemplates_delete [simp]: "GetTemplates (snd (k_delete K r n opts w)) = GetTemplates w"
  by (simp add: k_delete_def split: prod.split option.split)

lemma GetTemplates_update [simp]: "GetTemplates (snd (UpdateWorkspaceStatus A u st w)) = GetTemplates w"
  by (simp add: UpdateWorkspaceStatus_def Let_def split: sum.split)

lemma kube_update [simp]: "pv_kube (snd (UpdateWorkspaceStatus A u st w)) = pv_kube w"
  by (simp add: UpdateWorkspaceStatus_def Let_def split: sum.split)

lemma code_reply_status [simp]: "code_reply (Inr (status, m)) = Inr ()"
  by (simp add: code_reply_def)

lemma DevContainerExists_pod:
  assumes "kube_laws K objs"
  shows "DevContainerExists K D u [] w = (Inr ((Pods, pod_name u) \<in> objs (pv_kube w)), w)"
  by (simp add: DevContainerExists_def K8sPodExists_def kube_laws_client [OF assms] kube_laws_exists [OF assms])

lemma restore_accepted:
  assumes L: "kube_laws K objs" and "pe_DEV_PLATFORM E = []" "well_formed req h w" "rq_uuid req \<noteq> []"
    and "wa_membership A h (rq_uuid req) = Inr status"
  shows "ProvisionHandler E A K D ''POST'' (Some req) h w =
    (let w' = emit w [Ws_call (Call_membership h (rq_uuid req))]
     in if (Pods, pod_name (rq_uuid req)) \<in> objs (pv_kube w) then ((Wait_reply 200 False, None), w')
        else ((Wait_reply 202 True, Some (Job_provision req h False)),
              SendStatus (rq_uid req) (rq_sessionId req) ''Restoring your workspace'' w'))"
  using assms(2-)
  by (auto simp: ProvisionHandler_def Let_def well_formed_def CheckWorkspaceMembership_def DevContainerExists_pod [OF L])

text \<open>C35. Refusals of the workspace service are ignored: whatever status it answers, a restore of a workspace whose pod is gone is accepted
  without a membership, and a dedicated workspace is provisioned for any access code, because the status of the one request is not
  looked at and the test of the other, below 200 and above 299, is never true.\<close>

theorem refusals_ignored:
  assumes "well_formed req h w" "kube_laws K objs" "pe_DEV_PLATFORM E = []"
    and "wa_membership A h (rq_uuid req) = Inr refused" "wa_consume A h (rq_accessCode req) = Inr (refused, message)"
    and "wa_eligibility A h = Inr 200"
  shows "(rq_uuid req \<noteq> [] \<and> (Pods, pod_name (rq_uuid req)) \<notin> objs (pv_kube w) \<longrightarrow>
      fst (ProvisionHandler E A K D ''POST'' (Some req) h w) = (Wait_reply 202 True, Some (Job_provision req h False))) \<and>
    (rq_uuid req = [] \<and> rq_dedicated req \<longrightarrow>
      fst (ProvisionHandler E A K D ''POST'' (Some req) h w) = (Wait_reply 202 True, Some (Job_provision req h True)))"
  using restore_accepted [OF assms(2,3,1) _ assms(4), of D] assms(1,5,6)
  by (auto simp: ProvisionHandler_def Let_def well_formed_def CheckEligibility_def ConsumeAccessCode_def)

lemma well_formed_example: "h \<noteq> [] \<Longrightarrow> well_formed (req_example u d) h (pv_example k)"
  by (simp add: well_formed_def req_example_def GetTemplates_def pv_example_def cache_get_def alive_def trimSuffix_def suffix_def)

theorem refusals_ignored_witness:
  "fst (ProvisionHandler env_example (api_example 403) (store_kube 50) docker_example ''POST'' (Some (req_example ''u1'' False)) ''h''
     (pv_example [])) = (Wait_reply 202 True, Some (Job_provision (req_example ''u1'' False) ''h'' False))"
  using refusals_ignored [where req = "req_example ''u1'' False" and h = "''h''" and w = "pv_example []" and K = "store_kube 50"
      and objs = set and E = env_example and A = "api_example 403" and refused = 403 and D = docker_example
      and message = "Some ''ACCESS_CODE_INVALID''", OF well_formed_example store_kube_laws]
  by (simp add: env_example_def api_example_def req_example_def pv_example_def)

text \<open>C36. A pod that is ending is taken for one that runs: \<^verbatim>\<open>DisposeK8sPod\<close> gives the pod twenty seconds and removes its service at
  once. A request to open the workspace in this time is answered that there is nothing to wait for, and nothing is started.\<close>

theorem ending_pod_taken_for_running:
  assumes "kube_laws K objs" "pe_DEV_PLATFORM E = []" "well_formed req h w" "rq_uuid req = u" "u \<noteq> []"
    and "wa_membership A h u = Inr 200" "wa_status A u ''DEPROVISIONING'' = Inr 200"
    and "{(Pods, pod_name u), (Services, pod_name u)} \<subseteq> objs (pv_kube w)"
    and "\<forall>k. objs (snd (kb_delete K Pods (pod_name u) \<lparr>do_grace = Some 20, do_propagation = Some ''Foreground''\<rparr> k)) = objs k"
    and "w' = run_job E A K D oc (Job_dispose u) w"
  shows "(Services, pod_name u) \<notin> objs (pv_kube w') \<and>
    fst (ProvisionHandler E A K D ''POST'' (Some req) h w') = (Wait_reply 200 False, None)"
proof -
  let ?o = "\<lparr>do_grace = Some 20, do_propagation = Some ''Foreground''\<rparr>"
  define w1 where "w1 = emit w [Ws_call (Call_status u ''DEPROVISIONING'')]"
  define w2 where "w2 = snd (k_delete K Pods (pod_name u) ?o w1)"
  define w3 where "w3 = snd (k_delete K Services (pod_name u) default_options w2)"
  have p: "(Pods, pod_name u) \<in> objs (pv_kube w1)" using assms(8) by (simp add: w1_def)
  then have "fst (k_delete K Pods (pod_name u) ?o w1) = Inr ()"
    by (simp add: kube_laws_delete_sub(3) [OF assms(1)] protected_def)
  then have d: "k_delete K Pods (pod_name u) ?o w1 = (Inr (), w2)" by (simp add: w2_def prod_eq_iff)
  have o2: "objs (pv_kube w2) = objs (pv_kube w)"
    using assms(9) by (simp add: w2_def kube_delete) (simp add: w1_def)
  have w': "w' = snd (UpdateWorkspaceStatus A u ''COLD'' w3)"
    using assms(7,10) p d
    by (simp add: run_job_def assms(2) DisposeDevContainer_def UpdateWorkspaceStatus_def [of A u "''DEPROVISIONING''"] w1_def [symmetric]
        Let_def DisposeK8sPod_def kube_laws_client [OF assms(1)] kube_laws_exists [OF assms(1)] w3_def)
  then have o3: "objs (pv_kube w') = objs (pv_kube w) - {(Services, pod_name u)}"
    by (simp add: w3_def kube_laws_delete [OF assms(1)] o2)
  have "well_formed req h w'" using assms(3) by (simp add: well_formed_def w' w3_def w2_def w1_def)
  from restore_accepted [OF assms(1,2) this, of A 200 D] assms(4,5,6,8) o3 show ?thesis by (simp add: Let_def)
qed

theorem ending_pod_taken_for_running_witness:
  "fst (ProvisionHandler env_example (api_example 200) (store_kube 50) docker_example ''POST'' (Some (req_example ''u1'' False)) ''h''
     (run_job env_example (api_example 200) (store_kube 50) docker_example outcome_example (Job_dispose ''u1'')
       (pv_example [(Pods, pod_name ''u1''), (Services, pod_name ''u1'')]))) = (Wait_reply 200 False, None)"
  using ending_pod_taken_for_running [where K = "store_kube 50" and objs = set and E = env_example and u = "''u1''" and h = "''h''"
      and w = "pv_example [(Pods, pod_name ''u1''), (Services, pod_name ''u1'')]" and A = "api_example 200" and D = docker_example
      and oc = outcome_example and req = "req_example ''u1'' False", OF store_kube_laws _ well_formed_example _ _ _ _ _ _ refl]
  by (simp add: env_example_def api_example_def req_example_def pv_example_def store_kube_def at_once_def)

text \<open>C37. A refused creation is reported as a success: when the pod of a new workspace is ready and the workspace service
  then refuses to record the workspace, the user is sent a success with an empty workspace, and the access code is deleted as if
  the workspace existed.\<close>

theorem refused_creation_reported:
  assumes "provision_pod E K D oc req True w = (Inr (key, u), w1)"
    and "fst (ready_loop (oc_ready oc u) (clock w1 + 90000) (clock w1))"
    and "wa_create A h req u = Inr (status, Body_error m)" "rq_dedicated req"
  shows "\<exists>es. out (run_job E A K D oc (Job_provision req h True) w) = es @
    [Socket_send None (rq_uid req) (rq_sessionId req) ''provision'' (Provision_success ''Pod created successfully'' key zero_workspace),
     Ws_call (Call_delete_code h (rq_accessCode req))]"
proof -
  obtain ok t where r: "ready_loop (oc_ready oc u) (clock w1 + 90000) (clock w1) = (ok, t)" by fastforce
  with assms show ?thesis
    by (auto simp: run_job_def provision_def waitOnDevContainerReady_def Let_def CreateWorkspace_def DeleteAccessCode_def
        SendSuccess_def emit_def)
qed

theorem refused_creation_reported_witness:
  "\<exists>es key. out (run_job env_example (api_example 400) (store_kube 50) docker_example outcome_example
     (Job_provision (req_example [] True) ''h'' True) (pv_example [])) = es @
    [Socket_send None ''ann'' ''s1'' ''provision'' (Provision_success ''Pod created successfully'' key zero_workspace),
     Ws_call (Call_delete_code ''h'' ''none'')]"
proof -
  let ?p = "provision_pod env_example (store_kube 50) docker_example outcome_example (req_example [] True) True (pv_example [])"
  have p: "fst ?p = Inr (''private'', ''u1'')" by code_simp
  have "fst (ready_loop (oc_ready outcome_example ''u1'') (clock (snd ?p) + 90000) (clock (snd ?p)))"
    by (subst ready_loop.simps) (simp add: outcome_example_def)
  with p refused_creation_reported [of env_example "store_kube 50" docker_example outcome_example "req_example [] True" "pv_example []"
      "''private''" "''u1''" "snd ?p" "api_example 400" "''h''" 400 "''UNKNOWN''"]
  show ?thesis by (auto simp: api_example_def req_example_def prod_eq_iff)
qed

end
