(* ===== verification/Lease_Controller.thy ===== *)
theory Lease_Controller
  imports Provision_Service
begin

text \<open>
  \<^verbatim>\<open>lease-controller\<close>: the reconciler of the resources that hold the leases of dedicated workspaces. It shares the cluster and
  the network with the provisioner. Times are milliseconds.
\<close>

section \<open>Reconciling\<close>

text \<open>\<^verbatim>\<open>ctrl.Result\<close>: after how long to come back; zero for not at all.\<close>

record ctrl_result =
  RequeueAfter :: int

definition notify :: "string \<Rightarrow> WorkspaceSpec \<Rightarrow> 'a net_scheme \<Rightarrow> 'a net_scheme" where
  "notify name spec w = emit w [Ws_call (Call_downgrade (ls_uid spec) (trimPrefix ''workspace-'' name))]"

definition label_spot :: "'k kube \<Rightarrow> string \<Rightarrow> ('k, 'd, 'a) pv_scheme \<Rightarrow> ('k, 'd, 'a) pv_scheme" where
  "label_spot K podName w = (case kb_labels K podName (pv_kube w) of
     Inl _ \<Rightarrow> w
   | Inr labels \<Rightarrow> w\<lparr>pv_kube := snd (kb_patch K podName (ob_set labels ''wstype'' ''spot'') (pv_kube w))\<rparr>)"

definition Reconcile :: "'k kube \<Rightarrow> string \<Rightarrow> ('k, 'd, 'a) pv_scheme \<Rightarrow> (goerr + ctrl_result) \<times> ('k, 'd, 'a) pv_scheme" where
  "Reconcile K name w = (case kb_lease K name (pv_kube w) of
     Inl e \<Rightarrow> (if e = Api_not_found then Inr \<lparr>RequeueAfter = 0\<rparr> else Inl e, w)
   | Inr spec \<Rightarrow>
       if ls_leaseExpiry spec < clock w
       then (Inr \<lparr>RequeueAfter = 0\<rparr>,
             snd (k_delete K WorkspaceCRDs name default_options (notify name spec (label_spot K (ls_podName spec) w))))
       else (Inr \<lparr>RequeueAfter = ls_leaseExpiry spec - clock w\<rparr>, w))"

section \<open>Following a lease\<close>

text \<open>The controller comes back after the time it asked for, \<open>d\<close> later than that, and otherwise only for an event.\<close>

definition next_reconcile :: "'k kube \<Rightarrow> string \<Rightarrow> int \<Rightarrow> ('k, 'd, 'a) pv_scheme \<Rightarrow> ('k, 'd, 'a) pv_scheme option" where
  "next_reconcile K name d w = (case Reconcile K name w of
     (Inr r, w') \<Rightarrow> if RequeueAfter r = 0 then None else Some (w'\<lparr>clock := clock w' + RequeueAfter r + d\<rparr>)
   | (Inl e, w') \<Rightarrow> None)"

text \<open>What the cluster keeps of leases and labels: a patch that is accepted is read back, one that is refused
  changes nothing, and patching leaves the objects alone.\<close>

definition label_laws :: "'k kube \<Rightarrow> ('k \<Rightarrow> (resource \<times> string) set) \<Rightarrow> bool" where
  "label_laws K objs \<longleftrightarrow>
     (\<forall>n k l l'. kb_labels K n k = Inr l \<longrightarrow>
        kb_labels K n (snd (kb_patch K n l' k)) = Inr (if fst (kb_patch K n l' k) = None then l' else l)) \<and>
     (\<forall>n l k. objs (snd (kb_patch K n l k)) = objs k) \<and>
     (\<forall>n k r m opts. r \<noteq> Pods \<longrightarrow> kb_labels K n (snd (kb_delete K r m opts k)) = kb_labels K n k)"

text \<open>The labels of the pod after that: those of a spot pod, unless the patch is refused.\<close>

definition spot_labels :: "'k kube \<Rightarrow> string \<Rightarrow> (string, string) obj \<Rightarrow> 'k \<Rightarrow> (string, string) obj" where
  "spot_labels K podName l k =
     (if fst (kb_patch K podName (ob_set l ''wstype'' ''spot'') k) = None then ob_set l ''wstype'' ''spot'' else l)"

lemma label_spot_label:
  assumes "label_laws K objs" "kb_labels K n (pv_kube w) = Inr l"
  shows "kb_labels K n (pv_kube (label_spot K n w)) = Inr (spot_labels K n l (pv_kube w))"
    and "objs (pv_kube (label_spot K n w)) = objs (pv_kube w)"
  using assms by (auto simp: label_laws_def label_spot_def spot_labels_def)

lemma out_delete: "out (snd (k_delete K r n opts w)) = out w"
  by (simp add: k_delete_def split: prod.split option.split)

lemma Reconcile_expired:
  assumes L: "kube_laws K objs" "label_laws K objs"
    and s: "kb_lease K (pod_name u) (pv_kube w) = Inr spec" "ls_leaseExpiry spec < clock w"
    and p: "kb_labels K (ls_podName spec) (pv_kube w) = Inr l"
    and r: "Reconcile K (pod_name u) w = (x, w')"
  shows "x = Inr \<lparr>RequeueAfter = 0\<rparr>" "out w' = out w @ [Ws_call (Call_downgrade (ls_uid spec) u)]"
    "objs (pv_kube w') = objs (pv_kube w) - {(WorkspaceCRDs, pod_name u)}"
    "kb_labels K (ls_podName spec) (pv_kube w') = Inr (spot_labels K (ls_podName spec) l (pv_kube w))"
proof -
  have w': "w' = snd (k_delete K WorkspaceCRDs (pod_name u) default_options (notify (pod_name u) spec (label_spot K (ls_podName spec) w)))"
    and "x = Inr \<lparr>RequeueAfter = 0\<rparr>" using s r by (auto simp: Reconcile_def)
  then show "x = Inr \<lparr>RequeueAfter = 0\<rparr>" by simp
  show "out w' = out w @ [Ws_call (Call_downgrade (ls_uid spec) u)]"
    by (simp add: w' out_delete notify_def emit_def label_spot_def pod_name_def p trimPrefix_append [of "''workspace-''", simplified])
  show "objs (pv_kube w') = objs (pv_kube w) - {(WorkspaceCRDs, pod_name u)}"
    by (simp add: w' kube_laws_delete [OF L(1)] notify_def label_spot_label(2) [OF L(2) p])
  show "kb_labels K (ls_podName spec) (pv_kube w') = Inr (spot_labels K (ls_podName spec) l (pv_kube w))"
    using L(2) label_spot_label(1) [OF L(2) p] by (simp add: w' kube_delete notify_def label_laws_def)
qed

text \<open>A lease that runs is left alone and looked at again when it expires. One that expires at the very moment it is looked at is left
  alone as well, and the controller does not ask to come back.\<close>

lemma lease_followed:
  assumes "kb_lease K name (pv_kube w) = Inr spec" "clock w < ls_leaseExpiry spec"
  shows "next_reconcile K name d w = Some (w\<lparr>clock := ls_leaseExpiry spec + d\<rparr>)" "snd (Reconcile K name w) = w"
  using assms by (simp_all add: next_reconcile_def Reconcile_def)

lemma lease_expiring_now:
  assumes "kb_lease K name (pv_kube w) = Inr spec" "ls_leaseExpiry spec = clock w"
  shows "next_reconcile K name d w = None \<and> snd (Reconcile K name w) = w"
  using assms by (simp add: next_reconcile_def Reconcile_def)

end
