(* ===== verification/Provision_Cache.thy ===== *)
theory Provision_Cache
  imports Provisioner Lease_Controller
begin

text \<open>
  The provisioner and the lease controller only read the cache they share with the other services.
\<close>

named_theorems still

lemma still_and_then:
  "cache (snd m) = c \<Longrightarrow> (\<And>x v. cache v = c \<Longrightarrow> cache (snd (f x v)) = c) \<Longrightarrow> cache (snd (and_then m f)) = c"
  by (cases m; cases "fst m") auto

lemma still_case:
  "cache (snd m) = c \<Longrightarrow> (\<And>x v. cache v = c \<Longrightarrow> cache (snd (f x v)) = c) \<Longrightarrow> cache (snd (case m of (x, v) \<Rightarrow> f x v)) = c"
  by (cases m) auto

lemmas still_rules = still_and_then still_case

lemma still_sends [still]:
  "cache (SendStatus u s m w) = cache w" "cache (SendError u s m w) = cache w" "cache (SendSuccess u s p d w) = cache w"
  "cache (emit w es) = cache w"
  by (simp_all add: SendStatus_def SendError_def SendSuccess_def emit_def)

lemma still_calls [still]:
  "cache (snd (k_create K r n y w)) = cache w" "cache (snd (k_delete K r n opts w)) = cache w"
  "cache (snd (k_client K w)) = cache w" "cache (snd (d_client D w)) = cache w" "cache (snd (d_do f w)) = cache w"
  "cache (snd (job_done K job w)) = cache w" "cache (snd (randomUUID w)) = cache w"
  by (simp_all add: k_create_def k_delete_def k_client_def d_client_def d_do_def job_done_def randomUUID_def
      split: prod.split option.split sum.split)

lemma still_api [still]:
  "cache (snd (UpdateWorkspaceStatus A u st w)) = cache w" "cache (snd (CheckEligibility A h w)) = cache w"
  "cache (snd (CreateWorkspace A req h u w)) = cache w" "cache (snd (CheckWorkspaceMembership A h u w)) = cache w"
  "cache (snd (ConsumeAccessCode A x h w)) = cache w" "cache (snd (ResetAccessCode A x h w)) = cache w"
  "cache (snd (DeleteAccessCode A x h w)) = cache w"
  by (simp_all add: UpdateWorkspaceStatus_def CheckEligibility_def CreateWorkspace_def CheckWorkspaceMembership_def
      ConsumeAccessCode_def ResetAccessCode_def DeleteAccessCode_def Let_def still split: sum.split)

lemma still_deletes [still]: "cache (deletes K rs w) = cache w"
  unfolding deletes_def by (induction rs arbitrary: w) (auto simp: still)

lemma still_volumes [still]:
  "cache (snd (PerpareK8sVolume K u w)) = cache w" "cache (snd (CreateK8sVolume K u w)) = cache w"
  "cache (snd (K8sVolumeExists K u w)) = cache w" "cache (snd (DockerVolumeExists D u w)) = cache w"
  "cache (snd (CreateDockerVolume D n w)) = cache w"
  unfolding PerpareK8sVolume_def CreateK8sVolume_def K8sVolumeExists_def DockerVolumeExists_def CreateDockerVolume_def Let_def
  by (auto simp: still intro!: still_rules split: sum.split)

lemma still_exist [still]:
  "cache (snd (VolumeExists K D u e w)) = cache w" "cache (snd (DockerContainerExists D n w)) = cache w"
  "cache (snd (K8sPodExists K n w)) = cache w"
  unfolding VolumeExists_def DockerContainerExists_def K8sPodExists_def
  by (auto simp: still intro!: still_rules)

lemma still_dev [still]: "cache (snd (DevContainerExists K D u e w)) = cache w"
  by (simp add: DevContainerExists_def still)

lemma still_pods [still]:
  "cache (snd (WaitOnDevContainerScheduled K u w)) = cache w" "cache (snd (CreateWorkspaceCRD E K u uid w)) = cache w"
  "cache (snd (DeleteWorkspaceCRD K u w)) = cache w" "cache (snd (KillK8sPod K e n w)) = cache w"
  unfolding WaitOnDevContainerScheduled_def CreateWorkspaceCRD_def DeleteWorkspaceCRD_def KillK8sPod_def
  by (auto simp: still intro!: still_rules split: sum.split prod.split)

lemma still_deploy [still]:
  "cache (snd (new_storage E K req u w)) = cache w" "cache (snd (deploy E K req u key w)) = cache w"
  unfolding new_storage_def deploy_def Let_def
  by (auto simp: still intro!: still_rules split: sum.split goerr.split)

lemma still_create [still]:
  "cache (snd (CreateK8sPod E K kg req isNew w)) = cache w" "cache (snd (CreateDockerContainer E D kg req isNew w)) = cache w"
  unfolding CreateK8sPod_def CreateDockerContainer_def Let_def
  by (auto simp: still randomUUID_def intro!: still_rules split: sum.split prod.split)

lemma still_container [still]: "cache (snd (CreateDevContainer E K D kg req isNew w)) = cache w"
  unfolding CreateDevContainer_def Let_def by (auto simp: still intro!: still_rules)

lemma still_dispose [still]:
  "cache (snd (DisposeDockerContainer D u w)) = cache w" "cache (snd (DisposeK8sPod K u w)) = cache w"
  "cache (snd (DeleteDockerContainer D u w)) = cache w"
  unfolding DisposeDockerContainer_def DisposeK8sPod_def DeleteDockerContainer_def
  by (auto simp: still intro!: still_rules split: sum.split bool.split)

lemma still_delete [still]: "cache (snd (DeleteK8sPod E K u w)) = cache w"
  unfolding DeleteK8sPod_def Let_def by (auto simp: still intro!: still_rules)

lemma still_disposal [still]: "cache (snd (DisposeDevContainer A K D u e w)) = cache w"
  unfolding DisposeDevContainer_def by (auto simp: still intro!: still_rules split: sum.split)

lemma still_deletion [still]: "cache (snd (DeleteDevContainer E A K D u e w)) = cache w"
  unfolding DeleteDevContainer_def Let_def by (auto simp: still intro!: still_rules split: sum.split)

lemma still_ready [still]: "cache (snd (waitOnDevContainerReady ready req u t w)) = cache w"
  by (auto simp: waitOnDevContainerReady_def Let_def still split: prod.split)

lemma still_pod [still]: "cache (snd (create_pod E K D oc req isNew w)) = cache w"
  unfolding create_pod_def Let_def
  by (auto simp: still intro!: still_rules split: sum.split goerr.split)

lemma still_provision_pod [still]: "cache (snd (provision_pod E K D oc req isNew w)) = cache w"
proof (cases "hasCapacity E K (rq_dedicated req) w")
  case (Inr x)
  then show ?thesis by (cases x) (auto simp: provision_pod_def Let_def still intro!: still_rules split: sum.split)
qed (simp add: provision_pod_def Let_def still split: goerr.split)

lemma still_provision [still]: "cache (snd (provision E A K D oc req h isNew w)) = cache w"
  unfolding provision_def Let_def
  by (auto simp: still intro!: still_rules split: sum.split)

lemma still_handler: "cache (snd (ProvisionHandler E A K D meth body h w)) = cache w"
  unfolding ProvisionHandler_def Let_def
  by (auto simp: still intro!: still_rules split: sum.split option.split bool.split)

lemma still_job: "cache (run_job E A K D oc job w) = cache w"
proof (cases job)
  case (Job_provision req h isNew)
  obtain r w1 where p: "provision E A K D oc req h isNew w = (r, w1)" by fastforce
  with still_provision [of E A K D oc req h isNew w] have "cache w1 = cache w" by simp
  with p show ?thesis by (simp add: run_job_def Job_provision still split: sum.split goerr.split)
qed (simp_all add: run_job_def still)

lemma still_reconcile: "cache (snd (Reconcile K name w)) = cache w"
  by (simp add: Reconcile_def notify_def label_spot_def still split: sum.split)

end
