(* ===== verification/Cache_Server.thy ===== *)
theory Cache_Server
  imports Cache_Types Notification_Service Auth_Service Provision_Cache
begin

text \<open>
  One cache behind all services. A step of the server is a handler of the gateway, of the workspace, user,
  environment, notification or auth service, of the public routes, of the provisioner or of the lease controller, run on the
  local state of its service and the shared cache; every reachable cache is well typed, so the unchecked casts of the
  services read what was written. The notification and auth services, the provisioner and the lease controller write none of
  these keys: the codes of the auth service are under keys of their own.
\<close>

section \<open>Workspace service\<close>

lemma typed_tables [simp]:
  "typed (w\<lparr>workspaces := a\<rparr>) = typed w" "typed (w\<lparr>memberships := b\<rparr>) = typed w" "typed (w\<lparr>codes := c\<rparr>) = typed w"
  "typed (w\<lparr>ws_seq := i\<rparr>) = typed w" "typed (w\<lparr>ac_seq := j\<rparr>) = typed w"
  by (simp_all add: typed_def)

lemma typed_drawn [simp]: "typed (snd (randomUUID w)) = typed w" "typed (snd (createMessage u r w)) = typed w"
  by (simp_all add: typed_def randomUUID_def createMessage_def Let_def)

lemma typed_statements [simp]:
  "typed (snd (insert_workspace d w)) = typed w" "typed (snd (save_workspace x w)) = typed w"
  "typed (snd (save_membership md w)) = typed w" "typed (delete_memberships p w) = typed w"
  "typed (snd (delete_workspace_row uuid w)) = typed w" "typed (snd (insert_code ad w)) = typed w"
  "typed (save_code r w) = typed w" "typed (delete_codes q w) = typed w" "typed (snd (markCodeAsUsed uid code w)) = typed w"
  by (simp_all add: insert_workspace_def save_workspace_def save_membership_def delete_memberships_def
      delete_workspace_row_def insert_code_def save_code_def delete_codes_def markCodeAsUsed_def Let_def split: option.split)

lemma typed_transaction: "typed (snd (in_transaction f w)) = typed (snd (f w))"
  by (simp add: in_transaction_def split: prod.split sum.split)

lemma typed_createWorkspace [typeds]: "typed w \<Longrightarrow> typed (snd (createWorkspace rpc uid d w))"
  by (simp add: createWorkspace_def create_tx_def typed_transaction split_def split: option.split sum.split)

lemma typed_invite [simp]:
  "typed (snd (inviteUser sign secret uid dto b w)) = typed w"
  "typed (snd (ignoreInvitation verify secret uid token w)) = typed w"
  by (simp_all add: inviteUser_def ignoreInvitation_def Let_def split_def split: option.split sum.split)

lemma typed_inviteAll [typeds]: "typed w \<Longrightarrow> typed (snd (inviteAllUsers sign secret uid dtos w))"
  by (simp add: inviteAllUsers_def typed_fold split: option.split)

lemma typed_accept [typeds]: "typed w \<Longrightarrow> typed (snd (acceptInvitation verify secret uid token w))"
  by (simp add: acceptInvitation_def Let_def split_def split: option.split sum.split)

lemma typed_updateMembers [typeds]: "typed w \<Longrightarrow> typed (snd (updateMembers sign secret uid x added removed key w))"
  by (simp add: updateMembers_def notify_removed_def Let_def split_def typeds typed_fold split: sum.split)

lemma typed_updateWorkspace [typeds]:
  "typed w \<Longrightarrow> typed (snd (updateWorkspace sign secret uid upd w))" "typed w \<Longrightarrow> typed (snd (updateWorkspaceStatus uuid st w))"
  by (simp_all add: updateWorkspace_def updateWorkspaceStatus_def Let_def split_def typeds split: option.split sum.split)

lemma typed_access [typeds]:
  "typed w \<Longrightarrow> typed (snd (createAccessRequest env cluster db asign chunks uid reason w))"
  "typed w \<Longrightarrow> typed (snd (fulfillAccessRequest env averify action token w))"
  "typed w \<Longrightarrow> typed (snd (deleteAccessCode skips uid x n c w))"
  "typed w \<Longrightarrow> typed (snd (consumeAccessCode uid code w))" "typed w \<Longrightarrow> typed (snd (resetAccessCode uid code w))"
  "typed w \<Longrightarrow> typed (snd (downgradeWorkspace uid uuid w))"
  by (simp_all add: createAccessRequest_def getUserProfile_def sendAccessRequestEmail_def fulfillAccessRequest_def
      deleteAccessCode_def consumeAccessCode_def resetAccessCode_def downgradeWorkspace_def Let_def split_def typeds
      split: option.split sum.split list.split)

lemma typed_clear_member:
  assumes "typed w" "\<And>p. snd up = Some p \<Longrightarrow> colon_free (fst up)"
  shows "typed (clear_member x up w)"
proof (cases up)
  case (Pair u pr)
  with assms show ?thesis by (cases pr) (simp_all add: clear_member_def Let_def typeds split: option.split)
qed

lemma typed_clear [typeds]: "typed w \<Longrightarrow> typed (clearCacheOnDelete ms x w)"
proof -
  assume w: "typed w"
  have "typed (fold (clear_member x) ups v)"
    if "typed v" "\<forall>up \<in> set ups. \<forall>p. snd up = Some p \<longrightarrow> colon_free (fst up)" for ups and v :: "'a wsvc_scheme"
    using that by (induction ups arbitrary: v) (simp_all add: typed_clear_member)
  moreover have "\<forall>up \<in> set (zip ms (map (get_presence w) ms)). \<forall>p. snd up = Some p \<longrightarrow> colon_free (fst up)"
    using typed_presence [OF w] by (auto simp: set_zip)
  ultimately show ?thesis using w by (simp add: clearCacheOnDelete_def typeds)
qed

lemma typed_deleteWorkspace [typeds]: "typed w \<Longrightarrow> typed (snd (deleteWorkspace uid u w))"
proof -
  assume w: "typed w"
  have "typed w1" if "in_transaction (\<lambda>w. delete_workspace_row x (delete_memberships p w)) w = (r, w1)" for x p r w1
    using typed_transaction [of "\<lambda>w. delete_workspace_row x (delete_memberships p w)" w] that w by simp
  with w show ?thesis
    by (simp add: deleteWorkspace_def Let_def typeds split: option.split prod.split sum.split)
qed

lemma typed_deleteOwned [typeds]: "typed w \<Longrightarrow> typed (snd (deleteOwnedWorkspaces uid w))"
  by (simp add: deleteOwnedWorkspaces_def notify_left_def Let_def split_def typeds typed_fold)

section \<open>User service and public routes\<close>

lemma typed_user_table [simp]: "typed (w\<lparr>users := c\<rparr>) = typed w" "typed (w\<lparr>clock := t\<rparr>) = typed w"
  by (simp_all add: typed_def)

lemma typed_fetch: "typed w \<Longrightarrow> typed (snd (fetch_missing db xs w))"
proof (induction xs arbitrary: w)
  case (Cons x xs)
  obtain i c where x: "x = (i, c)" by fastforce
  have "typed (snd (case c of None \<Rightarrow> fetchUserFromDB db i w | Some p \<Rightarrow> (Some p, w)))"
    using Cons.prems by (simp add: fetchUserFromDB_def typed_docs(7) [simplified] split: option.split list.split)
  from Cons.IH [OF this] show ?case by (simp add: x split_def Let_def)
qed simp

lemma user_step_typed:
  assumes "user_step w w'" "typed w"
  shows "typed w'"
proof -
  have "typed (snd (createUser db g e h dto w))" "typed (snd (deleteUser db h w))" "typed (snd (updateUser db h d w))"
    "typed (snd (getProfile db u a w))" "typed (snd (getUsers db ids a w))" for db g e h dto d u a ids
    using assms(2) typed_fetch [of w db]
    by (simp_all add: createUser_def deleteUser_def updateUser_def getProfile_def getUsers_def Let_def split_def typeds
        split: option.split sum.split list.split)
  with assms show ?thesis by (cases rule: user_step.cases) (metis snd_conv | simp)+
qed

lemma typed_cuckoo [simp]:
  "typed (snd (cuckooAdd C n w)) = typed w" "typed (snd (cuckooRemove C n w)) = typed w"
  "typed (snd (cuckooReserve C i w)) = typed w"
  by (simp_all add: cuckooAdd_def cuckooRemove_def cuckooReserve_def typed_def split: sum.split)

lemma typed_seed_all [simp]: "typed (snd (seed_all C ns w)) = typed w"
proof (induction ns arbitrary: w)
  case (Cons n ns)
  obtain r w1 where a: "cuckooAdd C n w = (r, w1)" by fastforce
  then have "typed w1 = typed w" using typed_cuckoo(1) [of C n w] by simp
  with Cons.IH a show ?case by (cases r) simp_all
qed simp

lemma typed_removeCaches [typeds]: "typed w \<Longrightarrow> typed (removeCaches uid w)"
  by (simp add: removeCaches_def Let_def typeds typed_fold split: option.split)

lemma typed_webhook [typeds]: "typed w \<Longrightarrow> typed (snd (handleWebhook C reply h w))"
  by (simp add: handleWebhook_def addUsername_def removeUsername_def refreshProfileCheckCache_def
      public_deleteOwnedWorkspaces_def Let_def split_def typeds split: webhook.split sum.split option.split)

lemma typed_public [typeds]:
  "typed w \<Longrightarrow> typed (snd (getTemplates file w))" "typed w \<Longrightarrow> typed (snd (auth_canActivate validate db a path w))"
  by (simp_all add: getTemplates_def auth_canActivate_def Let_def typeds split: option.split cache_value.split sum.split list.split)

section \<open>Environment service\<close>

lemma typed_env_fields [simp]:
  "typed (w\<lparr>ev_docs := a\<rparr>) = typed w" "typed (w\<lparr>ev_heap := b\<rparr>) = typed w" "typed (w\<lparr>ev_next := n\<rparr>) = typed w"
  "typed (w\<lparr>ev_timers := c\<rparr>) = typed w" "typed (w\<lparr>ev_paths := d\<rparr>) = typed w" "typed (w\<lparr>ev_conns := e\<rparr>) = typed w"
  by (simp_all add: typed_def)

lemma typed_doc_fields [simp]: "typed (upd_doc d f w) = typed w" "typed (set_timer t wait w) = typed w"
  by (simp_all add: upd_doc_def set_timer_def split: option.split)

lemma typed_texts [simp]:
  "typed (sync_send u x ino buf so w) = typed w" "typed (to_active x us m w) = typed w"
  "typed (sync_broadcast doc buf w) = typed w" "typed (sendFileMovedOrDeleted us x ino w) = typed w"
  "typed (sendConflictResolved x us ino w) = typed w" "typed (sync_sendError u s code c w) = typed w"
  "typed (sync_sendSuccess u s c b res w) = typed w" "typed (sendFSLoss u s ino w) = typed w"
  "typed (conflict_to x ino us res w) = typed w" "typed (sync_sendConflict doc w) = typed w"
  "typed (setFileContent doc content w) = typed w"
  by (simp_all add: sync_send_def to_active_def sync_broadcast_def sendFileMovedOrDeleted_def sendConflictResolved_def
    sync_sendError_def sync_sendSuccess_def sendFSLoss_def conflict_to_def sync_sendConflict_def setFileContent_def Let_def)

lemma typed_doc_changes [simp]:
  "typed (snd (computeHash L d w)) = typed w" "typed (trackClients d up uid w) = typed w"
  "typed (y_changed L d r w) = typed w"
  by (simp_all add: computeHash_def trackClients_def y_changed_def updateHandler_def Let_def split: option.split)

lemma typed_awareness [simp]:
  "typed (awarenessChangeHandler L d up uid w) = typed w"
  by (simp add: awarenessChangeHandler_def Let_def)

lemma typed_doc_ends [simp]:
  "typed (aw_changed L d r uid w) = typed w" "typed (doc_destroy L d w) = typed w"
  "typed (snd (loadFileContent L N d b w)) = typed w"
  by (simp_all add: aw_changed_def doc_destroy_def loadFileContent_def Let_def split: option.split)

lemma typed_updateCache [typeds]: "typed w \<Longrightarrow> typed (sync_updateCache x ino b w)"
  by (simp add: sync_updateCache_def typeds split: option.split)

lemma typed_obtain_doc [simp]: "typed (snd (obtain_doc L N ino path x w)) = typed w"
  by (simp add: obtain_doc_def new_WSSharedDoc_def Let_def split_def split: option.split bool.split)

lemma typed_files [typeds]:
  "typed w \<Longrightarrow> typed (openFile L N u s x path stat c w)" "typed w \<Longrightarrow> typed (closeFile L u s x ino w)"
  by (simp_all add: openFile_def closeFile_def drop_doc_def Let_def split_def typeds split: option.split)

lemma typed_edits [simp]:
  "typed (handleSync L u s x ino buf w) = typed w" "typed (flush L N d w) = typed w"
  "typed (handleOpenAck L u s x ino w) = typed w" "typed (handleConflictResolve L N u s x ino dec w) = typed w"
  by (simp_all add: handleSync_def flush_def handleOpenAck_def handleConflictResolve_def Let_def split_def split: option.split)

lemma typed_dirs [typeds]:
  "typed w \<Longrightarrow> typed (fs_updateCache u x path b w)" "typed w \<Longrightarrow> typed (fs_sendSuccess u s es c w)"
  "typed w \<Longrightarrow> typed (fs_sendError u s code c w)"
  by (simp_all add: fs_updateCache_def fs_sendSuccess_def fs_sendError_def Let_def typeds split: option.split)

lemma typed_dir_requests [typeds]:
  "typed w \<Longrightarrow> typed (openDir N u s x path c w)" "typed w \<Longrightarrow> typed (closeDir u x path w)"
  by (simp_all add: openDir_def closeDir_def Let_def typeds split: option.split)

lemma typed_closeDirs [typeds]: "typed w \<Longrightarrow> typed (snd (closeDirs u x paths ws w))"
  unfolding closeDirs_def by (induction paths arbitrary: ws w) (simp_all add: Let_def)

lemma typed_bursts [simp]:
  "typed (snd (signal x path b w)) = typed w" "typed (put_burst x path st w) = typed w" "typed (push_event x e w) = typed w"
  "typed (setWorkspace x w) = typed w" "typed (process_end pid x w) = typed w" "typed (snd (getDocHash L N x ino d w)) = typed w"
  by (simp_all add: signal_def put_burst_def push_event_def setWorkspace_def process_end_def getDocHash_def Let_def split_def
      split: sum.split option.split)

lemma typed_watch [simp]: "typed (snd (handleWatchEvent e x w)) = typed w" "typed (snd (cooldown pid x path w)) = typed w"
  by (simp_all add: handleWatchEvent_def cooldown_def Let_def split_def split: sum.split option.split)

lemma typed_check_event [simp]: "typed (snd (check_event L N pick x d e w)) = typed w"
  by (simp add: check_event_def Let_def split_def split: sum.split option.split)

lemma typed_sync_events [simp]: "typed (snd (sync_events L N pick x d es bs w)) = typed w"
proof (induction es arbitrary: bs w)
  case (Cons e es)
  obtain r w1 where c: "check_event L N pick x d e w = (r, w1)" by fastforce
  then have "typed w1 = typed w" using typed_check_event [of L N pick x d e w] by simp
  with c Cons.IH show ?case by (cases r) simp_all
qed simp

lemma typed_process [simp]: "typed (snd (fs_process L N pick x w)) = typed w"
  by (simp add: fs_process_def process_start_def fs_sync_def Let_def split_def split: sum.split option.split)

lemma typed_ssh [typeds]:
  "typed w \<Longrightarrow> typed (snd (handleNewSSHSession u x w))" "typed w \<Longrightarrow> typed (snd (handleSSHData u x ssh inp w))"
  by (simp_all add: handleNewSSHSession_def handleSSHData_def split: option.split)

lemma typed_conn [typeds]:
  "typed w \<Longrightarrow> typed (snd (updateConnCache s x add w))" "typed w \<Longrightarrow> typed (snd (handleSSHConnection dev u x key w))"
  by (simp_all add: updateConnCache_def handleSSHConnection_def handleNewSSHConnection_def Let_def typeds split: option.split)

lemma typed_ssh_close [typeds]: "typed w \<Longrightarrow> typed (snd (handleSSHClose u s x ssh w))"
  by (simp add: handleSSHClose_def Let_def typeds split: option.split)

lemma typed_callbacks [typeds]:
  "typed w \<Longrightarrow> typed (snd (conn_ready c u s x w))" "typed w \<Longrightarrow> typed (conn_error u s w)"
  "typed w \<Longrightarrow> typed (snd (conn_close u s x w))" "typed w \<Longrightarrow> typed (snd (shell_opened stream u s x client w))"
  "typed w \<Longrightarrow> typed (stream_data u s ssh bs w)" "typed w \<Longrightarrow> typed (stream_close u s ssh w)"
  by (simp_all add: conn_ready_def conn_error_def conn_close_def shell_opened_def stream_data_def stream_close_def
      Let_def split_def typeds split: option.split)

lemma typed_invalidate [typeds]: "typed w \<Longrightarrow> typed (invalidatePreviousSessions u x w)"
  using typed_presence [of w u]
  by (cases "get_presence w u") (simp_all add: invalidatePreviousSessions_def Let_def split_def typeds typed_fold split: option.split)

lemma typed_ready [typeds]: "typed w \<Longrightarrow> typed (snd (handleEnvReady N lock u x s w))"
proof -
  assume w: "typed w"
  obtain r w1 where c: "claim_workspace N x (invalidatePreviousSessions u x w) = (r, w1)" by fastforce
  have "typed (snd (claim_workspace N x (invalidatePreviousSessions u x w)))"
    using typed_invalidate [OF w, of u x] by (simp add: claim_workspace_def Let_def typeds)
  then have w1: "typed w1" using c by simp
  show ?thesis
    using w w1 c typed_presence [OF w1, of u]
    by (cases "get_presence w1 u"; cases r) (simp_all add: handleEnvReady_def typeds split: option.split)
qed

lemma typed_open [typeds]: "typed w \<Longrightarrow> typed (snd (handleEnvOpen member prov N lock u x s w))"
  using typed_ready [of "emit w es" N lock u x s for es]
  by (simp add: handleEnvOpen_def Let_def split_def split: option.split sum.split)

lemma typed_close [typeds]: "typed w \<Longrightarrow> typed (handleEnvClose member lock t u x w)"
  using typed_presence [of w u]
  by (cases "get_presence w u")
    (simp_all add: handleEnvClose_def close_dirs_of_def Let_def split_def typeds typed_fold split: option.split)

lemma typed_env_request [typeds]:
  "typed w \<Longrightarrow> typed (snd (core_handleEnvMessage L N dev member prov lock t uid sid req w))"
  by (simp add: core_handleEnvMessage_def env_handleEnvMessage_def handleOpen_def handleClose_def Let_def split_def typeds
      split: env_request.split sum.split in_payload.split option.split)

lemma typed_affinity [typeds]: "typed w \<Longrightarrow> typed (snd (handleEnvInternalMessage N lock act x u s w))"
  by (simp add: handleEnvInternalMessage_def split_def typeds split: sum.split)

lemma typed_sticky [typeds]: "typed w \<Longrightarrow> typed (snd (handleStickyEnvMessage L N u s m w))"
  by (simp add: handleStickyEnvMessage_def runCommand_def Let_def split_def typeds split: in_payload.split sum.split option.split)

lemma typed_channel [typeds]: "typed w \<Longrightarrow> typed (onMessage L N chan ev w)"
  by (simp add: onMessage_def split_def typeds split: env_event.split sum.split)

lemma typed_fire [typeds]: "typed w \<Longrightarrow> typed (snd (fire L N pick t w))"
  by (simp add: fire_def Let_def split: timer.split)

section \<open>The server\<close>

inductive ws_handler :: "wsvc \<Rightarrow> wsvc \<Rightarrow> bool" where
  "createWorkspace rpc uid data w = (r, w') \<Longrightarrow> ws_handler w w'"
| "updateWorkspace sign secret uid upd w = (r', w') \<Longrightarrow> ws_handler w w'"
| "updateWorkspaceStatus uuid status w = (r', w') \<Longrightarrow> ws_handler w w'"
| "deleteWorkspace uid u w = (r', w') \<Longrightarrow> ws_handler w w'"
| "deleteOwnedWorkspaces uid w = (r'', w') \<Longrightarrow> ws_handler w w'"
| "inviteUser sign secret uid dto b w = (r', w') \<Longrightarrow> ws_handler w w'"
| "inviteAllUsers sign secret uid dtos w = (r', w') \<Longrightarrow> ws_handler w w'"
| "acceptInvitation verify secret uid token w = (k, w') \<Longrightarrow> ws_handler w w'"
| "ignoreInvitation verify secret uid token w = (r', w') \<Longrightarrow> ws_handler w w'"
| "createAccessRequest env cluster db asign chunks uid reason w = (r', w') \<Longrightarrow> ws_handler w w'"
| "fulfillAccessRequest env averify action token w = (r', w') \<Longrightarrow> ws_handler w w'"
| "deleteAccessCode skips uid u n c w = (r'', w') \<Longrightarrow> ws_handler w w'"
| "consumeAccessCode uid code w = (r'', w') \<Longrightarrow> ws_handler w w'"
| "resetAccessCode uid code w = (r'', w') \<Longrightarrow> ws_handler w w'"
| "downgradeWorkspace uid uuid w = (r', w') \<Longrightarrow> ws_handler w w'"

inductive env_handler :: "'y ylib \<Rightarrow> 'y env \<Rightarrow> 'y env \<Rightarrow> bool" for L where
  "core_handleEnvMessage L N dev member prov lock t uid sid req w = (r, w') \<Longrightarrow> env_handler L w w'"
| "handleEnvInternalMessage N lock act x u s w = (r', w') \<Longrightarrow> env_handler L w w'"
| "w' = onMessage L N chan ev w \<Longrightarrow> env_handler L w w'"
| "conn_ready c uid sid uuid w = (r', w') \<Longrightarrow> env_handler L w w'"
| "w' = conn_error uid sid w \<Longrightarrow> env_handler L w w'"
| "conn_close uid sid uuid w = (r', w') \<Longrightarrow> env_handler L w w'"
| "shell_opened stream uid sid uuid client w = (r', w') \<Longrightarrow> env_handler L w w'"
| "w' = stream_data uid sid ssh bs w \<Longrightarrow> env_handler L w w'"
| "w' = stream_close uid sid ssh w \<Longrightarrow> env_handler L w w'"
| "fire L N pick tm w = (r', w') \<Longrightarrow> env_handler L w w'"

inductive public_handler :: "'f cuckoo \<Rightarrow> 'f pub \<Rightarrow> 'f pub \<Rightarrow> bool" for C where
  "handleWebhook C reply h w = (r, w') \<Longrightarrow> public_handler C w w'"
| "getTemplates file w = (r', w') \<Longrightarrow> public_handler C w w'"
| "auth_canActivate validate db a path w = (r'', w') \<Longrightarrow> public_handler C w w'"

inductive ntfn_handler :: "nsvc \<Rightarrow> nsvc \<Rightarrow> bool" where
  "ntfn_handle db parseDate rq w = (r, w') \<Longrightarrow> ntfn_handler w w'"

inductive auth_handler :: "asvc \<Rightarrow> asvc \<Rightarrow> bool" where
  "auth_registerEmail rnd html mail email w = (r, w') \<Longrightarrow> auth_handler w w'"
| "auth_verifyEmail F email' pin w = (r', w') \<Longrightarrow> auth_handler w w'"

inductive prov_handler :: "'k kube \<Rightarrow> 'd docker \<Rightarrow> ('k, 'd) pv \<Rightarrow> ('k, 'd) pv \<Rightarrow> bool" for K D where
  "ProvisionHandler E A K D meth body header w = (r, w') \<Longrightarrow> prov_handler K D w w'"
| "w' = run_job E A K D oc job w \<Longrightarrow> prov_handler K D w w'"
| "Reconcile K name w = (r', w') \<Longrightarrow> prov_handler K D w w'"

type_synonym redis = "(string, cache_value \<times> int option) obj"

definition redis_typed :: "redis \<Rightarrow> bool" where
  "redis_typed c \<longleftrightarrow> (\<forall>k e. ob_get c k = Some e \<longrightarrow> of_type k (fst e))"

lemma typed_redis: "typed w \<longleftrightarrow> redis_typed (cache w)"
  by (simp add: typed_def redis_typed_def)

text \<open>What every service owes the others that share the cache, and what follows for a run of it.\<close>

locale cache_service =
  fixes step :: "'w \<Rightarrow> 'w \<Rightarrow> bool"
    and store :: "'w \<Rightarrow> redis"
  assumes step_typed: "step w w' \<Longrightarrow> redis_typed (store w) \<Longrightarrow> redis_typed (store w')"
begin

lemma run_typed: "step\<^sup>*\<^sup>* w w' \<Longrightarrow> redis_typed (store w) \<Longrightarrow> redis_typed (store w')"
  by (induction rule: rtranclp_induct) (auto intro: step_typed)

lemma run_from_empty: "step\<^sup>*\<^sup>* w w' \<Longrightarrow> store w = [] \<Longrightarrow> redis_typed (store w')"
  by (erule run_typed) (simp add: redis_typed_def)

end

lemma handler_result: "f w = (r, w') \<Longrightarrow> typed (snd (f w)) \<Longrightarrow> typed w'"
  by simp

interpretation gw_store: cache_service "\<lambda>w w'. \<exists>F. gw_step cfg F w w'" cache for cfg
  by unfold_locales (auto simp: typed_redis [symmetric] gw_step_typed)

interpretation ws_store: cache_service ws_handler cache
  by unfold_locales (unfold typed_redis [symmetric],
    erule ws_handler.cases; hypsubst; erule handler_result; simp add: typeds)

interpretation user_store: cache_service user_step cache
  by unfold_locales (simp only: typed_redis [symmetric] user_step_typed)

interpretation env_store: cache_service "env_handler L" cache for L
  by unfold_locales (unfold typed_redis [symmetric],
    erule env_handler.cases; hypsubst; (erule handler_result)?; simp add: typeds)

interpretation pub_store: cache_service "public_handler C" cache for C
  by unfold_locales (unfold typed_redis [symmetric],
    erule public_handler.cases; hypsubst; erule handler_result; simp add: typeds)

lemma ntfn_handler_cache: "ntfn_handler w w' \<Longrightarrow> cache w' = cache w"
  by (erule ntfn_handler.cases)
    (auto simp: ntfn_handle_def pushNotification_def handleReadNotification_def pushAllPendingNotifications_def
      handleReadAllNotifications_def set_messages_def emit_def Let_def split: ntfn_request.splits option.splits if_splits)

lemma auth_handler_cache: "auth_handler w w' \<Longrightarrow> cache w' = cache w"
  by (erule auth_handler.cases)
    (auto simp: auth_registerEmail_def auth_verifyEmail_def sendPinEmail_def pin_set_def pin_delete_def emit_def Let_def
      split: option.splits sum.splits if_splits prod.splits)

lemma prov_handler_cache: "prov_handler K D w w' \<Longrightarrow> cache w' = cache w"
  by (erule prov_handler.cases) (metis snd_conv still_handler still_job still_reconcile)+

interpretation ntfn_store: cache_service ntfn_handler cache
  by unfold_locales (simp add: ntfn_handler_cache)

interpretation auth_store: cache_service auth_handler cache
  by unfold_locales (simp add: auth_handler_cache)

interpretation prov_store: cache_service "prov_handler K D" cache for K D
  by unfold_locales (simp add: prov_handler_cache)

text \<open>The keys of the codes are none of the keys above.\<close>

lemma pin_key_apart: "\<not> of_type (EMAIL_VERIFICATION_PIN email) v"
  by (cases v) (simp_all add: of_type_def EMAIL_VERIFICATION_PIN_def)

text \<open>A step of the server is one of a service on the cache, from any local state of that service.\<close>

inductive server_step ::
  "presence_config \<Rightarrow> 'y ylib \<Rightarrow> 'f cuckoo \<Rightarrow> 'k kube \<Rightarrow> 'd docker \<Rightarrow> redis \<Rightarrow> redis \<Rightarrow> bool" for cfg L C K D where
  gateway: "gw_step cfg F (w :: gw) w' \<Longrightarrow> server_step cfg L C K D (cache w) (cache w')"
| workspace: "ws_handler w w' \<Longrightarrow> server_step cfg L C K D (cache w) (cache w')"
| user: "user_step (w :: usvc) w' \<Longrightarrow> server_step cfg L C K D (cache w) (cache w')"
| environment: "env_handler L w w' \<Longrightarrow> server_step cfg L C K D (cache w) (cache w')"
| public: "public_handler C w w' \<Longrightarrow> server_step cfg L C K D (cache w) (cache w')"
| notification: "ntfn_handler w w' \<Longrightarrow> server_step cfg L C K D (cache w) (cache w')"
| auth: "auth_handler w w' \<Longrightarrow> server_step cfg L C K D (cache w) (cache w')"
| provisioner: "prov_handler K D w w' \<Longrightarrow> server_step cfg L C K D (cache w) (cache w')"

interpretation server_store: cache_service "server_step cfg L C K D" "\<lambda>c. c" for cfg L C K D
proof
  show "redis_typed c'" if "server_step cfg L C K D c c'" "redis_typed c" for c c'
    using that
  proof cases
    case (gateway F w w')
    with that(2) gw_store.step_typed [of cfg w w'] show ?thesis by blast
  qed (use that(2) in \<open>simp_all add: ws_store.step_typed user_store.step_typed env_store.step_typed pub_store.step_typed
      ntfn_store.step_typed auth_store.step_typed prov_store.step_typed\<close>)
qed

lemma typed_reads:
  assumes "typed w"
  shows "cache_get w (CACHEKEY_WORKSPACE x) = map_option CvWorkspace (get_workspace w x)"
    "cache_get w (CACHEKEY_MEMBERSHIP u) = map_option CvMembership (get_membership w u)"
    "cache_get w (CACHEKEY_USER_PROFILE u) = map_option CvUser (get_user w (CACHEKEY_USER_PROFILE u))"
    "colon_free u \<Longrightarrow> cache_get w (CACHEKEY_PRESENCE u) = map_option CvPresence (get_presence w u)"
    "cache_get w (''users:'' @ u) = map_option CvUser (get_user w (''users:'' @ u))"
    "cache_get w ''templates'' = None \<or> (\<exists>ts. cache_get w ''templates'' = Some (CvTemplates ts))"
proof -
  have "of_type k v \<Longrightarrow> k = CACHEKEY_WORKSPACE x \<Longrightarrow> \<exists>d. v = CvWorkspace d"
    "of_type k v \<Longrightarrow> k = CACHEKEY_MEMBERSHIP u \<Longrightarrow> \<exists>m. v = CvMembership m"
    "of_type k v \<Longrightarrow> k = CACHEKEY_USER_PROFILE u \<Longrightarrow> \<exists>p. v = CvUser p"
    "of_type k v \<Longrightarrow> k = CACHEKEY_PRESENCE u \<Longrightarrow> colon_free u \<Longrightarrow> \<exists>p. v = CvPresence p"
    "of_type k v \<Longrightarrow> k = ''users:'' @ u \<Longrightarrow> \<exists>p. v = CvUser p"
    "of_type k v \<Longrightarrow> k = ''templates'' \<Longrightarrow> \<exists>ts. v = CvTemplates ts" for k v
    by (cases v; simp add: of_type_def colons_presence colon_free_colons; simp add: cachekey_defs)+
  note kinds = this [OF typed_get [OF assms] refl]
  show "cache_get w (CACHEKEY_WORKSPACE x) = map_option CvWorkspace (get_workspace w x)"
    using kinds(1) by (cases "cache_get w (CACHEKEY_WORKSPACE x)") (force simp: get_workspace_def)+
  show "cache_get w (CACHEKEY_MEMBERSHIP u) = map_option CvMembership (get_membership w u)"
    using kinds(2) by (cases "cache_get w (CACHEKEY_MEMBERSHIP u)") (force simp: get_membership_def)+
  show "cache_get w (CACHEKEY_USER_PROFILE u) = map_option CvUser (get_user w (CACHEKEY_USER_PROFILE u))"
    using kinds(3) by (cases "cache_get w (CACHEKEY_USER_PROFILE u)") (force simp: get_user_def)+
  show "cache_get w (CACHEKEY_PRESENCE u) = map_option CvPresence (get_presence w u)" if "colon_free u"
    using kinds(4) that by (cases "cache_get w (CACHEKEY_PRESENCE u)") (force simp: get_presence_def)+
  show "cache_get w (''users:'' @ u) = map_option CvUser (get_user w (''users:'' @ u))"
    using kinds(5) by (cases "cache_get w (''users:'' @ u)") (force simp: get_user_def)+
  show "cache_get w ''templates'' = None \<or> (\<exists>ts. cache_get w ''templates'' = Some (CvTemplates ts))"
    using kinds(6) by (cases "cache_get w ''templates''") auto
qed

end
