(* ===== verification/Provision_Restore.thy ===== *)
theory Provision_Restore
  imports Provisioner
begin

text \<open>
  Restoring a workspace in a cluster that accepts what it is asked for: the pod and its service come back, and the env
  service is told to take the workspace on. How long the wait for a workspace lasts.
\<close>

section \<open>Waiting\<close>

lemma ready_loop_ok:
  assumes "\<And>t. T \<le> t \<Longrightarrow> fst (ready t)" "\<And>t. snd (ready t) \<le> 3000" "T + 3500 \<le> deadline"
  shows "now < deadline \<Longrightarrow> fst (ready_loop ready deadline now)"
proof (induction "nat (deadline - now)" arbitrary: now rule: less_induct)
  case less
  obtain ok d where r: "ready now = (ok, d)" by fastforce
  show ?case
  proof (cases ok)
    case False
    then have "now < T" using assms(1) [of now] r by force
    with assms(2) [of now] assms(3) r have "now + max 0 d + 500 < deadline" by simp
    moreover from this less.prems have "nat (deadline - (now + max 0 d + 500)) < nat (deadline - now)" by simp
    ultimately have "fst (ready_loop ready deadline (now + max 0 d + 500))" using less.hyps by blast
    then show ?thesis using r False less.prems by (subst ready_loop.simps) simp
  qed (use r less.prems in \<open>subst ready_loop.simps, simp\<close>)
qed

text \<open>The wait for a workspace is over at most one request and one pause after its deadline.\<close>

lemma ready_loop_bounded:
  assumes "\<And>t. snd (ready t) \<le> d" "0 \<le> d"
  shows "now < deadline + d + 500 \<Longrightarrow> snd (ready_loop ready deadline now) < deadline + d + 500"
proof (induction "nat (deadline - now)" arbitrary: now rule: less_induct)
  case less
  obtain ok d' where r: "ready now = (ok, d')" by fastforce
  then have "max 0 d' \<le> d" using assms(1) [of now] assms(2) by simp
  with less.prems less.hyps [of "now + max 0 d' + 500"] r show ?case
    by (subst ready_loop.simps) (auto simp: Let_def max_def split: if_splits)
qed

section \<open>Creating the pod\<close>

lemma kube_accepts_create:
  assumes L: "kube_laws K objs" "kube_accepts K objs" and "(r, n) \<notin> objs (pv_kube w)"
  obtains k where "k_create K r n y w = (Inr (), w\<lparr>pv_kube := k\<rparr>)" "objs k = insert (r, n) (objs (pv_kube w))"
proof -
  obtain k where k: "kb_create K r n y (pv_kube w) = (None, k)"
    using assms(2,3) unfolding kube_accepts_def by (metis prod.collapse)
  then have c: "k_create K r n y w = (Inr (), w\<lparr>pv_kube := k\<rparr>)" by (simp add: k_create_def)
  with kube_laws_create [OF L(1) c] that show thesis by simp
qed

text \<open>The configured days of a lease are a number.\<close>

definition lease_days_ok :: "prov_env \<Rightarrow> bool" where
  "lease_days_ok E \<longleftrightarrow> parseInt 32 (or_default (pe_DEDICATED_LEASE_EXPIRY_DAYS E) ''2'') \<noteq> None"

lemma CreateWorkspaceCRD_ok:
  assumes L: "kube_laws K objs" and "lease_days_ok E" and c: "CreateWorkspaceCRD E K u uid w = (x, w')"
  shows "(\<forall>m. x \<noteq> Inl (Go_panic m)) \<and> objs (pv_kube w) \<subseteq> objs (pv_kube w') \<and> clock w' = clock w"
proof -
  obtain spec where "GetWorkspaceCRDSpec (pe_DEDICATED_LEASE_EXPIRY_DAYS E) (clock w) u uid = Inr spec"
    using assms(2) by (auto simp: lease_days_ok_def GetWorkspaceCRDSpec_def or_default_def)
  with c have k: "k_create K WorkspaceCRDs (pod_name u) (crd_manifest u spec) w = (x, w')"
    by (simp add: CreateWorkspaceCRD_def kube_laws_client [OF L])
  have "clock w' = clock w" using k by (auto simp: k_create_def split: prod.splits option.splits)
  with kube_laws_create [OF L k] show ?thesis by (cases x) (auto simp: is_panic_def)
qed

lemma deploy_ok:
  assumes L: "kube_laws K objs" "kube_accepts K objs" and "lease_days_ok E"
    and "(Pods, pod_name u) \<notin> objs (pv_kube w)" "(Services, pod_name u) \<notin> objs (pv_kube w)"
  obtains w' where "deploy E K req u key w = (Inr (), w')" "clock w' = clock w"
    "{(Pods, pod_name u), (Services, pod_name u)} \<subseteq> objs (pv_kube w')"
proof -
  let ?w = "SendStatus (rq_uid req) (rq_sessionId req) ''4/6:Setting up your environment'' w"
  obtain k1 where p: "k_create K Pods (pod_name u)
      (GetPodSpec u (rq_image req) key (if rq_dedicated req then ''dedicated'' else ''spot'')) ?w = (Inr (), ?w\<lparr>pv_kube := k1\<rparr>)"
    "objs k1 = insert (Pods, pod_name u) (objs (pv_kube w))"
    using kube_accepts_create [OF L, of Pods "pod_name u" ?w] assms(4) by (metis frame_kube(1))
  obtain k2 where s: "k_create K Services (pod_name u) (GetServiceSpec u) (?w\<lparr>pv_kube := k1\<rparr>) =
      (Inr (), ?w\<lparr>pv_kube := k2\<rparr>)" "objs k2 = insert (Services, pod_name u) (objs k1)"
    using kube_accepts_create [OF L, of Services "pod_name u" "?w\<lparr>pv_kube := k1\<rparr>" "GetServiceSpec u"] assms(5) p(2) by auto
  obtain x w3 where c: "CreateWorkspaceCRD E K u (rq_uid req) (?w\<lparr>pv_kube := k2\<rparr>) = (x, w3)" by fastforce
  note c' = CreateWorkspaceCRD_ok [OF L(1) assms(3) c]
  have "deploy E K req u key w = (Inr (), if rq_dedicated req then w3 else ?w\<lparr>pv_kube := k2\<rparr>)"
    using p(1) s(1) c c' by (cases x) (auto simp: deploy_def Let_def split: goerr.split)
  with that p(2) s(2) c' show thesis by auto
qed

lemma VolumeExists_ok:
  assumes L: "kube_laws K objs" and "volume_objs u \<subseteq> objs (pv_kube w)"
  shows "VolumeExists K D u [] w = (Inr True, w)"
  using assms(2)
  by (simp add: VolumeExists_def K8sVolumeExists_def all_exist_def kube_laws_client [OF L] kube_laws_exists [OF L] volume_objs_def)

section \<open>Restoring\<close>

text \<open>What a restore needs: a cluster that accepts and schedules, room, the storage of the workspace, no left-over of its pod,
  and a workspace that answers in time.\<close>

definition restorable ::
  "prov_env \<Rightarrow> 'k kube \<Rightarrow> ('k \<Rightarrow> (resource \<times> string) set) \<Rightarrow> outcome \<Rightarrow> ProvisionRequest \<Rightarrow> ('k, 'd, 'a) pv_scheme \<Rightarrow> bool" where
  "restorable E K objs oc req w \<longleftrightarrow>
     pe_DEV_PLATFORM E = [] \<and> lease_days_ok E \<and> rq_uuid req \<noteq> [] \<and>
     kube_laws K objs \<and> kube_accepts K objs \<and>
     hasCapacity E K (rq_dedicated req) w = Inr (True, []) \<and>
     volume_objs (rq_uuid req) \<subseteq> objs (pv_kube w) \<and>
     (Pods, pod_name (rq_uuid req)) \<notin> objs (pv_kube w) \<and> (Services, pod_name (rq_uuid req)) \<notin> objs (pv_kube w) \<and>
     (\<forall>k. \<exists>es. fst (kb_watchPod K (pod_name (rq_uuid req)) k) = Inr es \<and> scheduled es = None) \<and>
     (\<exists>T \<le> clock w + 86500. \<forall>t \<ge> T. fst (oc_ready oc (rq_uuid req) t)) \<and>
     (\<forall>t. snd (oc_ready oc (rq_uuid req) t) \<le> 3000)"

lemma create_pod_ok:
  assumes "restorable E K objs oc req w"
  obtains w' where "create_pod E K D oc req False w = (Inr ([], rq_uuid req), w')" "clock w' = clock w"
    "{(Pods, pod_name (rq_uuid req)), (Services, pod_name (rq_uuid req))} \<subseteq> objs (pv_kube w')"
proof -
  let ?u = "rq_uuid req"
  let ?w = "SendStatus (rq_uid req) (rq_sessionId req) ''1/6:Restoring your data'' w"
  from assms have L: "kube_laws K objs" "kube_accepts K objs" and d: "lease_days_ok E"
    and a: "(Pods, pod_name ?u) \<notin> objs (pv_kube ?w)" "(Services, pod_name ?u) \<notin> objs (pv_kube ?w)"
    and v: "volume_objs ?u \<subseteq> objs (pv_kube ?w)" and e: "pe_DEV_PLATFORM E = []" "?u \<noteq> []"
    by (simp_all add: restorable_def)
  obtain w1 where w1: "deploy E K req ?u [] ?w = (Inr (), w1)" "clock w1 = clock ?w"
      "{(Pods, pod_name ?u), (Services, pod_name ?u)} \<subseteq> objs (pv_kube w1)"
    by (rule deploy_ok [OF L d a])
  obtain es k where k: "kb_watchPod K (pod_name ?u) (pv_kube w1) = (Inr es, k)" "scheduled es = None"
    using assms unfolding restorable_def by (metis prod.collapse)
  have "objs (snd (kb_watchPod K (pod_name ?u) (pv_kube w1))) = objs (pv_kube w1)"
    using L(1) by (simp only: kube_laws_def)
  with k have o: "objs k = objs (pv_kube w1)" by simp
  have c: "CreateDevContainer E K D (oc_keygen oc) req False w = (Inr ([], ?u), w1)"
    using e w1(1) by (simp add: CreateDevContainer_def VolumeExists_ok [OF L(1) v] CreateK8sPod_def kube_laws_client [OF L(1)])
  have "WaitOnDevContainerScheduled K ?u w1 = (Inr (), w1\<lparr>pv_kube := k\<rparr>)"
    using k by (simp add: WaitOnDevContainerScheduled_def kube_laws_client [OF L(1)])
  with c e have "create_pod E K D oc req False w = (Inr ([], ?u), w1\<lparr>pv_kube := k\<rparr>)" by (simp add: create_pod_def)
  with that w1 o show thesis by simp
qed

lemma restore_ok:
  assumes r: "restorable E K objs oc req w"
  obtains w' es where "run_job E A K D oc (Job_provision req h False) w = w'"
    "out w' = es @ [Nats_affinity (rq_uid req) (rq_sessionId req) (rq_uuid req)]"
    "{(Pods, pod_name (rq_uuid req)), (Services, pod_name (rq_uuid req))} \<subseteq> objs (pv_kube w')"
proof -
  obtain w1 where w1: "create_pod E K D oc req False w = (Inr ([], rq_uuid req), w1)" "clock w1 = clock w"
      "{(Pods, pod_name (rq_uuid req)), (Services, pod_name (rq_uuid req))} \<subseteq> objs (pv_kube w1)"
    by (rule create_pod_ok [OF r])
  obtain T where T: "T \<le> clock w + 86500" "\<And>t. T \<le> t \<Longrightarrow> fst (oc_ready oc (rq_uuid req) t)"
    and d: "\<And>t. snd (oc_ready oc (rq_uuid req) t) \<le> 3000"
    using r by (auto simp: restorable_def)
  have "fst (ready_loop (oc_ready oc (rq_uuid req)) (clock w1 + 90000) (clock w1))"
    using ready_loop_ok [of T "oc_ready oc (rq_uuid req)", OF T(2) d] T(1) w1(2) by simp
  then obtain t where l: "ready_loop (oc_ready oc (rq_uuid req)) (clock w1 + 90000) (clock w1) = (True, t)"
    by (metis prod.collapse)
  have "provision_pod E K D oc req False w = (Inr ([], rq_uuid req), w1)"
    using r w1(1) by (simp add: provision_pod_def restorable_def)
  with l that w1(3) show thesis
    by (simp add: run_job_def provision_def waitOnDevContainerReady_def emit_def SendStatus_def)
qed

end
