(* ===== verification/Workspace_Lifecycle.thy ===== *)
theory Workspace_Lifecycle
  imports Provision_Restore Lease_Controller Env_Events Workspace_Service Gateway_Public
begin

text \<open>
  The life of a workspace across the services: reopening a cold workspace, in which the env service asks the provisioner,
  the provisioner restores the pod, and the env service takes the workspace on; and the end of the lease of a dedicated
  workspace, in which the lease controller downgrades the pod and the workspace service the row.
\<close>

section \<open>Reopening\<close>

text \<open>The request of the env service has no other fields.\<close>

definition reopen_request :: "string \<Rightarrow> string \<Rightarrow> string \<Rightarrow> string \<Rightarrow> bool \<Rightarrow> ProvisionRequest" where
  "reopen_request img uuid sessionId uid dedicated = \<lparr>rq_uid = uid, rq_sessionId = sessionId, rq_image = img, rq_name = [],
     rq_description = [], rq_uuid = uuid, rq_dedicated = dedicated, rq_accessCode = []\<rparr>"

text \<open>The reply of the provisioner as the env service reads it: whether to wait, or a failed request.\<close>

definition wait_of :: "prov_reply \<Rightarrow> bool option" where
  "wait_of r = (case r of
     Wait_reply status wait \<Rightarrow> if status < 200 \<or> 299 < status then None else Some wait
   | _ \<Rightarrow> None)"

lemma restorable_cong:
  assumes "pv_kube w' = pv_kube w" "clock w' = clock w"
  shows "restorable E K objs oc req w' = restorable E K objs oc req w"
  by (simp only: restorable_def hasCapacity_def Let_def assms)

lemma ev_id_cache [simp]:
  "ev_id (cache_del w k) = ev_id w" "ev_id (set_presence w u p) = ev_id w"
  "ev_id (emit w es) = ev_id w"
  by (simp_all add: cache_del_def set_presence_def cache_set_def emit_def)

lemma out_docs [simp]: "out (set_presence w u p) = out w" "out (set_workspace w x d) = out w"
  by (simp_all add: set_presence_def set_workspace_def frame_simps)

lemma out_setWorkspace [simp]: "out (setWorkspace x w) = out w"
  by (simp add: setWorkspace_def)

lemma fold_del_timers:
  fixes w :: "('y, 'a) env_scheme"
  shows "get_workspace (fold (\<lambda>(sid, s) w. cache_del w (CACHEKEY_PRESENCE_WORKSPACE uid sid uuid)) xs w) x = get_workspace w x"
    and "ev_id (fold (\<lambda>(sid, s) w. cache_del w (CACHEKEY_PRESENCE_WORKSPACE uid sid uuid)) xs w) = ev_id w"
    and "out (fold (\<lambda>(sid, s) w. cache_del w (CACHEKEY_PRESENCE_WORKSPACE uid sid uuid)) xs w) = out w"
  by (induction xs arbitrary: w) (auto simp: cache_simps frame_simps)

lemma get_presence_setWorkspace: "get_presence (setWorkspace x w) u = get_presence w u"
  by (simp add: get_presence_def setWorkspace_def cache_get_def cong: option.case_cong)

text \<open>A session of the user, in a workspace nobody has open: the instance takes the workspace on.\<close>

lemma handleEnvReady_cold:
  fixes w :: "('y, 'a) env_scheme"
  assumes "nd_ready N uuid" "nd_affine N uuid (ev_id w)" "get_workspace w uuid = None"
    and "get_presence w uid = Some p" "ob_get p sid = Some s" "colon_free uid"
  obtains w' p' s' where "handleEnvReady N True uid uuid sid w = (Inr (), w')" "out w' = out w"
    "get_workspace w' uuid = Some \<lparr>cw_state = Active, cw_fs = ev_id w, cw_dirs = [], cw_docs = [], cw_sshs = []\<rparr>"
    "get_presence w' uid = Some p'" "ob_get p' sid = Some s'" "cs_wsUuid s' = Some uuid"
proof -
  let ?f = "\<lambda>s. if cs_wsUuid s = Some uuid then s\<lparr>cs_wsUuid := None\<rparr> else s"
  let ?p = "map (\<lambda>(sid, s). (sid, ?f s)) p"
  let ?v = "fold (\<lambda>(sid, s) w. cache_del w (CACHEKEY_PRESENCE_WORKSPACE uid sid uuid)) (filter (\<lambda>(sid, s). cs_wsUuid s = Some uuid) p) w"
  let ?ws = "\<lparr>cw_state = Active, cw_fs = ev_id w, cw_dirs = [], cw_docs = [], cw_sshs = []\<rparr>"
  have i: "invalidatePreviousSessions uid uuid w = set_presence ?v uid ?p"
    using assms(3,4) by (simp add: invalidatePreviousSessions_def Let_def cache_simps fold_del_timers)
  have v: "get_workspace ?v uuid = None" "ev_id ?v = ev_id w" "out ?v = out w" using assms(3) by (simp_all add: fold_del_timers)
  have c: "claim_workspace N uuid (set_presence ?v uid ?p) =
      (Inr (), set_workspace (setWorkspace uuid (set_presence ?v uid ?p)) uuid ?ws)"
    using assms(2) v by (simp add: claim_workspace_def Let_def cache_simps)
  let ?w1 = "set_workspace (setWorkspace uuid (set_presence ?v uid ?p)) uuid ?ws"
  have g: "get_presence ?w1 uid = Some ?p" by (simp add: cache_simps get_presence_setWorkspace)
  have o: "ob_get ?p sid = Some (?f s)" using assms(5) by (simp add: map_of_map)
  have "handleEnvReady N True uid uuid sid w = (Inr (), cache_set (set_presence ?w1 uid (ob_set ?p sid ((?f s)\<lparr>cs_wsUuid := Some uuid\<rparr>)))
      (CACHEKEY_PRESENCE_WORKSPACE uid sid uuid) (CvNum 1) (Some 20000))"
    using assms(1) by (simp only: handleEnvReady_def i c g o prod.case sum.case option.case not_True_eq_False if_False)
  then show thesis
    by (rule that [of _ "ob_set ?p sid ((?f s)\<lparr>cs_wsUuid := Some uuid\<rparr>)" "(?f s)\<lparr>cs_wsUuid := Some uuid\<rparr>"])
      (use v(3) assms(6) in \<open>simp_all add: cache_simps frame_simps\<close>)
qed
lemma handler_restores:
  assumes "restorable E K objs oc req w" "well_formed req h w" "wa_membership A h (rq_uuid req) = Inr 200"
  obtains w1 es where "ProvisionHandler E A K D ''POST'' (Some req) h w = ((Wait_reply 202 True, Some (Job_provision req h False)), w1)"
    "out (run_job E A K D oc (Job_provision req h False) w1) = es @ [Nats_affinity (rq_uid req) (rq_sessionId req) (rq_uuid req)]"
    "{(Pods, pod_name (rq_uuid req)), (Services, pod_name (rq_uuid req))} \<subseteq>
       objs (pv_kube (run_job E A K D oc (Job_provision req h False) w1))"
proof -
  from assms(1) have L: "kube_laws K objs" "pe_DEV_PLATFORM E = []" "rq_uuid req \<noteq> []"
    "(Pods, pod_name (rq_uuid req)) \<notin> objs (pv_kube w)" by (simp_all add: restorable_def)
  let ?w1 = "SendStatus (rq_uid req) (rq_sessionId req) ''Restoring your workspace'' (emit w [Ws_call (Call_membership h (rq_uuid req))])"
  have r: "restorable E K objs oc req ?w1" using assms(1) by (subst restorable_cong [of _ w]) (simp_all add: frame_simps)
  have "ProvisionHandler E A K D ''POST'' (Some req) h w = ((Wait_reply 202 True, Some (Job_provision req h False)), ?w1)"
    using restore_accepted [OF L(1,2) assms(2) L(3) assms(3), of D] L(4) by (simp add: Let_def)
  with that restore_ok [OF r, of A D h] show thesis by metis
qed

text \<open>C4. Reopening a cold workspace: the env service asks the provisioner and is told to wait; the provisioner brings back the pod and its
  service and, as the last thing, tells the env service; which then takes the workspace on, records it for the session and tells
  the browser that it is ready.\<close>

theorem reopen_ready:
  fixes e :: "('y, 'b) env_scheme"
  assumes "req = reopen_request img uuid sid uid dedicated"
    and "restorable E K objs oc req w" "well_formed req h w" "wa_membership A h uuid = Inr 200"
    and "nd_ready N uuid" "nd_affine N uuid (ev_id e)" "get_workspace e uuid = None"
    and "get_presence e uid = Some p" "ob_get p sid = Some s" "colon_free uid" "uid \<noteq> []" "sid \<noteq> []"
  shows "\<exists>reply job w1 e1 es e2.
    ProvisionHandler E A K D ''POST'' (Some req) h w = ((reply, Some job), w1) \<and>
    handleEnvOpen (Some (img, dedicated)) (wait_of reply) N lock uid uuid sid e = (Inr True, e1) \<and>
    out e1 = out e @ [Http_provision img uuid sid uid dedicated] \<and>
    out (run_job E A K D oc job w1) = es @ [Nats_affinity uid sid uuid] \<and>
    {(Pods, pod_name uuid), (Services, pod_name uuid)} \<subseteq> objs (pv_kube (run_job E A K D oc job w1)) \<and>
    handleEnvInternalMessage N True ''affinity'' (Some uuid) (Some uid) (Some sid) e1 = (Inr (), e2) \<and>
    out e2 = out e1 @ [Socket_send (Some (uid, sid)) uid sid ''provision'' (Provision_ready ''Ready'')] \<and>
    map_option cw_fs (get_workspace e2 uuid) = Some (ev_id e) \<and>
    (\<exists>p' s'. get_presence e2 uid = Some p' \<and> ob_get p' sid = Some s' \<and> cs_wsUuid s' = Some uuid)"
proof -
  have f [simp]: "rq_uid req = uid" "rq_sessionId req = sid" "rq_uuid req = uuid" by (simp_all add: assms(1) reopen_request_def)
  have uuid: "uuid \<noteq> []" using assms(2) by (simp add: restorable_def)
  obtain w1 es where p: "ProvisionHandler E A K D ''POST'' (Some req) h w = ((Wait_reply 202 True, Some (Job_provision req h False)), w1)"
    "out (run_job E A K D oc (Job_provision req h False) w1) = es @ [Nats_affinity uid sid uuid]"
    "{(Pods, pod_name uuid), (Services, pod_name uuid)} \<subseteq> objs (pv_kube (run_job E A K D oc (Job_provision req h False) w1))"
    using handler_restores [OF assms(2,3), of A D] assms(4) by auto
  let ?e1 = "emit e [Http_provision img uuid sid uid dedicated]"
  have o: "handleEnvOpen (Some (img, dedicated)) (wait_of (Wait_reply 202 True)) N lock uid uuid sid e = (Inr True, ?e1)"
    using assms(12) by (simp add: handleEnvOpen_def wait_of_def Let_def)
  have "nd_affine N uuid (ev_id ?e1)" "get_workspace ?e1 uuid = None" "get_presence ?e1 uid = Some p"
    using assms(6-8) by (simp_all add: cache_simps)
  then obtain e' p' s' where r: "handleEnvReady N True uid uuid sid ?e1 = (Inr (), e')" "out e' = out ?e1"
    "get_workspace e' uuid = Some \<lparr>cw_state = Active, cw_fs = ev_id ?e1, cw_dirs = [], cw_docs = [], cw_sshs = []\<rparr>"
    "get_presence e' uid = Some p'" "ob_get p' sid = Some s'" "cs_wsUuid s' = Some uuid"
    by (rule handleEnvReady_cold [OF assms(5) _ _ _ assms(9,10)])
  have "handleEnvInternalMessage N True ''affinity'' (Some uuid) (Some uid) (Some sid) ?e1 =
      (Inr (), emit e' [Socket_send (Some (uid, sid)) uid sid ''provision'' (Provision_ready ''Ready'')])"
    using r(1) assms(11,12) uuid by (simp add: handleEnvInternalMessage_def)
  with p o r show ?thesis
    by (intro exI [of _ "Wait_reply 202 True"] exI [of _ "Job_provision req h False"] exI [of _ w1] exI [of _ ?e1] exI [of _ es]
        exI [of _ "emit e' [Socket_send (Some (uid, sid)) uid sid ''provision'' (Provision_ready ''Ready'')]"])
      (simp add: cache_simps frame_simps)
qed

text \<open>A cluster that accepts every new object, and a node of the env service that answers.\<close>

definition open_kube :: "(resource \<times> string) list kube" where
  "open_kube = (store_kube 0)\<lparr>kb_create := \<lambda>r n y k. if (r, n) \<in> set k then (Some (Api_err ''AlreadyExists''), k) else (None, (r, n) # k)\<rparr>"

lemma open_kube_laws: "kube_laws open_kube set" "kube_accepts open_kube set"
  by (auto simp: kube_laws_def kube_accepts_def open_kube_def store_kube_def is_panic_def)

definition node_example :: wsnode where
  "node_example = \<lparr>nd_stat = \<lambda>u p. None, nd_read = \<lambda>u p. None, nd_hash = \<lambda>u p. None, nd_dir = \<lambda>u p. None,
     nd_command = \<lambda>u c p. None, nd_ready = \<lambda>u. True, nd_affine = \<lambda>u i. True, nd_docHash = \<lambda>i u n. Inr None\<rparr>"

definition cold_objs :: "(resource \<times> string) list" where
  "cold_objs = [(PersistentVolumes, data_volume ''u1''), (PersistentVolumeClaims, data_volume ''u1''),
     (PersistentVolumes, config_volume ''u1''), (PersistentVolumeClaims, config_volume ''u1'')]"

lemma restorable_example:
  "restorable env_example open_kube set outcome_example (reopen_request ''node-dev'' ''u1'' ''s1'' ''ann'' False) (pv_example cold_objs)"
proof -
  have "hasCapacity env_example open_kube False (pv_example cold_objs) = Inr (True, [])" "lease_days_ok env_example" by code_simp+
  moreover have "fst (kb_watchPod open_kube (pod_name ''u1'') k) = Inr [Pod_status ''node'' ''Pending''] \<and> scheduled [Pod_status ''node'' ''Pending''] = None" for k
    by (simp add: open_kube_def store_kube_def)
  ultimately show ?thesis
    by (auto simp: restorable_def reopen_request_def open_kube_laws env_example_def [symmetric] pv_example_def cold_objs_def volume_objs_def
        outcome_example_def intro: exI [of _ 0]) (simp_all add: env_example_def)
qed

theorem reopen_ready_witness:
  "\<exists>reply job w1 e1 e2.
    ProvisionHandler env_example (api_example 200) open_kube docker_example ''POST''
      (Some (reopen_request ''node-dev'' ''u1'' ''s1'' ''ann'' False)) ''h'' (pv_example cold_objs) = ((reply, Some job), w1) \<and>
    handleEnvOpen (Some (''node-dev'', False)) (wait_of reply) node_example True ''ann'' ''u1'' ''s1'' (env_of []) = (Inr True, e1) \<and>
    handleEnvInternalMessage node_example True ''affinity'' (Some ''u1'') (Some ''ann'') (Some ''s1'') e1 = (Inr (), e2) \<and>
    map_option cw_fs (get_workspace e2 ''u1'') = Some ''e1''"
proof -
  have w: "well_formed (reopen_request ''node-dev'' ''u1'' ''s1'' ''ann'' False) ''h'' (pv_example cold_objs)"
    using well_formed_example [of "''h''" "''u1''" False cold_objs] by (simp add: well_formed_def req_example_def reopen_request_def)
  have e: "get_workspace (env_of []) ''u1'' = None" "colon_free ''ann''" by code_simp+
  obtain p s where "get_presence (env_of []) ''ann'' = Some p" "ob_get p ''s1'' = Some s"
    by (simp add: env_of_def get_presence_def cache_get_def alive_def CACHEKEY_PRESENCE_def CACHEKEY_WORKSPACE_def)
  with reopen_ready [OF refl restorable_example w, of "api_example 200" node_example "env_of []" p s docker_example True] e
  show ?thesis by (simp add: api_example_def node_example_def env_of_def [of "[]"]) blast
qed





section \<open>The end of a lease\<close>

lemma downgradeWorkspace_row:
  assumes "db_wf v" "findOne_workspace u v = Some r"
  obtains v' where "downgradeWorkspace uid u v = (Inr (), v')" "memberships v' = memberships v"
    "set (workspaces v') = insert (r\<lparr>w_dedicated := False\<rparr>) (set (workspaces v) - {r})"
proof -
  obtain nid v1 where n: "randomUUID v = (nid, v1)" by fastforce
  obtain meta v2 where m: "createMessage uid [] v1 = (meta, v2)" by fastforce
  have t: "workspaces v2 = workspaces v" "memberships v2 = memberships v"
    using n m by (auto simp: randomUUID_def createMessage_def)
  from findOne_workspaceD [OF assms(2)] have r: "r \<in> set (workspaces v)" by simp
  from assms(1) have d: "distinct (map w_id (workspaces v))" "\<forall>x \<in> set (workspaces v). workspace_row_ok x"
    by (simp_all add: db_wf_def workspaces_wf_def)
  have "workspace_row_ok (r\<lparr>w_dedicated := False\<rparr>)" using r d(2) by (simp add: workspace_row_ok_def)
  moreover have "findOne_workspace u (emit v2 es) = Some r" for es
    using assms(2) t(1) by (simp add: findOne_workspace_def emit_def)
  ultimately obtain v' where v': "downgradeWorkspace uid u v = (Inr (), v')" "memberships v' = memberships v"
    "workspaces v' = replace_by w_id (r\<lparr>w_dedicated := False\<rparr>) (workspaces v)"
    by (simp add: downgradeWorkspace_def n m save_workspace_def t emit_def)
  moreover have "set (replace_by w_id (r\<lparr>w_dedicated := False\<rparr>) (workspaces v)) =
      insert (r\<lparr>w_dedicated := False\<rparr>) (set (workspaces v) - {r})"
    using d(1) r by (auto simp: replace_by_def distinct_map inj_on_def image_iff)
  ultimately show thesis using that by simp
qed

text \<open>C12. A lease runs until it expires and then ends everywhere: before, the lease controller only asks to come back at the expiry; the first
  time it looks after that it labels the pod as a spot pod, unless the cluster refuses the patch, and in either case removes the lease and calls the workspace service, whose handler of this
  call makes the row of exactly this workspace not dedicated and changes no membership.\<close>

theorem lease_expiry_downgrades:
  assumes "kube_laws K objs" "label_laws K objs" "kb_lease K (pod_name u) (pv_kube w) = Inr spec" "clock w < ls_leaseExpiry spec"
    and "0 < d" "kb_labels K (ls_podName spec) (pv_kube w) = Inr l" "db_wf v" "findOne_workspace u v = Some r"
  shows "Reconcile K (pod_name u) w = (Inr \<lparr>RequeueAfter = ls_leaseExpiry spec - clock w\<rparr>, w) \<and>
    (\<exists>w1 w2 v'. next_reconcile K (pod_name u) d w = Some w1 \<and> clock w1 = ls_leaseExpiry spec + d \<and>
      Reconcile K (pod_name u) w1 = (Inr \<lparr>RequeueAfter = 0\<rparr>, w2) \<and>
      out w2 = out w @ [Ws_call (Call_downgrade (ls_uid spec) u)] \<and>
      kb_labels K (ls_podName spec) (pv_kube w2) =
        Inr (if fst (kb_patch K (ls_podName spec) (ob_set l ''wstype'' ''spot'') (pv_kube w)) = None
             then ob_set l ''wstype'' ''spot'' else l) \<and>
      objs (pv_kube w2) = objs (pv_kube w) - {(WorkspaceCRDs, pod_name u)} \<and>
      downgradeWorkspace (ls_uid spec) u v = (Inr (), v') \<and> memberships v' = memberships v \<and>
      set (workspaces v') = insert (r\<lparr>w_dedicated := False\<rparr>) (set (workspaces v) - {r}))"
proof -
  let ?w1 = "w\<lparr>clock := ls_leaseExpiry spec + d\<rparr>"
  obtain x w2 where r: "Reconcile K (pod_name u) ?w1 = (x, w2)" by fastforce
  obtain v' where v: "downgradeWorkspace (ls_uid spec) u v = (Inr (), v')" "memberships v' = memberships v"
    "set (workspaces v') = insert (r\<lparr>w_dedicated := False\<rparr>) (set (workspaces v) - {r})"
    by (rule downgradeWorkspace_row [OF assms(7,8)])
  have s: "kb_lease K (pod_name u) (pv_kube ?w1) = Inr spec" "ls_leaseExpiry spec < clock ?w1"
    "kb_labels K (ls_podName spec) (pv_kube ?w1) = Inr l" using assms(3,5,6) by simp_all
  have "Reconcile K (pod_name u) w = (Inr \<lparr>RequeueAfter = ls_leaseExpiry spec - clock w\<rparr>, w)"
    using assms(3,4) by (simp add: Reconcile_def)
  with lease_followed(1) [OF assms(3,4), of d] Reconcile_expired [OF assms(1,2) s r] r v show ?thesis by (simp add: spot_labels_def)
qed

text \<open>A cluster with the lease of one workspace, and the labels of its pod.\<close>

definition lease_kube :: "((resource \<times> string) list \<times> (string, string) obj) kube" where
  "lease_kube = \<lparr>kb_client = \<lambda>k. None,
     kb_get = \<lambda>r n k. if (r, n) \<in> set (fst k) then None else Some Api_not_found,
     kb_create = \<lambda>r n y k. if (r, n) \<in> set (fst k) then (Some (Api_err ''AlreadyExists''), k) else (None, ((r, n) # fst k, snd k)),
     kb_delete = \<lambda>r n opts k. if (r, n) \<notin> set (fst k) then (Some Api_not_found, k) else (None, (removeAll (r, n) (fst k), snd k)),
     kb_nodes = \<lambda>k. Inr [], kb_pods = \<lambda>sel k. Inr [],
     kb_watchJob = \<lambda>n k. (Inr [], k), kb_watchPod = \<lambda>n k. (Inr [], k),
     kb_lease = \<lambda>n k. Inr \<lparr>ls_leaseExpiry = 5000, ls_podName = n, ls_uid = ''ann''\<rparr>,
     kb_labels = \<lambda>n k. Inr (snd k), kb_patch = \<lambda>n l k. (None, (fst k, l))\<rparr>"

lemma lease_kube_laws: "kube_laws lease_kube (set \<circ> fst)" "label_laws lease_kube (set \<circ> fst)"
  by (auto simp: kube_laws_def label_laws_def lease_kube_def is_panic_def)

theorem lease_expiry_downgrades_witness:
  "\<exists>w1 w2. next_reconcile lease_kube (pod_name ''W'') 1 (pv_example ([(WorkspaceCRDs, pod_name ''W'')], [(''wstype'', ''dedicated'')])) = Some w1 \<and>
    Reconcile lease_kube (pod_name ''W'') w1 = (Inr \<lparr>RequeueAfter = 0\<rparr>, w2) \<and>
    fst (pv_kube w2) = [] \<and> kb_labels lease_kube (pod_name ''W'') (pv_kube w2) = Inr (ob_set [(''wstype'', ''dedicated'')] ''wstype'' ''spot'')"
proof -
  let ?w = "pv_example ([(WorkspaceCRDs, pod_name ''W'')], [(''wstype'', ''dedicated'')])"
  let ?spec = "\<lparr>ls_leaseExpiry = 5000, ls_podName = pod_name ''W'', ls_uid = ''ann''\<rparr>"
  have v: "db_wf sample_ws" "findOne_workspace ''W'' sample_ws = Some ann_ws" by code_simp+
  have w: "kb_lease lease_kube (pod_name ''W'') (pv_kube ?w) = Inr ?spec" "clock ?w < ls_leaseExpiry ?spec"
    "kb_labels lease_kube (ls_podName ?spec) (pv_kube ?w) = Inr [(''wstype'', ''dedicated'')]"
    by (simp_all add: lease_kube_def pv_example_def)
  have p: "fst (kb_patch lease_kube n l k) = None" for n l k by (simp add: lease_kube_def)
  have "(0 :: int) < 1" by simp
  from lease_expiry_downgrades [OF lease_kube_laws w(1,2) this w(3) v] show ?thesis by (auto simp: pv_example_def p)
qed

end
