(* ===== verification/Spec2Isabelle.thy ===== *)
theory Spec2Isabelle
  imports Gateway_Service Env_Events Notification_Service Auth_Service Eureka Cache_Server Workspace_Lifecycle
begin

text \<open>
  Verification of the server of H-IDE, a browser IDE whose workspaces run in the cloud.

  The server is a set of services that talk over Redis, NATS, RabbitMQ and HTTP. Browsers reach the gateway:
  its proxy passes requests on to the other services in the name of the user whose token the auth service has
  accepted, and its sockets carry presence, terminals and edits. The env service holds the open documents,
  directories and terminals of a workspace, the workspace service its members, invitations and access codes, the
  user service the profiles, and the notification service the notifications. The provisioner makes and removes the
  pods of workspaces in Kubernetes, and the lease controller ends the leases of dedicated ones. All share one cache in Redis.

  \<^bold>\<open>How code becomes definitions.\<close> A handler is a function from its arguments and the state of its service to a
  result, which is an error or a value, and the new state. The state is a record that extends \<open>net\<close>: the cache
  with the expiry of its entries, the messages sent so far, the clock and the source of random identifiers.
  Exceptions are values of the type \<open>err\<close>. Code that is not part of the repository enters as an argument: the
  replies of other services and of Firebase, the verifier of tokens, Yjs, the file API of a workspace pod, the
  random bytes, the glob matcher, the cuckoo filter. The tables of PostgreSQL and the collections of Firestore are
  part of the state. A handler runs without interruption; where the interleaving of two requests matters
  (\<open>consume_advance\<close>, \<open>process_start\<close> and \<open>process_end\<close>) the handler is cut at its awaits.

  \<^bold>\<open>Shared base.\<close> \<open>Js_Prelude\<close> models what the code uses of the language: objects as association lists, sets,
  splitting, joining and case of strings, numbers with NaN, errors as values; its locale \<open>kv_store\<close> is the contract
  of every key-value container, interpreted for objects and for the cache. \<open>Js_Regex\<close> holds the regular expressions
  of the validators with a matcher and its correctness. \<open>Common_Types\<close> has the data types, cache keys and messages
  of \<^verbatim>\<open>libs/common\<close>, \<open>Net_State\<close> the operations on \<open>net\<close>, \<open>Firestore\<close> the queries on a collection, \<open>Eureka\<close> the client
  of the service registry in \<^verbatim>\<open>libs/eureka\<close>, which in every run has told the registry of itself within thirty seconds.

  \<^bold>\<open>Workspace service\<close> (\<^verbatim>\<open>workspace/src\<close>). \<open>Workspace_Store\<close> is the database: tables with the constraints of the schema and
  the statements the services run. \<open>Invite_Service\<close>, \<open>Manage_Workspace\<close> and \<open>Manage_Access\<close> are the handlers of
  \<^verbatim>\<open>invite.service.ts\<close> and \<^verbatim>\<open>manage.service.ts\<close>, \<open>Access_Code_Gen\<close> the code generator of \<^verbatim>\<open>utils/index.ts\<close>.
  \<open>Workspace_Service\<close> puts them together as the step relation \<open>ws_step\<close>: the constraints hold in every reachable
  state, and each handler does what its caller expects, or, for some, provably not.

  \<^bold>\<open>Gateway\<close> (\<^verbatim>\<open>gateway/src\<close>). \<open>Gateway_Membership\<close> is the cache of memberships (\<^verbatim>\<open>membership.service.ts\<close>); its locale
  \<open>membership_authority\<close> says what the gateway relies on, and the workspace service is shown to provide it.
  \<open>Gateway_Presence\<close> and \<open>Gateway_Socket\<close> are \<^verbatim>\<open>presence.service.ts\<close> and \<^verbatim>\<open>socket.gateway.ts\<close> with their locks and
  timeouts, \<open>Gateway_Sessions\<close> the step relation \<open>gw_step\<close>, of which failing handlers are steps too, and the invariant that
  every session has a timer unless the handling of its expiry failed; \<open>gw_run\<close> collects those sessions. \<open>Gateway_Service\<close> has the
  properties. \<open>Gateway_Public\<close> has the routes without authentication, \<open>Gateway_Proxy\<close> the guard, the table of routes and the
  forwarding, as requests and as messages: \<open>passed_on\<close> says what becomes of a request.

  \<^bold>\<open>Env service\<close> (\<^verbatim>\<open>env/src/core\<close>). \<open>Env_Docs\<close> is \<^verbatim>\<open>sync.service.ts\<close> with \<^verbatim>\<open>shareddoc.ts\<close>: open documents are objects in
  an explicit heap, since the map of documents and the timers share them. \<open>Env_Files\<close> is \<^verbatim>\<open>fs.service.ts\<close>, \<open>Env_Ssh\<close>
  \<^verbatim>\<open>sshproxy.service.ts\<close>, \<open>Env_Workspace\<close> \<^verbatim>\<open>workspace.service.ts\<close> and \<^verbatim>\<open>core.controller.ts\<close>. Debounced calls and timeouts
  are entries of \<open>ev_timers\<close>, fired by \<open>fire\<close>. \<open>Env_Service\<close> has the step relation and the invariant of the open
  documents, \<open>Env_Editing\<close> and \<open>Env_Events\<close> the properties of edits, conflicts and file events.

  \<^bold>\<open>Accounts.\<close> \<open>User_Service\<close> (\<^verbatim>\<open>user/src\<close>): profiles and search, with the confidentiality of e-mail addresses
  over all sequences of requests that read and write profiles.
  \<open>Notification_Service\<close> (\<^verbatim>\<open>notification/src\<close>), whose locale \<open>inbox\<close> is what the other services rely on. \<open>Auth_Service\<close>
  (\<^verbatim>\<open>auth\<close>, in Java): tokens and sign-in by e-mail, with the bound on guesses of a PIN.

  \<^bold>\<open>Provisioner\<close> (\<^verbatim>\<open>provisioner\<close>, in Go). \<open>Kube\<close> has the manifests of \<^verbatim>\<open>util\<close> and the interfaces of Kubernetes and Docker, which are
  arguments: records of functions on an abstract state. What is relied on, \<open>kube_laws\<close>, is a hypothesis over the set of
  existing objects; creations may fail, and deletions of volumes and claims may be refused or take effect later. \<open>Provision_Service\<close> is
  \<^verbatim>\<open>services\<close>: storage is created whole, or the deletion of exactly what was created is requested; \<open>audited\<close> is the log of these
  requests.
  \<open>Provisioner\<close> is \<^verbatim>\<open>handlers\<close>, where a goroutine is a job run by \<open>run_job\<close>: whom it preempts, which refusals it ignores, and why
  a preempted workspace is lost. \<open>Provision_Restore\<close> shows that a restore succeeds and how long its wait is, \<open>Provision_Cache\<close> that the shared cache is only read.

  \<^bold>\<open>Lease controller\<close> (\<^verbatim>\<open>lease-controller\<close>, in Go). \<open>Lease_Controller\<close> is the reconciler of the leases of dedicated workspaces.
  \<open>Workspace_Lifecycle\<close> joins it to the workspace service, and the provisioner to the env service: the reopening of a cold
  workspace, what stands in its way, and the end of a lease.

  \<^bold>\<open>The whole.\<close> \<open>Cache_Types\<close> and \<open>Cache_Server\<close> compose the services over the shared cache; the locale \<open>cache_service\<close>
  is what each owes the others, interpreted for all of them. This theory has the properties that span services:
  how member changes and deletions reach the gateway, how an edit travels from the browser to the document, how
  an invitation and its notification go together, and where the services fail each other.

  \<^bold>\<open>Bounds.\<close> Every function is total. \<open>accessCode\<close> draws random bytes until it has enough: it takes the chunks of
  bytes as a list and answers \<open>None\<close> when they run out, and \<open>accessCode_returns\<close> says how many are enough. The wait for a
  workspace ends at its deadline. Times are milliseconds as unbounded integers, durations of Go wrap at 64 bits (\<open>int64\<close>);
  bytes are \<open>8 word\<close>. Characters are those below 256.

  \<^bold>\<open>Not modelled.\<close> Commits of the provisioner only pack files of a container into an image during development, and do
  nothing on Kubernetes; the deadlines of the contexts its jobs run in are left out, a call that is cut off being one
  that fails. The manager of the lease controller and its generated copy functions belong to a library. The
  wrappers in \<^verbatim>\<open>libs/redis\<close>, \<^verbatim>\<open>libs/rmq\<close>, \<^verbatim>\<open>libs/firebase\<close> and \<^verbatim>\<open>libs/health\<close> only hand out clients of libraries. The modules
  and \<^verbatim>\<open>main.ts\<close> files wire the applications and have no behaviour of their own. The rate limits of public routes
  are decorators of a library. \<^verbatim>\<open>cleanPaths\<close> and \<^verbatim>\<open>commonParent\<close> of \<^verbatim>\<open>fs.service.ts\<close> have no caller.
\<close>

section \<open>Membership: from the database to the gateway\<close>

lemma flags_cong: "get_membership w' = get_membership w \<Longrightarrow> cached_flag w' = cached_flag w"
  by (simp add: cached_flag_def fun_eq_iff)

lemma coherent_cong: "cached_flag w' = cached_flag w \<Longrightarrow> cache_coherent db w' = cache_coherent db w"
  by (simp add: cache_coherent_def)

lemma clearCacheOnDelete_membership: "get_membership (clearCacheOnDelete us x w) = get_membership w"
proof -
  have "get_membership (fold (clear_member x) ps v) = get_membership v" for ps and v :: "'a wsvc_scheme"
    by (induction ps arbitrary: v)
      (auto simp: clear_member_def Let_def fun_eq_iff cache_simps split: option.splits prod.splits)
  then show ?thesis by (simp add: clearCacheOnDelete_def Let_def fun_eq_iff cache_simps)
qed

text \<open>What the gateway answers is what the database says.\<close>

definition answers_exact :: "'b wsvc_scheme \<Rightarrow> 'a net_scheme \<Rightarrow> bool" where
  "answers_exact db w \<longleftrightarrow> (\<forall>u x.
     (\<exists>flag. fst (checkMembership (membership_reply db u x) u x w) = Inr flag \<and> flag_truthy flag) \<longleftrightarrow> is_member u x db)"

lemma coherent_exact: "db_wf db \<Longrightarrow> cache_coherent db w \<Longrightarrow> answers_exact db w"
  unfolding answers_exact_def using ws_authority.check_sound [of db w] by (simp add: coherent_iff)

lemma deleted_member:
  assumes "workspaces w' = filter (\<lambda>r. w_uuid r \<noteq> uuid) (workspaces w)"
    "memberships w' = filter (\<lambda>m. m_workspaceId m \<noteq> i) (memberships w)" "db_wf w"
    "ws \<in> set (workspaces w)" "w_uuid ws = uuid" "w_id ws = i"
  shows "is_member u x w' \<longleftrightarrow> x \<noteq> uuid \<and> is_member u x w"
proof -
  have "r = ws" if "r \<in> set (workspaces w)" "w_id r = i" for r
    using assms(3,4,6) that by (intro key_unique [of w_id "workspaces w"]) (simp_all add: db_defs)
  then have "w_id r \<noteq> i" if "r \<in> set (workspaces w)" "w_uuid r \<noteq> uuid" for r using that assms(5) by blast
  then show ?thesis unfolding is_member_def assms(1,2) by (auto simp: image_iff)
qed

text \<open>C2. Revocation on deletion, across the services: when the workspace service has deleted a workspace
  and the gateway has handled the event it sent last, the membership cache agrees with the database
  again, and nobody is let into the deleted workspace.\<close>

theorem deletion_reaches_gateway:
  assumes "db_wf w" "cache_coherent w w" "deleteWorkspace uid (Some uuid) w = (Inr (), w')"
  shows "\<exists>members. last (out w') = Ev_workspace_deleted uuid members \<and>
    cache_coherent w' (handleWorkspaceDeleted uuid members w') \<and>
    answers_exact w' (handleWorkspaceDeleted uuid members w') \<and> (\<forall>u. \<not> is_member u uuid w')"
proof -
  have wf: "db_wf w'" by (rule deleteWorkspace_wf [OF assms(1,3)])
  have "may_manage uid uuid w" using deleteWorkspace_refused [OF assms(1)] assms(3) by fastforce
  moreover from this obtain ws where ws: "ws \<in> set (workspaces w)" "w_uuid ws = uuid" by (auto simp: may_manage_def)
  then have "findOne_workspace uuid w = Some ws" using findOne_workspace_mem [OF assms(1)] by blast
  ultimately obtain v members where w': "w' = emit (clearCacheOnDelete members uuid v)
        [Http_call ''DELETE'' (''http://provisioner/api/delete?uuid='' @ uuid), Ev_workspace_deleted uuid members]"
    and m: "members = map m_userId (find_memberships (w_id ws) w)"
    and v: "v = w\<lparr>workspaces := filter (\<lambda>r. w_uuid r \<noteq> uuid) (workspaces w),
          memberships := filter (\<lambda>m. m_workspaceId m \<noteq> w_id ws) (memberships w)\<rparr>"
    using deleteWorkspace_ok [OF assms(1)] assms(3) by (metis Pair_inject)
  have t: "same_tables w' v" unfolding w' by simp
  have mem: "is_member u x w' \<longleftrightarrow> x \<noteq> uuid \<and> is_member u x w" for u x
    by (rule deleted_member [OF _ _ assms(1) ws refl]) (use t in \<open>simp_all add: same_tables_def v\<close>)
  have "get_membership w' = get_membership v"
    by (simp add: w' fun_eq_iff cache_simps clearCacheOnDelete_membership)
  also have "\<dots> = get_membership w" using cache_get_cong [of v w] by (simp add: v fun_eq_iff get_membership_def)
  finally have "cache_coherent w w'" using coherent_cong [OF flags_cong] assms(2) by blast
  then have "cache_coherent w' (handleWorkspaceDeleted uuid members w')"
    unfolding coherent_iff [symmetric]
  proof (rule ws_authority.deleted_keeps)
    fix u y assume y: "is_member u y w" "\<not> is_member u y w'"
    then have "y = uuid" by (simp add: mem)
    with y(1) obtain r where r: "r \<in> set (workspaces w)" "w_uuid r = uuid" "(w_id r, u) \<in> m_pk ` set (memberships w)"
      unfolding is_member_def by blast
    have "r = ws" using assms(1) ws r by (intro key_unique [of w_uuid "workspaces w"]) (simp_all add: db_defs)
    with r(3) have "u \<in> set members" by (auto simp: m find_memberships_def)
    with \<open>y = uuid\<close> show "y = uuid \<and> u \<in> set members" by simp
  qed
  with coherent_exact [OF wf] mem show ?thesis by (auto simp: w' emit_def)
qed

lemma is_member_keys:
  assumes "map (\<lambda>r. (w_uuid r, w_id r)) (workspaces v) = map (\<lambda>r. (w_uuid r, w_id r)) (workspaces w)"
  shows "(\<exists>r \<in> set (workspaces v). w_uuid r = x \<and> (w_id r, u) \<in> A) \<longleftrightarrow>
    (\<exists>r \<in> set (workspaces w). w_uuid r = x \<and> (w_id r, u) \<in> A)"
proof -
  have e: "(\<exists>r \<in> set rs. w_uuid r = x \<and> (w_id r, u) \<in> A) \<longleftrightarrow>
      (\<exists>p \<in> set (map (\<lambda>r. (w_uuid r, w_id r)) rs). fst p = x \<and> (snd p, u) \<in> A)" for rs :: "Workspace list" by auto
  show ?thesis unfolding e assms ..
qed

lemma replace_by_keys:
  "w_uuid r' = w_uuid r \<Longrightarrow> w_id r' = w_id r \<Longrightarrow> r \<in> set rs \<Longrightarrow> distinct (map w_id rs) \<Longrightarrow>
     map (\<lambda>r. (w_uuid r, w_id r)) (replace_by w_id r' rs) = map (\<lambda>r. (w_uuid r, w_id r)) rs"
  unfolding replace_by_def by (auto dest: key_unique)

text \<open>C1. Revocation on a change of the members, across the services: when the workspace service has
  changed the member list and the gateway has handled the event it sent last, the membership cache agrees
  with the database again: the gateway lets in exactly the members that the new list leaves.\<close>

theorem member_update_reaches_gateway:
  assumes "db_wf w" "cache_coherent w w" "u_id data = Some i" "u_members data = Some reqs"
    "updateWorkspace sign secret uid data w = (Inr x, w')"
  shows "\<exists>uuid added removed. last (out w') = Ev_members_modified uuid added removed \<and>
    cache_coherent w' (handleMembersModified uuid added removed w') \<and>
    answers_exact w' (handleMembersModified uuid added removed w')"
proof -
  have wf: "db_wf w'" by (rule updateWorkspace_wf [OF assms(1,5)])
  from update_members_run [OF assms(1,3-5)] obtain found added removed v y where
    f: "findOne_workspace_id i w = Some found" and d: "update_diff i reqs w = (added, removed)" and
    u: "updateMembers sign secret uid (update_target data found) added removed (u_sshKey data) w = (Inr y, v)"
    and w': "w' = v\<lparr>workspaces := replace_by w_id (update_target data found) (workspaces v)\<rparr>" by blast
  note f = findOne_workspace_idD [OF f] and t = updateMembers_tables [OF u]
  have ev: "last (out w') = Ev_members_modified (w_uuid found) added removed" "cache w' = cache w" "clock w' = clock w"
    using updateMembers_Inr [OF u] by (auto simp: w')
  have k: "map (\<lambda>r. (w_uuid r, w_id r)) (workspaces w') = map (\<lambda>r. (w_uuid r, w_id r)) (workspaces w)"
    using f assms(1) by (simp add: w' t(2) db_defs replace_by_keys [of _ found])
  have "get_membership w' = get_membership w"
    using cache_get_cong [of w' w] ev by (simp add: fun_eq_iff get_membership_def)
  then have "cache_coherent w w'" using coherent_cong [OF flags_cong] assms(2) by blast
  then have "cache_coherent w' (handleMembersModified (w_uuid found) added removed w')"
    unfolding coherent_iff [symmetric]
  proof (rule ws_authority.modified_keeps)
    fix z y assume y: "is_member z y w" "\<not> is_member z y w'"
    from y(1) obtain r where r: "r \<in> set (workspaces w)" "w_uuid r = y" "(w_id r, z) \<in> m_pk ` set (memberships w)"
      unfolding is_member_def by blast
    with y(2) have "(w_id r, z) \<notin> m_pk ` set (memberships w')" unfolding is_member_def is_member_keys [OF k] by blast
    with r(3) have "w_id r = i" "z \<in> set removed" using f by (auto simp: w' t(1) image_iff)
    moreover have "r = found" using assms(1) f r(1) \<open>w_id r = i\<close>
      by (intro key_unique [of w_id "workspaces w"]) (simp_all add: db_defs)
    ultimately show "y = w_uuid found \<and> z \<in> set removed" using r(2) by simp
  qed
  with coherent_exact [OF wf] ev(1) show ?thesis by blast
qed

lemma sample_coherent: "cache_coherent sample_ws sample_ws"
  by (simp add: cache_coherent_def cached_flag_def get_membership_def cache_get_def sample_ws_def)

theorem deletion_reaches_gateway_witness:
  "\<exists>members. last (out (snd (deleteWorkspace ''ann'' (Some ''W'') sample_ws))) = Ev_workspace_deleted ''W'' members \<and>
    answers_exact (snd (deleteWorkspace ''ann'' (Some ''W'') sample_ws))
      (handleWorkspaceDeleted ''W'' members (snd (deleteWorkspace ''ann'' (Some ''W'') sample_ws)))"
proof -
  have "deleteWorkspace ''ann'' (Some ''W'') sample_ws = (Inr (), snd (deleteWorkspace ''ann'' (Some ''W'') sample_ws))"
    using deleteWorkspace_tables [OF sample_wf surjective_pairing, of "''ann''" "''W''"] sample_manage
    by (metis prod.collapse)
  from deletion_reaches_gateway [OF sample_wf sample_coherent this] show ?thesis by blast
qed

theorem member_update_reaches_gateway_witness:
  "\<exists>uuid added removed.
    last (out (snd (updateWorkspace (\<lambda>p k. '''') ''s'' ''ann'' (members_only ''ann'') sample_ws))) =
      Ev_members_modified uuid added removed \<and>
    answers_exact (snd (updateWorkspace (\<lambda>p k. '''') ''s'' ''ann'' (members_only ''ann'') sample_ws))
      (handleMembersModified uuid added removed
         (snd (updateWorkspace (\<lambda>p k. '''') ''s'' ''ann'' (members_only ''ann'') sample_ws)))"
proof -
  have "fst (updateWorkspace (\<lambda>p k. '''') ''s'' ''ann'' (members_only ''ann'') sample_ws) = Inr ()"
    by code_simp
  then have "updateWorkspace (\<lambda>p k. '''') ''s'' ''ann'' (members_only ''ann'') sample_ws =
      (Inr (), snd (updateWorkspace (\<lambda>p k. '''') ''s'' ''ann'' (members_only ''ann'') sample_ws))"
    by (metis prod.collapse)
  from member_update_reaches_gateway [OF sample_wf sample_coherent _ _ this, of 1 "[''ann'']"] show ?thesis
    by (simp add: members_only_def) blast
qed

section \<open>Documents and terminals: from the browser to the env instance\<close>

text \<open>The channel of an instance is none of its channels for other instances: an instance id is a UUID.\<close>

lemma plain_channel:
  assumes "length i = 36" "CHR ''.'' \<notin> set i"
  shows "\<not> suffix ''.health'' (''env.'' @ i)" "\<not> suffix ''.openfile'' (''env.'' @ i)" "\<not> suffix ''.closefile'' (''env.'' @ i)"
proof -
  have "\<not> suffix (CHR ''.'' # t) (''env.'' @ i)" if "length t < 36" for t
  proof
    assume "suffix (CHR ''.'' # t) (''env.'' @ i)"
    moreover have "suffix i (''env.'' @ i)" by (simp add: suffix_def)
    ultimately have "suffix (CHR ''.'' # t) i" by (rule suffix_length_suffix) (use that assms(1) in simp)
    then show False using assms(2) set_mono_suffix by fastforce
  qed
  then show "\<not> suffix ''.health'' (''env.'' @ i)" "\<not> suffix ''.openfile'' (''env.'' @ i)"
    "\<not> suffix ''.closefile'' (''env.'' @ i)" by simp_all
qed

text \<open>C3. An edit finds its document, across the services: when a user has opened a file at an env
  instance that nobody had open, an edit that the browser of a member sends to a gateway with the same
  cache goes to the channel of that instance, and the instance applies it to the document.\<close>

theorem edits_reach_document:
  assumes "get_workspace w x = Some ws" "ob_get (cw_docs ws) (st_ino stat) = None" "doc_at w x (st_ino stat) = None"
    "nd_read N x path = Some content" "w1 = openFile L N u s x path stat c w"
    "length (ev_id w) = 36" "CHR ''.'' \<notin> set (ev_id w)" "health (''env.'' @ ev_id w @ ''.health'')"
    "get_workspace g x = get_workspace w1 x" "checkMembership reply v x g = (Inr flag, g1)" "flag_truthy flag"
    "v \<noteq> []" "t \<noteq> []" "m = \<lparr>im_payload = Fs_sync x (st_ino stat) buf, im_correlationId = k\<rparr>"
    "yl_decode L buf = Some (YMessage_SYNC, body)"
    "yl_read L body (fst (yl_insert L content (yl_new L))) = (y, Some up, ans)"
  shows "env_out (snd (handleEnvMessage reply health sid v t m g)) = env_out g @ [Ev_env_message (''env.'' @ ev_id w) v t m] \<and>
    (\<exists>d w2. w2 = onMessage L N (''env.'' @ ev_id w) (Evt_message (Some v) (Some t) m) w1 \<and>
       doc_at w1 x (st_ino stat) = Some d \<and> dc_y (the_doc w2 d) = y \<and>
       ob_get (ev_timers w2) (T_flush d) = Some (clock w1 + 5000))"
proof -
  let ?i = "st_ino stat"
  obtain d doc where o: "ob_get (ev_heap w1) d = Some doc" "dc_users doc = [(u, [])]"
      "dc_y doc = fst (yl_insert L content (yl_new L))"
      "\<And>y i. doc_at w1 y i = (if y = x \<and> i = ?i then Some d else doc_at w y i)" "ev_id w1 = ev_id w"
      "get_workspace w1 x = Some (ws\<lparr>cw_docs := ob_set (cw_docs ws) ?i (ev_id w)\<rparr>)"
    using openFile_new [OF assms(1-5)] by blast
  have d: "doc_at w1 x ?i = Some d" by (simp add: o(4))
  have "get_workspace g (in_uuid (im_payload m)) = Some (ws\<lparr>cw_docs := ob_set (cw_docs ws) ?i (ev_id w)\<rparr>)"
    "checkMembership reply v (in_uuid (im_payload m)) g = (Inr flag, g1)"
    using assms(9,10,14) o(6) by simp_all
  from env_message_out [OF this, of health sid t] have
    "env_out (snd (handleEnvMessage reply health sid v t m g)) = env_out g @ [Ev_env_message (''env.'' @ ev_id w) v t m]"
    using assms(8,11,14) by (simp add: reachable_def forwarded_def env_channel_def env_target_def stickyActions_def js_str_def)
  moreover have "onMessage L N (''env.'' @ ev_id w) (Evt_message (Some v) (Some t) m) w1 = handleSync L v t x ?i buf w1"
    using plain_channel [OF assms(6,7)] assms(12-14)
    by (simp add: onMessage_def channels_def o(5) sticky_ids_def truthy_def js_str_def handleStickyEnvMessage_def)
  moreover have "dc_users doc \<noteq> []" "yl_read L body (dc_y doc) = (y, Some up, ans)" using o(2,3) assms(16) by simp_all
  note h = handleSync_edit [OF d o(1) this(1) assms(15) this(2), of v t]
  ultimately show ?thesis using d h by (auto simp: the_doc_def)
qed

definition env36 :: "string env" where
  "env36 = (env_of [])\<lparr>ev_id := replicate 36 CHR ''a''\<rparr>"

definition gw_after :: gw where
  "gw_after = (gw_of (cache (openFile text_lib (disk (Some ''abc'')) ''ann'' ''s1'' ''W'' ''/workspace/f'' file_stat (Some ''c'') env36)))
     \<lparr>clock := 0\<rparr>"

theorem edits_reach_document_witness:
  "\<exists>w2. w2 = onMessage text_lib (disk (Some ''abc'')) (''env.'' @ ev_id env36)
      (Evt_message (Some ''bob'') (Some ''s2'') \<lparr>im_payload = Fs_sync ''W'' 7 ''!'', im_correlationId = None\<rparr>)
      (openFile text_lib (disk (Some ''abc'')) ''ann'' ''s1'' ''W'' ''/workspace/f'' file_stat (Some ''c'') env36) \<and>
    dc_y (the_doc w2 0) = ''abc!''"
proof -
  let ?w1 = "openFile text_lib (disk (Some ''abc'')) ''ann'' ''s1'' ''W'' ''/workspace/f'' file_stat (Some ''c'') env36"
  have e: "get_workspace env36 ''W'' = Some \<lparr>cw_state = Active, cw_fs = ''e1'', cw_dirs = [], cw_docs = [], cw_sshs = []\<rparr>"
    "doc_at env36 ''W'' (st_ino file_stat) = None" "length (ev_id env36) = 36" "CHR ''.'' \<notin> set (ev_id env36)"
    "doc_at ?w1 ''W'' 7 = Some 0" "st_ino file_stat = 7" "clock ?w1 = 0"
    by code_simp+
  have g: "get_workspace gw_after ''W'' = get_workspace ?w1 ''W''"
    using cache_get_cong [of gw_after ?w1] e(7) by (simp add: get_workspace_def gw_after_def gw_of_def)
  let ?c = "checkMembership (Inr (FlagBool True)) ''bob'' ''W'' gw_after"
  have "fst ?c = Inr (FlagBool True)" by code_simp
  then have c: "?c = (Inr (FlagBool True), snd ?c)" by (metis prod.collapse)
  have y: "yl_decode text_lib ''!'' = Some (YMessage_SYNC, ''!'')"
    "yl_read text_lib ''!'' (fst (yl_insert text_lib ''abc'' (yl_new text_lib))) = (''abc!'', Some ''!'', Some '''')"
    "nd_read (disk (Some ''abc'')) ''W'' ''/workspace/f'' = Some ''abc''"
    by (simp_all add: text_lib_def YMessage_SYNC_def disk_def)
  note h = edits_reach_document [OF e(1) _ e(2) y(3) refl e(3,4) _ g c _ _ _ refl y(1,2), where health = "\<lambda>_. True"
      and k = None and t = "''s2''" and sid = "''k''", unfolded e(5,6)]
  from h show ?thesis by auto
qed

text \<open>C33. A terminal that the user cannot type into: when the instance has a connection of the user to the
  workspace from an earlier session, a request from a new session opens a shell and the browser is told so,
  but the workspace record is not given the new session; a gateway with the same cache then sends what is
  typed to the channel \<^verbatim>\<open>env.undefined\<close>, which has no listener, so nothing reaches the env service.\<close>

theorem second_session_terminal_dead:
  assumes "ssh_at w u x = Some conn" "get_workspace w x = Some ws" "ob_get (cw_sshs ws) s = None"
    "handleSSHConnection dev u x key w = (r, w1)" "shell_opened (Some stream) u s x client w1 = (r', w2)"
    "get_workspace g x = get_workspace w2 x" "\<not> health ''env.undefined.health''"
    "m = \<lparr>im_payload = Ssh_data x ssh inp, im_correlationId = k\<rparr>"
  shows "r = Inr () \<and> r' = Inr () \<and> (\<exists>ssh. last (out w2) = ssh_send u s (Ssh_open ssh client)) \<and>
    env_out (snd (handleEnvMessage reply health sid u s m g)) = env_out g"
proof -
  obtain cs where c: "ob_get (ev_conns w) u = Some cs" "ob_get cs x = Some conn"
    using assms(1) by (auto simp: ssh_at_def split: option.splits)
  then have w1: "r = Inr ()" "w1 = emit w [Ssh_shell (sc_conn conn)]"
    using assms(1,4) by (auto simp: handleSSHConnection_def handleNewSSHSession_def Let_def)
  obtain ssh w0 where id: "randomUUID w1 = (ssh, w0)" by fastforce
  have w0: "ev_conns w0 = ev_conns w" "cache w0 = cache w" "clock w0 = clock w"
    using id w1(2) by (auto simp: randomUUID_def emit_def)
  have w2: "r' = Inr ()" "last (out w2) = ssh_send u s (Ssh_open ssh client)" "cache w2 = cache w" "clock w2 = clock w"
    using assms(5) id w0 c by (auto simp: shell_opened_def emit_def)
  then have "get_workspace w2 x = Some ws" using cache_get_cong [of w2 w] assms(2) by (simp add: get_workspace_def)
  then have "get_workspace g (in_uuid (im_payload m)) = Some ws" using assms(6,8) by simp
  from env_message_out [OF this surjective_pairing, where health = health and sid = sid and s = s] have
    "env_out (snd (handleEnvMessage reply health sid u s m g)) = env_out g"
    using assms(3,7,8) by (simp add: reachable_def env_channel_def env_target_def stickyActions_def js_str_def)
  with w1 w2 show ?thesis by blast
qed

definition env_shell :: "string env" where
  "env_shell = (env_of [])\<lparr>ev_conns := [(''ann'', [(''W'', \<lparr>sc_conn = 0, sc_sessionId = ''s0'', sc_sessions = []\<rparr>)])]\<rparr>"

definition gw_open :: gw where
  "gw_open = gw_of [(CACHEKEY_WORKSPACE ''W'', CvWorkspace
     \<lparr>cw_state = Active, cw_fs = ''e1'', cw_dirs = [], cw_docs = [], cw_sshs = []\<rparr>, None)]"

theorem second_session_terminal_dead_witness:
  "fst (handleSSHConnection False ''ann'' ''W'' ''key'' env_shell) = Inr () \<and>
    env_out (snd (handleEnvMessage (Inr (FlagBool True)) (\<lambda>c. c = ''env.e1.health'') ''sock'' ''ann'' ''s1''
      \<lparr>im_payload = Ssh_data ''W'' ''id'' ''ls'', im_correlationId = None\<rparr> gw_open)) = []"
proof -
  let ?w1 = "snd (handleSSHConnection False ''ann'' ''W'' ''key'' env_shell)"
  let ?w2 = "snd (shell_opened (Some 5) ''ann'' ''s1'' ''W'' ''c'' ?w1)"
  let ?ws = "\<lparr>cw_state = Active, cw_fs = ''e1'', cw_dirs = [], cw_docs = [], cw_sshs = []\<rparr>"
  have e: "ssh_at env_shell ''ann'' ''W'' = Some \<lparr>sc_conn = 0, sc_sessionId = ''s0'', sc_sessions = []\<rparr>"
    "get_workspace env_shell ''W'' = Some ?ws" "get_workspace gw_open ''W'' = get_workspace ?w2 ''W''" "env_out gw_open = []"
    by code_simp+
  show ?thesis
    using second_session_terminal_dead [OF e(1,2) _ surjective_pairing surjective_pairing e(3) _ refl,
        where health = "\<lambda>c. c = ''env.e1.health''" and ssh = "''id''" and inp = "''ls''" and k = None
          and reply = "Inr (FlagBool True)" and sid = "''sock''"] e(4)
    by simp
qed

section \<open>Notifications: from the workspace service to the notification service\<close>

lemma inviteUser_notifies:
  assumes "inviteUser sign secret inviterId dto v w = (Inr (), w1)"
  shows "\<exists>meta. out w1 = out w @ [Rmq_notify meta (i_inviteeId dto)
    \<lparr>nt_type = Workspace_invite, nt_id = uuids w (uuidc w), nt_createdOn = IsoText (clock w), nt_actedOn = None,
     nt_fields = WorkspaceInvite inviterId (i_workspaceUUID dto) (sign (invitation_of inviterId dto w) secret)\<rparr>]"
proof -
  have "inviteUser sign secret inviterId dto False w = (Inr (), w1)"
    using assms by (auto simp: inviteUser_def split: option.splits if_splits)
  then show ?thesis using inviteUser_sends [of sign secret inviterId dto w] by (auto simp: frame_simps)
qed

lemma acceptInvitation_reads:
  assumes "acceptInvitation verify secret u token w = (Inr key, w')" "verify token secret = Some p"
  shows "\<exists>meta es. out w' = out w @ Rmq_read meta u (iv_notificationId (sp_data p)) # es"
proof -
  have s: "out w1 = out w" if "save_membership m w = (r, w1)" for m r w1
    using that by (auto simp: save_membership_def Let_def split: if_splits option.splits)
  show ?thesis using assms
    by (auto simp: acceptInvitation_def validateAccept_def Let_def createMessage_def randomUUID_def emit_def
        split: option.splits if_splits sum.splits prod.splits dest: s)
qed

text \<open>C15. The notification of an invitation, across the services: what \<^verbatim>\<open>inviteUser\<close> sends is stored for the
  invitee and stays when the invitee reads it; when the invitation is accepted, the message to the notification service
  removes exactly this notification, whatever else the invitee and others have got.\<close>

theorem invitation_notification_cleared:
  assumes "inviteUser sign secret inviterId dto v w = (Inr (), w1)"
    "verify (sign (invitation_of inviterId dto w) secret) secret = Some (invitation_of inviterId dto w)"
    "acceptInvitation verify secret (i_inviteeId dto) (sign (invitation_of inviterId dto w) secret) x = (Inr key, x')"
    "pending ns (i_inviteeId dto) (uuids w (uuidc w)) = None"
  shows "\<exists>meta n meta' es. out w1 = out w @ [Rmq_notify meta (i_inviteeId dto) n] \<and>
    out x' = out x @ Rmq_read meta' (i_inviteeId dto) (nt_id n) # es \<and>
    (\<exists>ns1 ns2 ns3. ntfn_handle None pd (Ntfn_send (i_inviteeId dto) n) ns = (Inr (), ns1) \<and>
       pending ns1 (i_inviteeId dto) (nt_id n) = Some (n\<lparr>nt_createdOn := DateOf (clock w)\<rparr>) \<and>
       ntfn_handle None pd (Post_read (i_inviteeId dto) (nt_id n)) ns1 = (Inr (), ns2) \<and> pending ns2 = pending ns1 \<and>
       ntfn_handle None pd (Ntfn_read (i_inviteeId dto) (nt_id n)) ns2 = (Inr (), ns3) \<and> pending ns3 = pending ns)"
proof -
  let ?u = "i_inviteeId dto"
  let ?n = "\<lparr>nt_type = Workspace_invite, nt_id = uuids w (uuidc w), nt_createdOn = IsoText (clock w), nt_actedOn = None,
     nt_fields = WorkspaceInvite inviterId (i_workspaceUUID dto) (sign (invitation_of inviterId dto w) secret)\<rparr>"
  have p: "isNotificationPersistent (?n\<lparr>nt_createdOn := c\<rparr>)" for c
    by (simp add: isNotificationPersistent_def persistentNtfnTypes_def persistentNtfnTypesChecks_def)
  have i: "iv_notificationId (sp_data (invitation_of inviterId dto w)) = nt_id ?n" by (simp add: invitation_of_def)
  let ?h = "\<lambda>rq. ntfn_handle None pd rq"
  let ?ns1 = "snd (?h (Ntfn_send ?u ?n) ns)"
  let ?ns2 = "snd (?h (Post_read ?u (nt_id ?n)) ?ns1)"
  have d: "date_of pd (nt_createdOn ?n) \<noteq> None" and e: "dated pd ?n = ?n\<lparr>nt_createdOn := DateOf (clock w)\<rparr>"
    by (simp_all add: dated_def)
  have q: "pending ?ns1 ?u (nt_id ?n) = Some (?n\<lparr>nt_createdOn := DateOf (clock w)\<rparr>) \<and> pending ?ns2 = pending ?ns1 \<and>
      pending (snd (?h (Ntfn_read ?u (nt_id ?n)) ?ns2)) = pending ns"
    using ntfn_box.send_seen_clear [of pd ?n ns ?u] d p assms(4) unfolding e by simp
  have h: "?h (Ntfn_send ?u ?n) ns = (Inr (), ?ns1)" "?h (Post_read ?u (nt_id ?n)) ?ns1 = (Inr (), ?ns2)"
    "?h (Ntfn_read ?u (nt_id ?n)) ?ns2 = (Inr (), snd (?h (Ntfn_read ?u (nt_id ?n)) ?ns2))"
    using ntfn_handle_ok(1) [OF d, of ?u ns] ntfn_handle_ok(2,3) [of pd] by (simp_all add: prod_eq_iff)
  have "\<exists>ns1 ns2 ns3. ?h (Ntfn_send ?u ?n) ns = (Inr (), ns1) \<and>
       pending ns1 ?u (nt_id ?n) = Some (?n\<lparr>nt_createdOn := DateOf (clock w)\<rparr>) \<and>
       ?h (Post_read ?u (nt_id ?n)) ns1 = (Inr (), ns2) \<and> pending ns2 = pending ns1 \<and>
       ?h (Ntfn_read ?u (nt_id ?n)) ns2 = (Inr (), ns3) \<and> pending ns3 = pending ns"
    by (rule exI [of _ ?ns1], rule exI [of _ ?ns2], rule exI, intro conjI, rule h(1), rule q [THEN conjunct1], rule h(2),
        rule q [THEN conjunct2, THEN conjunct1], rule h(3), rule q [THEN conjunct2, THEN conjunct2])
  moreover obtain meta where "out w1 = out w @ [Rmq_notify meta ?u ?n]" using inviteUser_notifies [OF assms(1)] by blast
  moreover obtain meta' es where "out x' = out x @ Rmq_read meta' ?u (nt_id ?n) # es"
    using acceptInvitation_reads [OF assms(3,2)] unfolding i by blast
  ultimately show ?thesis by blast
qed

definition no_ntfns :: nsvc where
  "no_ntfns = \<lparr>cache = [], out = [], uuids = (\<lambda>n. ''id''), uuidc = 0, clock = 0, perf = 0, ntfns = []\<rparr>"

theorem invitation_notification_cleared_witness:
  "\<exists>n ns1 ns2 ns3. ntfn_handle None (\<lambda>s. None) (Ntfn_send ''cy'' n) no_ntfns = (Inr (), ns1) \<and> pending ns1 ''cy'' (nt_id n) \<noteq> None \<and>
     ntfn_handle None (\<lambda>s. None) (Post_read ''cy'' (nt_id n)) ns1 = (Inr (), ns2) \<and>
     ntfn_handle None (\<lambda>s. None) (Ntfn_read ''cy'' (nt_id n)) ns2 = (Inr (), ns3) \<and> pending ns3 = pending no_ntfns"
proof -
  let ?sign = "\<lambda>p k. ''T'' @ k"
  let ?verify = "\<lambda>t k. if t = ''T'' @ k then Some (invitation_of ''ann'' cy_dto sample_ws) else None"
  have i: "fst (inviteUser ?sign ''s'' ''ann'' cy_dto True sample_ws) = Inr ()"
    "fst (acceptInvitation ?verify ''s'' ''cy'' ''Ts'' sample_ws) = Inr None" by code_simp+
  have 1: "inviteUser ?sign ''s'' ''ann'' cy_dto True sample_ws = (Inr (), snd (inviteUser ?sign ''s'' ''ann'' cy_dto True sample_ws))"
    using i(1) by (metis prod.collapse)
  have 2: "acceptInvitation ?verify ''s'' (i_inviteeId cy_dto) (?sign (invitation_of ''ann'' cy_dto sample_ws) ''s'') sample_ws =
      (Inr None, snd (acceptInvitation ?verify ''s'' ''cy'' ''Ts'' sample_ws))"
    using i(2) by (simp add: cy_dto_def prod_eq_iff)
  have 3: "pending no_ntfns (i_inviteeId cy_dto) (uuids sample_ws (uuidc sample_ws)) = None"
    by (simp add: pending_def messages_def no_ntfns_def)
  have 4: "i_inviteeId cy_dto = ''cy''" by (simp add: cy_dto_def)
  from invitation_notification_cleared [OF 1 _ 2 3, where pd = "\<lambda>s. None", unfolded 4] show ?thesis
    by (simp only: if_True simp_thms) blast
qed

section \<open>Accounts: from the registration to the check of names\<close>

lemma createUser_ok:
  assumes "validateCreateUser data = None" "with_uid (up_uid u) w = []" "getUser (up_uid u) = Inr (Suc n)"
  shows "createUser None getUser x (Some u) data w = (Inr (), cache_set
    (w\<lparr>users := ob_set (users w) (js_str (cu_username data)) (new_profile u data (up_expireAt u))\<rparr>)
    (CACHEKEY_USER_PROFILE (js_str (up_uid u))) (CvUser u) None)"
  using assms by (simp add: createUser_def)

lemma with_uid_empty: "users_wf w \<Longrightarrow> with_uid uid w = [] \<longleftrightarrow> (\<forall>k d. ob_get (users w) k = Some d \<longrightarrow> up_uid d \<noteq> uid)"
  using with_uid_mem [of w _ uid] by (metis list.set_cases list.set_intros(1) neq_Nil_conv)

text \<open>C38. A user name can be taken over, across the services. The webhook that tells the gateway of a new user
  is refused by its guard whatever it carries, so the name does not get into the filter; the gateway goes on to report
  the name as available, and a second registration under it succeeds and replaces the profile of the first user.\<close>

theorem username_taken_over:
  assumes "users_wf w" "validateCreateUser data = None" "validateCreateUser data' = None" "cu_username data' = cu_username data"
    "up_uid ann \<noteq> up_uid bob" "with_uid (up_uid ann) w = []" "with_uid (up_uid bob) w = []"
    "getUser (up_uid ann) = Inr (Suc n)" "getUser (up_uid bob) = Inr (Suc n')"
    "\<not> cf_exists C (pb_usernames g) (js_lower (js_str (cu_username data)))"
    "createUser None getUser x (Some ann) data w = (r, w1)"
    "post_webhook vw vc C reply queryToken authHeader hook g = (r', g1)"
  shows "r = Inr () \<and> with_uid (up_uid ann) w1 \<noteq> [] \<and>
    checkUsernameExistence C (\<lambda>k. Inr (ob_get (users w1) k \<noteq> None)) (cu_username data) g1 = Inr True \<and>
    (\<exists>w2. createUser None getUser x (Some bob) data' w1 = (Inr (), w2) \<and> with_uid (up_uid ann) w2 = [] \<and> with_uid (up_uid bob) w2 \<noteq> [])"
proof -
  let ?k = "js_str (cu_username data)"
  have w1: "r = Inr ()" "users w1 = ob_set (users w) ?k (new_profile ann data (up_expireAt ann))"
    using createUser_ok [where getUser = getUser and x = x, OF assms(2,6,8)] assms(11) by auto
  have wf1: "users_wf w1" by (rule createUser_wf [OF assms(1,11)])
  have e: "\<forall>k d. ob_get (users w) k = Some d \<longrightarrow> up_uid d \<noteq> up_uid ann \<and> up_uid d \<noteq> up_uid bob"
    using assms(6,7) with_uid_empty [OF assms(1)] by blast
  have "g1 = g" using assms(12) by (simp add: post_webhook_def guarded_def public_canActivate_def)
  moreover have "validateUsername (cu_username data)"
    using assms(2) by (auto simp: validateUsername_def validateCreateUser_def split: if_splits)
  ultimately have c: "checkUsernameExistence C (\<lambda>k. Inr (ob_get (users w1) k \<noteq> None)) (cu_username data) g1 = Inr True"
    using assms(10) by (simp add: checkUsernameExistence_def cuckooCheck_def)
  have 1: "with_uid (up_uid ann) w1 \<noteq> []" unfolding with_uid_empty [OF wf1] w1(2) by auto
  have b: "with_uid (up_uid bob) w1 = []" unfolding with_uid_empty [OF wf1] w1(2) using e assms(5) by (auto split: if_splits)
  obtain w2 where w2: "createUser None getUser x (Some bob) data' w1 = (Inr (), w2)"
      "users w2 = ob_set (users w1) ?k (new_profile bob data' (up_expireAt bob))"
    using createUser_ok [where getUser = getUser and x = x, OF assms(3) b assms(9)] assms(4) by simp
  have wf2: "users_wf w2" by (rule createUser_wf [OF wf1 w2(1)])
  have "with_uid (up_uid ann) w2 = []" unfolding with_uid_empty [OF wf2] w2(2) w1(2) using e assms(5) by (auto split: if_splits)
  moreover have "with_uid (up_uid bob) w2 \<noteq> []" unfolding with_uid_empty [OF wf2] w2(2) by auto
  ultimately show ?thesis using w1(1) 1 c w2(1) by blast
qed

definition list_filter :: "string list cuckoo" where
  "list_filter = \<lparr>cf_key = (\<lambda>f. True), cf_reserve = (\<lambda>f n. Inr f), cf_exists = (\<lambda>f s. s \<in> set f),
     cf_add = (\<lambda>f s. Inr (s # f)), cf_del = (\<lambda>f s. Inr (remove1 s f))\<rparr>"

definition pub0 :: "string list pub" where
  "pub0 = gw.extend (gw_of []) \<lparr>pb_usernames = []\<rparr>"

definition token_user :: "string \<Rightarrow> user_profile" where
  "token_user u = \<lparr>up_uid = Some u, up_name = None, up_username = None, up_email = Some ''u@x.org'', up_picture = None,
     up_issuer = Some ''i'', up_expireAt = None\<rparr>"

definition neo_dto :: CreateUserDTO where
  "neo_dto = \<lparr>cu_name = Some ''Thomas'', cu_username = Some ''neo'', cu_picture = None\<rparr>"

definition no_users :: usvc where
  "no_users = \<lparr>cache = [], out = [], uuids = (\<lambda>n. ''id''), uuidc = 0, clock = 0, perf = 0, users = []\<rparr>"

theorem username_taken_over_witness:
  "\<exists>w1 w2. createUser None (\<lambda>u. Inr 1) None (Some (token_user ''ann'')) neo_dto no_users = (Inr (), w1) \<and>
     createUser None (\<lambda>u. Inr 1) None (Some (token_user ''bob'')) neo_dto w1 = (Inr (), w2) \<and> with_uid (Some ''ann'') w2 = []"
proof -
  have v: "validateCreateUser neo_dto = None" "users_wf no_users"
    by code_simp (simp add: users_wf_def no_users_def)
  have u: "with_uid (up_uid (token_user u)) no_users = []" "up_uid (token_user u) = Some u" for u
    by (simp_all add: with_uid_def no_users_def fs_where_def fs_docs_def token_user_def)
  have f: "\<not> cf_exists list_filter (pb_usernames pub0) (js_lower (js_str (cu_username neo_dto)))"
    by (simp add: list_filter_def pub0_def gw.defs)
  let ?w1 = "createUser None (\<lambda>u. Inr 1) None (Some (token_user ''ann'')) neo_dto no_users"
  let ?vt = "\<lambda>t. Inr ('''', '''')"
  from username_taken_over [OF v(2) v(1) v(1) refl _ u(1) u(1) _ _ f surjective_pairing surjective_pairing, of "''ann''" "''bob''" "\<lambda>u. Inr 1" 0 0 None
      ?vt ?vt "Inr ()" None None Other_hook]
  have "fst ?w1 = Inr ()" "\<exists>w2. createUser None (\<lambda>u. Inr 1) None (Some (token_user ''bob'')) neo_dto (snd ?w1) = (Inr (), w2) \<and>
      with_uid (Some ''ann'') w2 = []" by (auto simp: u(2))
  then show ?thesis by (metis prod.collapse)
qed

section \<open>One cache for all services\<close>

text \<open>C7. What the services read from the shared cache is what they expect there. From an empty cache, after any sequence of handlers of
  the gateway, the workspace, user, environment, notification and auth services, the public routes, the provisioner and the
  lease controller, failing ones included, a read under a key of a workspace, membership, profile (both kinds of keys), presence
  or of the templates finds either nothing or a document of that type. User ids are free of colons, as Firebase's are.\<close>

theorem cache_reads_typed:
  assumes "(server_step cfg L C K D)\<^sup>*\<^sup>* [] (cache w)"
  shows "cache_get w (CACHEKEY_WORKSPACE x) = map_option CvWorkspace (get_workspace w x) \<and>
    cache_get w (CACHEKEY_MEMBERSHIP u) = map_option CvMembership (get_membership w u) \<and>
    cache_get w (CACHEKEY_USER_PROFILE u) = map_option CvUser (get_user w (CACHEKEY_USER_PROFILE u)) \<and>
    (colon_free u \<longrightarrow> cache_get w (CACHEKEY_PRESENCE u) = map_option CvPresence (get_presence w u)) \<and>
    cache_get w (''users:'' @ u) = map_option CvUser (get_user w (''users:'' @ u)) \<and>
    (cache_get w ''templates'' = None \<or> (\<exists>ts. cache_get w ''templates'' = Some (CvTemplates ts)))"
  using typed_reads [of w] server_store.run_from_empty [OF assms] by (simp add: typed_redis)

text \<open>The user service reads Ann's profile, then the gateway the templates.\<close>

definition shared_cache :: redis where
  "shared_cache = cache (snd (getTemplates (Inr [(''hide/node'', ''node'')])
     (pub0\<lparr>cache := cache (snd (getProfile None ''ann'' None (user_db ''a@x.org'')))\<rparr>)))"

theorem cache_reads_typed_witness:
  "(server_step cfg0 text_lib list_filter open_kube docker_example)\<^sup>*\<^sup>* [] shared_cache \<and>
   cache_get (gw_of shared_cache) (CACHEKEY_USER_PROFILE ''ann'') = Some (CvUser (ann_profile ''a@x.org'')) \<and>
   get_user (gw_of shared_cache) (CACHEKEY_USER_PROFILE ''ann'') = Some (ann_profile ''a@x.org'')"
proof -
  let ?w = "snd (getProfile None ''ann'' None (user_db ''a@x.org''))"
  let ?v = "pub0\<lparr>cache := cache ?w\<rparr>"
  have "user_step (user_db ''a@x.org'') ?w" using user_step.profile [OF surjective_pairing] by blast
  from server_step.user [OF this] have "server_step cfg0 text_lib list_filter open_kube docker_example [] (cache ?w)" by (simp add: user_db_def)
  moreover have "public_handler list_filter ?v (snd (getTemplates (Inr [(''hide/node'', ''node'')]) ?v))"
    using public_handler.intros(2) [OF surjective_pairing] by blast
  from server_step.public [OF this] have "server_step cfg0 text_lib list_filter open_kube docker_example (cache ?w) shared_cache"
    by (simp add: shared_cache_def)
  ultimately have r: "(server_step cfg0 text_lib list_filter open_kube docker_example)\<^sup>*\<^sup>* [] shared_cache" by simp
  have "cache_get (gw_of shared_cache) (CACHEKEY_USER_PROFILE ''ann'') = Some (CvUser (ann_profile ''a@x.org''))"
    by code_simp
  with r cache_reads_typed [of cfg0 text_lib list_filter open_kube docker_example "gw_of shared_cache" "''x''" "''ann''"] show ?thesis
    by (simp add: gw_of_def)
qed

end
